(* ===== verification/GF_Prelude.thy ===== *)
theory GF_Prelude
  imports Complex_Main "HOL-Library.Word" "HOL-Library.State_Monad"
begin

text \<open>
  Shared vocabulary of the development: Go's scalar types, the part of Go's \<open>strings\<close> and
  \<open>strconv\<close> packages the server uses, SQL tables as lists of rows, and the reasoning kit for
  state-monad programs (frame relations that every call of a handler respects).

  Go strings are byte strings, so they are \<open>string\<close> (lists of 8-bit characters); a Japanese
  literal is its UTF-8 encoding.
\<close>

section \<open>Scalars\<close>

type_synonym uuid = "128 word"
type_synonym int32 = "32 word"
type_synonym int64 = "64 word"

text \<open>
  Times are microseconds since the Unix epoch (the resolution of the \<open>timestamptz\<close> columns)
  and durations are microseconds. Finite floats are the rationals they denote: JSON and the
  database carry no NaN or infinity, and the server only stores them and compares them with
  small constants.
\<close>

type_synonym time = int
type_synonym duration = int
type_synonym float64 = rat
type_synonym float32 = rat

definition second :: duration where "second = 1000000"
definition minute :: duration where "minute = 60 * second"
definition hour :: duration where "hour = 60 * minute"

text \<open>\<open>uuid.Nil\<close>.\<close>

definition uuid_Nil :: uuid where "uuid_Nil = 0"

section \<open>Go strings\<close>

definition bytes :: "nat list \<Rightarrow> string" where
  "bytes ns = map char_of ns"

text \<open>
  \<open>strings.ToLower\<close> and \<open>strings.EqualFold\<close> on ASCII letters. Where the server compares the
  result with an ASCII word free of the letters k, s and i this is exact for every input: no
  other code point folds to the remaining letters.
\<close>

definition lower_char :: "char \<Rightarrow> char" where
  "lower_char c = (let n = (of_char c :: nat) in if 65 \<le> n \<and> n \<le> 90 then char_of (n + 32) else c)"

definition ToLower :: "string \<Rightarrow> string" where
  "ToLower s = map lower_char s"

definition EqualFold :: "string \<Rightarrow> string \<Rightarrow> bool" where
  "EqualFold s t \<longleftrightarrow> ToLower s = ToLower t"

text \<open>
  The number of bytes of the white-space rune (\<open>unicode.IsSpace\<close>) a string starts with, 0 if it
  starts with none. Lead bytes of these runes are no continuation bytes, so scanning byte by
  byte finds exactly the runes that Go's decoder finds.
\<close>

fun ws_len :: "nat list \<Rightarrow> nat" where
  "ws_len [] = 0"
| "ws_len (a # r) =
     (if a \<in> {9, 10, 11, 12, 13, 32} then 1
      else case r of [] \<Rightarrow> 0
      | b # r' \<Rightarrow>
         if a = 0xC2 \<and> (b = 0x85 \<or> b = 0xA0) then 2
         else case r' of [] \<Rightarrow> 0
         | c # _ \<Rightarrow>
             if a = 0xE1 \<and> b = 0x9A \<and> c = 0x80
              \<or> a = 0xE2 \<and> b = 0x80 \<and> (0x80 \<le> c \<and> c \<le> 0x8A \<or> c = 0xA8 \<or> c = 0xA9 \<or> c = 0xAF)
              \<or> a = 0xE2 \<and> b = 0x81 \<and> c = 0x9F
              \<or> a = 0xE3 \<and> b = 0x80 \<and> c = 0x80
             then 3 else 0)"

definition codes :: "string \<Rightarrow> nat list" where
  "codes s = map of_char s"

function TrimLeftSpace :: "string \<Rightarrow> string" where
  "TrimLeftSpace s =
     (let n = ws_len (codes s) in if s = [] \<or> n = 0 then s else TrimLeftSpace (drop n s))"
  by pat_completeness auto
termination
  by (relation "measure length") auto

text \<open>The length of the white-space rune a string ends with: the last rune starts one, two or
  three bytes before the end.\<close>

definition ws_len_end :: "string \<Rightarrow> nat" where
  "ws_len_end s = (let n = length s in
     if n \<ge> 1 \<and> ws_len (codes (drop (n - 1) s)) = 1 then 1
     else if n \<ge> 2 \<and> ws_len (codes (drop (n - 2) s)) = 2 then 2
     else if n \<ge> 3 \<and> ws_len (codes (drop (n - 3) s)) = 3 then 3 else 0)"

function TrimRightSpace :: "string \<Rightarrow> string" where
  "TrimRightSpace s =
     (let n = ws_len_end s in
      if s = [] \<or> n = 0 then s else TrimRightSpace (take (length s - n) s))"
  by pat_completeness auto
termination
  by (relation "measure length") auto

definition TrimSpace :: "string \<Rightarrow> string" where
  "TrimSpace s = TrimRightSpace (TrimLeftSpace s)"

declare TrimLeftSpace.simps [simp del] TrimRightSpace.simps [simp del]

text \<open>\<open>strings.Fields\<close>: \<open>cur\<close> holds the bytes of the field being read, last first.\<close>

function fields_from :: "string \<Rightarrow> string \<Rightarrow> string list" where
  "fields_from cur [] = (if cur = [] then [] else [rev cur])"
| "fields_from cur (c # s) =
     (let n = ws_len (codes (c # s)) in
      if n = 0 then fields_from (c # cur) s
      else (if cur = [] then [] else [rev cur]) @ fields_from [] (drop n (c # s)))"
  by pat_completeness auto
termination
  by (relation "measure (\<lambda>(_, s). length s)") auto

definition Fields :: "string \<Rightarrow> string list" where
  "Fields s = fields_from [] s"

text \<open>\<open>strings.TrimRight(s, "/")\<close>.\<close>

definition TrimRightSlash :: "string \<Rightarrow> string" where
  "TrimRightSlash s = rev (dropWhile (\<lambda>c. c = CHR ''/'') (rev s))"

text \<open>\<open>utf8.RuneCountInString\<close> on valid UTF-8 (what \<open>encoding/json\<close> decodes to): every byte that
  is not a continuation byte starts a rune.\<close>

definition RuneCount :: "string \<Rightarrow> nat" where
  "RuneCount s = length (filter (\<lambda>c. \<not> (0x80 \<le> (of_char c :: nat) \<and> (of_char c :: nat) < 0xC0)) s)"

section \<open>Decimal numbers\<close>

definition is_digit :: "char \<Rightarrow> bool" where
  "is_digit c \<longleftrightarrow> 48 \<le> (of_char c :: nat) \<and> (of_char c :: nat) \<le> 57"

definition digit_val :: "char \<Rightarrow> nat" where
  "digit_val c = of_char c - 48"

definition decimal_val :: "string \<Rightarrow> nat" where
  "decimal_val s = foldl (\<lambda>n c. 10 * n + digit_val c) 0 s"

text \<open>\<open>strconv.Atoi\<close>: an optional sign, at least one decimal digit, the value in the range of a
  64-bit \<open>int\<close>; \<open>None\<close> is the error.\<close>

definition Atoi :: "string \<Rightarrow> int option" where
  "Atoi s =
     (let neg = (s \<noteq> [] \<and> hd s = CHR ''-'');
          ds = (if s \<noteq> [] \<and> (hd s = CHR ''-'' \<or> hd s = CHR ''+'') then tl s else s);
          n = int (decimal_val ds);
          v = (if neg then - n else n)
      in if ds \<noteq> [] \<and> list_all is_digit ds \<and> - (2 ^ 63) \<le> v \<and> v < 2 ^ 63 then Some v else None)"

fun nat_digits :: "nat \<Rightarrow> string" where
  "nat_digits n = (if n < 10 then [char_of (48 + n)] else nat_digits (n div 10) @ [char_of (48 + n mod 10)])"

declare nat_digits.simps [simp del]

text \<open>\<open>fmt.Sprintf("%d", i)\<close>.\<close>

definition Itoa :: "int \<Rightarrow> string" where
  "Itoa i = (if i < 0 then CHR ''-'' # nat_digits (nat (- i)) else nat_digits (nat i))"

section \<open>SQL tables\<close>

text \<open>
  A table is the list of its rows in insertion order. These are the four statements over one
  table; a statement's \<open>WHERE\<close> clause is a predicate on rows.
\<close>

definition delete_where :: "('r \<Rightarrow> bool) \<Rightarrow> 'r list \<Rightarrow> 'r list" where
  "delete_where P rows = filter (\<lambda>r. \<not> P r) rows"

definition update_where :: "('r \<Rightarrow> bool) \<Rightarrow> ('r \<Rightarrow> 'r) \<Rightarrow> 'r list \<Rightarrow> 'r list" where
  "update_where P f rows = map (\<lambda>r. if P r then f r else r) rows"

definition rows_matching :: "('r \<Rightarrow> bool) \<Rightarrow> 'r list \<Rightarrow> nat" where
  "rows_matching P rows = length (filter P rows)"

text \<open>A unique index: no two rows have the same (non-null) key.\<close>

definition unique_on :: "('r \<Rightarrow> 'k) \<Rightarrow> 'r list \<Rightarrow> bool" where
  "unique_on key rows \<longleftrightarrow> distinct (map key rows)"

definition unique_partial :: "('r \<Rightarrow> 'k option) \<Rightarrow> 'r list \<Rightarrow> bool" where
  "unique_partial key rows \<longleftrightarrow> distinct (List.map_filter key rows)"

named_theorems table_simps

lemma set_delete_where [table_simps]: "set (delete_where P rows) = {r \<in> set rows. \<not> P r}"
  by (auto simp: delete_where_def)

lemma set_update_where [table_simps]:
  "set (update_where P f rows) = {r \<in> set rows. \<not> P r} \<union> f ` {r \<in> set rows. P r}"
  by (auto simp: update_where_def)

lemma length_update_where [simp]: "length (update_where P f rows) = length rows"
  by (simp add: update_where_def)

lemma update_where_none: "\<forall>r \<in> set rows. \<not> P r \<Longrightarrow> update_where P f rows = rows"
  by (induction rows) (auto simp: update_where_def)

lemma map_update_where_same:
  "(\<And>r. P r \<Longrightarrow> g (f r) = g r) \<Longrightarrow> map g (update_where P f rows) = map g rows"
  by (simp add: update_where_def)

lemma map_filter_update_where_same:
  "(\<And>r. P r \<Longrightarrow> g (f r) = g r) \<Longrightarrow> List.map_filter g (update_where P f rows) = List.map_filter g rows"
  by (induction rows) (auto simp: update_where_def List.map_filter_def)

lemma filter_update_where:
  "(\<And>r. P r \<Longrightarrow> \<not> Q r \<and> \<not> Q (f r)) \<Longrightarrow> filter Q (update_where P f rows) = filter Q rows"
  by (induction rows) (auto simp: update_where_def)

lemma unique_on_update [table_simps]:
  "(\<And>r. P r \<Longrightarrow> key (f r) = key r) \<Longrightarrow> unique_on key (update_where P f rows) = unique_on key rows"
  by (simp add: unique_on_def map_update_where_same)

lemma unique_partial_update [table_simps]:
  "(\<And>r. P r \<Longrightarrow> key (f r) = key r) \<Longrightarrow>
     unique_partial key (update_where P f rows) = unique_partial key rows"
  by (simp add: unique_partial_def map_filter_update_where_same)

lemma unique_on_delete [table_simps]: "unique_on key rows \<Longrightarrow> unique_on key (delete_where P rows)"
  by (simp add: unique_on_def delete_where_def distinct_map inj_on_def)

lemma unique_on_append [table_simps]:
  "unique_on key (rows @ [r]) \<longleftrightarrow> unique_on key rows \<and> key r \<notin> key ` set rows"
  by (auto simp: unique_on_def)

lemma map_filter_append: "List.map_filter f (xs @ ys) = List.map_filter f xs @ List.map_filter f ys"
  by (simp add: List.map_filter_def)

lemma set_map_filter: "set (List.map_filter f xs) = {y. \<exists>x \<in> set xs. f x = Some y}"
  by (force simp: List.map_filter_def)

lemma unique_partial_append [table_simps]:
  "unique_partial key (rows @ [r]) \<longleftrightarrow>
     unique_partial key rows \<and> (\<forall>k. key r = Some k \<longrightarrow> (\<forall>r' \<in> set rows. key r' \<noteq> Some k))"
  by (cases "key r") (auto simp: unique_partial_def List.map_filter_def, force+)

lemma unique_on_eq:
  "unique_on key rows \<Longrightarrow> r \<in> set rows \<Longrightarrow> r' \<in> set rows \<Longrightarrow> key r = key r' \<Longrightarrow> r = r'"
  by (auto simp: unique_on_def distinct_map inj_on_def)

lemma find_key_unique:
  assumes "unique_on key rows" and "r \<in> set rows" and "key r = k"
  shows "find (\<lambda>r. key r = k) rows = Some r"
  using assms
proof (induction rows)
  case (Cons a rows)
  then show ?case by (auto simp: unique_on_def)
qed simp

lemma find_key_iff:
  "unique_on key rows \<Longrightarrow> find (\<lambda>r. key r = k) rows = Some r \<longleftrightarrow> r \<in> set rows \<and> key r = k"
  by (auto simp: find_key_unique) (auto simp: find_Some_iff)

lemma find_append: "find P (xs @ ys) = (case find P xs of None \<Rightarrow> find P ys | Some x \<Rightarrow> Some x)"
  by (induction xs) auto

lemma find_delete_where: "find P (delete_where Q rows) = find (\<lambda>r. P r \<and> \<not> Q r) rows"
  by (induction rows) (auto simp: delete_where_def)

lemma find_update_where_key:
  assumes "\<And>r. key (f r) = key r"
  shows "find (\<lambda>r. key r = k) (update_where (\<lambda>r. key r = k' \<and> Q r) f rows) =
    map_option (\<lambda>r. if k = k' \<and> Q r then f r else r) (find (\<lambda>r. key r = k) rows)"
  using assms by (induction rows) (auto simp: update_where_def)

lemma rows_matching_0: "rows_matching P rows = 0 \<longleftrightarrow> (\<forall>r \<in> set rows. \<not> P r)"
  by (auto simp: rows_matching_def filter_empty_conv)

section \<open>Reasoning about state-monad programs\<close>

text \<open>
  A frame relation is a preorder on states: "nothing of this kind changed", "the invariant is
  kept". A program all of whose calls respect the relation respects it. The rules are proved
  once for every frame relation.
\<close>

locale frame_relation =
  fixes R :: "'s \<Rightarrow> 's \<Rightarrow> bool"
  assumes frame_refl: "R s s"
    and frame_trans: "R s t \<Longrightarrow> R t u \<Longrightarrow> R s u"
begin

lemma return: "state_io_rel R (State_Monad.return x)"
  by (simp add: state_io_rel_def frame_refl)

lemma bind:
  assumes "state_io_rel R m" and "\<And>x. state_io_rel R (f x)"
  shows "state_io_rel R (State_Monad.bind m f)"
  unfolding state_io_rel_def
proof
  fix s
  obtain x t where m: "run_state m s = (x, t)" by fastforce
  have "R s t" using assms(1) m unfolding state_io_rel_def by (metis snd_conv)
  moreover have "R t (snd (run_state (f x) t))" using assms(2) unfolding state_io_rel_def by blast
  ultimately show "R s (snd (run_state (State_Monad.bind m f) s))" using m by (auto intro: frame_trans)
qed

lemma get: "state_io_rel R State_Monad.get"
  by (simp add: state_io_rel_def frame_refl)

lemma if_then:
  "(b \<Longrightarrow> state_io_rel R m) \<Longrightarrow> (\<not> b \<Longrightarrow> state_io_rel R n) \<Longrightarrow> state_io_rel R (if b then m else n)"
  by simp

lemma case_sum:
  "(\<And>e. state_io_rel R (f e)) \<Longrightarrow> (\<And>x. state_io_rel R (g x)) \<Longrightarrow> state_io_rel R (case s of Inl e \<Rightarrow> f e | Inr x \<Rightarrow> g x)"
  by (cases s) auto

lemma case_option:
  "state_io_rel R m \<Longrightarrow> (\<And>x. state_io_rel R (g x)) \<Longrightarrow> state_io_rel R (case s of None \<Rightarrow> m | Some x \<Rightarrow> g x)"
  by (cases s) auto

lemma case_prod:
  "(\<And>a b. state_io_rel R (f a b)) \<Longrightarrow> state_io_rel R (case p of (a, b) \<Rightarrow> f a b)"
  by (cases p) auto

lemma let_in: "(\<And>x. state_io_rel R (f x)) \<Longrightarrow> state_io_rel R (Let v f)"
  by simp

lemmas program = return bind get if_then case_sum case_option case_prod let_in

end

lemma run_bindE:
  assumes "run_state (State_Monad.bind m f) s = (y, t)"
  obtains x u where "run_state m s = (x, u)" and "run_state (f x) u = (y, t)"
  using assms by (auto split: prod.splits)

text \<open>
  The weakest precondition of a program: \<open>Q\<close> holds of its result and final state. Its equations
  walk through a program from the first call to the last.
\<close>

definition wp :: "('s, 'a) state \<Rightarrow> ('a \<Rightarrow> 's \<Rightarrow> bool) \<Rightarrow> 's \<Rightarrow> bool" where
  "wp m Q s = (case run_state m s of (x, t) \<Rightarrow> Q x t)"

lemma wpI: "(\<And>x t. run_state m s = (x, t) \<Longrightarrow> Q x t) \<Longrightarrow> wp m Q s"
  by (simp add: wp_def split: prod.splits)

lemma wpD: "wp m Q s \<Longrightarrow> run_state m s = (x, t) \<Longrightarrow> Q x t"
  by (simp add: wp_def)

lemma wp_mono: "wp m Q s \<Longrightarrow> (\<And>x t. Q x t \<Longrightarrow> R x t) \<Longrightarrow> wp m R s"
  by (simp add: wp_def split: prod.splits)

lemma wp_conj: "wp m Q s \<Longrightarrow> wp m R s \<Longrightarrow> wp m (\<lambda>x t. Q x t \<and> R x t) s"
  by (simp add: wp_def split: prod.splits)

lemma wp_return [simp]: "wp (State_Monad.return x) Q s = Q x s"
  by (simp add: wp_def)

lemma wp_bind [simp]: "wp (State_Monad.bind m f) Q s = wp m (\<lambda>x. wp (f x) Q) s"
  by (simp add: wp_def split: prod.splits)

lemma wp_run: "wp m (\<lambda>x t. run_state m s = (x, t)) s"
  by (simp add: wp_def split: prod.splits)

end
