(* ===== verification/GF_Models.thy ===== *)
theory GF_Models
  imports GF_Prelude
begin

text \<open>
  The data of the server: the row types and enums of \<open>db/sqlc/models.go\<close> (a nullable column
  is an option, a \<open>NOT NULL\<close> one a plain value), the token payload of \<open>token/payload.go\<close>, the
  StoreKit payloads of \<open>appstore/types.go\<close>, the configuration of \<open>util/config.go\<close> and JSON
  values. Field names carry a prefix for their struct, since HOL record fields share one name
  space.
\<close>

section \<open>Enums (\<open>db/sqlc/models.go\<close>)\<close>

text \<open>
  The Go enums are strings with named constants and the columns are Postgres enums. A column
  holds a datatype value, \<open>X_text\<close> is its label (the Go constant), and \<open>X_scan\<close> is the label's
  reading by the database, undefined for a string that is no label.
\<close>

datatype GfStatus = GfStatusCertified | GfStatusOnRequest | GfStatusContainsHiddenGluten

fun GfStatus_text :: "GfStatus \<Rightarrow> string" where
  "GfStatus_text GfStatusCertified = ''certified''"
| "GfStatus_text GfStatusOnRequest = ''on_request''"
| "GfStatus_text GfStatusContainsHiddenGluten = ''contains_hidden_gluten''"

definition GfStatus_scan :: "string \<Rightarrow> GfStatus option" where
  "GfStatus_scan s =
     (if s = ''certified'' then Some GfStatusCertified
      else if s = ''on_request'' then Some GfStatusOnRequest
      else if s = ''contains_hidden_gluten'' then Some GfStatusContainsHiddenGluten
      else None)"

datatype ReceiptStatus =
  ReceiptStatusActive | ReceiptStatusExpired | ReceiptStatusRevoked | ReceiptStatusBillingRetry

datatype StoreStatus =
  StoreStatusDraft | StoreStatusPending | StoreStatusApproved | StoreStatusRejected

fun StoreStatus_text :: "StoreStatus \<Rightarrow> string" where
  "StoreStatus_text StoreStatusDraft = ''draft''"
| "StoreStatus_text StoreStatusPending = ''pending''"
| "StoreStatus_text StoreStatusApproved = ''approved''"
| "StoreStatus_text StoreStatusRejected = ''rejected''"

definition StoreStatus_scan :: "string \<Rightarrow> StoreStatus option" where
  "StoreStatus_scan s =
     (if s = ''draft'' then Some StoreStatusDraft
      else if s = ''pending'' then Some StoreStatusPending
      else if s = ''approved'' then Some StoreStatusApproved
      else if s = ''rejected'' then Some StoreStatusRejected
      else None)"

datatype SubscriptionEnvironment =
  SubscriptionEnvironmentSandbox | SubscriptionEnvironmentProduction

fun SubscriptionEnvironment_text :: "SubscriptionEnvironment \<Rightarrow> string" where
  "SubscriptionEnvironment_text SubscriptionEnvironmentSandbox = ''sandbox''"
| "SubscriptionEnvironment_text SubscriptionEnvironmentProduction = ''production''"

datatype SubscriptionStatus =
  SubscriptionStatusFree | SubscriptionStatusActive | SubscriptionStatusExpired
| SubscriptionStatusRevoked

fun SubscriptionStatus_text :: "SubscriptionStatus \<Rightarrow> string" where
  "SubscriptionStatus_text SubscriptionStatusFree = ''free''"
| "SubscriptionStatus_text SubscriptionStatusActive = ''active''"
| "SubscriptionStatus_text SubscriptionStatusExpired = ''expired''"
| "SubscriptionStatus_text SubscriptionStatusRevoked = ''revoked''"

lemma GfStatus_scan_text [simp]: "GfStatus_scan (GfStatus_text g) = Some g"
  by (cases g) (simp_all add: GfStatus_scan_def)

lemma StoreStatus_scan_text [simp]: "StoreStatus_scan (StoreStatus_text s) = Some s"
  by (cases s) (simp_all add: StoreStatus_scan_def)

lemma SubscriptionStatus_text_active [simp]:
  "SubscriptionStatus_text s = ''active'' \<longleftrightarrow> s = SubscriptionStatusActive"
  by (cases s) auto

section \<open>JSON values\<close>

datatype json =
  JNull | JBool bool | JInt int | JDec rat | JStr string | JArr "json list"
| JObj "(string \<times> json) list"

section \<open>Rows (\<open>db/sqlc/models.go\<close>)\<close>

record InternalAdmin =
  ia_ID :: uuid
  ia_Email :: string
  ia_PasswordHash :: string
  ia_CreatedAt :: time
  ia_Name :: string
  ia_UpdatedAt :: time

record InternalPasswordReset =
  pr_ID :: uuid
  pr_AdminID :: uuid
  pr_TokenHash :: string
  pr_ExpiresAt :: time
  pr_UsedAt :: "time option"
  pr_CreatedAt :: time

record InternalSession =
  is_ID :: uuid
  is_AdminID :: uuid
  is_RefreshToken :: string
  is_UserAgent :: string
  is_ClientIp :: string
  is_IsBlocked :: bool
  is_ExpiresAt :: time
  is_CreatedAt :: time

record MenuItem =
  mi_ID :: uuid
  mi_StoreID :: uuid
  mi_Name :: string
  mi_PriceYen :: int32
  mi_ImageUrl :: "string option"
  mi_GfStatus :: GfStatus
  mi_GfNote :: "string option"
  mi_SortOrder :: int32
  mi_IsAvailable :: bool
  mi_CreatedAt :: time
  mi_UpdatedAt :: time

record Session =
  se_ID :: uuid
  se_UserID :: uuid
  se_RefreshToken :: string
  se_UserAgent :: string
  se_ClientIp :: string
  se_IsBlocked :: bool
  se_ExpiresAt :: time
  se_CreatedAt :: time

record Store =
  st_ID :: uuid
  st_WardID :: int32
  st_Name :: string
  st_Address :: string
  st_Latitude :: float64
  st_Longitude :: float64
  st_IsGfOriented :: bool
  st_OpeningHours :: json
  st_Status :: StoreStatus
  st_RejectionReason :: "string option"
  st_ApprovedAt :: "time option"
  st_CreatedAt :: time
  st_UpdatedAt :: time
  st_Cuisine :: string
  st_PriceLevel :: int32
  st_Rating :: float32
  st_ReviewCount :: int32
  st_NearestStation :: string
  st_Blurb :: string
  st_GfStatus :: GfStatus
  st_PhotoUrl :: "string option"
  st_NameEn :: string
  st_Phone :: string
  st_SourceUrl :: string
  st_Notes :: string

record StoreAdmin =
  sa_ID :: uuid
  sa_StoreID :: uuid
  sa_Email :: string
  sa_PasswordHash :: string
  sa_CreatedAt :: time
  sa_UpdatedAt :: time

record SubscriptionReceipt =
  sr_ID :: uuid
  sr_UserID :: uuid
  sr_OriginalTxID :: string
  sr_ProductID :: string
  sr_Environment :: SubscriptionEnvironment
  sr_Status :: ReceiptStatus
  sr_ExpiresAt :: "time option"
  sr_CreatedAt :: time
  sr_UpdatedAt :: time

record User =
  u_ID :: uuid
  u_Email :: string
  u_PasswordHash :: "string option"
  u_AppleUserID :: "string option"
  u_SubscriptionStatus :: SubscriptionStatus
  u_SubExpiresAt :: "time option"
  u_CreatedAt :: time
  u_UpdatedAt :: time

record Ward =
  w_ID :: int32
  w_NameJa :: string
  w_NameEn :: string

section \<open>Token payload (\<open>token/payload.go\<close>)\<close>

definition RoleUser :: string where "RoleUser = ''user''"
definition RoleStoreAdmin :: string where "RoleStoreAdmin = ''store_admin''"
definition RoleInternal :: string where "RoleInternal = ''internal''"

lemma roles_distinct [simp]:
  "RoleUser \<noteq> RoleStoreAdmin" "RoleStoreAdmin \<noteq> RoleUser" "RoleUser \<noteq> RoleInternal"
  "RoleInternal \<noteq> RoleUser" "RoleStoreAdmin \<noteq> RoleInternal" "RoleInternal \<noteq> RoleStoreAdmin"
  by (simp_all add: RoleUser_def RoleStoreAdmin_def RoleInternal_def)

record Payload =
  pl_ID :: uuid
  pl_UserID :: uuid
  pl_Email :: string
  pl_Role :: string
  pl_StoreID :: "uuid option"
  pl_IssuedAt :: time
  pl_ExpiredAt :: time

datatype token_error = ErrExpiredToken | ErrInvalidToken

text \<open>\<open>jwt.NewNumericDate\<close> keeps whole seconds.\<close>

definition NewNumericDate :: "time \<Rightarrow> time" where
  "NewNumericDate t = t - t mod second"

definition GetExpirationTime :: "Payload \<Rightarrow> time" where
  "GetExpirationTime p = NewNumericDate (pl_ExpiredAt p)"

definition GetIssuedAt :: "Payload \<Rightarrow> time" where
  "GetIssuedAt p = NewNumericDate (pl_IssuedAt p)"

definition GetNotBefore :: "Payload \<Rightarrow> time" where
  "GetNotBefore p = NewNumericDate (pl_IssuedAt p)"

lemma NewNumericDate_le: "NewNumericDate t \<le> t"
  by (simp add: NewNumericDate_def second_def)

lemma NewNumericDate_gt: "t - second < NewNumericDate t"
  by (simp add: NewNumericDate_def second_def)

section \<open>StoreKit payloads (\<open>appstore/types.go\<close>)\<close>

record TransactionPayload =
  tx_TransactionID :: string
  tx_OriginalTransactionID :: string
  tx_BundleID :: string
  tx_ProductID :: string
  tx_SubscriptionGroupID :: string
  tx_PurchaseDateMS :: int
  tx_OriginalPurchaseDateMS :: int
  tx_ExpiresDateMS :: int
  tx_Type :: string
  tx_InAppOwnershipType :: string
  tx_Environment :: string
  tx_RevocationDateMS :: int
  tx_RevocationReason :: "int option"

record NotificationData =
  nd_AppAppleID :: int
  nd_BundleID :: string
  nd_BundleVersion :: string
  nd_Environment :: string
  nd_SignedTransactionInfo :: string
  nd_SignedRenewalInfo :: string

record NotificationPayload =
  np_NotificationType :: string
  np_Subtype :: string
  np_NotificationUUID :: string
  np_Version :: string
  np_SignedDateMS :: int
  np_Data :: NotificationData

text \<open>\<open>time.UnixMilli\<close> and Go's zero time (1 January of year 1).\<close>

definition UnixMilli :: "int \<Rightarrow> time" where "UnixMilli ms = ms * 1000"
definition zero_time :: time where "zero_time = -62135596800 * second"

definition msToTime :: "int \<Rightarrow> time" where
  "msToTime ms = (if ms \<le> 0 then zero_time else UnixMilli ms)"

definition ExpiresAt :: "TransactionPayload \<Rightarrow> time" where
  "ExpiresAt p = msToTime (tx_ExpiresDateMS p)"

definition IsRevoked :: "TransactionPayload \<Rightarrow> bool" where
  "IsRevoked p \<longleftrightarrow> tx_RevocationDateMS p > 0"

section \<open>Configuration (\<open>util/config.go\<close>)\<close>

record Config =
  BraveSearchAPIKey :: string
  Environment :: string
  DBSource :: string
  MigrationURL :: string
  HTTPServerAddress :: string
  TokenSymmetricKey :: string
  AccessTokenDuration :: duration
  RefreshTokenDuration :: duration
  AllowedOrigins :: "string list"
  AppleRootCAPath :: string
  AppleBundleID :: string
  ImageBucket :: string
  ResendAPIKey :: string
  MailFrom :: string
  MailFromName :: string
  AdminPortalURL :: string
  PasswordResetTokenDuration :: duration

section \<open>Mail (\<open>mailer/mailer.go\<close>)\<close>

record Message =
  ms_To :: string
  ms_Subject :: string
  ms_Text :: string
  ms_HTML :: string

end
