(* ===== verification/GF_Effects.thy ===== *)
theory GF_Effects
  imports GF_Models
begin

text \<open>
  The outside world of the server. \<open>env\<close> holds the parameters of the model: third-party code
  (bcrypt, the JWT library, the UUID parser, the e-mail validator, X.509 verification), the
  database's \<open>lower()\<close>, and the choices nobody controls (clocks, randomness, failures of the
  database connection), the latter indexed by the number of effects performed so far.
  \<open>world\<close> is the state: the database's tables, the effect counter, the mails handed to the mail
  provider, the cached Apple signing keys, the geocoder's last call, the objects written to the
  image bucket (name, content type, data), the URLs requested of other services, and the addresses
  the page crawler connected to.

  A handler is a program in the state monad over \<open>world\<close>; a database call is one step that
  runs a query against the tables, unless the connection fails before the statement reaches the
  database (\<open>LostRequest\<close>) or after it was executed (\<open>LostReply\<close>).
\<close>

section \<open>Errors and replies\<close>

text \<open>\<open>NoRows\<close> is \<open>pgx.ErrNoRows\<close>, \<open>PgError c\<close> a \<open>pgconn.PgError\<close> with SQLSTATE \<open>c\<close>; any other
  failure of a call is \<open>ConnError\<close>.\<close>

datatype db_error = NoRows | PgError string | ConnError

definition unique_violation :: string where "unique_violation = ''23505''"
definition foreign_key_violation :: string where "foreign_key_violation = ''23503''"
definition invalid_text :: string where "invalid_text = ''22P02''"
definition invalid_limit :: string where "invalid_limit = ''2201W''"

lemma sqlstates_distinct [simp]:
  "unique_violation \<noteq> foreign_key_violation" "foreign_key_violation \<noteq> unique_violation"
  "invalid_text \<noteq> unique_violation" "unique_violation \<noteq> invalid_text"
  "invalid_text \<noteq> foreign_key_violation" "foreign_key_violation \<noteq> invalid_text"
  by (simp_all add: unique_violation_def foreign_key_violation_def invalid_text_def)

text \<open>What \<open>errorResponse\<close> wraps: a message of the server's own, or the text of an error
  value it passes on.\<close>

datatype api_error =
  ErrMsg string
| ErrBinding
| ErrDB db_error
| ErrToken token_error
| ErrLib string

text \<open>\<open>Fail code e\<close> is \<open>ctx.JSON(code, errorResponse(e))\<close>, \<open>Reply code body\<close> is
  \<open>ctx.JSON(code, body)\<close>.\<close>

datatype 'b reply = Fail nat api_error | Reply nat 'b

fun reply_code :: "'b reply \<Rightarrow> nat" where
  "reply_code (Fail c e) = c"
| "reply_code (Reply c b) = c"

definition StatusOK :: nat where "StatusOK = 200"
definition StatusCreated :: nat where "StatusCreated = 201"
definition StatusNoContent :: nat where "StatusNoContent = 204"
definition StatusBadRequest :: nat where "StatusBadRequest = 400"
definition StatusUnauthorized :: nat where "StatusUnauthorized = 401"
definition StatusPaymentRequired :: nat where "StatusPaymentRequired = 402"
definition StatusForbidden :: nat where "StatusForbidden = 403"
definition StatusNotFound :: nat where "StatusNotFound = 404"
definition StatusConflict :: nat where "StatusConflict = 409"
definition StatusInternalServerError :: nat where "StatusInternalServerError = 500"
definition StatusNotImplemented :: nat where "StatusNotImplemented = 501"

lemmas status_defs = StatusOK_def StatusCreated_def StatusNoContent_def StatusBadRequest_def
  StatusUnauthorized_def StatusPaymentRequired_def StatusForbidden_def StatusNotFound_def
  StatusConflict_def StatusInternalServerError_def StatusNotImplemented_def

section \<open>State\<close>

record database =
  users :: "User list"
  sessions :: "Session list"
  subscription_receipts :: "SubscriptionReceipt list"
  wards :: "Ward list"
  stores :: "Store list"
  menu_items :: "MenuItem list"
  store_admins :: "StoreAdmin list"
  internal_admins :: "InternalAdmin list"
  internal_sessions :: "InternalSession list"
  internal_password_resets :: "InternalPasswordReset list"

record RSAPublicKey =
  rsa_N :: nat
  rsa_E :: int64

text \<open>\<open>netip.Addr\<close>; an IPv6 address may carry a zone.\<close>

datatype ip_addr = IPv4 "32 word" | IPv6 "128 word" | IPv6Zone "128 word"

record world =
  db :: database
  ticks :: nat
  outbox :: "Message list"
  apple_keys :: "string \<Rightarrow> RSAPublicKey option"
  apple_fetched :: time
  gsi_last :: time
  objects :: "(string \<times> string \<times> string) list"
  visited :: "string list"
  dialed :: "ip_addr list"

datatype fault = NoFault | LostRequest | LostReply

section \<open>Third-party code and the environment's choices\<close>

text \<open>The signing method a JWT's header names.\<close>

datatype signing_method = SigningMethodHMAC string | SigningMethodOther string

text \<open>What \<open>errors.Is(err, jwt.ErrTokenExpired)\<close> tells about a failed parse.\<close>

datatype jwt_error = JwtExpired | JwtOtherError

text \<open>The JWS header of a StoreKit payload: its \<open>x5c\<close> value as decoded JSON, absent when the
  header has none. A parsed certificate is a value of the X.509 library; \<open>x509_ecdsa\<close> gives
  its public key when that is an ECDSA key.\<close>

type_synonym cert = string

text \<open>What the program does not decide, by the step at which it happens. \<open>pg_any\<close> picks the row that a
  query without an order returns among those that match.\<close>

record env =
  clock :: "nat \<Rightarrow> time"
  pg_clock :: "nat \<Rightarrow> time"
  db_fault :: "nat \<Rightarrow> fault"
  new_random :: "nat \<Rightarrow> uuid option"
  rand_read :: "nat \<Rightarrow> string option"
  gen_random_uuid :: "nat \<Rightarrow> uuid"
  pg_any :: "nat \<Rightarrow> nat"
  pg_lower :: "string \<Rightarrow> string"
  valid_email :: "string \<Rightarrow> bool"
  uuid_Parse :: "string \<Rightarrow> uuid option"
  bcrypt_Generate :: "nat \<Rightarrow> string \<Rightarrow> string option"
  bcrypt_Compare :: "string \<Rightarrow> string \<Rightarrow> bool"
  sha256_Sum :: "string \<Rightarrow> string"
  jwt_Sign :: "string \<Rightarrow> Payload \<Rightarrow> string option"
  jwt_Parse :: "time \<Rightarrow> (signing_method \<Rightarrow> token_error + string) \<Rightarrow> string \<Rightarrow> jwt_error + Payload"
  jws_ParseTransaction ::
    "time \<Rightarrow> (json option \<Rightarrow> string + string) \<Rightarrow> string \<Rightarrow> string + TransactionPayload"
  jws_ParseNotification ::
    "time \<Rightarrow> (json option \<Rightarrow> string + string) \<Rightarrow> string \<Rightarrow> string + NotificationPayload"
  x509_Parse :: "string \<Rightarrow> cert option"
  x509_Verify :: "cert list \<Rightarrow> cert list \<Rightarrow> time \<Rightarrow> cert \<Rightarrow> bool"
  x509_ecdsa :: "cert \<Rightarrow> string option"
  apple_decode :: "string \<Rightarrow> (json option \<times> (string \<times> json) list) option"
  apple_check :: "time \<Rightarrow> string \<Rightarrow> string \<Rightarrow> RSAPublicKey \<Rightarrow> string \<Rightarrow> bool"
  apple_fetch :: "nat \<Rightarrow> string + (string \<times> string \<times> string \<times> string) list"
  mail_send :: "nat \<Rightarrow> Message \<Rightarrow> bool"

section \<open>Effects\<close>

definition tick :: "(world, nat) state" where
  "tick = State (\<lambda>w. (ticks w, w\<lparr>ticks := Suc (ticks w)\<rparr>))"

text \<open>\<open>time.Now()\<close>.\<close>

definition TimeNow :: "env \<Rightarrow> (world, time) state" where
  "TimeNow E = do { i \<leftarrow> tick; State_Monad.return (clock E i) }"

text \<open>\<open>uuid.NewRandom()\<close>: \<open>None\<close> when the system's randomness fails.\<close>

definition NewRandom :: "env \<Rightarrow> (world, uuid option) state" where
  "NewRandom E = do { i \<leftarrow> tick; State_Monad.return (new_random E i) }"

text \<open>A statement sees the tables and, for \<open>now()\<close> and \<open>gen_random_uuid()\<close>, its own step.\<close>

type_synonym 'a query = "env \<Rightarrow> nat \<Rightarrow> database \<Rightarrow> (db_error + 'a) \<times> database"

definition db_call :: "env \<Rightarrow> 'a query \<Rightarrow> (world, db_error + 'a) state" where
  "db_call E q = State (\<lambda>w.
     let i = ticks w; w' = w\<lparr>ticks := Suc i\<rparr> in
     case db_fault E i of
       NoFault \<Rightarrow> (case q E i (db w) of (r, d) \<Rightarrow> (r, w'\<lparr>db := d\<rparr>))
     | LostRequest \<Rightarrow> (Inl ConnError, w')
     | LostReply \<Rightarrow> (Inl ConnError, w'\<lparr>db := snd (q E i (db w))\<rparr>))"

text \<open>\<open>QueryRow(...).Scan\<close>: the first row, \<open>pgx.ErrNoRows\<close> when there is none.\<close>

definition query_row :: "'a option \<Rightarrow> db_error + 'a" where
  "query_row r = (case r of None \<Rightarrow> Inl NoRows | Some x \<Rightarrow> Inr x)"

lemma query_row_simps [simp]: "query_row None = Inl NoRows" "query_row (Some x) = Inr x"
  by (simp_all add: query_row_def)

lemma query_row_Inr [simp]: "query_row r = Inr x \<longleftrightarrow> r = Some x"
  by (cases r) auto

lemma query_row_Inl [simp]: "query_row r = Inl e \<longleftrightarrow> r = None \<and> e = NoRows"
  by (cases r) auto

lemma run_tick [simp]: "run_state tick w = (ticks w, w\<lparr>ticks := Suc (ticks w)\<rparr>)"
  by (simp add: tick_def)

lemma run_TimeNow [simp]:
  "run_state (TimeNow E) w = (clock E (ticks w), w\<lparr>ticks := Suc (ticks w)\<rparr>)"
  by (simp add: TimeNow_def)

lemma run_NewRandom [simp]:
  "run_state (NewRandom E) w = (new_random E (ticks w), w\<lparr>ticks := Suc (ticks w)\<rparr>)"
  by (simp add: NewRandom_def)

lemma run_db_call:
  "run_state (db_call E q) w =
    (let w' = w\<lparr>ticks := Suc (ticks w)\<rparr> in
     case db_fault E (ticks w) of
       NoFault \<Rightarrow> (case q E (ticks w) (db w) of (r, d) \<Rightarrow> (r, w'\<lparr>db := d\<rparr>))
     | LostRequest \<Rightarrow> (Inl ConnError, w')
     | LostReply \<Rightarrow> (Inl ConnError, w'\<lparr>db := snd (q E (ticks w) (db w))\<rparr>))"
  by (simp add: db_call_def Let_def)

lemma run_db_call_ok [simp]:
  "db_fault E (ticks w) = NoFault \<Longrightarrow>
   run_state (db_call E q) w =
     (fst (q E (ticks w) (db w)), w\<lparr>ticks := Suc (ticks w), db := snd (q E (ticks w) (db w))\<rparr>)"
  by (simp add: run_db_call split: prod.splits)

text \<open>A successful reply was computed by the query on the tables the call found.\<close>

lemma db_call_Inr:
  assumes "run_state (db_call E q) w = (Inr x, w')"
  shows "q E (ticks w) (db w) = (Inr x, db w') \<and> ticks w' = Suc (ticks w)"
  using assms by (auto simp: run_db_call Let_def split: fault.splits prod.splits)

lemma db_call_cases:
  assumes "run_state (db_call E q) w = (r, w')"
  obtains "r = fst (q E (ticks w) (db w))" and "db w' = snd (q E (ticks w) (db w))"
  | "r = Inl ConnError" and "db w' = db w"
  | "r = Inl ConnError" and "db w' = snd (q E (ticks w) (db w))"
  using assms by (auto simp: run_db_call Let_def split: fault.splits prod.splits)

section \<open>Frame relations on the tables\<close>

text \<open>
  A preorder on databases lifts to the world: every effect but a database call leaves the tables
  alone, so a handler respects the relation as soon as its queries do.
\<close>

definition db_rel :: "(database \<Rightarrow> database \<Rightarrow> bool) \<Rightarrow> world \<Rightarrow> world \<Rightarrow> bool" where
  "db_rel D w w' \<longleftrightarrow> D (db w) (db w')"

definition query_rel :: "(database \<Rightarrow> database \<Rightarrow> bool) \<Rightarrow> env \<Rightarrow> 'a query \<Rightarrow> bool" where
  "query_rel D E q \<longleftrightarrow> (\<forall>i d. D d (snd (q E i d)))"

lemma query_relI: "(\<And>i d. D d (snd (q E i d))) \<Longrightarrow> query_rel D E q"
  by (simp add: query_rel_def)

lemma query_relD: "query_rel D E q \<Longrightarrow> D d (snd (q E i d))"
  by (simp add: query_rel_def)

text \<open>Read-only statements.\<close>

definition read_only :: "'a query \<Rightarrow> bool" where
  "read_only q \<longleftrightarrow> (\<forall>E i d. snd (q E i d) = d)"

lemma read_onlyD: "read_only q \<Longrightarrow> snd (q E i d) = d"
  by (simp add: read_only_def)

locale db_frame =
  fixes D :: "database \<Rightarrow> database \<Rightarrow> bool"
  assumes D_refl: "D d d"
    and D_trans: "D d e \<Longrightarrow> D e f \<Longrightarrow> D d f"

sublocale db_frame \<subseteq> frame_relation "db_rel D"
  by unfold_locales (auto simp: db_rel_def intro: D_refl D_trans)

context db_frame begin

lemma call:
  assumes "query_rel D E q"
  shows "state_io_rel (db_rel D) (db_call E q)"
proof -
  have "db_rel D w (snd (run_state (db_call E q) w))" for w
  proof -
    have "D (db w) (snd (q E (ticks w) (db w)))" using assms by (rule query_relD)
    then show ?thesis
      by (cases "db_fault E (ticks w)")
        (simp_all add: run_db_call Let_def db_rel_def D_refl case_prod_beta)
  qed
  then show ?thesis by (simp add: state_io_rel_def)
qed

lemma read_only_rel: "read_only q \<Longrightarrow> query_rel D E q"
  by (simp add: query_rel_def read_only_def D_refl)

lemma now: "state_io_rel (db_rel D) (TimeNow E)"
  by (simp add: state_io_rel_def db_rel_def D_refl)

lemma ticking: "state_io_rel (db_rel D) tick"
  by (simp add: state_io_rel_def db_rel_def D_refl)

lemma random: "state_io_rel (db_rel D) (NewRandom E)"
  by (simp add: state_io_rel_def db_rel_def D_refl)

lemmas effects = call now ticking random

end

text \<open>An invariant of the tables is the frame relation "kept if it held".\<close>

definition kept :: "(database \<Rightarrow> bool) \<Rightarrow> database \<Rightarrow> database \<Rightarrow> bool" where
  "kept I d d' \<longleftrightarrow> (I d \<longrightarrow> I d')"

interpretation kept: db_frame "kept I" for I
  by unfold_locales (auto simp: kept_def)

definition keeps :: "(database \<Rightarrow> bool) \<Rightarrow> (world, 'a) state \<Rightarrow> bool" where
  "keeps I m \<longleftrightarrow> state_io_rel (db_rel (kept I)) m"

lemma keepsD: "keeps I m \<Longrightarrow> run_state m w = (x, w') \<Longrightarrow> I (db w) \<Longrightarrow> I (db w')"
  unfolding keeps_def state_io_rel_def db_rel_def kept_def by (metis snd_conv)

lemma query_rel_keptI: "(\<And>i d. I d \<Longrightarrow> I (snd (q E i d))) \<Longrightarrow> query_rel (kept I) E q"
  by (simp add: query_rel_def kept_def)

text \<open>A part of the tables that does not change.\<close>

definition same :: "(database \<Rightarrow> 'p) \<Rightarrow> database \<Rightarrow> database \<Rightarrow> bool" where
  "same p d d' \<longleftrightarrow> p d' = p d"

interpretation same: db_frame "same p" for p
  by unfold_locales (auto simp: same_def)

text \<open>The fault-free environment.\<close>

definition no_faults :: "env \<Rightarrow> bool" where
  "no_faults E \<longleftrightarrow> (\<forall>i. db_fault E i = NoFault)"

lemma no_faultsD [simp]: "no_faults E \<Longrightarrow> db_fault E i = NoFault"
  by (simp add: no_faults_def)

section \<open>Walking through a program\<close>

lemma wp_tick [simp]: "wp tick Q w = Q (ticks w) (w\<lparr>ticks := Suc (ticks w)\<rparr>)"
  by (simp add: wp_def)

lemma wp_TimeNow [simp]: "wp (TimeNow E) Q w = Q (clock E (ticks w)) (w\<lparr>ticks := Suc (ticks w)\<rparr>)"
  by (simp add: wp_def)

lemma wp_NewRandom [simp]:
  "wp (NewRandom E) Q w = Q (new_random E (ticks w)) (w\<lparr>ticks := Suc (ticks w)\<rparr>)"
  by (simp add: wp_def)

text \<open>A database call answers with the query's result on the tables it found, or fails with a
  connection error, and then the statement may or may not have been executed.\<close>

lemma wp_db_call:
  assumes "\<And>r d. q E (ticks w) (db w) = (r, d) \<Longrightarrow> Q r (w\<lparr>ticks := Suc (ticks w), db := d\<rparr>)"
    and "Q (Inl ConnError) (w\<lparr>ticks := Suc (ticks w)\<rparr>)"
    and "\<And>r d. q E (ticks w) (db w) = (r, d) \<Longrightarrow>
      Q (Inl ConnError) (w\<lparr>ticks := Suc (ticks w), db := d\<rparr>)"
  shows "wp (db_call E q) Q w"
  using assms
  by (cases "q E (ticks w) (db w)"; cases "db_fault E (ticks w)")
    (simp_all add: wp_def run_db_call Let_def)

lemma wp_db_call_ok [simp]:
  "db_fault E (ticks w) = NoFault \<Longrightarrow>
   wp (db_call E q) Q w =
     Q (fst (q E (ticks w) (db w))) (w\<lparr>ticks := Suc (ticks w), db := snd (q E (ticks w) (db w))\<rparr>)"
  by (simp add: wp_def)

text \<open>The same for a statement that only reads.\<close>

lemma wp_read:
  assumes "read_only q"
    and "Q (fst (q E (ticks w) (db w))) (w\<lparr>ticks := Suc (ticks w)\<rparr>)"
    and "Q (Inl ConnError) (w\<lparr>ticks := Suc (ticks w)\<rparr>)"
  shows "wp (db_call E q) Q w"
proof (rule wp_db_call)
  fix r d
  assume q: "q E (ticks w) (db w) = (r, d)"
  then have d: "d = db w" using read_onlyD[OF assms(1), of E "ticks w" "db w"] by simp
  then have w: "w\<lparr>ticks := Suc (ticks w), db := d\<rparr> = w\<lparr>ticks := Suc (ticks w)\<rparr>" by simp
  show "Q r (w\<lparr>ticks := Suc (ticks w), db := d\<rparr>)" using assms(2) q w by simp
  show "Q (Inl ConnError) (w\<lparr>ticks := Suc (ticks w), db := d\<rparr>)" using assms(3) w by simp
qed (rule assms(3))

context db_frame begin

lemma from_wp:
  assumes "\<And>w. wp m (\<lambda>_ w'. D (db w) (db w')) w"
  shows "state_io_rel (db_rel D) m"
  using assms by (simp add: state_io_rel_def db_rel_def wp_def case_prod_beta)

end

end
