(* ===== verification/GF_Token.thy ===== *)
theory GF_Token
  imports GF_Effects
begin

text \<open>
  Tokens and passwords: \<open>token/payload.go\<close>, \<open>token/jwt_maker.go\<close> and \<open>util/password.go\<close>. The
  JWT library and bcrypt are parameters; \<open>jwt_laws\<close> and \<open>bcrypt_laws\<close> say what the code relies
  on.
\<close>

section \<open>Passwords\<close>

text \<open>\<open>HashPassword\<close> draws a salt; \<open>None\<close> is an error (bcrypt refuses more than 72 bytes).\<close>

definition HashPassword :: "env \<Rightarrow> string \<Rightarrow> (world, string option) state" where
  "HashPassword E password = do { i \<leftarrow> tick; State_Monad.return (bcrypt_Generate E i password) }"

text \<open>\<open>CheckPassword(password, hash) == nil\<close>.\<close>

definition CheckPassword :: "env \<Rightarrow> string \<Rightarrow> string \<Rightarrow> bool" where
  "CheckPassword E password hashedPassword = bcrypt_Compare E hashedPassword password"

definition bcrypt_laws :: "env \<Rightarrow> bool" where
  "bcrypt_laws E \<longleftrightarrow> (\<forall>i p h. bcrypt_Generate E i p = Some h \<longrightarrow> bcrypt_Compare E h p)"

section \<open>Token maker\<close>

definition minSecretKeySize :: nat where "minSecretKeySize = 32"

record JWTMaker =
  secretKey :: string

definition NewJWTMaker :: "string \<Rightarrow> JWTMaker option" where
  "NewJWTMaker key = (if length key < minSecretKeySize then None else Some \<lparr>secretKey = key\<rparr>)"

definition NewPayload ::
  "env \<Rightarrow> uuid \<Rightarrow> string \<Rightarrow> string \<Rightarrow> uuid option \<Rightarrow> duration \<Rightarrow> (world, Payload option) state" where
  "NewPayload E userID email role storeID d = do {
     r \<leftarrow> NewRandom E;
     case r of
       None \<Rightarrow> State_Monad.return None
     | Some tokenID \<Rightarrow> do {
         now \<leftarrow> TimeNow E;
         State_Monad.return (Some
           \<lparr>pl_ID = tokenID, pl_UserID = userID, pl_Email = email, pl_Role = role,
            pl_StoreID = storeID, pl_IssuedAt = now, pl_ExpiredAt = now + d\<rparr>)
       }
   }"

text \<open>The signed token and its payload, \<open>None\<close> on an error of either step.\<close>

definition CreateRoleToken ::
  "env \<Rightarrow> JWTMaker \<Rightarrow> uuid \<Rightarrow> string \<Rightarrow> string \<Rightarrow> uuid option \<Rightarrow> duration \<Rightarrow>
    (world, (string \<times> Payload) option) state" where
  "CreateRoleToken E maker userID email role storeID d = do {
     p \<leftarrow> NewPayload E userID email role storeID d;
     State_Monad.return (case p of
       None \<Rightarrow> None
     | Some payload \<Rightarrow> map_option (\<lambda>signed. (signed, payload)) (jwt_Sign E (secretKey maker) payload))
   }"

definition CreateToken ::
  "env \<Rightarrow> JWTMaker \<Rightarrow> uuid \<Rightarrow> string \<Rightarrow> duration \<Rightarrow> (world, (string \<times> Payload) option) state" where
  "CreateToken E maker userID email d = CreateRoleToken E maker userID email RoleUser None d"

definition keyFunc :: "JWTMaker \<Rightarrow> signing_method \<Rightarrow> token_error + string" where
  "keyFunc maker m =
     (case m of SigningMethodHMAC alg \<Rightarrow> Inr (secretKey maker) | _ \<Rightarrow> Inl ErrInvalidToken)"

text \<open>What \<open>VerifyToken\<close> answers at time \<open>now\<close>; the library reads the clock itself.\<close>

definition verify_at :: "env \<Rightarrow> JWTMaker \<Rightarrow> time \<Rightarrow> string \<Rightarrow> token_error + Payload" where
  "verify_at E maker now tok =
     (case jwt_Parse E now (keyFunc maker) tok of
        Inl JwtExpired \<Rightarrow> Inl ErrExpiredToken
      | Inl JwtOtherError \<Rightarrow> Inl ErrInvalidToken
      | Inr payload \<Rightarrow> Inr payload)"

definition VerifyToken :: "env \<Rightarrow> JWTMaker \<Rightarrow> string \<Rightarrow> (world, token_error + Payload) state" where
  "VerifyToken E maker tok = do { now \<leftarrow> TimeNow E; State_Monad.return (verify_at E maker now tok) }"

section \<open>What the JWT library promises\<close>

text \<open>
  The part of its documentation the server relies on: parsing a token it signed with HS256, under
  a key function that answers with the signing key, checks \<open>exp\<close> and \<open>nbf\<close> (both \<open>NumericDate\<close>s,
  whole seconds; the clock must be before \<open>exp\<close> and not before \<open>nbf\<close>) and gives the claims back;
  and no claims are returned outside their window or when the key function refuses every method.
\<close>

definition jwt_roundtrip :: "env \<Rightarrow> bool" where
  "jwt_roundtrip E \<longleftrightarrow>
     (\<forall>key p tok now kf.
        jwt_Sign E key p = Some tok \<longrightarrow> kf (SigningMethodHMAC ''HS256'') = Inr key \<longrightarrow>
        jwt_Parse E now kf tok =
          (if now \<ge> GetExpirationTime p then Inl JwtExpired
           else if now < GetNotBefore p then Inl JwtOtherError
           else Inr p))"

definition jwt_window :: "env \<Rightarrow> bool" where
  "jwt_window E \<longleftrightarrow>
     (\<forall>now kf tok p. jwt_Parse E now kf tok = Inr p \<longrightarrow>
        GetNotBefore p \<le> now \<and> now < GetExpirationTime p \<and> (\<exists>m key. kf m = Inr key))"

definition jwt_laws :: "env \<Rightarrow> bool" where
  "jwt_laws E \<longleftrightarrow> jwt_roundtrip E \<and> jwt_window E"

lemma jwt_Parse_signed:
  assumes "jwt_laws E" and "jwt_Sign E key p = Some tok" and "kf (SigningMethodHMAC ''HS256'') = Inr key"
  shows "jwt_Parse E now kf tok =
    (if now \<ge> GetExpirationTime p then Inl JwtExpired
     else if now < GetNotBefore p then Inl JwtOtherError
     else Inr p)"
  using assms unfolding jwt_laws_def jwt_roundtrip_def by blast

lemma jwt_Parse_window:
  "jwt_laws E \<Longrightarrow> jwt_Parse E now kf tok = Inr p \<Longrightarrow> GetNotBefore p \<le> now \<and> now < GetExpirationTime p"
  unfolding jwt_laws_def jwt_window_def by blast

section \<open>Facts\<close>

lemma keyFunc_HMAC [simp]: "keyFunc maker (SigningMethodHMAC alg) = Inr (secretKey maker)"
  by (simp add: keyFunc_def)

lemma keyFunc_Other [simp]: "keyFunc maker (SigningMethodOther alg) = Inl ErrInvalidToken"
  by (simp add: keyFunc_def)

lemma verify_at_signed:
  assumes "jwt_laws E" and "jwt_Sign E (secretKey maker) p = Some tok"
  shows "verify_at E maker now tok =
    (if now \<ge> GetExpirationTime p then Inl ErrExpiredToken
     else if now < GetNotBefore p then Inl ErrInvalidToken
     else Inr p)"
  by (simp add: verify_at_def jwt_Parse_signed[OF assms(1,2)])

lemma verify_at_window:
  assumes "jwt_laws E" and "verify_at E maker now tok = Inr p"
  shows "GetNotBefore p \<le> now \<and> now < GetExpirationTime p"
proof -
  have "jwt_Parse E now (keyFunc maker) tok = Inr p"
    using assms(2) by (simp add: verify_at_def split: sum.splits jwt_error.splits)
  then show ?thesis by (rule jwt_Parse_window[OF assms(1)])
qed

lemma run_VerifyToken [simp]:
  "run_state (VerifyToken E maker tok) w =
     (verify_at E maker (clock E (ticks w)) tok, w\<lparr>ticks := Suc (ticks w)\<rparr>)"
  by (simp add: VerifyToken_def)

lemma run_HashPassword [simp]:
  "run_state (HashPassword E p) w = (bcrypt_Generate E (ticks w) p, w\<lparr>ticks := Suc (ticks w)\<rparr>)"
  by (simp add: HashPassword_def)

lemma wp_VerifyToken [simp]:
  "wp (VerifyToken E maker tok) Q w =
     Q (verify_at E maker (clock E (ticks w)) tok) (w\<lparr>ticks := Suc (ticks w)\<rparr>)"
  by (simp add: VerifyToken_def)

lemma wp_HashPassword [simp]:
  "wp (HashPassword E p) Q w = Q (bcrypt_Generate E (ticks w) p) (w\<lparr>ticks := Suc (ticks w)\<rparr>)"
  by (simp add: HashPassword_def)

text \<open>A token that was created carries a fresh id, the identity it was asked for and a window that
  starts when it was made.\<close>

definition minted ::
  "env \<Rightarrow> JWTMaker \<Rightarrow> uuid \<Rightarrow> string \<Rightarrow> string \<Rightarrow> uuid option \<Rightarrow> duration \<Rightarrow> nat \<Rightarrow> string \<times> Payload \<Rightarrow> bool"
where
  "minted E maker uid email role sid d i tp \<longleftrightarrow>
     jwt_Sign E (secretKey maker) (snd tp) = Some (fst tp)
   \<and> new_random E i = Some (pl_ID (snd tp))
   \<and> snd tp = \<lparr>pl_ID = pl_ID (snd tp), pl_UserID = uid, pl_Email = email, pl_Role = role,
                pl_StoreID = sid, pl_IssuedAt = clock E (Suc i), pl_ExpiredAt = clock E (Suc i) + d\<rparr>"

lemma mintedD:
  assumes "minted E maker uid email role sid d i (tok, p)"
  shows "jwt_Sign E (secretKey maker) p = Some tok" "new_random E i = Some (pl_ID p)"
    "pl_UserID p = uid" "pl_Email p = email" "pl_Role p = role" "pl_StoreID p = sid"
    "pl_IssuedAt p = clock E (Suc i)" "pl_ExpiredAt p = clock E (Suc i) + d"
  using assms unfolding minted_def by (cases p, simp)+

lemma wp_CreateRoleToken:
  assumes "\<And>w'. db w' = db w \<Longrightarrow> outbox w' = outbox w \<Longrightarrow> Q None w'"
    and "\<And>tp w'. db w' = db w \<Longrightarrow> outbox w' = outbox w \<Longrightarrow> ticks w' = ticks w + 2 \<Longrightarrow>
      minted E maker uid email role sid d (ticks w) tp \<Longrightarrow> Q (Some tp) w'"
  shows "wp (CreateRoleToken E maker uid email role sid d) Q w"
proof (cases "new_random E (ticks w)")
  case None
  then show ?thesis using assms(1) by (simp add: CreateRoleToken_def NewPayload_def)
next
  case (Some tid)
  let ?p = "\<lparr>pl_ID = tid, pl_UserID = uid, pl_Email = email, pl_Role = role, pl_StoreID = sid,
    pl_IssuedAt = clock E (Suc (ticks w)), pl_ExpiredAt = clock E (Suc (ticks w)) + d\<rparr>"
  show ?thesis
  proof (cases "jwt_Sign E (secretKey maker) ?p")
    case None
    with Some show ?thesis using assms(1) by (simp add: CreateRoleToken_def NewPayload_def)
  next
    case (Some tok)
    with \<open>new_random E (ticks w) = Some tid\<close> show ?thesis using assms(2)
      by (simp add: CreateRoleToken_def NewPayload_def minted_def)
  qed
qed

lemma wp_CreateToken:
  assumes "\<And>w'. db w' = db w \<Longrightarrow> outbox w' = outbox w \<Longrightarrow> Q None w'"
    and "\<And>tp w'. db w' = db w \<Longrightarrow> outbox w' = outbox w \<Longrightarrow> ticks w' = ticks w + 2 \<Longrightarrow>
      minted E maker uid email RoleUser None d (ticks w) tp \<Longrightarrow> Q (Some tp) w'"
  shows "wp (CreateToken E maker uid email d) Q w"
  unfolding CreateToken_def by (rule wp_CreateRoleToken) (use assms in blast)+

context db_frame begin

lemma hash_password: "state_io_rel (db_rel D) (HashPassword E p)"
  unfolding HashPassword_def by (intro program effects)

lemma verify_token: "state_io_rel (db_rel D) (VerifyToken E maker tok)"
  unfolding VerifyToken_def by (intro program effects)

lemma create_role_token: "state_io_rel (db_rel D) (CreateRoleToken E maker uid email role sid d)"
  unfolding CreateRoleToken_def NewPayload_def by (intro program effects)

lemma create_token: "state_io_rel (db_rel D) (CreateToken E maker uid email d)"
  unfolding CreateToken_def by (rule create_role_token)

lemmas token_effects = effects hash_password verify_token create_role_token create_token

end

end
