(* ===== verification/GF_Encoding.thy ===== *)
theory GF_Encoding
  imports GF_Prelude
begin

text \<open>
  The encoders of Go's standard library the server uses: \<open>hex.EncodeToString\<close>,
  \<open>base64.RawURLEncoding\<close>, \<open>base64.StdEncoding\<close>, and \<open>url.QueryEscape\<close>.
\<close>

section \<open>Hexadecimal\<close>

definition hex_digit :: "nat \<Rightarrow> char" where
  "hex_digit n = char_of (if n < 10 then 48 + n else 87 + n)"

definition HexEncode :: "string \<Rightarrow> string" where
  "HexEncode s = concat (map (\<lambda>c. let n = of_char c :: nat in [hex_digit (n div 16), hex_digit (n mod 16)]) s)"

section \<open>Base 64\<close>

text \<open>A digit's character: \<open>c62\<close> and \<open>c63\<close> are the alphabet's last two.\<close>

definition b64_char :: "char \<Rightarrow> char \<Rightarrow> nat \<Rightarrow> char" where
  "b64_char c62 c63 n =
     (if n < 26 then char_of (65 + n) else if n < 52 then char_of (71 + n)
      else if n < 62 then char_of (n - 4) else if n = 62 then c62 else c63)"

definition b64_val :: "char \<Rightarrow> char \<Rightarrow> char \<Rightarrow> nat option" where
  "b64_val c62 c63 c =
     (let n = of_char c :: nat in
      if 65 \<le> n \<and> n \<le> 90 then Some (n - 65) else if 97 \<le> n \<and> n \<le> 122 then Some (n - 71)
      else if 48 \<le> n \<and> n \<le> 57 then Some (n + 4) else if c = c62 then Some 62
      else if c = c63 then Some 63 else None)"

abbreviation url_char :: "nat \<Rightarrow> char" where "url_char \<equiv> b64_char CHR ''-'' CHR ''_''"
abbreviation url_val :: "char \<Rightarrow> nat option" where "url_val \<equiv> b64_val CHR ''-'' CHR ''_''"
abbreviation std_char :: "nat \<Rightarrow> char" where "std_char \<equiv> b64_char CHR ''+'' CHR ''/''"
abbreviation std_val :: "char \<Rightarrow> nat option" where "std_val \<equiv> b64_val CHR ''+'' CHR ''/''"

fun b64_encode :: "nat list \<Rightarrow> nat list" where
  "b64_encode [] = []"
| "b64_encode [a] = [a div 4, a mod 4 * 16]"
| "b64_encode [a, b] = [a div 4, a mod 4 * 16 + b div 16, b mod 16 * 4]"
| "b64_encode (a # b # c # r) =
     [a div 4, a mod 4 * 16 + b div 16, b mod 16 * 4 + c div 64, c mod 64] @ b64_encode r"

definition RawURLEncode :: "string \<Rightarrow> string" where
  "RawURLEncode s = map url_char (b64_encode (map of_char s))"

definition StdEncode :: "string \<Rightarrow> string" where
  "StdEncode s =
     (let ds = map std_char (b64_encode (map of_char s)) in ds @ replicate ((4 - length ds mod 4) mod 4) CHR ''='')"

text \<open>Groups of four digits make three bytes; the bits a short last group leaves over are
  ignored, as the decoder is not strict.\<close>

fun b64_decode :: "nat list \<Rightarrow> nat list option" where
  "b64_decode [] = Some []"
| "b64_decode [a] = None"
| "b64_decode [a, b] = Some [a * 4 + b div 16]"
| "b64_decode [a, b, c] = Some [a * 4 + b div 16, b mod 16 * 16 + c div 4]"
| "b64_decode (a # b # c # d # r) =
     map_option (\<lambda>bs. [a * 4 + b div 16, b mod 16 * 16 + c div 4, c mod 4 * 64 + d] @ bs) (b64_decode r)"

text \<open>Every element's value, if all have one (the decoders skip line breaks).\<close>

fun vals :: "(char \<Rightarrow> nat option) \<Rightarrow> string \<Rightarrow> nat list option" where
  "vals f [] = Some []"
| "vals f (c # s) =
     (if c = CHR 0x0A \<or> c = CHR 0x0D then vals f s
      else case f c of None \<Rightarrow> None | Some n \<Rightarrow> map_option ((#) n) (vals f s))"

definition RawURLDecode :: "string \<Rightarrow> string option" where
  "RawURLDecode s = map_option bytes (Option.bind (vals url_val s) b64_decode)"

text \<open>With padding the digits and the \<open>=\<close> signs make whole groups of four, at most two of them
  padding.\<close>

definition StdDecode :: "string \<Rightarrow> string option" where
  "StdDecode s =
     (let t = filter (\<lambda>c. c \<noteq> CHR 0x0A \<and> c \<noteq> CHR 0x0D) s;
          ds = takeWhile (\<lambda>c. c \<noteq> CHR ''='') t;
          pad = dropWhile (\<lambda>c. c \<noteq> CHR ''='') t
      in if length t mod 4 = 0 \<and> pad \<in> {[], ''='', ''==''}
         then map_option bytes (Option.bind (vals std_val ds) b64_decode) else None)"

section \<open>\<open>url.QueryEscape\<close>\<close>

definition unreserved :: "char \<Rightarrow> bool" where
  "unreserved c \<longleftrightarrow>
     (let n = of_char c :: nat in
      48 \<le> n \<and> n \<le> 57 \<or> 65 \<le> n \<and> n \<le> 90 \<or> 97 \<le> n \<and> n \<le> 122 \<or> c \<in> set ''-_.~'')"

definition upper_hex :: "nat \<Rightarrow> char" where
  "upper_hex n = char_of (if n < 10 then 48 + n else 55 + n)"

definition QueryEscape :: "string \<Rightarrow> string" where
  "QueryEscape s =
     concat (map (\<lambda>c. let n = of_char c :: nat in
       if unreserved c then [c] else if c = CHR '' '' then ''+''
       else [CHR ''%'', upper_hex (n div 16), upper_hex (n mod 16)]) s)"

section \<open>Facts\<close>

lemma nat_less_64_cases: "n < 26 \<or> (26 \<le> n \<and> n < 52) \<or> (52 \<le> n \<and> n < 62) \<or> n = 62 \<or> 63 \<le> n" for n :: nat
  by arith

lemma url_val_char [simp]: "n < 64 \<Longrightarrow> url_val (url_char n) = Some n"
  using nat_less_64_cases[of n] by (auto simp: b64_val_def b64_char_def Let_def)

lemma unreserved_url_char: "n < 64 \<Longrightarrow> unreserved (url_char n)"
  using nat_less_64_cases[of n] by (auto simp: unreserved_def b64_char_def Let_def)

lemma url_char_not_break: "url_char n \<noteq> CHR 0x0A" "url_char n \<noteq> CHR 0x0D"
  unfolding b64_char_def by (auto dest: arg_cong[where f = "of_char :: char \<Rightarrow> nat"])

lemma vals_url_char: "\<forall>n \<in> set ns. n < 64 \<Longrightarrow> vals url_val (map url_char ns) = Some ns"
  by (induction ns) (auto simp: url_char_not_break)

lemma b64_encode_less: "\<forall>n \<in> set bs. n < 256 \<Longrightarrow> \<forall>n \<in> set (b64_encode bs). n < 64"
  by (induction bs rule: b64_encode.induct) auto

lemma b64_decode_encode: "\<forall>n \<in> set bs. n < 256 \<Longrightarrow> b64_decode (b64_encode bs) = Some bs"
  by (induction bs rule: b64_encode.induct) auto

lemma RawURLDecode_Encode: "RawURLDecode (RawURLEncode s) = Some s"
proof -
  have "\<forall>n \<in> set (map of_char s). n < (256 :: nat)" by auto
  note b = b64_encode_less[OF this] b64_decode_encode[OF this]
  show ?thesis
    by (simp add: RawURLDecode_def RawURLEncode_def vals_url_char[OF b(1)] b(2) bytes_def
        del: map_map) (simp add: map_idI)
qed

lemma RawURLEncode_inj: "RawURLEncode s = RawURLEncode t \<Longrightarrow> s = t"
  by (metis RawURLDecode_Encode option.inject)

lemma QueryEscape_unreserved: "list_all unreserved s \<Longrightarrow> QueryEscape s = s"
  by (induction s) (auto simp: QueryEscape_def)

lemma QueryEscape_RawURLEncode: "QueryEscape (RawURLEncode s) = RawURLEncode s"
proof (rule QueryEscape_unreserved)
  have "\<forall>n \<in> set (map of_char s). n < (256 :: nat)" by auto
  from b64_encode_less[OF this] show "list_all unreserved (RawURLEncode s)"
    by (auto simp: RawURLEncode_def list_all_iff intro: unreserved_url_char)
qed

lemma length_b64_encode: "length (b64_encode bs) = (4 * length bs + 2) div 3"
  by (induction bs rule: b64_encode.induct) auto

lemma std_val_char [simp]: "n < 64 \<Longrightarrow> std_val (std_char n) = Some n"
  using nat_less_64_cases[of n] by (auto simp: b64_val_def b64_char_def Let_def)

lemma std_char_not: "std_char n \<noteq> CHR 0x0A" "std_char n \<noteq> CHR 0x0D" "std_char n \<noteq> CHR ''=''"
  unfolding b64_char_def by (auto dest: arg_cong[where f = "of_char :: char \<Rightarrow> nat"])

lemma vals_std_char: "\<forall>n \<in> set ns. n < 64 \<Longrightarrow> vals std_val (map std_char ns) = Some ns"
  by (induction ns) (auto simp: std_char_not)

lemma length_b64_mod: "length (b64_encode bs) mod 4 \<noteq> 1"
  by (induction bs rule: b64_encode.induct) auto

lemma padded_length:
  assumes "m mod 4 \<noteq> (1 :: nat)"
  shows "(m + (4 - m mod 4) mod 4) mod 4 = 0" "(4 - m mod 4) mod 4 \<le> 2"
proof -
  have "m mod 4 < 4" by simp
  with assms have "m mod 4 = 0 \<or> m mod 4 = 2 \<or> m mod 4 = 3" by arith
  then consider "m mod 4 = 0" "(4 - m mod 4) mod 4 = 0" | "m mod 4 = 2" "(4 - m mod 4) mod 4 = 2"
    | "m mod 4 = 3" "(4 - m mod 4) mod 4 = 1"
    by (elim disjE) simp_all
  then have "(m + (4 - m mod 4) mod 4) mod 4 = 0 \<and> (4 - m mod 4) mod 4 \<le> 2"
  proof cases
    case 1 then show ?thesis by simp
  next
    case 2 then show ?thesis by simp presburger
  next
    case 3 then show ?thesis by simp presburger
  qed
  then show "(m + (4 - m mod 4) mod 4) mod 4 = 0" "(4 - m mod 4) mod 4 \<le> 2" by simp_all
qed

lemma StdDecode_Encode: "StdDecode (StdEncode s) = Some s"
proof -
  define ds where "ds = map std_char (b64_encode (map of_char s))"
  define k where "k = (4 - length ds mod 4) mod 4"
  have "\<forall>n \<in> set (map of_char s). n < (256 :: nat)" by auto
  note b = b64_encode_less[OF this] b64_decode_encode[OF this]
  have len: "(length ds + k) mod 4 = 0" "k \<le> 2"
    using padded_length[OF length_b64_mod] by (simp_all add: k_def ds_def)
  have plain: "c \<noteq> CHR 0x0A" "c \<noteq> CHR 0x0D" "c \<noteq> CHR ''=''" if "c \<in> set ds" for c
    using that by (auto simp: ds_def std_char_not)
  have parts: "takeWhile (\<lambda>c. c \<noteq> CHR ''='') (ds @ replicate k CHR ''='') = ds"
    "dropWhile (\<lambda>c. c \<noteq> CHR ''='') (ds @ replicate k CHR ''='') = replicate k CHR ''=''"
    "filter (\<lambda>c. c \<noteq> CHR 0x0A \<and> c \<noteq> CHR 0x0D) (ds @ replicate k CHR ''='') = ds @ replicate k CHR ''=''"
    using plain by (cases k; auto simp: takeWhile_append dropWhile_append filter_id_conv)+
  have "k = 0 \<or> k = 1 \<or> k = 2" using len(2) by arith
  then have pad: "replicate k CHR ''='' \<in> {[], ''='', ''==''}"
    by (elim disjE) (simp_all add: numeral_2_eq_2)
  have "vals std_val ds = Some (b64_encode (map of_char s))"
    unfolding ds_def by (rule vals_std_char[OF b(1)])
  moreover have "bytes (map of_char s) = s" by (simp add: bytes_def map_idI)
  ultimately show ?thesis
    using parts pad len(1) b(2) unfolding StdDecode_def StdEncode_def Let_def ds_def[symmetric] k_def[symmetric]
    by simp
qed

lemma length_HexEncode: "length (HexEncode s) = 2 * length s"
  by (induction s) (simp_all add: HexEncode_def Let_def)

lemma hex_digit_inj: "m < 16 \<Longrightarrow> n < 16 \<Longrightarrow> hex_digit m = hex_digit n \<Longrightarrow> m = n"
  unfolding hex_digit_def by (auto dest!: arg_cong[where f = "of_char :: char \<Rightarrow> nat"] split: if_splits)

lemma HexEncode_inj: "HexEncode s = HexEncode t \<Longrightarrow> s = t"
proof (induction s arbitrary: t)
  case Nil
  then show ?case by (cases t) (auto simp: HexEncode_def Let_def)
next
  case (Cons a s)
  then obtain b t' where t: "t = b # t'"
    using length_HexEncode[of "a # s"] length_HexEncode[of t] by (cases t) auto
  let ?a = "of_char a :: nat" and ?b = "of_char b :: nat"
  have "?a div 16 = ?b div 16 \<and> ?a mod 16 = ?b mod 16 \<and> HexEncode s = HexEncode t'"
    using Cons.prems by (auto simp: t HexEncode_def Let_def div_less_dividend less_mult_imp_div_less
        intro!: hex_digit_inj)
  moreover from this have "?a = ?b" by (metis div_mult_mod_eq)
  ultimately show ?case using Cons.IH t by simp
qed

section \<open>Decimal numbers round trip\<close>

lemma is_digit_char [simp]: "k < (10 :: nat) \<Longrightarrow> is_digit (char_of (48 + k))"
  by (simp add: is_digit_def)

lemma nat_digits_digits: "list_all is_digit (nat_digits n)"
  by (induction n rule: nat_digits.induct) (subst nat_digits.simps, simp)

lemma decimal_val_snoc: "decimal_val (s @ [c]) = 10 * decimal_val s + digit_val c"
  by (simp add: decimal_val_def)

lemma digit_val_char [simp]: "k < 10 \<Longrightarrow> digit_val (char_of (48 + k)) = k"
  by (simp add: digit_val_def)

lemma decimal_val_single: "decimal_val [c] = digit_val c"
  by (simp add: decimal_val_def)

lemma decimal_val_digits [simp]: "decimal_val (nat_digits n) = n"
proof (induction n rule: nat_digits.induct)
  case (1 n)
  show ?case
  proof (cases "n < 10")
    case True
    then show ?thesis by (subst nat_digits.simps) (simp add: decimal_val_single)
  next
    case False
    with 1 show ?thesis by (subst nat_digits.simps) (simp add: decimal_val_snoc)
  qed
qed

lemma nat_digits_not_Nil [simp]: "nat_digits n \<noteq> []"
  by (subst nat_digits.simps) simp

lemma hd_nat_digits: "is_digit (hd (nat_digits n))"
  using nat_digits_digits[of n] by (cases "nat_digits n") simp_all

text \<open>\<open>Atoi\<close> reads back what \<open>%d\<close> printed.\<close>

lemma Atoi_Itoa:
  assumes "- (2 ^ 63) \<le> i" and "i < 2 ^ 63"
  shows "Atoi (Itoa i) = Some i"
proof -
  have "hd (nat_digits n) \<noteq> CHR ''-''" "hd (nat_digits n) \<noteq> CHR ''+''" for n
    using hd_nat_digits[of n] by (auto simp: is_digit_def)
  then show ?thesis
    using assms by (auto simp: Atoi_def Itoa_def Let_def nat_digits_digits)
qed

end
