(* ===== verification/GF_AppStore.thy ===== *)
theory GF_AppStore
  imports GF_Effects GF_Encoding
begin

text \<open>
  \<open>appstore/\<close>: local verification of StoreKit transactions and App Store notifications. The
  JWS library and the X.509 library are parameters; the key function and everything around the
  two calls is the server's.
\<close>

section \<open>Trusted roots (\<open>certs.go\<close>, \<open>verifier.go\<close>)\<close>

record Verifier =
  av_roots :: "cert list"
  av_expectedBundle :: string

definition NewVerifier :: "cert list \<Rightarrow> string \<Rightarrow> Verifier option" where
  "NewVerifier roots expectedBundleID =
     (if roots = [] then None else Some \<lparr>av_roots = roots, av_expectedBundle = expectedBundleID\<rparr>)"

text \<open>
  The root file: its PEM blocks (type and bytes) if it has any, else DER. \<open>pem\<close> is the block list
  \<open>pem.Decode\<close> yields, \<open>der\<close> the result of \<open>x509.ParseCertificates\<close>.
\<close>

fun pem_certs :: "env \<Rightarrow> (string \<times> string) list \<Rightarrow> cert list option" where
  "pem_certs E [] = Some []"
| "pem_certs E ((ty, bs) # rest) =
     (if ty = ''CERTIFICATE'' then
        (case x509_Parse E bs of None \<Rightarrow> None
         | Some c \<Rightarrow> map_option ((#) c) (pem_certs E rest))
      else pem_certs E rest)"

definition parseCertificates ::
  "env \<Rightarrow> (string \<Rightarrow> (string \<times> string) list) \<Rightarrow> (string \<Rightarrow> cert list option) \<Rightarrow> string \<Rightarrow> cert list option"
where
  "parseCertificates E pem der raw =
     (case pem_certs E (pem raw) of
        None \<Rightarrow> None
      | Some certs \<Rightarrow>
          if certs \<noteq> [] then Some certs
          else (case der raw of None \<Rightarrow> None | Some [] \<Rightarrow> None | Some cs \<Rightarrow> Some cs))"

definition NewVerifierFromFile ::
  "env \<Rightarrow> (string \<Rightarrow> (string \<times> string) list) \<Rightarrow> (string \<Rightarrow> cert list option) \<Rightarrow>
    (string \<Rightarrow> string option) \<Rightarrow> string \<Rightarrow> string \<Rightarrow> Verifier option" where
  "NewVerifierFromFile E pem der readFile path expectedBundleID =
     (case readFile path of
        None \<Rightarrow> None
      | Some raw \<Rightarrow> Option.bind (parseCertificates E pem der raw) (\<lambda>cs. NewVerifier cs expectedBundleID))"

section \<open>The key function\<close>

fun chain_certs :: "env \<Rightarrow> json list \<Rightarrow> string + cert list" where
  "chain_certs E [] = Inr []"
| "chain_certs E (raw # rest) =
     (case raw of
        JStr s \<Rightarrow>
          (case StdDecode s of
             None \<Rightarrow> Inl ''appstore: x5c base64''
           | Some der \<Rightarrow>
               (case x509_Parse E der of
                  None \<Rightarrow> Inl ''appstore: x5c parse''
                | Some c \<Rightarrow> map_sum id ((#) c) (chain_certs E rest)))
      | _ \<Rightarrow> Inl ''appstore: malformed x5c entry'')"

text \<open>\<open>now\<close> is the clock reading of \<open>CurrentTime: time.Now()\<close>.\<close>

definition x5c_keyFunc :: "env \<Rightarrow> Verifier \<Rightarrow> time \<Rightarrow> json option \<Rightarrow> string + string" where
  "x5c_keyFunc E v now x5c =
     (case x5c of
        Some (JArr (raw # rest)) \<Rightarrow>
          (case chain_certs E (raw # rest) of
             Inl err \<Rightarrow> Inl err
           | Inr certs \<Rightarrow>
               (if \<not> x509_Verify E (av_roots v) (tl certs) now (hd certs)
                then Inl ''appstore: x5c chain verify''
                else case x509_ecdsa E (hd certs) of
                       None \<Rightarrow> Inl ''appstore: leaf public key is not ECDSA''
                     | Some pub \<Rightarrow> Inr pub))
      | _ \<Rightarrow> Inl ''appstore: missing x5c header'')"

section \<open>Verification\<close>

definition VerifyTransaction ::
  "env \<Rightarrow> Verifier \<Rightarrow> string \<Rightarrow> (world, string + TransactionPayload) state" where
  "VerifyTransaction E v signedJWS = do {
     chain_now \<leftarrow> TimeNow E;
     now \<leftarrow> TimeNow E;
     State_Monad.return
       (case jws_ParseTransaction E now (x5c_keyFunc E v chain_now) signedJWS of
          Inl err \<Rightarrow> Inl err
        | Inr payload \<Rightarrow>
            (if av_expectedBundle v \<noteq> [] \<and> tx_BundleID payload \<noteq> av_expectedBundle v
             then Inl ''appstore: bundle id mismatch'' else Inr payload))
   }"

definition VerifyNotification ::
  "env \<Rightarrow> Verifier \<Rightarrow> string \<Rightarrow>
    (world, string + (NotificationPayload \<times> TransactionPayload option)) state" where
  "VerifyNotification E v signedPayload = do {
     chain_now \<leftarrow> TimeNow E;
     now \<leftarrow> TimeNow E;
     case jws_ParseNotification E now (x5c_keyFunc E v chain_now) signedPayload of
       Inl err \<Rightarrow> State_Monad.return (Inl err)
     | Inr notif \<Rightarrow>
         (if nd_SignedTransactionInfo (np_Data notif) \<noteq> [] then do {
            r \<leftarrow> VerifyTransaction E v (nd_SignedTransactionInfo (np_Data notif));
            State_Monad.return (case r of
              Inl err \<Rightarrow> Inl (''appstore: notification transaction: '' @ err)
            | Inr tx \<Rightarrow> Inr (notif, Some tx))
          } else State_Monad.return (Inr (notif, None)))
   }"

section \<open>What the JWS library promises\<close>

text \<open>
  \<open>ParseWithClaims\<close> returns claims only if the key function accepted the token's header:
  \<open>x5c\<close> below is the header's value. The first law is about transactions, the second about
  notifications.
\<close>

definition jws_tx_law :: "env \<Rightarrow> (string \<Rightarrow> json option) \<Rightarrow> bool" where
  "jws_tx_law E header \<longleftrightarrow>
     (\<forall>now kf s p. jws_ParseTransaction E now kf s = Inr p \<longrightarrow> (\<exists>key. kf (header s) = Inr key))"

definition jws_notif_law :: "env \<Rightarrow> (string \<Rightarrow> json option) \<Rightarrow> bool" where
  "jws_notif_law E header \<longleftrightarrow>
     (\<forall>now kf s p. jws_ParseNotification E now kf s = Inr p \<longrightarrow> (\<exists>key. kf (header s) = Inr key))"

section \<open>Facts\<close>

text \<open>A chain a verifier accepts: certificates the token carries, leading from an ECDSA leaf to one
  of the trusted roots at the given time.\<close>

definition trusted_chain :: "env \<Rightarrow> Verifier \<Rightarrow> time \<Rightarrow> json option \<Rightarrow> bool" where
  "trusted_chain E v now x5c \<longleftrightarrow>
     (case x5c of
        Some (JArr raws) \<Rightarrow>
          (case chain_certs E raws of
             Inr (leaf # others) \<Rightarrow>
               x509_Verify E (av_roots v) others now leaf \<and> x509_ecdsa E leaf \<noteq> None
           | _ \<Rightarrow> False)
      | _ \<Rightarrow> False)"

lemma chain_certs_Cons: "chain_certs E (raw # rest) = Inr certs \<Longrightarrow> certs \<noteq> []"
  by (cases "chain_certs E rest") (auto split: json.splits option.splits)

lemma x5c_keyFunc_Inr: "(\<exists>key. x5c_keyFunc E v now x5c = Inr key) \<longleftrightarrow> trusted_chain E v now x5c"
proof (cases "\<exists>raw rest. x5c = Some (JArr (raw # rest))")
  case True
  then obtain raw rest where x: "x5c = Some (JArr (raw # rest))" by blast
  show ?thesis
  proof (cases "chain_certs E (raw # rest)")
    case (Inr certs)
    then have "certs \<noteq> []" by (rule chain_certs_Cons)
    with Inr x show ?thesis
      by (cases certs) (auto simp: x5c_keyFunc_def trusted_chain_def split: option.splits)
  qed (simp add: x x5c_keyFunc_def trusted_chain_def)
next
  case False
  then show ?thesis
    by (auto simp: x5c_keyFunc_def trusted_chain_def split: option.splits json.splits list.splits)
qed

text \<open>One call's result, as a function of the two clock readings.\<close>

definition transaction_at ::
  "env \<Rightarrow> Verifier \<Rightarrow> time \<Rightarrow> time \<Rightarrow> string \<Rightarrow> string + TransactionPayload" where
  "transaction_at E v chain_now now s =
     (case jws_ParseTransaction E now (x5c_keyFunc E v chain_now) s of
        Inl err \<Rightarrow> Inl err
      | Inr payload \<Rightarrow>
          (if av_expectedBundle v \<noteq> [] \<and> tx_BundleID payload \<noteq> av_expectedBundle v
           then Inl ''appstore: bundle id mismatch'' else Inr payload))"

lemma wp_VerifyTransaction [simp]:
  "wp (VerifyTransaction E v s) Q w =
     Q (transaction_at E v (clock E (ticks w)) (clock E (Suc (ticks w))) s)
       (w\<lparr>ticks := Suc (Suc (ticks w))\<rparr>)"
  by (simp add: VerifyTransaction_def transaction_at_def)

lemma transaction_at_trusted:
  assumes "jws_tx_law E header" and "transaction_at E v chain_now now s = Inr tx"
  shows "trusted_chain E v chain_now (header s)"
    and "av_expectedBundle v = [] \<or> tx_BundleID tx = av_expectedBundle v"
proof -
  have p: "jws_ParseTransaction E now (x5c_keyFunc E v chain_now) s = Inr tx"
    and b: "av_expectedBundle v = [] \<or> tx_BundleID tx = av_expectedBundle v"
    using assms(2) by (auto simp: transaction_at_def split: sum.splits if_splits)
  from p assms(1) have "\<exists>key. x5c_keyFunc E v chain_now (header s) = Inr key"
    unfolding jws_tx_law_def by blast
  then show "trusted_chain E v chain_now (header s)" by (simp add: x5c_keyFunc_Inr)
  show "av_expectedBundle v = [] \<or> tx_BundleID tx = av_expectedBundle v" by (rule b)
qed

lemma transaction_at_parsed:
  "transaction_at E v chain_now now s = Inr tx \<Longrightarrow> jws_ParseTransaction E now (x5c_keyFunc E v chain_now) s = Inr tx"
  by (auto simp: transaction_at_def split: sum.splits if_splits)

context db_frame begin

lemma verify_transaction: "state_io_rel (db_rel D) (VerifyTransaction E v s)"
  unfolding VerifyTransaction_def by (intro program effects)

lemma verify_notification: "state_io_rel (db_rel D) (VerifyNotification E v s)"
  unfolding VerifyNotification_def by (intro program effects verify_transaction)

end

end
