(* ===== verification/GF_AppleSignin.thy ===== *)
theory GF_AppleSignin
  imports GF_Effects GF_Encoding
begin

text \<open>
  \<open>applesignin/\<close>: Sign in with Apple. The key source with its cache (\<open>keysource.go\<close>; the cache
  is the two fields \<open>apple_keys\<close> and \<open>apple_fetched\<close> of the world, its mutex makes a lookup one
  step) and the identity token's verification (\<open>verifier.go\<close>). The JWT library's decoding and
  its signature, issuer, audience and expiry checks are parameters.
\<close>

section \<open>Key source\<close>

text \<open>\<open>e = e<<8 | int(b)\<close> over the exponent's bytes wraps at 64 bits.\<close>

definition exponent :: "nat list \<Rightarrow> int64" where
  "exponent bs = foldl (\<lambda>e b. or (push_bit 8 e) (word_of_nat b)) 0 bs"

definition modulus :: "nat list \<Rightarrow> nat" where
  "modulus bs = foldl (\<lambda>n b. 256 * n + b) 0 bs"

definition rsaPublicKeyFromJWK :: "string \<Rightarrow> string \<Rightarrow> RSAPublicKey option" where
  "rsaPublicKeyFromJWK nStr eStr =
     (case (RawURLDecode nStr, RawURLDecode eStr) of
        (Some nBytes, Some eBytes) \<Rightarrow>
          (let e = exponent (codes eBytes) in
           if e = 0 then None else Some \<lparr>rsa_N = modulus (codes nBytes), rsa_E = e\<rparr>)
      | _ \<Rightarrow> None)"

text \<open>The usable keys of a JWKS document, a list of \<open>(kty, kid, n, e)\<close>.\<close>

fun usable_keys :: "(string \<times> string \<times> string \<times> string) list \<Rightarrow> (string \<times> RSAPublicKey) list" where
  "usable_keys [] = []"
| "usable_keys ((kty, kid, n, e) # rest) =
     (if kty \<noteq> ''RSA'' then usable_keys rest
      else case rsaPublicKeyFromJWK n e of
             None \<Rightarrow> usable_keys rest
           | Some pub \<Rightarrow> (kid, pub) # usable_keys rest)"

definition set_keys :: "(string \<Rightarrow> RSAPublicKey option) \<Rightarrow> time \<Rightarrow> (world, unit) state" where
  "set_keys m t = State (\<lambda>w. ((), w\<lparr>apple_keys := m, apple_fetched := t\<rparr>))"

definition get_keys :: "(world, (string \<Rightarrow> RSAPublicKey option) \<times> time) state" where
  "get_keys = State (\<lambda>w. ((apple_keys w, apple_fetched w), w))"

text \<open>\<open>refresh\<close>: fetch, decode, and replace the cache; a later entry of a key id wins. \<open>False\<close> is
  an error, which leaves the cache as it was.\<close>

definition key_refresh :: "env \<Rightarrow> (world, bool) state" where
  "key_refresh E = do {
     i \<leftarrow> tick;
     case apple_fetch E i of
       Inl err \<Rightarrow> State_Monad.return False
     | Inr doc \<Rightarrow>
         (if usable_keys doc = [] then State_Monad.return False
          else do {
            now \<leftarrow> TimeNow E;
            set_keys (map_of (rev (usable_keys doc))) now;
            State_Monad.return True
          })
   }"

definition key_ttl :: duration where "key_ttl = hour"

definition Key :: "env \<Rightarrow> string \<Rightarrow> (world, RSAPublicKey option) state" where
  "Key E kid = do {
     c \<leftarrow> get_keys;
     now \<leftarrow> (if fst c kid = None then State_Monad.return 0 else TimeNow E);
     (if fst c kid \<noteq> None \<and> now - snd c < key_ttl then State_Monad.return (fst c kid)
      else do {
        ok \<leftarrow> key_refresh E;
        (if \<not> ok then State_Monad.return (fst c kid)
         else do { c' \<leftarrow> get_keys; State_Monad.return (fst c' kid) })
      })
   }"

section \<open>Identity tokens\<close>

record Identity =
  id_Subject :: string
  id_Email :: string
  id_EmailVerified :: bool
  id_IsPrivateEmail :: bool

definition issuer :: string where "issuer = ''https://appleid.apple.com''"

definition claim :: "string \<Rightarrow> (string \<times> json) list \<Rightarrow> json" where
  "claim k claims = (case map_of claims k of None \<Rightarrow> JNull | Some v \<Rightarrow> v)"

definition claimBool :: "json \<Rightarrow> bool" where
  "claimBool v = (case v of JBool b \<Rightarrow> b | JStr s \<Rightarrow> s = ''true'' | _ \<Rightarrow> False)"

definition json_string :: "json \<Rightarrow> string" where
  "json_string v = (case v of JStr s \<Rightarrow> s | _ \<Rightarrow> [])"

text \<open>The verifier of an audience. The result is an error or the identity.\<close>

definition Verify :: "env \<Rightarrow> string \<Rightarrow> string \<Rightarrow> (world, string + Identity) state" where
  "Verify E audience idToken =
     (case apple_decode E idToken of
        None \<Rightarrow> State_Monad.return (Inl ''verify apple identity token'')
      | Some (kid, claims) \<Rightarrow>
          (let k = (case kid of Some v \<Rightarrow> json_string v | None \<Rightarrow> []) in
           if k = [] then State_Monad.return (Inl ''apple token missing kid header'')
           else do {
             key \<leftarrow> Key E k;
             case key of
               None \<Rightarrow> State_Monad.return (Inl ''apple signing key not found'')
             | Some pub \<Rightarrow> do {
                 now \<leftarrow> TimeNow E;
                 State_Monad.return
                   (if \<not> apple_check E now issuer audience pub idToken
                    then Inl ''verify apple identity token''
                    else let sub = json_string (claim ''sub'' claims) in
                         if sub = [] then Inl ''apple token missing sub claim''
                         else Inr \<lparr>id_Subject = sub, id_Email = json_string (claim ''email'' claims),
                                   id_EmailVerified = claimBool (claim ''email_verified'' claims),
                                   id_IsPrivateEmail = claimBool (claim ''is_private_email'' claims)\<rparr>)
               }
           }))"

section \<open>Facts\<close>

lemma wp_get_keys [simp]: "wp get_keys Q w = Q (apple_keys w, apple_fetched w) w"
  by (simp add: wp_def get_keys_def)

lemma wp_set_keys [simp]: "wp (set_keys m t) Q w = Q () (w\<lparr>apple_keys := m, apple_fetched := t\<rparr>)"
  by (simp add: wp_def set_keys_def)

lemma wp_key_refresh:
  "wp (key_refresh E) Q w =
     (case apple_fetch E (ticks w) of
        Inl err \<Rightarrow> Q False (w\<lparr>ticks := Suc (ticks w)\<rparr>)
      | Inr doc \<Rightarrow>
          (if usable_keys doc = [] then Q False (w\<lparr>ticks := Suc (ticks w)\<rparr>)
           else Q True (w\<lparr>ticks := Suc (Suc (ticks w)), apple_keys := map_of (rev (usable_keys doc)),
                  apple_fetched := clock E (Suc (ticks w))\<rparr>)))"
  by (simp add: key_refresh_def split: sum.splits)

text \<open>The keys a lookup that starts in \<open>w\<close> may answer with, and the step it ends at: a cached key that is
  not older than the time to live; otherwise the key of that id in the document Apple serves then; and a
  cached key past its time to live only if Apple serves no usable document.\<close>

definition trusted_key :: "env \<Rightarrow> world \<Rightarrow> string \<Rightarrow> RSAPublicKey \<Rightarrow> nat \<Rightarrow> bool" where
  "trusted_key E w kid pub n \<longleftrightarrow>
     (let fresh = (apple_keys w kid \<noteq> None \<and> clock E (ticks w) - apple_fetched w < hour);
          i = (if apple_keys w kid = None then ticks w else ticks w + 1) in
      if fresh then apple_keys w kid = Some pub \<and> n = ticks w + 1
      else (\<exists>doc. apple_fetch E i = Inr doc \<and> map_of (rev (usable_keys doc)) kid = Some pub \<and> n = i + 2)
         \<or> (\<forall>doc. apple_fetch E i = Inr doc \<longrightarrow> usable_keys doc = []) \<and> apple_keys w kid = Some pub \<and> n = i + 1)"

text \<open>What a successful verification that starts in \<open>w\<close> has checked: Apple's issuer, the audience, the
  signature under a trusted key of the token's key id and the validity at that moment, and a subject.\<close>

definition identity_checked :: "env \<Rightarrow> string \<Rightarrow> string \<Rightarrow> Identity \<Rightarrow> world \<Rightarrow> bool" where
  "identity_checked E audience idToken ident w \<longleftrightarrow>
     (\<exists>kid claims pub n.
        apple_decode E idToken = Some (Some (JStr kid), claims) \<and> kid \<noteq> []
      \<and> trusted_key E w kid pub n
      \<and> apple_check E (clock E n) ''https://appleid.apple.com'' audience pub idToken
      \<and> claim ''sub'' claims = JStr (id_Subject ident) \<and> id_Subject ident \<noteq> []
      \<and> id_Email ident = json_string (claim ''email'' claims))"

lemma json_string_JStr [simp]: "json_string (JStr s) = s"
  by (simp add: json_string_def)

lemma json_string_nonempty: "json_string v \<noteq> [] \<Longrightarrow> v = JStr (json_string v)"
  by (cases v) (simp_all add: json_string_def)

lemma wp_Key:
  assumes "\<And>r w'. db w' = db w \<Longrightarrow> outbox w' = outbox w \<Longrightarrow>
    (\<forall>pub. r = Some pub \<longrightarrow> trusted_key E w kid pub (ticks w')) \<Longrightarrow> Q r w'"
  shows "wp (Key E kid) Q w"
  by (auto simp: Key_def wp_key_refresh key_ttl_def trusted_key_def Let_def split: sum.splits if_splits intro!: assms)

lemma wp_Verify:
  assumes "\<And>err w'. db w' = db w \<Longrightarrow> outbox w' = outbox w \<Longrightarrow> Q (Inl err) w'"
    and "\<And>ident w'. db w' = db w \<Longrightarrow> outbox w' = outbox w \<Longrightarrow>
      identity_checked E audience tok ident w \<Longrightarrow> Q (Inr ident) w'"
  shows "wp (Verify E audience tok) Q w"
proof (cases "apple_decode E tok")
  case None
  then show ?thesis by (simp add: Verify_def assms(1))
next
  case (Some kc)
  obtain kid claims where kc: "kc = (kid, claims)" by (cases kc)
  let ?k = "case kid of Some v \<Rightarrow> json_string v | None \<Rightarrow> []"
  show ?thesis
  proof (cases "?k = []")
    case True
    with Some kc show ?thesis by (simp add: Verify_def assms(1))
  next
    case False
    then obtain v where "kid = Some v" "json_string v \<noteq> []" by (cases kid) auto
    then obtain s where s: "kid = Some (JStr s)" "s \<noteq> []"
      using json_string_nonempty by (metis json_string_JStr)
    have "wp (Key E s) (\<lambda>key. wp (case key of None \<Rightarrow> State_Monad.return (Inl ''apple signing key not found'')
        | Some pub \<Rightarrow> do {
            now \<leftarrow> TimeNow E;
            State_Monad.return
              (if \<not> apple_check E now issuer audience pub tok then Inl ''verify apple identity token''
               else let sub = json_string (claim ''sub'' claims) in
                 if sub = [] then Inl ''apple token missing sub claim''
                 else Inr \<lparr>id_Subject = sub, id_Email = json_string (claim ''email'' claims),
                           id_EmailVerified = claimBool (claim ''email_verified'' claims),
                           id_IsPrivateEmail = claimBool (claim ''is_private_email'' claims)\<rparr>)
          }) Q) w"
      by (rule wp_Key)
        (auto simp: Let_def identity_checked_def issuer_def Some kc s json_string_nonempty
           split: option.splits intro!: assms, blast)
    then show ?thesis by (simp add: Verify_def Some kc s Let_def)
  qed
qed

context db_frame begin

lemma verify_identity: "state_io_rel (db_rel D) (Verify E audience tok)"
  by (rule from_wp, rule wp_Verify) (simp_all add: D_refl)

end

end
