(* ===== verification/GF_Tables.thy ===== *)
theory GF_Tables
  imports GF_Effects
begin

text \<open>
  The contract of a table with a primary key, as the handlers rely on it: what a lookup by key
  returns after an insert, a delete or another row's change. Each table's statements are shown to
  meet it in the theory that holds them.
\<close>

locale keyed_table =
  fixes rows :: "database \<Rightarrow> 'r list" and key :: "'r \<Rightarrow> uuid" and get :: "uuid \<Rightarrow> 'r query"
  assumes get_spec: "get k E i d = (query_row (find (\<lambda>r. key r = k) (rows d)), d)"
begin

lemma get_read_only: "read_only (get k)"
  by (simp add: read_only_def get_spec)

lemma get_Inr: "fst (get k E i d) = Inr r \<Longrightarrow> r \<in> set (rows d) \<and> key r = k"
  by (auto simp: get_spec find_Some_iff)

lemma get_iff: "unique_on key (rows d) \<Longrightarrow> fst (get k E i d) = Inr r \<longleftrightarrow> r \<in> set (rows d) \<and> key r = k"
  by (simp add: get_spec find_key_iff)

lemma get_none: "fst (get k E i d) = Inl e \<longleftrightarrow> e = NoRows \<and> (\<forall>r \<in> set (rows d). key r \<noteq> k)"
  by (auto simp: get_spec find_None_iff)

lemma get_same_rows: "rows d' = rows d \<Longrightarrow> fst (get k E i d') = fst (get k E' j d)"
  by (simp add: get_spec)

end

locale growing_table = keyed_table rows key get
  for rows :: "database \<Rightarrow> 'r list" and key :: "'r \<Rightarrow> uuid" and get :: "uuid \<Rightarrow> 'r query" +
  fixes create :: "'p \<Rightarrow> 'r query"
  assumes create_Inr: "create a E i d = (Inr r, d') \<Longrightarrow>
      rows d' = rows d @ [r] \<and> (\<forall>x \<in> set (rows d). key x \<noteq> key r)"
    and create_Inl: "create a E i d = (Inl e, d') \<Longrightarrow> d' = d"
begin

lemma get_created: "create a E i d = (Inr r, d') \<Longrightarrow> fst (get (key r) E' j d') = Inr r"
  by (auto dest!: create_Inr simp: get_spec find_append find_None_iff split: option.splits)
    (auto simp: find_Some_iff)

lemma get_survives_create:
  assumes "create a E i d = (x, d')" and "fst (get k E' j d) = Inr r"
  shows "fst (get k E' j d') = Inr r"
proof (cases x)
  case (Inl e)
  with assms show ?thesis using create_Inl by blast
next
  case (Inr y)
  with assms create_Inr[of a E i d y d'] show ?thesis by (auto simp: get_spec find_append)
qed

lemma create_unique: "create a E i d = (x, d') \<Longrightarrow> unique_on key (rows d) \<Longrightarrow> unique_on key (rows d')"
  by (cases x) (fastforce dest: create_Inr create_Inl simp: unique_on_append)+

end

locale revocable_table = keyed_table rows key get
  for rows :: "database \<Rightarrow> 'r list" and key :: "'r \<Rightarrow> uuid" and get :: "uuid \<Rightarrow> 'r query" +
  fixes owner :: "'r \<Rightarrow> uuid" and del :: "uuid \<Rightarrow> nat query" and del_owner :: "uuid \<Rightarrow> nat query"
  assumes del_rows: "rows (snd (del k E i d)) = delete_where (\<lambda>r. key r = k) (rows d)"
    and del_owner_rows: "rows (snd (del_owner o' E i d)) = delete_where (\<lambda>r. owner r = o') (rows d)"
begin

lemma get_deleted: "fst (get k E' j (snd (del k E i d))) = Inl NoRows"
  by (simp add: get_none del_rows set_delete_where)

lemma get_owner_deleted:
  "fst (get k E' j (snd (del_owner o' E i d))) = Inr r \<Longrightarrow> owner r \<noteq> o'"
  by (auto dest!: get_Inr simp: del_owner_rows set_delete_where)

end

end
