(* ===== verification/GF_Queries_Users.thy ===== *)
theory GF_Queries_Users
  imports GF_Tables
begin

text \<open>
  The statements over the app user's tables: \<open>users.sql\<close>, \<open>sessions.sql\<close>,
  \<open>subscription_receipts.sql\<close> and \<open>wards.sql\<close>, with the primary keys, unique indexes, foreign
  keys and column defaults of \<open>db/migration\<close>. A statement either succeeds or leaves the tables
  as they were.
\<close>

section \<open>\<open>users\<close>\<close>

record CreateUserParams =
  cu_Email :: string
  cu_PasswordHash :: "string option"
  cu_AppleUserID :: "string option"

text \<open>A row that breaks a unique index: the primary key, \<open>users_email_lower_key\<close>, or the partial
  index \<open>users_apple_user_id_key\<close>.\<close>

definition user_conflict :: "env \<Rightarrow> User \<Rightarrow> User \<Rightarrow> bool" where
  "user_conflict E r x \<longleftrightarrow>
     u_ID x = u_ID r \<or> pg_lower E (u_Email x) = pg_lower E (u_Email r)
   \<or> (u_AppleUserID r \<noteq> None \<and> u_AppleUserID x = u_AppleUserID r)"

definition new_user :: "env \<Rightarrow> nat \<Rightarrow> CreateUserParams \<Rightarrow> User" where
  "new_user E i arg =
     \<lparr>u_ID = gen_random_uuid E i, u_Email = cu_Email arg, u_PasswordHash = cu_PasswordHash arg,
      u_AppleUserID = cu_AppleUserID arg, u_SubscriptionStatus = SubscriptionStatusFree,
      u_SubExpiresAt = None, u_CreatedAt = pg_clock E i, u_UpdatedAt = pg_clock E i\<rparr>"

definition CreateUser :: "CreateUserParams \<Rightarrow> User query" where
  "CreateUser arg E i d =
     (let r = new_user E i arg in
      if list_ex (user_conflict E r) (users d) then (Inl (PgError unique_violation), d)
      else (Inr r, d\<lparr>users := users d @ [r]\<rparr>))"

definition GetUserByAppleID :: "string option \<Rightarrow> User query" where
  "GetUserByAppleID aid E i d =
     (query_row (find (\<lambda>r. aid \<noteq> None \<and> u_AppleUserID r = aid) (users d)), d)"

definition GetUserByEmail :: "string \<Rightarrow> User query" where
  "GetUserByEmail e E i d =
     (query_row (find (\<lambda>r. pg_lower E (u_Email r) = pg_lower E e) (users d)), d)"

definition GetUserByID :: "uuid \<Rightarrow> User query" where
  "GetUserByID uid E i d = (query_row (find (\<lambda>r. u_ID r = uid) (users d)), d)"

record UpdateSubscriptionParams =
  us_ID :: uuid
  us_SubscriptionStatus :: SubscriptionStatus
  us_SubExpiresAt :: "time option"

definition set_subscription :: "env \<Rightarrow> nat \<Rightarrow> UpdateSubscriptionParams \<Rightarrow> User \<Rightarrow> User" where
  "set_subscription E i arg r =
     r\<lparr>u_SubscriptionStatus := us_SubscriptionStatus arg, u_SubExpiresAt := us_SubExpiresAt arg,
       u_UpdatedAt := pg_clock E i\<rparr>"

definition UpdateSubscription :: "UpdateSubscriptionParams \<Rightarrow> User query" where
  "UpdateSubscription arg E i d =
     (query_row (map_option (set_subscription E i arg) (find (\<lambda>r. u_ID r = us_ID arg) (users d))),
      d\<lparr>users := update_where (\<lambda>r. u_ID r = us_ID arg) (set_subscription E i arg) (users d)\<rparr>)"

section \<open>\<open>sessions\<close>\<close>

record CreateSessionParams =
  cs_ID :: uuid
  cs_UserID :: uuid
  cs_RefreshToken :: string
  cs_UserAgent :: string
  cs_ClientIp :: string
  cs_IsBlocked :: bool
  cs_ExpiresAt :: time

definition new_session :: "env \<Rightarrow> nat \<Rightarrow> CreateSessionParams \<Rightarrow> Session" where
  "new_session E i arg =
     \<lparr>se_ID = cs_ID arg, se_UserID = cs_UserID arg, se_RefreshToken = cs_RefreshToken arg,
      se_UserAgent = cs_UserAgent arg, se_ClientIp = cs_ClientIp arg,
      se_IsBlocked = cs_IsBlocked arg, se_ExpiresAt = cs_ExpiresAt arg, se_CreatedAt = pg_clock E i\<rparr>"

definition CreateSession :: "CreateSessionParams \<Rightarrow> Session query" where
  "CreateSession arg E i d =
     (if list_ex (\<lambda>s. se_ID s = cs_ID arg) (sessions d) then (Inl (PgError unique_violation), d)
      else if \<not> list_ex (\<lambda>u. u_ID u = cs_UserID arg) (users d)
      then (Inl (PgError foreign_key_violation), d)
      else let r = new_session E i arg in (Inr r, d\<lparr>sessions := sessions d @ [r]\<rparr>))"

definition GetSession :: "uuid \<Rightarrow> Session query" where
  "GetSession sid E i d = (query_row (find (\<lambda>r. se_ID r = sid) (sessions d)), d)"

section \<open>\<open>subscription_receipts\<close>\<close>

record UpsertSubscriptionReceiptParams =
  ur_UserID :: uuid
  ur_OriginalTxID :: string
  ur_ProductID :: string
  ur_Environment :: SubscriptionEnvironment
  ur_Status :: ReceiptStatus
  ur_ExpiresAt :: "time option"

definition new_receipt :: "env \<Rightarrow> nat \<Rightarrow> UpsertSubscriptionReceiptParams \<Rightarrow> SubscriptionReceipt" where
  "new_receipt E i arg =
     \<lparr>sr_ID = gen_random_uuid E i, sr_UserID = ur_UserID arg, sr_OriginalTxID = ur_OriginalTxID arg,
      sr_ProductID = ur_ProductID arg, sr_Environment = ur_Environment arg,
      sr_Status = ur_Status arg, sr_ExpiresAt = ur_ExpiresAt arg,
      sr_CreatedAt = pg_clock E i, sr_UpdatedAt = pg_clock E i\<rparr>"

text \<open>\<open>ON CONFLICT (original_tx_id) DO UPDATE\<close>: everything but the owner and the id.\<close>

definition set_receipt ::
  "env \<Rightarrow> nat \<Rightarrow> UpsertSubscriptionReceiptParams \<Rightarrow> SubscriptionReceipt \<Rightarrow> SubscriptionReceipt" where
  "set_receipt E i arg r =
     r\<lparr>sr_ProductID := ur_ProductID arg, sr_Environment := ur_Environment arg,
       sr_Status := ur_Status arg, sr_ExpiresAt := ur_ExpiresAt arg, sr_UpdatedAt := pg_clock E i\<rparr>"

definition UpsertSubscriptionReceipt :: "UpsertSubscriptionReceiptParams \<Rightarrow> SubscriptionReceipt query" where
  "UpsertSubscriptionReceipt arg E i d =
     (case find (\<lambda>r. sr_OriginalTxID r = ur_OriginalTxID arg) (subscription_receipts d) of
        Some r \<Rightarrow>
          (Inr (set_receipt E i arg r),
           d\<lparr>subscription_receipts :=
               update_where (\<lambda>r. sr_OriginalTxID r = ur_OriginalTxID arg) (set_receipt E i arg)
                 (subscription_receipts d)\<rparr>)
      | None \<Rightarrow>
          (let r = new_receipt E i arg in
           if list_ex (\<lambda>x. sr_ID x = sr_ID r) (subscription_receipts d)
           then (Inl (PgError unique_violation), d)
           else if \<not> list_ex (\<lambda>u. u_ID u = ur_UserID arg) (users d)
           then (Inl (PgError foreign_key_violation), d)
           else (Inr r, d\<lparr>subscription_receipts := subscription_receipts d @ [r]\<rparr>)))"

definition GetReceiptByOriginalTxID :: "string \<Rightarrow> SubscriptionReceipt query" where
  "GetReceiptByOriginalTxID tid E i d =
     (query_row (find (\<lambda>r. sr_OriginalTxID r = tid) (subscription_receipts d)), d)"

section \<open>\<open>wards\<close>\<close>

definition GetWard :: "int32 \<Rightarrow> Ward query" where
  "GetWard wid E i d = (query_row (find (\<lambda>r. w_ID r = wid) (wards d)), d)"

definition ListWards :: "Ward list query" where
  "ListWards E i d = (Inr (sort_key (\<lambda>r. sint (w_ID r)) (wards d)), d)"

section \<open>Facts about the statements\<close>

named_theorems user_queries

lemmas user_query_defs [user_queries] =
  CreateUser_def GetUserByAppleID_def GetUserByEmail_def GetUserByID_def UpdateSubscription_def
  CreateSession_def GetSession_def UpsertSubscriptionReceipt_def GetReceiptByOriginalTxID_def
  GetWard_def ListWards_def

lemma new_user_sel [simp]:
  "u_ID (new_user E i arg) = gen_random_uuid E i" "u_Email (new_user E i arg) = cu_Email arg"
  "u_PasswordHash (new_user E i arg) = cu_PasswordHash arg"
  "u_AppleUserID (new_user E i arg) = cu_AppleUserID arg"
  "u_SubscriptionStatus (new_user E i arg) = SubscriptionStatusFree"
  "u_SubExpiresAt (new_user E i arg) = None"
  by (simp_all add: new_user_def)

lemma new_session_sel [simp]:
  "se_ID (new_session E i arg) = cs_ID arg" "se_UserID (new_session E i arg) = cs_UserID arg"
  "se_RefreshToken (new_session E i arg) = cs_RefreshToken arg"
  "se_IsBlocked (new_session E i arg) = cs_IsBlocked arg"
  "se_ExpiresAt (new_session E i arg) = cs_ExpiresAt arg"
  by (simp_all add: new_session_def)

lemma set_subscription_sel [simp]:
  "u_ID (set_subscription E i arg r) = u_ID r" "u_Email (set_subscription E i arg r) = u_Email r"
  "u_AppleUserID (set_subscription E i arg r) = u_AppleUserID r"
  "u_PasswordHash (set_subscription E i arg r) = u_PasswordHash r"
  "u_SubscriptionStatus (set_subscription E i arg r) = us_SubscriptionStatus arg"
  "u_SubExpiresAt (set_subscription E i arg r) = us_SubExpiresAt arg"
  by (simp_all add: set_subscription_def)

lemma new_receipt_sel [simp]:
  "sr_ID (new_receipt E i arg) = gen_random_uuid E i"
  "sr_UserID (new_receipt E i arg) = ur_UserID arg"
  "sr_OriginalTxID (new_receipt E i arg) = ur_OriginalTxID arg"
  "sr_Environment (new_receipt E i arg) = ur_Environment arg"
  "sr_Status (new_receipt E i arg) = ur_Status arg"
  "sr_ExpiresAt (new_receipt E i arg) = ur_ExpiresAt arg"
  by (simp_all add: new_receipt_def)

lemma set_receipt_sel [simp]:
  "sr_ID (set_receipt E i arg r) = sr_ID r" "sr_UserID (set_receipt E i arg r) = sr_UserID r"
  "sr_OriginalTxID (set_receipt E i arg r) = sr_OriginalTxID r"
  "sr_Environment (set_receipt E i arg r) = ur_Environment arg"
  "sr_Status (set_receipt E i arg r) = ur_Status arg"
  "sr_ExpiresAt (set_receipt E i arg r) = ur_ExpiresAt arg"
  by (simp_all add: set_receipt_def)

lemma read_only_user_queries [simp]:
  "read_only (GetUserByAppleID aid)" "read_only (GetUserByEmail e)" "read_only (GetUserByID uid)"
  "read_only (GetSession sid)" "read_only (GetReceiptByOriginalTxID tid)" "read_only (GetWard wid)"
  "read_only ListWards"
  by (simp_all add: read_only_def user_query_defs)

section \<open>The tables meet their contracts\<close>

interpretation users_table: growing_table users u_ID GetUserByID CreateUser
  by unfold_locales
    (auto simp: GetUserByID_def CreateUser_def Let_def list_ex_iff user_conflict_def split: if_splits)

interpretation sessions_table: growing_table sessions se_ID GetSession CreateSession
  by unfold_locales (auto simp: GetSession_def CreateSession_def Let_def list_ex_iff split: if_splits)

end
