(* ===== verification/GF_Server.thy ===== *)
theory GF_Server
  imports GF_Token GF_AppStore GF_AppleSignin GF_Queries_Users
begin

text \<open>
  \<open>api/server.go\<close> and \<open>api/middleware.go\<close>: the server's dependencies and how \<open>NewServer\<close> wires
  them, request binding, the bearer-token and role middlewares and CORS; and \<open>mailer/\<close>. A
  middleware takes the rest of the chain (what \<open>ctx.Next()\<close> runs) as an argument; the payload
  \<open>authMiddleware\<close> stores in the context is the argument of the rest.
\<close>

section \<open>Mail senders (\<open>mailer/\<close>)\<close>

datatype Sender = NoopSender | ResendSender (sender_apiKey: string) (sender_from: string) (sender_name: string)

definition Enabled :: "Sender \<Rightarrow> bool" where
  "Enabled s = (case s of NoopSender \<Rightarrow> False | ResendSender _ _ _ \<Rightarrow> True)"

text \<open>\<open>Send\<close>: the noop sender logs and reports success; the other one hands the message to the
  provider, which accepts it (a 2xx answer) or not. \<open>False\<close> is an error.\<close>

definition Send :: "env \<Rightarrow> Sender \<Rightarrow> Message \<Rightarrow> (world, bool) state" where
  "Send E s msg =
     (case s of
        NoopSender \<Rightarrow> State_Monad.return True
      | ResendSender _ _ _ \<Rightarrow> do {
          i \<leftarrow> tick;
          State (\<lambda>w. (mail_send E i msg, w\<lparr>outbox := outbox w @ [msg]\<rparr>))
        })"

lemma wp_Send [simp]:
  "wp (Send E s msg) Q w =
     (if Enabled s
      then Q (mail_send E (ticks w) msg) (w\<lparr>ticks := Suc (ticks w), outbox := outbox w @ [msg]\<rparr>)
      else Q True w)"
  by (cases s) (simp_all add: Send_def Enabled_def, simp add: wp_def)

section \<open>Clients of other services\<close>

text \<open>The geocoder's settings (\<open>geocode/geocode.go\<close>; the time of its last call is part of the world)
  and the discovery service (\<open>discovery/service.go\<close>).\<close>

record GSI =
  gs_baseURL :: string
  gs_minInterval :: duration

definition gsiBaseURL :: string where
  "gsiBaseURL = ''https://msearch.gsi.go.jp/address-search/AddressSearch''"

definition gsiMinInterval :: duration where
  "gsiMinInterval = 250000"

definition NewGSI :: GSI where
  "NewGSI = \<lparr>gs_baseURL = gsiBaseURL, gs_minInterval = gsiMinInterval\<rparr>"

record Service =
  sv_Key :: string

section \<open>The server (\<open>server.go\<close>)\<close>

record Server =
  sv_config :: Config
  sv_tokenMaker :: JWTMaker
  sv_appstore :: "Verifier option"
  sv_apple :: "string option"
  sv_geocoder :: GSI
  sv_uploader :: "string option"
  sv_mailer :: Sender
  sv_discovery :: Service

text \<open>
  \<open>NewServer\<close>: \<open>load_cas\<close> is \<open>NewVerifierFromFile\<close> on the configured path and bundle, \<open>gcs_ok\<close>
  whether the bucket's client can be created. The Apple verifier is its audience.
\<close>

definition NewServer ::
  "(string \<Rightarrow> string \<Rightarrow> Verifier option) \<Rightarrow> (string \<Rightarrow> bool) \<Rightarrow> Config \<Rightarrow> string + Server" where
  "NewServer load_cas gcs_ok config =
     (case NewJWTMaker (TokenSymmetricKey config) of
        None \<Rightarrow> Inl ''cannot create token maker''
      | Some maker \<Rightarrow>
          (let appstore = (if AppleRootCAPath config \<noteq> []
                           then Some (load_cas (AppleRootCAPath config) (AppleBundleID config)) else None)
           in if appstore = Some None then Inl ''cannot load apple root ca''
              else if ImageBucket config \<noteq> [] \<and> \<not> gcs_ok (ImageBucket config)
              then Inl ''cannot create image uploader''
              else Inr \<lparr>sv_config = config, sv_tokenMaker = maker,
                        sv_appstore = (case appstore of None \<Rightarrow> None | Some v \<Rightarrow> v),
                        sv_apple = (if AppleBundleID config \<noteq> [] then Some (AppleBundleID config) else None),
                        sv_geocoder = NewGSI,
                        sv_uploader = (if ImageBucket config \<noteq> [] then Some (ImageBucket config) else None),
                        sv_mailer =
                          (if ResendAPIKey config \<noteq> [] \<and> MailFrom config \<noteq> []
                           then ResendSender (ResendAPIKey config) (MailFrom config) (MailFromName config)
                           else NoopSender),
                        sv_discovery = \<lparr>sv_Key = BraveSearchAPIKey config\<rparr>\<rparr>))"

text \<open>The parts of a request every handler may read.\<close>

record ctx =
  cx_UserAgent :: string
  cx_ClientIP :: string

text \<open>\<open>ShouldBindJSON\<close>: \<open>None\<close> is a body that does not decode, \<open>valid\<close> the struct's binding tags.\<close>

definition ShouldBindJSON :: "('req \<Rightarrow> bool) \<Rightarrow> 'req option \<Rightarrow> 'req option" where
  "ShouldBindJSON valid body = (case body of None \<Rightarrow> None | Some req \<Rightarrow> if valid req then Some req else None)"

lemma ShouldBindJSON_Some [simp]: "ShouldBindJSON valid body = Some req \<longleftrightarrow> body = Some req \<and> valid req"
  by (cases body) (auto simp: ShouldBindJSON_def)

lemma ShouldBindJSON_valid [simp]: "valid req \<Longrightarrow> ShouldBindJSON valid (Some req) = Some req"
  by (simp add: ShouldBindJSON_def)

definition is_unique_violation :: "db_error \<Rightarrow> bool" where
  "is_unique_violation err \<longleftrightarrow> err = PgError unique_violation"

text \<open>\<open>isWardFKViolation\<close> (\<open>internal.go\<close>), also used where the key is a store's.\<close>

definition isWardFKViolation :: "db_error \<Rightarrow> bool" where
  "isWardFKViolation err \<longleftrightarrow> err = PgError foreign_key_violation"

lemma violations [simp]:
  "is_unique_violation (PgError unique_violation)" "\<not> is_unique_violation ConnError"
  "\<not> is_unique_violation NoRows" "\<not> is_unique_violation (PgError foreign_key_violation)"
  "isWardFKViolation (PgError foreign_key_violation)" "\<not> isWardFKViolation ConnError"
  "\<not> isWardFKViolation NoRows" "\<not> isWardFKViolation (PgError unique_violation)"
  "\<not> isWardFKViolation (PgError invalid_text)" "\<not> is_unique_violation (PgError invalid_text)"
  by (simp_all add: is_unique_violation_def isWardFKViolation_def)

section \<open>Middlewares (\<open>middleware.go\<close>)\<close>

text \<open>The bearer token of an authorization header: the checks in the code's order.\<close>

definition bearer_token :: "string \<Rightarrow> api_error + string" where
  "bearer_token authHeader =
     (if length authHeader = 0 then Inl (ErrMsg ''authorization header is not provided'')
      else case Fields authHeader of
        scheme # tok # _ \<Rightarrow>
          (if ToLower scheme \<noteq> ''bearer'' then Inl (ErrMsg ''unsupported authorization type'') else Inr tok)
      | _ \<Rightarrow> Inl (ErrMsg ''invalid authorization header format''))"

definition authMiddleware ::
  "env \<Rightarrow> JWTMaker \<Rightarrow> string \<Rightarrow> (Payload \<Rightarrow> (world, 'b reply) state) \<Rightarrow> (world, 'b reply) state" where
  "authMiddleware E maker authHeader next =
     (case bearer_token authHeader of
        Inl err \<Rightarrow> State_Monad.return (Fail StatusUnauthorized err)
      | Inr tok \<Rightarrow> do {
          r \<leftarrow> VerifyToken E maker tok;
          case r of
            Inl err \<Rightarrow> State_Monad.return (Fail StatusUnauthorized (ErrToken err))
          | Inr payload \<Rightarrow> next payload
        })"

definition requireRole ::
  "string \<Rightarrow> (Payload \<Rightarrow> (world, 'b reply) state) \<Rightarrow> Payload \<Rightarrow> (world, 'b reply) state" where
  "requireRole role next payload =
     (if pl_Role payload \<noteq> role
      then State_Monad.return (Fail StatusForbidden (ErrMsg ''forbidden: insufficient role''))
      else next payload)"

text \<open>CORS: the response headers it sets, and whether it answers the request itself (204).\<close>

definition corsMiddleware :: "string list \<Rightarrow> string \<Rightarrow> string \<Rightarrow> (string \<times> string) list \<times> bool" where
  "corsMiddleware allowedOrigins origin meth =
     (let allowAny = list_ex (\<lambda>a. a = ''*'') allowedOrigins;
          allowed = (\<lambda>a. a \<in> set allowedOrigins)
      in ((if origin \<noteq> [] \<and> (allowAny \<or> allowed origin)
           then (if allowAny then [(''Access-Control-Allow-Origin'', ''*'')]
                 else [(''Access-Control-Allow-Origin'', origin), (''Vary'', ''Origin'')])
              @ [(''Access-Control-Allow-Methods'', ''GET, POST, PUT, DELETE, OPTIONS''),
                 (''Access-Control-Allow-Headers'', ''Authorization, Content-Type''),
                 (''Access-Control-Max-Age'', ''3600'')]
           else []), meth = ''OPTIONS''))"

section \<open>Users of a request\<close>

definition currentUser :: "env \<Rightarrow> Payload \<Rightarrow> (world, db_error + User) state" where
  "currentUser E payload = db_call E (GetUserByID (pl_UserID payload))"

definition isPaidUser :: "User \<Rightarrow> bool" where
  "isPaidUser u \<longleftrightarrow> u_SubscriptionStatus u = SubscriptionStatusActive"

definition respondUserLookupError :: "db_error \<Rightarrow> 'b reply" where
  "respondUserLookupError err =
     (if err = NoRows then Fail StatusNotFound (ErrMsg ''user not found'')
      else Fail StatusInternalServerError (ErrDB err))"

section \<open>Facts\<close>

lemma ToLower_Bearer: "ToLower ''Bearer'' = ''bearer''"
  by code_simp

lemma bearer_token_Inr:
  "bearer_token h = Inr tok \<longleftrightarrow> (\<exists>scheme rest. Fields h = scheme # tok # rest \<and> ToLower scheme = ''bearer'')"
proof (cases "h = []")
  case True
  then show ?thesis by (simp add: bearer_token_def Fields_def)
next
  case False
  then show ?thesis by (auto simp: bearer_token_def split: list.splits if_splits)
qed

lemma wp_authMiddleware:
  "wp (authMiddleware E maker h next) Q w =
     (case bearer_token h of
        Inl err \<Rightarrow> Q (Fail StatusUnauthorized err) w
      | Inr tok \<Rightarrow>
          (case verify_at E maker (clock E (ticks w)) tok of
             Inl err \<Rightarrow> Q (Fail StatusUnauthorized (ErrToken err)) (w\<lparr>ticks := Suc (ticks w)\<rparr>)
           | Inr payload \<Rightarrow> wp (next payload) Q (w\<lparr>ticks := Suc (ticks w)\<rparr>)))"
  by (simp add: authMiddleware_def split: sum.splits)

context db_frame begin

lemma send: "state_io_rel (db_rel D) (Send E s msg)"
  by (rule from_wp) (simp add: D_refl)

lemma auth:
  "(\<And>p. state_io_rel (db_rel D) (next p)) \<Longrightarrow> state_io_rel (db_rel D) (authMiddleware E maker h next)"
  unfolding authMiddleware_def by (intro program token_effects)

lemma role:
  "(\<And>p. state_io_rel (db_rel D) (next p)) \<Longrightarrow> state_io_rel (db_rel D) (requireRole role next p)"
  unfolding requireRole_def by (intro program)

lemmas server_effects =
  token_effects send auth role verify_transaction verify_notification verify_identity

end

end
