(* ===== verification/GF_Queries_Stores.thy ===== *)
theory GF_Queries_Stores
  imports GF_Tables "HOL-Library.Product_Lexorder"
begin

text \<open>
  The statements over restaurants: \<open>stores.sql\<close>, \<open>admin_stores.sql\<close>, \<open>internal_stores.sql\<close>,
  \<open>menu_items.sql\<close>, \<open>admin_menu.sql\<close> and \<open>store_admins.sql\<close>. The order of rows that \<open>ORDER BY\<close>
  leaves open is insertion order here. A text column takes any string; Postgres also refuses NUL bytes and
  invalid UTF-8, with an error that the handlers treat like any other failure of the statement.
\<close>

section \<open>Reading stores\<close>

text \<open>A row of \<open>stores s JOIN wards w ON w.id = s.ward_id\<close> with the ward's names.\<close>

record StoreWardRow =
  sw_Store :: Store
  sw_WardNameJa :: string
  sw_WardNameEn :: string

definition join_wards :: "database \<Rightarrow> StoreWardRow list" where
  "join_wards d =
     [\<lparr>sw_Store = s, sw_WardNameJa = w_NameJa w, sw_WardNameEn = w_NameEn w\<rparr>.
        s \<leftarrow> stores d, w \<leftarrow> wards d, w_ID w = st_WardID s]"

definition GetStoreByID :: "uuid \<Rightarrow> Store query" where
  "GetStoreByID sid E i d = (query_row (find (\<lambda>s. st_ID s = sid) (stores d)), d)"

definition GetApprovedStore :: "uuid \<Rightarrow> StoreWardRow query" where
  "GetApprovedStore sid E i d =
     (query_row (find (\<lambda>r. st_ID (sw_Store r) = sid \<and> st_Status (sw_Store r) = StoreStatusApproved)
        (join_wards d)), d)"

record ListApprovedStoresParams =
  la_WardID :: "int32 option"
  la_Cursor :: uuid
  la_PageLimit :: int32

definition approved_after :: "int32 option \<Rightarrow> uuid \<Rightarrow> StoreWardRow \<Rightarrow> bool" where
  "approved_after ward cursor r \<longleftrightarrow>
     st_Status (sw_Store r) = StoreStatusApproved
   \<and> (ward = None \<or> ward = Some (st_WardID (sw_Store r)))
   \<and> st_ID (sw_Store r) > cursor"

definition limit_rows :: "int32 \<Rightarrow> 'a list \<Rightarrow> db_error + 'a list" where
  "limit_rows n rows =
     (if sint n < 0 then Inl (PgError invalid_limit) else Inr (take (nat (sint n)) rows))"

definition ListApprovedStores :: "ListApprovedStoresParams \<Rightarrow> StoreWardRow list query" where
  "ListApprovedStores arg E i d =
     (limit_rows (la_PageLimit arg)
        (sort_key (\<lambda>r. st_ID (sw_Store r))
           (filter (approved_after (la_WardID arg) (la_Cursor arg)) (join_wards d))), d)"

definition ListStoresByStatus :: "StoreStatus \<Rightarrow> StoreWardRow list query" where
  "ListStoresByStatus status E i d =
     (Inr (sort_key (\<lambda>r. - st_CreatedAt (sw_Store r))
        (filter (\<lambda>r. st_Status (sw_Store r) = status) (join_wards d))), d)"

text \<open>\<open>COUNT(*)\<close> of the stores of a ward with this name, ignoring case.\<close>

definition CountStoresByNameWard :: "string \<Rightarrow> int32 \<Rightarrow> nat query" where
  "CountStoresByNameWard name ward E i d =
     (Inr (rows_matching (\<lambda>s. pg_lower E (st_Name s) = pg_lower E name \<and> st_WardID s = ward) (stores d)), d)"

definition missing_coords :: "Store \<Rightarrow> bool" where
  "missing_coords s \<longleftrightarrow> st_Latitude s = 0 \<and> st_Longitude s = 0 \<and> st_Address s \<noteq> []"

definition ListStoresMissingCoords :: "int32 \<Rightarrow> Store list query" where
  "ListStoresMissingCoords n E i d =
     (limit_rows n (sort_key st_CreatedAt (filter missing_coords (stores d))), d)"

section \<open>Writing stores\<close>

record CreateStoreParams =
  cr_WardID :: int32
  cr_Name :: string
  cr_Address :: string
  cr_Latitude :: float64
  cr_Longitude :: float64
  cr_IsGfOriented :: bool
  cr_OpeningHours :: json

text \<open>A new row; the columns an insert does not name get their defaults.\<close>

definition new_store :: "env \<Rightarrow> nat \<Rightarrow> CreateStoreParams \<Rightarrow> Store" where
  "new_store E i arg =
     \<lparr>st_ID = gen_random_uuid E i, st_WardID = cr_WardID arg, st_Name = cr_Name arg,
      st_Address = cr_Address arg, st_Latitude = cr_Latitude arg, st_Longitude = cr_Longitude arg,
      st_IsGfOriented = cr_IsGfOriented arg, st_OpeningHours = cr_OpeningHours arg,
      st_Status = StoreStatusDraft, st_RejectionReason = None, st_ApprovedAt = None,
      st_CreatedAt = pg_clock E i, st_UpdatedAt = pg_clock E i,
      st_Cuisine = [], st_PriceLevel = 2, st_Rating = 0, st_ReviewCount = 0,
      st_NearestStation = [], st_Blurb = [], st_GfStatus = GfStatusOnRequest, st_PhotoUrl = None,
      st_NameEn = [], st_Phone = [], st_SourceUrl = [], st_Notes = []\<rparr>"

text \<open>Insertion of a row: the primary key first, then the foreign key to \<open>wards\<close>.\<close>

definition insert_store :: "Store \<Rightarrow> database \<Rightarrow> (db_error + Store) \<times> database" where
  "insert_store r d =
     (if list_ex (\<lambda>s. st_ID s = st_ID r) (stores d) then (Inl (PgError unique_violation), d)
      else if \<not> list_ex (\<lambda>w. w_ID w = st_WardID r) (wards d)
      then (Inl (PgError foreign_key_violation), d)
      else (Inr r, d\<lparr>stores := stores d @ [r]\<rparr>))"

definition CreateStore :: "CreateStoreParams \<Rightarrow> Store query" where
  "CreateStore arg E i d = insert_store (new_store E i arg) d"

record CreateStoreFullParams =
  cf_WardID :: int32
  cf_Name :: string
  cf_Address :: string
  cf_Latitude :: float64
  cf_Longitude :: float64
  cf_IsGfOriented :: bool
  cf_OpeningHours :: json
  cf_Status :: string
  cf_Cuisine :: string
  cf_PriceLevel :: int32
  cf_Rating :: float32
  cf_ReviewCount :: int32
  cf_NearestStation :: string
  cf_Blurb :: string
  cf_GfStatus :: string
  cf_PhotoUrl :: "string option"
  cf_NameEn :: string
  cf_Phone :: string
  cf_SourceUrl :: string
  cf_Notes :: string

definition full_store :: "env \<Rightarrow> nat \<Rightarrow> StoreStatus \<Rightarrow> GfStatus \<Rightarrow> CreateStoreFullParams \<Rightarrow> Store" where
  "full_store E i status gf arg =
     \<lparr>st_ID = gen_random_uuid E i, st_WardID = cf_WardID arg, st_Name = cf_Name arg,
      st_Address = cf_Address arg, st_Latitude = cf_Latitude arg, st_Longitude = cf_Longitude arg,
      st_IsGfOriented = cf_IsGfOriented arg, st_OpeningHours = cf_OpeningHours arg,
      st_Status = status, st_RejectionReason = None, st_ApprovedAt = None,
      st_CreatedAt = pg_clock E i, st_UpdatedAt = pg_clock E i,
      st_Cuisine = cf_Cuisine arg, st_PriceLevel = cf_PriceLevel arg, st_Rating = cf_Rating arg,
      st_ReviewCount = cf_ReviewCount arg, st_NearestStation = cf_NearestStation arg,
      st_Blurb = cf_Blurb arg, st_GfStatus = gf, st_PhotoUrl = cf_PhotoUrl arg,
      st_NameEn = cf_NameEn arg, st_Phone = cf_Phone arg, st_SourceUrl = cf_SourceUrl arg,
      st_Notes = cf_Notes arg\<rparr>"

definition CreateStoreFull :: "CreateStoreFullParams \<Rightarrow> Store query" where
  "CreateStoreFull arg E i d =
     (case (StoreStatus_scan (cf_Status arg), GfStatus_scan (cf_GfStatus arg)) of
        (Some status, Some gf) \<Rightarrow> insert_store (full_store E i status gf arg) d
      | _ \<Rightarrow> (Inl (PgError invalid_text), d))"

text \<open>\<open>UPDATE stores SET ... WHERE id = $1 AND ... RETURNING\<close>.\<close>

definition update_store ::
  "uuid \<Rightarrow> (Store \<Rightarrow> bool) \<Rightarrow> (Store \<Rightarrow> Store) \<Rightarrow> database \<Rightarrow> (db_error + Store) \<times> database" where
  "update_store sid guard f d =
     (query_row (map_option f (find (\<lambda>s. st_ID s = sid \<and> guard s) (stores d))),
      d\<lparr>stores := update_where (\<lambda>s. st_ID s = sid \<and> guard s) f (stores d)\<rparr>)"

definition ApproveStore :: "uuid \<Rightarrow> Store query" where
  "ApproveStore sid E i =
     update_store sid (\<lambda>s. st_Status s \<in> {StoreStatusDraft, StoreStatusPending})
       (\<lambda>s. s\<lparr>st_Status := StoreStatusApproved, st_ApprovedAt := Some (pg_clock E i),
              st_RejectionReason := None, st_UpdatedAt := pg_clock E i\<rparr>)"

definition RejectStore :: "uuid \<Rightarrow> string option \<Rightarrow> Store query" where
  "RejectStore sid reason E i =
     update_store sid (\<lambda>s. st_Status s = StoreStatusPending)
       (\<lambda>s. s\<lparr>st_Status := StoreStatusRejected, st_RejectionReason := reason,
              st_UpdatedAt := pg_clock E i\<rparr>)"

definition SubmitStore :: "uuid \<Rightarrow> Store query" where
  "SubmitStore sid E i =
     update_store sid (\<lambda>s. st_Status s \<in> {StoreStatusDraft, StoreStatusRejected})
       (\<lambda>s. s\<lparr>st_Status := StoreStatusPending, st_RejectionReason := None,
              st_UpdatedAt := pg_clock E i\<rparr>)"

record UpdateStoreProfileParams =
  up_ID :: uuid
  up_Name :: string
  up_Address :: string
  up_Latitude :: float64
  up_Longitude :: float64
  up_IsGfOriented :: bool
  up_OpeningHours :: json
  up_Cuisine :: string
  up_PriceLevel :: int32
  up_NearestStation :: string
  up_Blurb :: string
  up_GfStatus :: string
  up_PhotoUrl :: "string option"

definition set_profile :: "env \<Rightarrow> nat \<Rightarrow> GfStatus \<Rightarrow> UpdateStoreProfileParams \<Rightarrow> Store \<Rightarrow> Store" where
  "set_profile E i gf arg s =
     s\<lparr>st_Name := up_Name arg, st_Address := up_Address arg, st_Latitude := up_Latitude arg,
       st_Longitude := up_Longitude arg, st_IsGfOriented := up_IsGfOriented arg,
       st_OpeningHours := up_OpeningHours arg, st_Cuisine := up_Cuisine arg,
       st_PriceLevel := up_PriceLevel arg, st_NearestStation := up_NearestStation arg,
       st_Blurb := up_Blurb arg, st_GfStatus := gf, st_PhotoUrl := up_PhotoUrl arg,
       st_UpdatedAt := pg_clock E i\<rparr>"

definition UpdateStoreProfile :: "UpdateStoreProfileParams \<Rightarrow> Store query" where
  "UpdateStoreProfile arg E i d =
     (case GfStatus_scan (up_GfStatus arg) of
        None \<Rightarrow> (Inl (PgError invalid_text), d)
      | Some gf \<Rightarrow> update_store (up_ID arg) (\<lambda>_. True) (set_profile E i gf arg) d)"

record UpdateStoreFullParams = CreateStoreFullParams +
  uf_ID :: uuid

definition set_full :: "env \<Rightarrow> nat \<Rightarrow> StoreStatus \<Rightarrow> GfStatus \<Rightarrow> UpdateStoreFullParams \<Rightarrow> Store \<Rightarrow> Store" where
  "set_full E i status gf arg s =
     s\<lparr>st_WardID := cf_WardID arg, st_Name := cf_Name arg, st_Address := cf_Address arg,
       st_Latitude := cf_Latitude arg, st_Longitude := cf_Longitude arg,
       st_IsGfOriented := cf_IsGfOriented arg, st_OpeningHours := cf_OpeningHours arg,
       st_Status := status,
       st_ApprovedAt :=
         (if status = StoreStatusApproved
          then (case st_ApprovedAt s of Some t \<Rightarrow> Some t | None \<Rightarrow> Some (pg_clock E i))
          else None),
       st_Cuisine := cf_Cuisine arg, st_PriceLevel := cf_PriceLevel arg, st_Rating := cf_Rating arg,
       st_ReviewCount := cf_ReviewCount arg, st_NearestStation := cf_NearestStation arg,
       st_Blurb := cf_Blurb arg, st_GfStatus := gf, st_PhotoUrl := cf_PhotoUrl arg,
       st_NameEn := cf_NameEn arg, st_Phone := cf_Phone arg, st_SourceUrl := cf_SourceUrl arg,
       st_Notes := cf_Notes arg, st_UpdatedAt := pg_clock E i\<rparr>"

text \<open>The foreign key to \<open>wards\<close> is checked on the row the update changes, if there is one.\<close>

definition UpdateStoreFull :: "UpdateStoreFullParams \<Rightarrow> Store query" where
  "UpdateStoreFull arg E i d =
     (case (StoreStatus_scan (cf_Status arg), GfStatus_scan (cf_GfStatus arg)) of
        (Some status, Some gf) \<Rightarrow>
          (if list_ex (\<lambda>s. st_ID s = uf_ID arg) (stores d)
            \<and> \<not> list_ex (\<lambda>w. w_ID w = cf_WardID arg) (wards d)
           then (Inl (PgError foreign_key_violation), d)
           else update_store (uf_ID arg) (\<lambda>_. True) (set_full E i status gf arg) d)
      | _ \<Rightarrow> (Inl (PgError invalid_text), d))"

definition UpdateStoreCoords :: "uuid \<Rightarrow> float64 \<Rightarrow> float64 \<Rightarrow> nat query" where
  "UpdateStoreCoords sid lat lng E i d =
     (Inr (rows_matching (\<lambda>s. st_ID s = sid) (stores d)),
      d\<lparr>stores := update_where (\<lambda>s. st_ID s = sid)
          (\<lambda>s. s\<lparr>st_Latitude := lat, st_Longitude := lng, st_UpdatedAt := pg_clock E i\<rparr>) (stores d)\<rparr>)"

text \<open>\<open>DELETE FROM stores\<close> with the cascades to \<open>menu_items\<close> and \<open>store_admins\<close>.\<close>

definition DeleteStore :: "uuid \<Rightarrow> nat query" where
  "DeleteStore sid E i d =
     (Inr (rows_matching (\<lambda>s. st_ID s = sid) (stores d)),
      if list_ex (\<lambda>s. st_ID s = sid) (stores d)
      then d\<lparr>stores := delete_where (\<lambda>s. st_ID s = sid) (stores d),
             menu_items := delete_where (\<lambda>m. mi_StoreID m = sid) (menu_items d),
             store_admins := delete_where (\<lambda>a. sa_StoreID a = sid) (store_admins d)\<rparr>
      else d)"

section \<open>Menu items\<close>

record CreateMenuItemParams =
  cm_StoreID :: uuid
  cm_Name :: string
  cm_PriceYen :: int32
  cm_ImageUrl :: "string option"
  cm_GfStatus :: string
  cm_GfNote :: "string option"
  cm_SortOrder :: int32
  cm_IsAvailable :: bool

definition new_menu_item :: "env \<Rightarrow> nat \<Rightarrow> GfStatus \<Rightarrow> CreateMenuItemParams \<Rightarrow> MenuItem" where
  "new_menu_item E i gf arg =
     \<lparr>mi_ID = gen_random_uuid E i, mi_StoreID = cm_StoreID arg, mi_Name = cm_Name arg,
      mi_PriceYen = cm_PriceYen arg, mi_ImageUrl = cm_ImageUrl arg, mi_GfStatus = gf,
      mi_GfNote = cm_GfNote arg, mi_SortOrder = cm_SortOrder arg,
      mi_IsAvailable = cm_IsAvailable arg, mi_CreatedAt = pg_clock E i, mi_UpdatedAt = pg_clock E i\<rparr>"

definition CreateMenuItem :: "CreateMenuItemParams \<Rightarrow> MenuItem query" where
  "CreateMenuItem arg E i d =
     (case GfStatus_scan (cm_GfStatus arg) of
        None \<Rightarrow> (Inl (PgError invalid_text), d)
      | Some gf \<Rightarrow>
          (let r = new_menu_item E i gf arg in
           if list_ex (\<lambda>m. mi_ID m = mi_ID r) (menu_items d) then (Inl (PgError unique_violation), d)
           else if \<not> list_ex (\<lambda>s. st_ID s = cm_StoreID arg) (stores d)
           then (Inl (PgError foreign_key_violation), d)
           else (Inr r, d\<lparr>menu_items := menu_items d @ [r]\<rparr>)))"

record UpdateMenuItemParams = CreateMenuItemParams +
  um_ID :: uuid

definition set_menu_item :: "env \<Rightarrow> nat \<Rightarrow> GfStatus \<Rightarrow> UpdateMenuItemParams \<Rightarrow> MenuItem \<Rightarrow> MenuItem" where
  "set_menu_item E i gf arg m =
     m\<lparr>mi_Name := cm_Name arg, mi_PriceYen := cm_PriceYen arg, mi_ImageUrl := cm_ImageUrl arg,
       mi_GfStatus := gf, mi_GfNote := cm_GfNote arg, mi_SortOrder := cm_SortOrder arg,
       mi_IsAvailable := cm_IsAvailable arg, mi_UpdatedAt := pg_clock E i\<rparr>"

definition UpdateMenuItem :: "UpdateMenuItemParams \<Rightarrow> MenuItem query" where
  "UpdateMenuItem arg E i d =
     (case GfStatus_scan (cm_GfStatus arg) of
        None \<Rightarrow> (Inl (PgError invalid_text), d)
      | Some gf \<Rightarrow>
          (let P = (\<lambda>m. mi_ID m = um_ID arg \<and> mi_StoreID m = cm_StoreID arg) in
           (query_row (map_option (set_menu_item E i gf arg) (find P (menu_items d))),
            d\<lparr>menu_items := update_where P (set_menu_item E i gf arg) (menu_items d)\<rparr>)))"

definition DeleteMenuItem :: "uuid \<Rightarrow> uuid \<Rightarrow> nat query" where
  "DeleteMenuItem mid sid E i d =
     (Inr (rows_matching (\<lambda>m. mi_ID m = mid \<and> mi_StoreID m = sid) (menu_items d)),
      d\<lparr>menu_items := delete_where (\<lambda>m. mi_ID m = mid \<and> mi_StoreID m = sid) (menu_items d)\<rparr>)"

definition menu_order :: "MenuItem \<Rightarrow> int \<times> uuid" where
  "menu_order m = (sint (mi_SortOrder m), mi_ID m)"

definition ListMenuItemsByStore :: "uuid \<Rightarrow> MenuItem list query" where
  "ListMenuItemsByStore sid E i d =
     (Inr (sort_key menu_order (filter (\<lambda>m. mi_StoreID m = sid) (menu_items d))), d)"

definition ListAvailableMenuItems :: "uuid \<Rightarrow> MenuItem list query" where
  "ListAvailableMenuItems sid E i d =
     (Inr (sort_key menu_order (filter (\<lambda>m. mi_StoreID m = sid \<and> mi_IsAvailable m) (menu_items d))), d)"

section \<open>Store admins\<close>

definition CreateStoreAdmin :: "uuid \<Rightarrow> string \<Rightarrow> string \<Rightarrow> StoreAdmin query" where
  "CreateStoreAdmin sid email hash E i d =
     (let r = \<lparr>sa_ID = gen_random_uuid E i, sa_StoreID = sid, sa_Email = email,
               sa_PasswordHash = hash, sa_CreatedAt = pg_clock E i, sa_UpdatedAt = pg_clock E i\<rparr> in
      if list_ex (\<lambda>a. sa_ID a = sa_ID r \<or> pg_lower E (sa_Email a) = pg_lower E email) (store_admins d)
      then (Inl (PgError unique_violation), d)
      else if \<not> list_ex (\<lambda>s. st_ID s = sid) (stores d)
      then (Inl (PgError foreign_key_violation), d)
      else (Inr r, d\<lparr>store_admins := store_admins d @ [r]\<rparr>))"

definition GetStoreAdminByEmail :: "string \<Rightarrow> StoreAdmin query" where
  "GetStoreAdminByEmail e E i d =
     (query_row (find (\<lambda>a. pg_lower E (sa_Email a) = pg_lower E e) (store_admins d)), d)"

definition GetStoreAdminByID :: "uuid \<Rightarrow> StoreAdmin query" where
  "GetStoreAdminByID aid E i d = (query_row (find (\<lambda>a. sa_ID a = aid) (store_admins d)), d)"

section \<open>The tables meet their contracts\<close>

lemma insert_store_Inr:
  "insert_store r d = (Inr s, d') \<longleftrightarrow>
     s = r \<and> d' = d\<lparr>stores := stores d @ [r]\<rparr> \<and> (\<forall>x \<in> set (stores d). st_ID x \<noteq> st_ID r)
   \<and> (\<exists>w \<in> set (wards d). w_ID w = st_WardID r)"
  by (auto simp: insert_store_def list_ex_iff)

lemma insert_store_Inl: "insert_store r d = (Inl e, d') \<Longrightarrow> d' = d"
  by (auto simp: insert_store_def split: if_splits)

interpretation stores_table: growing_table stores st_ID GetStoreByID CreateStore
  by unfold_locales
    (auto simp: GetStoreByID_def CreateStore_def insert_store_Inr dest: insert_store_Inl)

interpretation full_stores_table: growing_table stores st_ID GetStoreByID CreateStoreFull
  by unfold_locales
    (auto simp: GetStoreByID_def CreateStoreFull_def insert_store_Inr dest: insert_store_Inl
      split: option.splits)

interpretation store_admins_table: growing_table store_admins sa_ID GetStoreAdminByID
  "\<lambda>(sid, email, hash). CreateStoreAdmin sid email hash"
  by unfold_locales
    (auto simp: GetStoreAdminByID_def CreateStoreAdmin_def Let_def list_ex_iff split: if_splits)

lemma read_only_store_queries [simp]:
  "read_only (GetStoreByID sid)" "read_only (GetApprovedStore sid)" "read_only (ListApprovedStores la)"
  "read_only (ListStoresByStatus st)" "read_only (CountStoresByNameWard n wd)"
  "read_only (ListStoresMissingCoords k)" "read_only (ListMenuItemsByStore sid)"
  "read_only (ListAvailableMenuItems sid)" "read_only (GetStoreAdminByEmail e)"
  "read_only (GetStoreAdminByID aid)"
  by (simp_all add: read_only_def GetStoreByID_def GetApprovedStore_def ListApprovedStores_def
      ListStoresByStatus_def CountStoresByNameWard_def ListStoresMissingCoords_def
      ListMenuItemsByStore_def ListAvailableMenuItems_def GetStoreAdminByEmail_def GetStoreAdminByID_def)

end
