(* ===== verification/GF_Queries_Admins.thy ===== *)
theory GF_Queries_Admins
  imports GF_Tables
begin

text \<open>
  The statements over operator accounts: \<open>internal_admins.sql\<close> (accounts and password resets)
  and \<open>internal_sessions.sql\<close>.
\<close>

section \<open>\<open>internal_admins\<close>\<close>

definition CreateInternalAdmin :: "string \<Rightarrow> string \<Rightarrow> string \<Rightarrow> InternalAdmin query" where
  "CreateInternalAdmin email hash name E i d =
     (let r = \<lparr>ia_ID = gen_random_uuid E i, ia_Email = email, ia_PasswordHash = hash,
               ia_CreatedAt = pg_clock E i, ia_Name = name, ia_UpdatedAt = pg_clock E i\<rparr> in
      if list_ex (\<lambda>a. ia_ID a = ia_ID r \<or> pg_lower E (ia_Email a) = pg_lower E email) (internal_admins d)
      then (Inl (PgError unique_violation), d)
      else (Inr r, d\<lparr>internal_admins := internal_admins d @ [r]\<rparr>))"

definition GetInternalAdminByEmail :: "string \<Rightarrow> InternalAdmin query" where
  "GetInternalAdminByEmail e E i d =
     (query_row (find (\<lambda>a. pg_lower E (ia_Email a) = pg_lower E e) (internal_admins d)), d)"

definition GetInternalAdminByID :: "uuid \<Rightarrow> InternalAdmin query" where
  "GetInternalAdminByID aid E i d = (query_row (find (\<lambda>a. ia_ID a = aid) (internal_admins d)), d)"

text \<open>\<open>ORDER BY lower(email)\<close>; \<open>str_le\<close> is the order of the database's collation, here the
  byte order.\<close>

fun str_le :: "string \<Rightarrow> string \<Rightarrow> bool" where
  "str_le [] t = True"
| "str_le (a # s) [] = False"
| "str_le (a # s) (b # t) =
     ((of_char a :: nat) < of_char b \<or> (a = b \<and> str_le s t))"

fun insert_by_email :: "env \<Rightarrow> InternalAdmin \<Rightarrow> InternalAdmin list \<Rightarrow> InternalAdmin list" where
  "insert_by_email E a [] = [a]"
| "insert_by_email E a (b # bs) =
     (if str_le (pg_lower E (ia_Email a)) (pg_lower E (ia_Email b)) then a # b # bs
      else b # insert_by_email E a bs)"

definition ListInternalAdmins :: "InternalAdmin list query" where
  "ListInternalAdmins E i d = (Inr (foldr (insert_by_email E) (internal_admins d) []), d)"

definition UpdateInternalAdminPassword :: "uuid \<Rightarrow> string \<Rightarrow> InternalAdmin query" where
  "UpdateInternalAdminPassword aid hash E i d =
     (let f = (\<lambda>a. a\<lparr>ia_PasswordHash := hash, ia_UpdatedAt := pg_clock E i\<rparr>) in
      (query_row (map_option f (find (\<lambda>a. ia_ID a = aid) (internal_admins d))),
       d\<lparr>internal_admins := update_where (\<lambda>a. ia_ID a = aid) f (internal_admins d)\<rparr>))"

section \<open>\<open>internal_password_resets\<close>\<close>

definition new_reset :: "env \<Rightarrow> nat \<Rightarrow> uuid \<Rightarrow> string \<Rightarrow> time \<Rightarrow> InternalPasswordReset" where
  "new_reset E i aid token_hash expires =
     \<lparr>pr_ID = gen_random_uuid E i, pr_AdminID = aid, pr_TokenHash = token_hash,
      pr_ExpiresAt = expires, pr_UsedAt = None, pr_CreatedAt = pg_clock E i\<rparr>"

definition CreateInternalPasswordReset :: "uuid \<Rightarrow> string \<Rightarrow> time \<Rightarrow> InternalPasswordReset query" where
  "CreateInternalPasswordReset aid token_hash expires E i d =
     (let r = new_reset E i aid token_hash expires in
      if list_ex (\<lambda>x. pr_ID x = pr_ID r \<or> pr_TokenHash x = token_hash) (internal_password_resets d)
      then (Inl (PgError unique_violation), d)
      else if \<not> list_ex (\<lambda>a. ia_ID a = aid) (internal_admins d)
      then (Inl (PgError foreign_key_violation), d)
      else (Inr r, d\<lparr>internal_password_resets := internal_password_resets d @ [r]\<rparr>))"

definition GetInternalPasswordResetByTokenHash :: "string \<Rightarrow> InternalPasswordReset query" where
  "GetInternalPasswordResetByTokenHash h E i d =
     (query_row (find (\<lambda>r. pr_TokenHash r = h) (internal_password_resets d)), d)"

definition MarkInternalPasswordResetUsed :: "uuid \<Rightarrow> nat query" where
  "MarkInternalPasswordResetUsed rid E i d =
     (let P = (\<lambda>r. pr_ID r = rid \<and> pr_UsedAt r = None) in
      (Inr (rows_matching P (internal_password_resets d)),
       d\<lparr>internal_password_resets :=
           update_where P (\<lambda>r. r\<lparr>pr_UsedAt := Some (pg_clock E i)\<rparr>) (internal_password_resets d)\<rparr>))"

definition DeleteInternalPasswordResetsForAdmin :: "uuid \<Rightarrow> nat query" where
  "DeleteInternalPasswordResetsForAdmin aid E i d =
     (Inr (rows_matching (\<lambda>r. pr_AdminID r = aid) (internal_password_resets d)),
      d\<lparr>internal_password_resets := delete_where (\<lambda>r. pr_AdminID r = aid) (internal_password_resets d)\<rparr>)"

section \<open>\<open>internal_sessions\<close>\<close>

record CreateInternalSessionParams =
  ci_ID :: uuid
  ci_AdminID :: uuid
  ci_RefreshToken :: string
  ci_UserAgent :: string
  ci_ClientIp :: string
  ci_IsBlocked :: bool
  ci_ExpiresAt :: time

definition new_internal_session :: "env \<Rightarrow> nat \<Rightarrow> CreateInternalSessionParams \<Rightarrow> InternalSession" where
  "new_internal_session E i arg =
     \<lparr>is_ID = ci_ID arg, is_AdminID = ci_AdminID arg, is_RefreshToken = ci_RefreshToken arg,
      is_UserAgent = ci_UserAgent arg, is_ClientIp = ci_ClientIp arg,
      is_IsBlocked = ci_IsBlocked arg, is_ExpiresAt = ci_ExpiresAt arg, is_CreatedAt = pg_clock E i\<rparr>"

definition CreateInternalSession :: "CreateInternalSessionParams \<Rightarrow> InternalSession query" where
  "CreateInternalSession arg E i d =
     (if list_ex (\<lambda>s. is_ID s = ci_ID arg) (internal_sessions d) then (Inl (PgError unique_violation), d)
      else if \<not> list_ex (\<lambda>a. ia_ID a = ci_AdminID arg) (internal_admins d)
      then (Inl (PgError foreign_key_violation), d)
      else let r = new_internal_session E i arg in
           (Inr r, d\<lparr>internal_sessions := internal_sessions d @ [r]\<rparr>))"

definition GetInternalSession :: "uuid \<Rightarrow> InternalSession query" where
  "GetInternalSession sid E i d = (query_row (find (\<lambda>s. is_ID s = sid) (internal_sessions d)), d)"

definition DeleteInternalSession :: "uuid \<Rightarrow> nat query" where
  "DeleteInternalSession sid E i d =
     (Inr (rows_matching (\<lambda>s. is_ID s = sid) (internal_sessions d)),
      d\<lparr>internal_sessions := delete_where (\<lambda>s. is_ID s = sid) (internal_sessions d)\<rparr>)"

definition DeleteInternalSessionsForAdmin :: "uuid \<Rightarrow> nat query" where
  "DeleteInternalSessionsForAdmin aid E i d =
     (Inr (rows_matching (\<lambda>s. is_AdminID s = aid) (internal_sessions d)),
      d\<lparr>internal_sessions := delete_where (\<lambda>s. is_AdminID s = aid) (internal_sessions d)\<rparr>)"

section \<open>Facts about the statements\<close>

lemma new_internal_session_sel [simp]:
  "is_ID (new_internal_session E i arg) = ci_ID arg"
  "is_AdminID (new_internal_session E i arg) = ci_AdminID arg"
  "is_RefreshToken (new_internal_session E i arg) = ci_RefreshToken arg"
  "is_IsBlocked (new_internal_session E i arg) = ci_IsBlocked arg"
  "is_ExpiresAt (new_internal_session E i arg) = ci_ExpiresAt arg"
  by (simp_all add: new_internal_session_def)

lemma new_reset_sel [simp]:
  "pr_ID (new_reset E i aid h t) = gen_random_uuid E i" "pr_AdminID (new_reset E i aid h t) = aid"
  "pr_TokenHash (new_reset E i aid h t) = h" "pr_ExpiresAt (new_reset E i aid h t) = t"
  "pr_UsedAt (new_reset E i aid h t) = None"
  by (simp_all add: new_reset_def)

lemma read_only_admin_queries [simp]:
  "read_only (GetInternalAdminByEmail e)" "read_only (GetInternalAdminByID aid)"
  "read_only ListInternalAdmins" "read_only (GetInternalPasswordResetByTokenHash h)"
  "read_only (GetInternalSession sid)"
  by (simp_all add: read_only_def GetInternalAdminByEmail_def GetInternalAdminByID_def
      ListInternalAdmins_def GetInternalPasswordResetByTokenHash_def GetInternalSession_def)

section \<open>The tables meet their contracts\<close>

interpretation internal_admins_table: growing_table internal_admins ia_ID GetInternalAdminByID
  "\<lambda>(email, hash, name). CreateInternalAdmin email hash name"
  by unfold_locales
    (auto simp: GetInternalAdminByID_def CreateInternalAdmin_def Let_def list_ex_iff split: if_splits)

interpretation internal_sessions_table: growing_table internal_sessions is_ID GetInternalSession
  CreateInternalSession
  by unfold_locales
    (auto simp: GetInternalSession_def CreateInternalSession_def Let_def list_ex_iff split: if_splits)

interpretation revocable_sessions: revocable_table internal_sessions is_ID GetInternalSession is_AdminID
  DeleteInternalSession DeleteInternalSessionsForAdmin
  by unfold_locales
    (simp_all add: GetInternalSession_def DeleteInternalSession_def DeleteInternalSessionsForAdmin_def)

end
