(* ===== verification/GF_Schema.thy ===== *)
theory GF_Schema
  imports GF_Queries_Users GF_Queries_Stores GF_Queries_Admins
begin

text \<open>
  The integrity constraints of \<open>db/migration\<close> as an invariant of the tables (primary keys, unique
  indexes, foreign keys), and the proof that every statement keeps it. A handler then keeps it
  because it touches the tables through statements only.
\<close>

section \<open>The schema invariant\<close>

definition users_ok :: "env \<Rightarrow> database \<Rightarrow> bool" where
  "users_ok E d \<longleftrightarrow>
     unique_on u_ID (users d) \<and> unique_on (\<lambda>u. pg_lower E (u_Email u)) (users d)
   \<and> unique_partial u_AppleUserID (users d)"

definition sessions_ok :: "database \<Rightarrow> bool" where
  "sessions_ok d \<longleftrightarrow> unique_on se_ID (sessions d) \<and> se_UserID ` set (sessions d) \<subseteq> u_ID ` set (users d)"

definition receipts_ok :: "database \<Rightarrow> bool" where
  "receipts_ok d \<longleftrightarrow>
     unique_on sr_ID (subscription_receipts d) \<and> unique_on sr_OriginalTxID (subscription_receipts d)
   \<and> sr_UserID ` set (subscription_receipts d) \<subseteq> u_ID ` set (users d)"

definition stores_ok :: "database \<Rightarrow> bool" where
  "stores_ok d \<longleftrightarrow>
     unique_on w_ID (wards d) \<and> unique_on st_ID (stores d)
   \<and> st_WardID ` set (stores d) \<subseteq> w_ID ` set (wards d)"

definition menu_ok :: "database \<Rightarrow> bool" where
  "menu_ok d \<longleftrightarrow>
     unique_on mi_ID (menu_items d) \<and> mi_StoreID ` set (menu_items d) \<subseteq> st_ID ` set (stores d)"

definition store_admins_ok :: "env \<Rightarrow> database \<Rightarrow> bool" where
  "store_admins_ok E d \<longleftrightarrow>
     unique_on sa_ID (store_admins d) \<and> unique_on (\<lambda>a. pg_lower E (sa_Email a)) (store_admins d)
   \<and> sa_StoreID ` set (store_admins d) \<subseteq> st_ID ` set (stores d)"

definition internal_ok :: "env \<Rightarrow> database \<Rightarrow> bool" where
  "internal_ok E d \<longleftrightarrow>
     unique_on ia_ID (internal_admins d) \<and> unique_on (\<lambda>a. pg_lower E (ia_Email a)) (internal_admins d)
   \<and> unique_on is_ID (internal_sessions d) \<and> unique_on pr_ID (internal_password_resets d)
   \<and> unique_on pr_TokenHash (internal_password_resets d)
   \<and> is_AdminID ` set (internal_sessions d) \<subseteq> ia_ID ` set (internal_admins d)
   \<and> pr_AdminID ` set (internal_password_resets d) \<subseteq> ia_ID ` set (internal_admins d)"

definition schema_ok :: "env \<Rightarrow> database \<Rightarrow> bool" where
  "schema_ok E d \<longleftrightarrow>
     users_ok E d \<and> sessions_ok d \<and> receipts_ok d \<and> stores_ok d \<and> menu_ok d
   \<and> store_admins_ok E d \<and> internal_ok E d"

lemmas schema_defs = schema_ok_def users_ok_def sessions_ok_def receipts_ok_def stores_ok_def
  menu_ok_def store_admins_ok_def internal_ok_def

section \<open>Every statement keeps it\<close>

lemma image_update_where:
  assumes "\<And>r. P r \<Longrightarrow> g (f r) = g r"
  shows "g ` set (update_where P f rows) = g ` set rows"
proof -
  have "g (if P r then f r else r) = g r" for r using assms by simp
  then show ?thesis unfolding update_where_def set_map image_image by (rule image_cong[OF refl])
qed

lemma schema_CreateUser: "schema_ok E d \<Longrightarrow> schema_ok E (snd (CreateUser arg E i d))"
  by (auto simp: schema_defs CreateUser_def user_conflict_def Let_def unique_on_append
      unique_partial_append list_ex_iff)

lemma schema_UpdateSubscription: "schema_ok E d \<Longrightarrow> schema_ok E (snd (UpdateSubscription arg E i d))"
  by (simp add: schema_defs UpdateSubscription_def unique_on_update unique_partial_update
      image_update_where)

lemma schema_CreateSession: "schema_ok E d \<Longrightarrow> schema_ok E (snd (CreateSession arg E i d))"
  by (auto simp: schema_defs CreateSession_def Let_def unique_on_append list_ex_iff
      intro: rev_image_eqI)

lemma schema_UpsertSubscriptionReceipt:
  "schema_ok E d \<Longrightarrow> schema_ok E (snd (UpsertSubscriptionReceipt arg E i d))"
  by (auto simp: schema_defs UpsertSubscriptionReceipt_def Let_def unique_on_append list_ex_iff
      find_None_iff unique_on_update image_update_where intro: rev_image_eqI split: option.splits)

lemma schema_insert_store: "schema_ok E d \<Longrightarrow> schema_ok E (snd (insert_store r d))"
  by (auto simp: schema_defs insert_store_def unique_on_append list_ex_iff
      intro: rev_image_eqI)

lemma schema_update_store:
  assumes "schema_ok E d" and "\<And>s. st_ID (f s) = st_ID s"
    and "\<And>s. st_WardID (f s) \<in> insert (st_WardID s) (w_ID ` set (wards d))"
  shows "schema_ok E (snd (update_store sid g f d))"
proof -
  let ?P = "\<lambda>s. st_ID s = sid \<and> g s"
  have "st_WardID ` set (update_where ?P f (stores d)) \<subseteq> w_ID ` set (wards d)"
  proof -
    have old: "st_WardID s \<in> w_ID ` set (wards d)" if "s \<in> set (stores d)" for s
      using assms(1) that by (auto simp: schema_ok_def stores_ok_def)
    have "st_WardID (f s) \<in> w_ID ` set (wards d)" if "s \<in> set (stores d)" for s
      using assms(3)[of s] old[OF that] by (elim insertE) simp_all
    with old show ?thesis by (intro image_subsetI) (auto simp: set_update_where simp del: image_iff)
  qed
  then show ?thesis
    using assms(1,2) by (simp add: schema_defs update_store_def unique_on_update image_update_where)
qed

lemma schema_UpdateStoreCoords:
  "schema_ok E d \<Longrightarrow> schema_ok E (snd (UpdateStoreCoords sid lat lng E' i d))"
  by (simp add: schema_defs UpdateStoreCoords_def unique_on_update image_update_where)

lemma schema_DeleteStore: "schema_ok E d \<Longrightarrow> schema_ok E (snd (DeleteStore sid E' i d))"
  by (auto simp: schema_defs DeleteStore_def unique_on_delete set_delete_where list_ex_iff)

lemma schema_CreateMenuItem: "schema_ok E d \<Longrightarrow> schema_ok E (snd (CreateMenuItem arg E' i d))"
  by (auto simp: schema_defs CreateMenuItem_def new_menu_item_def Let_def unique_on_append list_ex_iff
      intro: rev_image_eqI split: option.splits)

lemma schema_UpdateMenuItem: "schema_ok E d \<Longrightarrow> schema_ok E (snd (UpdateMenuItem arg E' i d))"
  by (auto simp: schema_defs UpdateMenuItem_def set_menu_item_def Let_def unique_on_update
      image_update_where split: option.splits)

lemma schema_DeleteMenuItem: "schema_ok E d \<Longrightarrow> schema_ok E (snd (DeleteMenuItem mid sid E' i d))"
  by (auto simp: schema_defs DeleteMenuItem_def unique_on_delete set_delete_where)

lemma schema_CreateStoreAdmin: "schema_ok E d \<Longrightarrow> schema_ok E (snd (CreateStoreAdmin sid e h E i d))"
  by (auto simp: schema_defs CreateStoreAdmin_def Let_def unique_on_append list_ex_iff
      intro: rev_image_eqI)

lemma schema_CreateInternalAdmin:
  "schema_ok E d \<Longrightarrow> schema_ok E (snd (CreateInternalAdmin e h n E i d))"
  by (auto simp: schema_defs CreateInternalAdmin_def Let_def unique_on_append list_ex_iff)

lemma schema_UpdateInternalAdminPassword:
  "schema_ok E d \<Longrightarrow> schema_ok E (snd (UpdateInternalAdminPassword aid h E' i d))"
  by (simp add: schema_defs UpdateInternalAdminPassword_def Let_def unique_on_update image_update_where)

lemma schema_CreateInternalPasswordReset:
  "schema_ok E d \<Longrightarrow> schema_ok E (snd (CreateInternalPasswordReset aid h t E' i d))"
  by (auto simp: schema_defs CreateInternalPasswordReset_def Let_def unique_on_append list_ex_iff
      intro: rev_image_eqI)

lemma schema_MarkInternalPasswordResetUsed:
  "schema_ok E d \<Longrightarrow> schema_ok E (snd (MarkInternalPasswordResetUsed rid E' i d))"
  by (simp add: schema_defs MarkInternalPasswordResetUsed_def Let_def unique_on_update image_update_where)

lemma schema_DeleteInternalPasswordResetsForAdmin:
  "schema_ok E d \<Longrightarrow> schema_ok E (snd (DeleteInternalPasswordResetsForAdmin aid E' i d))"
  by (auto simp: schema_defs DeleteInternalPasswordResetsForAdmin_def unique_on_delete set_delete_where)

lemma schema_CreateInternalSession:
  "schema_ok E d \<Longrightarrow> schema_ok E (snd (CreateInternalSession arg E' i d))"
  by (auto simp: schema_defs CreateInternalSession_def Let_def unique_on_append list_ex_iff
      intro: rev_image_eqI)

lemma schema_DeleteInternalSession:
  "schema_ok E d \<Longrightarrow> schema_ok E (snd (DeleteInternalSession sid E' i d))"
  by (auto simp: schema_defs DeleteInternalSession_def unique_on_delete set_delete_where)

lemma schema_DeleteInternalSessionsForAdmin:
  "schema_ok E d \<Longrightarrow> schema_ok E (snd (DeleteInternalSessionsForAdmin aid E' i d))"
  by (auto simp: schema_defs DeleteInternalSessionsForAdmin_def unique_on_delete set_delete_where)

end
