(* ===== verification/GF_Sample.thy ===== *)
theory GF_Sample
  imports GF_Server GF_Schema GF_Encoding
begin

text \<open>
  A concrete environment, the one the witnesses evaluate programs in: a clock that advances one
  second per effect, random ids that count up, an always reachable database, a password hash
  that keeps the password readable, and a JWT library whose tokens spell out the key and the
  claims. The laws the properties assume of third-party code hold in it.
\<close>

section \<open>Tokens that spell out their claims\<close>

definition enc_nat :: "nat \<Rightarrow> string" where "enc_nat n = nat_digits n @ ''.''"

definition dec_nat :: "string \<Rightarrow> nat \<times> string" where
  "dec_nat s = (let ds = takeWhile is_digit s in (decimal_val ds, drop (Suc (length ds)) s))"

definition enc_str :: "string \<Rightarrow> string" where "enc_str s = enc_nat (length s) @ s"

definition dec_str :: "string \<Rightarrow> string \<times> string" where
  "dec_str s = (case dec_nat s of (n, r) \<Rightarrow> (take n r, drop n r))"

definition enc_int :: "int \<Rightarrow> string" where
  "enc_int i = (if i < 0 then ''-'' else ''+'') @ enc_nat (nat \<bar>i\<bar>)"

definition dec_int :: "string \<Rightarrow> int \<times> string" where
  "dec_int s = (case dec_nat (tl s) of (n, r) \<Rightarrow> (if hd s = CHR ''-'' then - int n else int n, r))"

definition enc_uuid :: "uuid \<Rightarrow> string" where "enc_uuid u = enc_nat (unat u)"

definition dec_uuid :: "string \<Rightarrow> uuid \<times> string" where
  "dec_uuid s = (case dec_nat s of (n, r) \<Rightarrow> (word_of_nat n, r))"

definition enc_uuid_option :: "uuid option \<Rightarrow> string" where
  "enc_uuid_option u = (case u of None \<Rightarrow> ''N'' | Some x \<Rightarrow> ''S'' @ enc_uuid x)"

definition dec_uuid_option :: "string \<Rightarrow> uuid option \<times> string" where
  "dec_uuid_option s =
     (if hd s = CHR ''N'' then (None, tl s) else case dec_uuid (tl s) of (u, r) \<Rightarrow> (Some u, r))"

lemma dec_nat_enc [simp]: "dec_nat (enc_nat n @ r) = (n, r)"
proof -
  have "takeWhile is_digit (nat_digits n @ CHR ''.'' # r) = nat_digits n"
    using nat_digits_digits[of n] by (simp add: takeWhile_append list_all_iff is_digit_def)
  then show ?thesis by (simp add: dec_nat_def enc_nat_def)
qed

lemma dec_enc [simp]:
  "dec_str (enc_str s @ r) = (s, r)" "dec_int (enc_int i @ r) = (i, r)"
  "dec_uuid (enc_uuid u @ r) = (u, r)" "dec_uuid_option (enc_uuid_option ou @ r) = (ou, r)"
  by (simp_all add: dec_str_def enc_str_def dec_int_def enc_int_def dec_uuid_def enc_uuid_def
      dec_uuid_option_def enc_uuid_option_def split: option.split)

text \<open>The token of a key and claims, and its reading.\<close>

definition sample_token :: "string \<Rightarrow> Payload \<Rightarrow> string" where
  "sample_token key p =
     enc_str key @ enc_uuid (pl_ID p) @ enc_uuid (pl_UserID p) @ enc_str (pl_Email p)
       @ enc_str (pl_Role p) @ enc_uuid_option (pl_StoreID p) @ enc_int (pl_IssuedAt p)
       @ enc_int (pl_ExpiredAt p)"

definition sample_claims :: "string \<Rightarrow> string \<times> Payload" where
  "sample_claims s =
     (case dec_str s of (key, s) \<Rightarrow> case dec_uuid s of (i, s) \<Rightarrow> case dec_uuid s of (u, s) \<Rightarrow>
      case dec_str s of (e, s) \<Rightarrow> case dec_str s of (r, s) \<Rightarrow> case dec_uuid_option s of (st, s) \<Rightarrow>
      case dec_int s of (a, s) \<Rightarrow> case dec_int s of (x, s) \<Rightarrow>
        (key, \<lparr>pl_ID = i, pl_UserID = u, pl_Email = e, pl_Role = r, pl_StoreID = st,
               pl_IssuedAt = a, pl_ExpiredAt = x\<rparr>))"

lemma sample_claims_token [simp]: "sample_claims (sample_token key p) = (key, p)"
  unfolding sample_claims_def sample_token_def using dec_enc(2)[of "pl_ExpiredAt p" "[]"] by simp

definition sample_parse ::
  "time \<Rightarrow> (signing_method \<Rightarrow> token_error + string) \<Rightarrow> string \<Rightarrow> jwt_error + Payload" where
  "sample_parse now kf tok =
     (case sample_claims tok of (k, p) \<Rightarrow>
        (if sample_token k p \<noteq> tok \<or> kf (SigningMethodHMAC ''HS256'') \<noteq> Inr k then Inl JwtOtherError
         else if now \<ge> GetExpirationTime p then Inl JwtExpired
         else if now < GetNotBefore p then Inl JwtOtherError
         else Inr p))"

section \<open>The environment\<close>

definition sample_now :: "nat \<Rightarrow> time" where
  "sample_now i = 1760000000 * second + int i * second"

definition sample_env :: env where
  "sample_env =
     \<lparr>clock = sample_now, pg_clock = sample_now, db_fault = (\<lambda>_. NoFault),
      new_random = (\<lambda>i. Some (of_nat (1000 + i))), rand_read = (\<lambda>i. Some (char_of i # replicate 31 CHR ''e'')),
      gen_random_uuid = (\<lambda>i. of_nat (2000 + i)), pg_any = (\<lambda>i. i), pg_lower = ToLower,
      valid_email = (\<lambda>s. CHR 0x40 \<in> set s),
      uuid_Parse = (\<lambda>s. if s \<noteq> [] \<and> list_all is_digit s then Some (word_of_nat (decimal_val s)) else None),
      bcrypt_Generate = (\<lambda>_ p. if length p \<le> 72 then Some (CHR ''$'' # p) else None),
      bcrypt_Compare = (\<lambda>h p. h = CHR ''$'' # p),
      sha256_Sum = (\<lambda>s. s),
      jwt_Sign = (\<lambda>key p. Some (sample_token key p)), jwt_Parse = sample_parse,
      jws_ParseTransaction = (\<lambda>_ _ _. Inl ''malformed''),
      jws_ParseNotification = (\<lambda>_ _ _. Inl ''malformed''),
      x509_Parse = Some,
      x509_Verify = (\<lambda>roots _ _ leaf. leaf \<in> set roots), x509_ecdsa = Some,
      apple_decode = (\<lambda>_. None), apple_check = (\<lambda>_ _ _ _ _. False),
      apple_fetch = (\<lambda>_. Inl ''offline''), mail_send = (\<lambda>_ _. True)\<rparr>"

lemma sample_env_sel [simp]:
  "clock sample_env = sample_now" "pg_clock sample_env = sample_now"
  "db_fault sample_env i = NoFault"
  "new_random sample_env i = Some (of_nat (1000 + i))"
  "rand_read sample_env i = Some (char_of i # replicate 31 CHR ''e'')"
  "gen_random_uuid sample_env i = of_nat (2000 + i)" "pg_lower sample_env = ToLower"
  "valid_email sample_env s = (CHR 0x40 \<in> set s)"
  "uuid_Parse sample_env s =
     (if s \<noteq> [] \<and> list_all is_digit s then Some (word_of_nat (decimal_val s)) else None)"
  "bcrypt_Generate sample_env i pw = (if length pw \<le> 72 then Some (CHR ''$'' # pw) else None)"
  "bcrypt_Compare sample_env h pw = (h = CHR ''$'' # pw)"
  "sha256_Sum sample_env s = s"
  "jwt_Sign sample_env key p = Some (sample_token key p)" "jwt_Parse sample_env = sample_parse"
  "mail_send sample_env i m" "no_faults sample_env"
  by (simp_all add: sample_env_def no_faults_def)

lemma sample_bcrypt_laws [simp]: "bcrypt_laws sample_env"
  by (simp add: bcrypt_laws_def)

lemma sample_jwt_laws [simp]: "jwt_laws sample_env"
proof -
  have "jwt_roundtrip sample_env"
    unfolding jwt_roundtrip_def by (auto simp: sample_parse_def)
  moreover have "jwt_window sample_env"
    unfolding jwt_window_def by (auto simp: sample_parse_def split: prod.splits if_splits)
  ultimately show ?thesis by (simp add: jwt_laws_def)
qed

definition sample_payload ::
  "nat \<Rightarrow> uuid \<Rightarrow> string \<Rightarrow> string \<Rightarrow> uuid option \<Rightarrow> duration \<Rightarrow> Payload" where
  "sample_payload i uid email role sid d =
     \<lparr>pl_ID = of_nat (1000 + i), pl_UserID = uid, pl_Email = email, pl_Role = role, pl_StoreID = sid,
      pl_IssuedAt = sample_now (Suc i), pl_ExpiredAt = sample_now (Suc i) + d\<rparr>"

definition empty_db :: database where
  "empty_db =
     \<lparr>users = [], sessions = [], subscription_receipts = [], wards = [], stores = [],
      menu_items = [], store_admins = [], internal_admins = [], internal_sessions = [],
      internal_password_resets = []\<rparr>"

definition world_of :: "database \<Rightarrow> world" where
  "world_of d = \<lparr>db = d, ticks = 0, outbox = [], apple_keys = (\<lambda>_. None), apple_fetched = zero_time,
     gsi_last = zero_time, objects = [], visited = [], dialed = []\<rparr>"

lemma world_of_sel [simp]: "db (world_of d) = d" "ticks (world_of d) = 0" "outbox (world_of d) = []"
  by (simp_all add: world_of_def)

lemma schema_ok_empty [simp]: "schema_ok E empty_db"
  by (simp add: schema_defs empty_db_def unique_on_def unique_partial_def List.map_filter_def)

section \<open>A server\<close>

definition sample_config :: Config where
  "sample_config =
     \<lparr>BraveSearchAPIKey = ''brave'', Environment = ''test'', DBSource = [], MigrationURL = [],
      HTTPServerAddress = ''0.0.0.0:8080'', TokenSymmetricKey = replicate 32 CHR ''k'',
      AccessTokenDuration = 15 * minute, RefreshTokenDuration = 24 * hour, AllowedOrigins = [''*''],
      AppleRootCAPath = ''root.pem'', AppleBundleID = ''jp.app'', ImageBucket = ''photos'',
      ResendAPIKey = ''key'', MailFrom = ''ops@example.jp'', MailFromName = [],
      AdminPortalURL = ''https://admin/'', PasswordResetTokenDuration = hour\<rparr>"

definition sample_server :: Server where
  "sample_server =
     \<lparr>sv_config = sample_config, sv_tokenMaker = \<lparr>secretKey = replicate 32 CHR ''k''\<rparr>,
      sv_appstore = Some \<lparr>av_roots = [''apple''], av_expectedBundle = ''jp.app''\<rparr>,
      sv_apple = Some ''jp.app'', sv_geocoder = NewGSI, sv_uploader = Some ''photos'',
      sv_mailer = ResendSender ''key'' ''ops@example.jp'' [], sv_discovery = \<lparr>sv_Key = ''brave''\<rparr>\<rparr>"

definition sample_maker :: JWTMaker where "sample_maker = sv_tokenMaker sample_server"

definition sample_ctx :: ctx where "sample_ctx = \<lparr>cx_UserAgent = ''agent'', cx_ClientIP = ''10.0.0.1''\<rparr>"

lemma sample_server_sel [simp]:
  "sv_tokenMaker sample_server = sample_maker" "sv_config sample_server = sample_config"
  "sv_appstore sample_server = Some \<lparr>av_roots = [''apple''], av_expectedBundle = ''jp.app''\<rparr>"
  "sv_apple sample_server = Some ''jp.app''" "Enabled (sv_mailer sample_server)"
  "AccessTokenDuration sample_config = 15 * minute" "RefreshTokenDuration sample_config = 24 * hour"
  "AdminPortalURL sample_config = ''https://admin/''" "PasswordResetTokenDuration sample_config = hour"
  by (simp_all add: sample_server_def sample_config_def Enabled_def sample_maker_def)

text \<open>The configuration yields this server.\<close>

lemma sample_server_new:
  "NewServer (\<lambda>_ b. NewVerifier [''apple''] b) (\<lambda>_. True) sample_config = Inr sample_server"
  by (simp add: NewServer_def NewJWTMaker_def minSecretKeySize_def NewVerifier_def sample_server_def
      sample_config_def)

lemma second_pos [simp]: "0 < second"
  by (simp add: second_def)

lemma sample_now_mono [simp]: "sample_now i \<le> sample_now j \<longleftrightarrow> i \<le> j"
  by (simp add: sample_now_def)

lemma NewNumericDate_whole [simp]: "t mod second = 0 \<Longrightarrow> NewNumericDate t = t"
  by (simp add: NewNumericDate_def)

lemma sample_now_mod [simp]: "sample_now i mod second = 0"
  by (simp add: sample_now_def)

lemma verify_sample_token:
  "verify_at sample_env maker now (sample_token (secretKey maker) p) =
    (if now \<ge> GetExpirationTime p then Inl ErrExpiredToken
     else if now < GetNotBefore p then Inl ErrInvalidToken
     else Inr p)"
  by (rule verify_at_signed) simp_all

lemma sample_token_not_Nil [simp]: "sample_token key p \<noteq> []"
  by (simp add: sample_token_def enc_str_def enc_nat_def)

section \<open>Authorization headers\<close>

text \<open>Tokens of printable ASCII characters survive the splitting of the header.\<close>

definition plain :: "string \<Rightarrow> bool" where
  "plain s \<longleftrightarrow> list_all (\<lambda>c. 33 \<le> (of_char c :: nat) \<and> (of_char c :: nat) < 127) s"

lemma plain_simps [simp]: "plain []" "plain (s @ t) \<longleftrightarrow> plain s \<and> plain t"
  by (simp_all add: plain_def)

lemma fields_plain: "plain s \<Longrightarrow> cur @ s \<noteq> [] \<Longrightarrow> fields_from cur s = [rev cur @ s]"
proof (induction s arbitrary: cur)
  case (Cons c s)
  then have "ws_len (codes (c # s)) = 0" by (auto simp: plain_def codes_def split: list.split)
  then have "fields_from cur (c # s) = fields_from (c # cur) s" by (simp add: Let_def)
  with Cons show ?case by (simp add: plain_def)
qed simp

lemma plain_nat_digits: "plain (nat_digits n)"
  using nat_digits_digits[of n] by (auto simp: plain_def list_all_iff is_digit_def)

lemma plain_token: "plain key \<Longrightarrow> plain (pl_Email p) \<Longrightarrow> plain (pl_Role p) \<Longrightarrow> plain (sample_token key p)"
  using plain_nat_digits
  by (simp add: sample_token_def enc_str_def enc_nat_def enc_int_def enc_uuid_def enc_uuid_option_def
      split: option.split) (simp add: plain_def)

lemma fields_Bearer: "plain t \<Longrightarrow> t \<noteq> [] \<Longrightarrow> Fields (''Bearer '' @ t) = [''Bearer'', t]"
  by (simp add: Fields_def codes_def Let_def fields_plain split: list.split)

lemma bearer_sample_token:
  "plain (pl_Email p) \<Longrightarrow> plain (pl_Role p) \<Longrightarrow>
   bearer_token (''Bearer '' @ sample_token (secretKey sample_maker) p) =
     Inr (sample_token (secretKey sample_maker) p)"
proof -
  assume p: "plain (pl_Email p)" "plain (pl_Role p)"
  have "plain (secretKey sample_maker)"
    by (simp add: sample_maker_def sample_server_def plain_def list_all_iff)
  note f = fields_Bearer[OF plain_token[OF this p] sample_token_not_Nil]
  then show ?thesis by (simp add: bearer_token_Inr ToLower_Bearer)
qed

end
