(* ===== verification/GF_Auth.thy ===== *)
theory GF_Auth
  imports GF_Sample
begin

text \<open>
  App users' accounts and sessions: \<open>api/user.go\<close> (register, login, profile), \<open>api/token.go\<close>
  (refresh) and \<open>api/apple.go\<close> (Sign in with Apple).
\<close>

section \<open>\<open>user.go\<close>\<close>

definition errInvalidCredentials :: api_error where
  "errInvalidCredentials = ErrMsg ''invalid email or password''"

record userResponse =
  urs_ID :: uuid
  urs_Email :: string
  urs_SubscriptionStatus :: string
  urs_SubExpiresAt :: "time option"

definition newUserResponse :: "User \<Rightarrow> userResponse" where
  "newUserResponse u =
     \<lparr>urs_ID = u_ID u, urs_Email = u_Email u,
      urs_SubscriptionStatus = SubscriptionStatus_text (u_SubscriptionStatus u),
      urs_SubExpiresAt = u_SubExpiresAt u\<rparr>"

record registerUserRequest =
  rg_Email :: string
  rg_Password :: string

definition valid_registerUserRequest :: "env \<Rightarrow> registerUserRequest \<Rightarrow> bool" where
  "valid_registerUserRequest E req \<longleftrightarrow>
     rg_Email req \<noteq> [] \<and> valid_email E (rg_Email req) \<and> rg_Password req \<noteq> [] \<and> RuneCount (rg_Password req) \<ge> 8"

definition registerUser :: "env \<Rightarrow> Server \<Rightarrow> registerUserRequest option \<Rightarrow> (world, userResponse reply) state" where
  "registerUser E srv body =
     (case ShouldBindJSON (valid_registerUserRequest E) body of
        None \<Rightarrow> State_Monad.return (Fail StatusBadRequest ErrBinding)
      | Some req \<Rightarrow> do {
          hashed \<leftarrow> HashPassword E (rg_Password req);
          case hashed of
            None \<Rightarrow> State_Monad.return (Fail StatusInternalServerError (ErrLib ''failed to hash password''))
          | Some h \<Rightarrow> do {
              r \<leftarrow> db_call E (CreateUser \<lparr>cu_Email = rg_Email req, cu_PasswordHash = Some h, cu_AppleUserID = None\<rparr>);
              State_Monad.return (case r of
                Inl err \<Rightarrow>
                  (if is_unique_violation err then Fail StatusConflict (ErrMsg ''email already registered'')
                   else Fail StatusInternalServerError (ErrDB err))
              | Inr user \<Rightarrow> Reply StatusCreated (newUserResponse user))
            }
        })"

record loginUserRequest =
  lg_Email :: string
  lg_Password :: string

definition valid_loginUserRequest :: "env \<Rightarrow> loginUserRequest \<Rightarrow> bool" where
  "valid_loginUserRequest E req \<longleftrightarrow> lg_Email req \<noteq> [] \<and> valid_email E (lg_Email req) \<and> lg_Password req \<noteq> []"

record loginUserResponse =
  lr_AccessToken :: string
  lr_AccessTokenExpiresAt :: time
  lr_RefreshToken :: string
  lr_RefreshTokenExpiresAt :: time
  lr_SessionID :: uuid
  lr_User :: userResponse

definition issueSession :: "env \<Rightarrow> Server \<Rightarrow> ctx \<Rightarrow> User \<Rightarrow> (world, loginUserResponse reply) state" where
  "issueSession E srv cx user = do {
     a \<leftarrow> CreateToken E (sv_tokenMaker srv) (u_ID user) (u_Email user) (AccessTokenDuration (sv_config srv));
     case a of
       None \<Rightarrow> State_Monad.return (Fail StatusInternalServerError (ErrLib ''create token''))
     | Some (accessToken, accessPayload) \<Rightarrow> do {
         f \<leftarrow> CreateToken E (sv_tokenMaker srv) (u_ID user) (u_Email user) (RefreshTokenDuration (sv_config srv));
         case f of
           None \<Rightarrow> State_Monad.return (Fail StatusInternalServerError (ErrLib ''create token''))
         | Some (refreshToken, refreshPayload) \<Rightarrow> do {
             r \<leftarrow> db_call E (CreateSession
               \<lparr>cs_ID = pl_ID refreshPayload, cs_UserID = u_ID user, cs_RefreshToken = refreshToken,
                cs_UserAgent = cx_UserAgent cx, cs_ClientIp = cx_ClientIP cx, cs_IsBlocked = False,
                cs_ExpiresAt = pl_ExpiredAt refreshPayload\<rparr>);
             State_Monad.return (case r of
               Inl err \<Rightarrow> Fail StatusInternalServerError (ErrDB err)
             | Inr session \<Rightarrow> Reply StatusOK
                 \<lparr>lr_AccessToken = accessToken, lr_AccessTokenExpiresAt = pl_ExpiredAt accessPayload,
                  lr_RefreshToken = refreshToken, lr_RefreshTokenExpiresAt = pl_ExpiredAt refreshPayload,
                  lr_SessionID = se_ID session, lr_User = newUserResponse user\<rparr>)
           }
       }
   }"

definition loginUser ::
  "env \<Rightarrow> Server \<Rightarrow> ctx \<Rightarrow> loginUserRequest option \<Rightarrow> (world, loginUserResponse reply) state" where
  "loginUser E srv cx body =
     (case ShouldBindJSON (valid_loginUserRequest E) body of
        None \<Rightarrow> State_Monad.return (Fail StatusBadRequest ErrBinding)
      | Some req \<Rightarrow> do {
          r \<leftarrow> db_call E (GetUserByEmail (lg_Email req));
          case r of
            Inl err \<Rightarrow> State_Monad.return
              (if err = NoRows then Fail StatusUnauthorized errInvalidCredentials
               else Fail StatusInternalServerError (ErrDB err))
          | Inr user \<Rightarrow>
              (case u_PasswordHash user of
                 None \<Rightarrow> State_Monad.return (Fail StatusUnauthorized errInvalidCredentials)
               | Some h \<Rightarrow>
                   (if \<not> CheckPassword E (lg_Password req) h
                    then State_Monad.return (Fail StatusUnauthorized errInvalidCredentials)
                    else issueSession E srv cx user))
        })"

definition getCurrentUser :: "env \<Rightarrow> Payload \<Rightarrow> (world, userResponse reply) state" where
  "getCurrentUser E payload = do {
     r \<leftarrow> currentUser E payload;
     State_Monad.return (case r of
       Inl err \<Rightarrow> respondUserLookupError err
     | Inr user \<Rightarrow> Reply StatusOK (newUserResponse user))
   }"

section \<open>\<open>token.go\<close>\<close>

record renewAccessTokenRequest =
  rn_RefreshToken :: string

definition valid_renewAccessTokenRequest :: "renewAccessTokenRequest \<Rightarrow> bool" where
  "valid_renewAccessTokenRequest req \<longleftrightarrow> rn_RefreshToken req \<noteq> []"

record renewAccessTokenResponse =
  rr_AccessToken :: string
  rr_AccessTokenExpiresAt :: time

definition renewAccessToken ::
  "env \<Rightarrow> Server \<Rightarrow> renewAccessTokenRequest option \<Rightarrow> (world, renewAccessTokenResponse reply) state" where
  "renewAccessToken E srv body =
     (case ShouldBindJSON valid_renewAccessTokenRequest body of
        None \<Rightarrow> State_Monad.return (Fail StatusBadRequest ErrBinding)
      | Some req \<Rightarrow> do {
          v \<leftarrow> VerifyToken E (sv_tokenMaker srv) (rn_RefreshToken req);
          case v of
            Inl err \<Rightarrow> State_Monad.return (Fail StatusUnauthorized (ErrToken err))
          | Inr refreshPayload \<Rightarrow> do {
              r \<leftarrow> db_call E (GetSession (pl_ID refreshPayload));
              case r of
                Inl err \<Rightarrow> State_Monad.return
                  (if err = NoRows then Fail StatusNotFound (ErrDB NoRows)
                   else Fail StatusInternalServerError (ErrDB err))
              | Inr session \<Rightarrow>
                  (if se_IsBlocked session
                   then State_Monad.return (Fail StatusUnauthorized (ErrMsg ''blocked session''))
                   else if se_UserID session \<noteq> pl_UserID refreshPayload
                   then State_Monad.return (Fail StatusUnauthorized (ErrMsg ''incorrect session user''))
                   else if se_RefreshToken session \<noteq> rn_RefreshToken req
                   then State_Monad.return (Fail StatusUnauthorized (ErrMsg ''mismatched session token''))
                   else do {
                     now \<leftarrow> TimeNow E;
                     if now > se_ExpiresAt session
                     then State_Monad.return (Fail StatusUnauthorized (ErrMsg ''expired session''))
                     else do {
                       a \<leftarrow> CreateToken E (sv_tokenMaker srv) (pl_UserID refreshPayload) (pl_Email refreshPayload)
                         (AccessTokenDuration (sv_config srv));
                       State_Monad.return (case a of
                         None \<Rightarrow> Fail StatusInternalServerError (ErrLib ''create token'')
                       | Some (accessToken, accessPayload) \<Rightarrow> Reply StatusOK
                           \<lparr>rr_AccessToken = accessToken, rr_AccessTokenExpiresAt = pl_ExpiredAt accessPayload\<rparr>)
                     }
                   })
            }
        })"

section \<open>\<open>apple.go\<close>\<close>

record appleSignInRequest =
  as_IdentityToken :: string
  as_Email :: string

definition valid_appleSignInRequest :: "appleSignInRequest \<Rightarrow> bool" where
  "valid_appleSignInRequest req \<longleftrightarrow> as_IdentityToken req \<noteq> []"

fun firstNonEmpty :: "string list \<Rightarrow> string" where
  "firstNonEmpty [] = []"
| "firstNonEmpty (v # vs) = (if v \<noteq> [] then v else firstNonEmpty vs)"

definition apple_email :: "Identity \<Rightarrow> string \<Rightarrow> string" where
  "apple_email ident fallbackEmail =
     (let email = firstNonEmpty [id_Email ident, fallbackEmail] in
      if email = [] then id_Subject ident @ ''@privaterelay.appleid.local'' else email)"

definition createAppleUser ::
  "env \<Rightarrow> Identity \<Rightarrow> string \<Rightarrow> string option \<Rightarrow> (world, db_error + User) state" where
  "createAppleUser E ident fallbackEmail appleID =
     db_call E (CreateUser
       \<lparr>cu_Email = apple_email ident fallbackEmail, cu_PasswordHash = None, cu_AppleUserID = appleID\<rparr>)"

definition appleSignIn ::
  "env \<Rightarrow> Server \<Rightarrow> ctx \<Rightarrow> appleSignInRequest option \<Rightarrow> (world, loginUserResponse reply) state" where
  "appleSignIn E srv cx body =
     (case sv_apple srv of
        None \<Rightarrow> State_Monad.return (Fail StatusNotImplemented (ErrMsg ''apple sign-in is not configured''))
      | Some audience \<Rightarrow>
          (case ShouldBindJSON valid_appleSignInRequest body of
             None \<Rightarrow> State_Monad.return (Fail StatusBadRequest ErrBinding)
           | Some req \<Rightarrow> do {
               v \<leftarrow> Verify E audience (as_IdentityToken req);
               case v of
                 Inl err \<Rightarrow> State_Monad.return (Fail StatusUnauthorized (ErrMsg ''invalid apple identity token''))
               | Inr ident \<Rightarrow> do {
                   r \<leftarrow> db_call E (GetUserByAppleID (Some (id_Subject ident)));
                   u \<leftarrow> (if r = Inl NoRows
                         then createAppleUser E ident (as_Email req) (Some (id_Subject ident))
                         else State_Monad.return r);
                   case u of
                     Inl err \<Rightarrow> State_Monad.return
                       (if is_unique_violation err
                        then Fail StatusConflict (ErrMsg ''an account with this email already exists; sign in with email and password'')
                        else Fail StatusInternalServerError (ErrDB err))
                   | Inr user \<Rightarrow> issueSession E srv cx user
                 }
             }))"

section \<open>Facts\<close>

lemma CreateUser_Inr:
  "CreateUser arg E i d = (Inr u, d') \<longleftrightarrow>
     u = new_user E i arg \<and> d' = d\<lparr>users := users d @ [u]\<rparr> \<and> \<not> list_ex (user_conflict E u) (users d)"
  by (auto simp: CreateUser_def Let_def)

lemma CreateSession_Inr:
  "CreateSession arg E i d = (Inr s, d') \<longleftrightarrow>
     s = new_session E i arg \<and> d' = d\<lparr>sessions := sessions d @ [s]\<rparr>
   \<and> (\<forall>x \<in> set (sessions d). se_ID x \<noteq> cs_ID arg) \<and> (\<exists>u \<in> set (users d). u_ID u = cs_UserID arg)"
  by (auto simp: CreateSession_def Let_def list_ex_iff split: if_splits)

lemma CreateSession_Inl: "CreateSession arg E i d = (Inl e, d') \<Longrightarrow> d' = d"
  by (auto simp: CreateSession_def Let_def split: if_splits)

lemma CreateUser_Inl: "CreateUser arg E i d = (Inl e, d') \<Longrightarrow> d' = d"
  by (auto simp: CreateUser_def Let_def split: if_splits)

text \<open>The session a successful login leaves behind, and the pair of tokens it hands out; all of it
  happened before step \<open>n\<close>.\<close>

definition session_issued :: "env \<Rightarrow> Server \<Rightarrow> User \<Rightarrow> loginUserResponse \<Rightarrow> nat \<Rightarrow> database \<Rightarrow> database \<Rightarrow> bool" where
  "session_issued E srv u lr n d d' \<longleftrightarrow>
     (\<exists>s i ap j rp.
        Suc j < n \<and> d' = d\<lparr>sessions := sessions d @ [s]\<rparr> \<and> (\<forall>x \<in> set (sessions d). se_ID x \<noteq> se_ID s)
      \<and> se_UserID s = u_ID u \<and> \<not> se_IsBlocked s \<and> se_ID s = lr_SessionID lr
      \<and> se_RefreshToken s = lr_RefreshToken lr \<and> se_ExpiresAt s = lr_RefreshTokenExpiresAt lr
      \<and> lr_User lr = newUserResponse u
      \<and> minted E (sv_tokenMaker srv) (u_ID u) (u_Email u) RoleUser None
          (AccessTokenDuration (sv_config srv)) i (lr_AccessToken lr, ap)
      \<and> pl_ExpiredAt ap = lr_AccessTokenExpiresAt lr
      \<and> minted E (sv_tokenMaker srv) (u_ID u) (u_Email u) RoleUser None
          (RefreshTokenDuration (sv_config srv)) j (lr_RefreshToken lr, rp)
      \<and> pl_ID rp = lr_SessionID lr \<and> pl_ExpiredAt rp = lr_RefreshTokenExpiresAt lr)"

lemma session_issued_users: "session_issued E srv u lr n d d' \<Longrightarrow> users d' = users d"
  by (auto simp: session_issued_def)

lemma session_issuedI:
  assumes a: "minted E (sv_tokenMaker srv) (u_ID u) (u_Email u) RoleUser None
      (AccessTokenDuration (sv_config srv)) i (acc, ap)"
    and f: "minted E (sv_tokenMaker srv) (u_ID u) (u_Email u) RoleUser None
      (RefreshTokenDuration (sv_config srv)) j (rt, rp)"
    and c: "CreateSession
      \<lparr>cs_ID = pl_ID rp, cs_UserID = u_ID u, cs_RefreshToken = rt, cs_UserAgent = ua, cs_ClientIp = ip,
       cs_IsBlocked = False, cs_ExpiresAt = pl_ExpiredAt rp\<rparr> E k d = (Inr s, d')"
    and n: "Suc j < n"
  shows "session_issued E srv u
      \<lparr>lr_AccessToken = acc, lr_AccessTokenExpiresAt = pl_ExpiredAt ap, lr_RefreshToken = rt,
       lr_RefreshTokenExpiresAt = pl_ExpiredAt rp, lr_SessionID = se_ID s, lr_User = newUserResponse u\<rparr> n d d'"
  unfolding session_issued_def
  by (rule exI[of _ s], rule exI[of _ i], rule exI[of _ ap], rule exI[of _ j], rule exI[of _ rp])
    (use a f c n in \<open>auto simp: CreateSession_Inr\<close>)

lemma wp_issueSession:
  assumes "\<And>e w'. users (db w') = users (db w) \<Longrightarrow> Q (Fail StatusInternalServerError e) w'"
    and "\<And>lr w'. session_issued E srv u lr (ticks w') (db w) (db w') \<Longrightarrow> Q (Reply StatusOK lr) w'"
  shows "wp (issueSession E srv cx u) Q w"
  unfolding issueSession_def wp_bind
  apply (rule wp_CreateToken)
   apply (simp add: assms(1))
  apply (clarsimp split: prod.splits)
  apply (rule wp_CreateToken)
   apply (simp add: assms(1))
  apply (clarsimp split: prod.splits)
  apply (rule wp_db_call)
    apply (clarsimp split: sum.splits)
    apply (intro conjI allI impI)
     apply (fastforce dest: CreateSession_Inl intro: assms(1))
    apply (rule assms(2))
    apply clarsimp
    apply (erule (2) session_issuedI)
    apply simp
   apply (simp add: assms(1))
  apply (clarsimp simp: CreateSession_def Let_def assms(1) split: if_splits)
  done

section \<open>Tokens and guarded routes\<close>

text \<open>C26: A token made by \<open>CreateRoleToken\<close> carries the identity, role and store it was asked for, and
  \<open>VerifyToken\<close> gives exactly that payload back from the whole second it was issued in until the
  whole second its duration ends in, and \<open>ErrExpiredToken\<close> from then on.\<close>

theorem token_window:
  assumes "jwt_laws E"
    and "run_state (CreateRoleToken E maker uid email role sid d) w = (Some (tok, p), w')"
  shows "(pl_UserID p, pl_Email p, pl_Role p, pl_StoreID p) = (uid, email, role, sid)
    \<and> db w' = db w
    \<and> (\<forall>v. fst (run_state (VerifyToken E maker tok) v) =
        (let now = clock E (ticks v); made = clock E (Suc (ticks w)) in
         if now \<ge> NewNumericDate (made + d) then Inl ErrExpiredToken
         else if now < NewNumericDate made then Inl ErrInvalidToken else Inr p))"
proof -
  have "wp (CreateRoleToken E maker uid email role sid d)
      (\<lambda>r w'. r = Some (tok, p) \<longrightarrow> minted E maker uid email role sid d (ticks w) (tok, p) \<and> db w' = db w) w"
    by (rule wp_CreateRoleToken) auto
  from wpD[OF this assms(2)] have m: "minted E maker uid email role sid d (ticks w) (tok, p)" "db w' = db w"
    by auto
  have "fst (run_state (VerifyToken E maker tok) v) = verify_at E maker (clock E (ticks v)) tok" for v
    by (simp add: VerifyToken_def)
  then show ?thesis
    using m mintedD[OF m(1)]
    by (simp add: verify_at_signed[OF assms(1)] GetExpirationTime_def GetNotBefore_def Let_def)
qed

text \<open>A route behind \<open>authMiddleware\<close> and \<open>requireRole\<close> runs its handler only for a header
  \<open>Bearer <token>\<close> whose token verifies, is inside its validity window and carries the role, and
  with that token's payload; every other request is answered 401 or 403 and changes no table.\<close>

lemma guarded_route:
  assumes "jwt_laws E"
    and "run_state (authMiddleware E maker h (requireRole role next)) w = (r, w')"
  shows "((\<exists>e. r = Fail StatusUnauthorized e) \<and> db w' = db w)
    \<or> (\<exists>e. r = Fail StatusForbidden e) \<and> db w' = db w
    \<or> (\<exists>scheme tok rest p. Fields h = scheme # tok # rest \<and> ToLower scheme = ''bearer''
        \<and> verify_at E maker (clock E (ticks w)) tok = Inr p \<and> pl_Role p = role
        \<and> GetNotBefore p \<le> clock E (ticks w) \<and> clock E (ticks w) < GetExpirationTime p
        \<and> run_state (next p) (w\<lparr>ticks := Suc (ticks w)\<rparr>) = (r, w'))"
proof (cases "bearer_token h")
  case (Inl e)
  then show ?thesis using assms(2) by (auto simp: authMiddleware_def)
next
  case (Inr tok)
  then obtain scheme rest where h: "Fields h = scheme # tok # rest" "ToLower scheme = ''bearer''"
    by (auto simp: bearer_token_Inr)
  show ?thesis
  proof (cases "verify_at E maker (clock E (ticks w)) tok")
    case (Inl e)
    with Inr show ?thesis using assms(2) by (auto simp: authMiddleware_def)
  next
    case v: (Inr p)
    with Inr have "run_state (requireRole role next p) (w\<lparr>ticks := Suc (ticks w)\<rparr>) = (r, w')"
      using assms(2) by (simp add: authMiddleware_def VerifyToken_def)
    then show ?thesis
      using h v verify_at_window[OF assms(1) v] by (auto simp: requireRole_def split: if_splits)
  qed
qed

section \<open>Registration and login\<close>

text \<open>Registration: a 201 answer means exactly one user was added, on the free tier, with the
  request's e-mail and a hash of its password, and the database had no user with that e-mail
  ignoring case; any other answer of a reachable database changed nothing.\<close>

lemma register_adds_one_user:
  assumes "run_state (registerUser E srv body) w = (r, w')" and "no_faults E"
  shows "(\<exists>req h u. body = Some req \<and> valid_registerUserRequest E req
        \<and> bcrypt_Generate E (ticks w) (rg_Password req) = Some h
        \<and> db w' = db w\<lparr>users := users (db w) @ [u]\<rparr> \<and> r = Reply StatusCreated (newUserResponse u)
        \<and> u_Email u = rg_Email req \<and> u_PasswordHash u = Some h \<and> u_AppleUserID u = None
        \<and> u_SubscriptionStatus u = SubscriptionStatusFree
        \<and> (\<forall>x \<in> set (users (db w)). pg_lower E (u_Email x) \<noteq> pg_lower E (u_Email u)))
    \<or> (\<exists>code e. r = Fail code e) \<and> db w' = db w"
proof -
  have "wp (registerUser E srv body) (\<lambda>r w'.
      (\<exists>req h u. body = Some req \<and> valid_registerUserRequest E req
        \<and> bcrypt_Generate E (ticks w) (rg_Password req) = Some h
        \<and> db w' = db w\<lparr>users := users (db w) @ [u]\<rparr> \<and> r = Reply StatusCreated (newUserResponse u)
        \<and> u_Email u = rg_Email req \<and> u_PasswordHash u = Some h \<and> u_AppleUserID u = None
        \<and> u_SubscriptionStatus u = SubscriptionStatusFree
        \<and> (\<forall>x \<in> set (users (db w)). pg_lower E (u_Email x) \<noteq> pg_lower E (u_Email u)))
    \<or> (\<exists>code e. r = Fail code e) \<and> db w' = db w) w"
    using assms(2)
    by (auto simp: registerUser_def CreateUser_def Let_def user_conflict_def list_ex_iff
        split: option.splits)
  from wpD[OF this assms(1)] show ?thesis .
qed

lemma wp_loginUser:
  "wp (loginUser E srv cx body) (\<lambda>r w'. users (db w') = users (db w)
    \<and> (\<forall>lr. r = Reply StatusOK lr \<longrightarrow>
        (\<exists>req u h. body = Some req
          \<and> find (\<lambda>x. pg_lower E (u_Email x) = pg_lower E (lg_Email req)) (users (db w)) = Some u
          \<and> u_PasswordHash u = Some h \<and> bcrypt_Compare E h (lg_Password req)
          \<and> session_issued E srv u lr (ticks w') (db w) (db w')))) w"
proof (cases "ShouldBindJSON (valid_loginUserRequest E) body")
  case (Some req)
  show ?thesis
    unfolding loginUser_def Some option.case wp_bind
    by (rule wp_read)
      (use Some in \<open>auto simp: GetUserByEmail_def CheckPassword_def session_issued_users
         split: option.splits sum.splits intro!: wp_issueSession\<close>)
qed (simp add: loginUser_def)

text \<open>C11: Login: no call changes the users, and a 200 answer means the user with that e-mail has a
  password hash that matches the request's password; the one change is one new, unblocked session
  of that user, whose refresh token, id and expiry are those of the answer, and both tokens are
  signed for that user with the configured durations.\<close>

theorem login_sound:
  assumes "run_state (loginUser E srv cx body) w = (r, w')"
  shows "users (db w') = users (db w)
    \<and> (\<forall>lr. r = Reply StatusOK lr \<longrightarrow>
        (\<exists>req u h. body = Some req
          \<and> find (\<lambda>x. pg_lower E (u_Email x) = pg_lower E (lg_Email req)) (users (db w)) = Some u
          \<and> u_PasswordHash u = Some h \<and> bcrypt_Compare E h (lg_Password req)
          \<and> session_issued E srv u lr (ticks w') (db w) (db w')))"
  using wpD[OF wp_loginUser assms] .

text \<open>A login that is refused for its credentials does not say why: with a reachable database an
  unknown e-mail, an Apple-only account and a wrong password get the same 401 answer, and nothing
  changes.\<close>

lemma login_failures_alike:
  assumes "no_faults E" and "valid_loginUserRequest E req"
    and "\<forall>u h. find (\<lambda>x. pg_lower E (u_Email x) = pg_lower E (lg_Email req)) (users (db w)) = Some u \<and>
        u_PasswordHash u = Some h \<longrightarrow> \<not> bcrypt_Compare E h (lg_Password req)"
  shows "run_state (loginUser E srv cx (Some req)) w =
    (Fail StatusUnauthorized errInvalidCredentials, w\<lparr>ticks := Suc (ticks w)\<rparr>)"
  using assms
  by (cases "find (\<lambda>x. pg_lower E (u_Email x) = pg_lower E (lg_Email req)) (users (db w))")
    (auto simp: loginUser_def GetUserByEmail_def CheckPassword_def split: option.splits)

section \<open>Refreshing an access token\<close>

text \<open>The contract of a refresh endpoint over a session table: it writes nothing, and a 200 answer
  means a verified token whose stored session is the caller's, unblocked and unexpired.\<close>

locale refresh_endpoint = keyed_table rows key get
  for rows :: "database \<Rightarrow> 's list" and key :: "'s \<Rightarrow> uuid" and get :: "uuid \<Rightarrow> 's query" +
  fixes owner :: "'s \<Rightarrow> uuid" and token_of :: "'s \<Rightarrow> string" and blocked :: "'s \<Rightarrow> bool"
    and expires :: "'s \<Rightarrow> time" and role :: string
    and renew :: "env \<Rightarrow> Server \<Rightarrow> renewAccessTokenRequest option \<Rightarrow>
      (world, renewAccessTokenResponse reply) state"
  assumes renew_db: "run_state (renew E srv body) w = (r, w') \<Longrightarrow> db w' = db w"
    and renew_live: "run_state (renew E srv body) w = (Reply StatusOK b, w') \<Longrightarrow>
      \<exists>req p s ap. body = Some req
        \<and> verify_at E (sv_tokenMaker srv) (clock E (ticks w)) (rn_RefreshToken req) = Inr p
        \<and> fst (get (pl_ID p) E (ticks w) (db w)) = Inr s \<and> \<not> blocked s \<and> owner s = pl_UserID p
        \<and> token_of s = rn_RefreshToken req \<and> clock E (ticks w + 2) \<le> expires s
        \<and> minted E (sv_tokenMaker srv) (owner s) (pl_Email p) role None
            (AccessTokenDuration (sv_config srv)) (ticks w + 3) (rr_AccessToken b, ap)"
begin

text \<open>A token whose session row is gone is never renewed.\<close>

lemma missing_session_not_renewed:
  assumes "run_state (renew E srv (Some req)) w = (r, w')"
    and "\<And>p. verify_at E (sv_tokenMaker srv) (clock E (ticks w)) (rn_RefreshToken req) = Inr p \<Longrightarrow>
      \<forall>s \<in> set (rows (db w)). key s \<noteq> pl_ID p \<or> owner s \<noteq> pl_UserID p"
  shows "r \<noteq> Reply StatusOK b"
proof
  assume "r = Reply StatusOK b"
  with assms(1) have "run_state (renew E srv (Some req)) w = (Reply StatusOK b, w')" by simp
  from renew_live[OF this] obtain p :: Payload and s where
    "verify_at E (sv_tokenMaker srv) (clock E (ticks w)) (rn_RefreshToken req) = Inr p"
    "fst (get (pl_ID p) E (ticks w) (db w)) = Inr s" "owner s = pl_UserID p"
    by auto
  then show False using assms(2)[of p] get_Inr[of "pl_ID p" E "ticks w" "db w" s] by auto
qed

text \<open>A token no live session holds is never renewed.\<close>

lemma dead_token_not_renewed:
  assumes "run_state (renew E srv (Some req)) w = (r, w')"
    and "\<forall>s \<in> set (rows (db w)). token_of s = rn_RefreshToken req \<longrightarrow>
      blocked s \<or> expires s < clock E (ticks w + 2)"
  shows "r \<noteq> Reply StatusOK b"
proof
  assume "r = Reply StatusOK b"
  with assms(1) have "run_state (renew E srv (Some req)) w = (Reply StatusOK b, w')" by simp
  from renew_live[OF this] obtain p :: Payload and s where "fst (get (pl_ID p) E (ticks w) (db w)) = Inr s"
    "\<not> blocked s" "token_of s = rn_RefreshToken req" "clock E (ticks w + 2) \<le> expires s"
    by auto
  then show False using assms(2) get_Inr[of "pl_ID p" E "ticks w" "db w" s] by fastforce
qed

end

lemma renewAccessToken_live:
  "wp (renewAccessToken E srv body) (\<lambda>r w'. db w' = db w \<and>
     (\<forall>b. r = Reply StatusOK b \<longrightarrow>
       (\<exists>req p s ap. body = Some req
        \<and> verify_at E (sv_tokenMaker srv) (clock E (ticks w)) (rn_RefreshToken req) = Inr p
        \<and> fst (GetSession (pl_ID p) E (ticks w) (db w)) = Inr s \<and> \<not> se_IsBlocked s
        \<and> se_UserID s = pl_UserID p
        \<and> se_RefreshToken s = rn_RefreshToken req \<and> clock E (ticks w + 2) \<le> se_ExpiresAt s
        \<and> minted E (sv_tokenMaker srv) (se_UserID s) (pl_Email p) RoleUser None
            (AccessTokenDuration (sv_config srv)) (ticks w + 3) (rr_AccessToken b, ap)))) w"
proof (cases "ShouldBindJSON valid_renewAccessTokenRequest body")
  case (Some req)
  show ?thesis
  proof (cases "verify_at E (sv_tokenMaker srv) (clock E (ticks w)) (rn_RefreshToken req)")
    case (Inr p)
    have get: "fst (GetSession (pl_ID p) E (Suc (ticks w)) (db w)) = fst (GetSession (pl_ID p) E (ticks w) (db w))"
      by (simp add: GetSession_def)
    show ?thesis
      unfolding renewAccessToken_def Some option.case wp_bind wp_VerifyToken Inr sum.case
      by (rule wp_read)
        (use Some Inr in \<open>auto simp: numeral_eq_Suc get not_less split: sum.splits intro!: wp_CreateToken\<close>)
  qed (simp add: renewAccessToken_def Some)
qed (simp add: renewAccessToken_def)

interpretation user_refresh: refresh_endpoint sessions se_ID GetSession se_UserID se_RefreshToken
  se_IsBlocked se_ExpiresAt RoleUser renewAccessToken
  by unfold_locales (use wpD[OF renewAccessToken_live] in blast)+

text \<open>C10: Refresh: the call writes nothing, and a token that no unblocked, unexpired session holds is
  never exchanged; in particular a blocked session's token stops working at once.\<close>

theorem refresh_needs_live_session:
  assumes "run_state (renewAccessToken E srv (Some req)) w = (r, w')"
    and "\<forall>s \<in> set (sessions (db w)). se_RefreshToken s = rn_RefreshToken req \<longrightarrow>
      se_IsBlocked s \<or> se_ExpiresAt s < clock E (ticks w + 2)"
  shows "db w' = db w \<and> (\<forall>b. r \<noteq> Reply StatusOK b)"
  using user_refresh.renew_db[OF assms(1)] user_refresh.dead_token_not_renewed[OF assms] by blast

text \<open>An environment in which new tokens can be made, and a clock that does not run backwards.\<close>

definition tokens_available :: "env \<Rightarrow> bool" where
  "tokens_available E \<longleftrightarrow>
     (\<forall>i. new_random E i \<noteq> None) \<and> (\<forall>key p. \<exists>tok. jwt_Sign E key p = Some tok \<and> tok \<noteq> [])"

definition monotone_clock :: "env \<Rightarrow> bool" where
  "monotone_clock E \<longleftrightarrow> (\<forall>i j. i \<le> j \<longrightarrow> clock E i \<le> clock E j)"

lemma NewNumericDate_mono: "s \<le> t \<Longrightarrow> NewNumericDate s \<le> NewNumericDate t"
proof -
  assume "s \<le> t"
  then have "second * (s div second) \<le> second * (t div second)"
    by (intro mult_left_mono zdiv_mono1) (simp_all add: second_def)
  then show ?thesis by (simp add: NewNumericDate_def minus_mod_eq_mult_div)
qed

lemma wp_CreateToken_available:
  assumes "tokens_available E"
    and "\<And>tp w'. db w' = db w \<Longrightarrow> Q (Some tp) w'"
  shows "wp (CreateToken E maker uid email d) Q w"
proof -
  obtain tid where r: "new_random E (ticks w) = Some tid"
    using assms(1) unfolding tokens_available_def by blast
  let ?p = "\<lparr>pl_ID = tid, pl_UserID = uid, pl_Email = email, pl_Role = RoleUser, pl_StoreID = None,
    pl_IssuedAt = clock E (Suc (ticks w)), pl_ExpiredAt = clock E (Suc (ticks w)) + d\<rparr>"
  obtain tok where "jwt_Sign E (secretKey maker) ?p = Some tok"
    using assms(1) unfolding tokens_available_def by blast
  with r show ?thesis by (simp add: CreateToken_def CreateRoleToken_def NewPayload_def assms(2))
qed

text \<open>C16: A login's refresh token works: with a reachable database and a clock that does not run
  backwards, as long as the session's row is still as the login left it and the clock is before
  the refresh token's last whole second, the token is exchanged for a new access token.\<close>

theorem login_then_refresh:
  assumes "jwt_laws E" and "no_faults E" and "tokens_available E" and "monotone_clock E"
    and login: "run_state (loginUser E srv cx body) w = (Reply StatusOK lr, w1)"
    and later: "ticks w1 \<le> ticks v"
    and stored: "GetSession (lr_SessionID lr) E (Suc (ticks v)) (db v) =
      (fst (GetSession (lr_SessionID lr) E (ticks w1) (db w1)), db v)"
    and "clock E (ticks v) < NewNumericDate (lr_RefreshTokenExpiresAt lr)"
    and "clock E (ticks v + 2) \<le> lr_RefreshTokenExpiresAt lr"
  shows "\<exists>b v'. run_state (renewAccessToken E srv (Some \<lparr>rn_RefreshToken = lr_RefreshToken lr\<rparr>)) v
      = (Reply StatusOK b, v')"
proof -
  obtain u where "session_issued E srv u lr (ticks w1) (db w) (db w1)"
    using wpD[OF wp_loginUser login] by auto
  then obtain s j rp where s: "db w1 = db w\<lparr>sessions := sessions (db w) @ [s]\<rparr>"
      "\<forall>x \<in> set (sessions (db w)). se_ID x \<noteq> se_ID s" "se_UserID s = u_ID u" "\<not> se_IsBlocked s"
      "se_ID s = lr_SessionID lr" "se_RefreshToken s = lr_RefreshToken lr"
      "se_ExpiresAt s = lr_RefreshTokenExpiresAt lr"
    and m: "minted E (sv_tokenMaker srv) (u_ID u) (u_Email u) RoleUser None
      (RefreshTokenDuration (sv_config srv)) j (lr_RefreshToken lr, rp)"
    and j: "Suc j < ticks w1" and rp: "pl_ID rp = lr_SessionID lr" "pl_ExpiredAt rp = lr_RefreshTokenExpiresAt lr"
    unfolding session_issued_def by blast
  note rpd = mintedD[OF m]
  have "find (\<lambda>x. se_ID x = lr_SessionID lr) (sessions (db w)) = None"
    using s(2,5) by (auto simp: find_None_iff)
  then have row: "GetSession (pl_ID rp) E (Suc (ticks v)) (db v) = (Inr s, db v)"
    using stored rp s(1,5) by (simp add: GetSession_def find_append)
  have "clock E (Suc j) \<le> clock E (ticks v)"
    using assms(4) j later unfolding monotone_clock_def by (meson less_imp_le order_trans)
  then have "GetNotBefore rp \<le> clock E (ticks v)"
    using NewNumericDate_le[of "pl_IssuedAt rp"] rpd(7) by (simp add: GetNotBefore_def)
  moreover have "clock E (ticks v) < GetExpirationTime rp"
    using assms(8) rp by (simp add: GetExpirationTime_def)
  ultimately have ver: "verify_at E (sv_tokenMaker srv) (clock E (ticks v)) (lr_RefreshToken lr) = Inr rp"
    using verify_at_signed[OF assms(1) rpd(1)] by simp
  obtain tok where "jwt_Sign E (secretKey (sv_tokenMaker srv)) rp = Some tok" "tok \<noteq> []"
    using assms(3) unfolding tokens_available_def by blast
  with rpd(1) have "lr_RefreshToken lr \<noteq> []" by simp
  then have "wp (renewAccessToken E srv (Some \<lparr>rn_RefreshToken = lr_RefreshToken lr\<rparr>))
      (\<lambda>r _. \<exists>b. r = Reply StatusOK b) v"
    using row ver s(3,4,6,7) rpd(3) assms(2,9)
    apply (simp add: renewAccessToken_def valid_renewAccessTokenRequest_def numeral_2_eq_2 not_less)
    apply (rule wp_CreateToken_available[OF assms(3)])
    apply (simp split: prod.split)
    done
  then show ?thesis
    by (cases "run_state (renewAccessToken E srv (Some \<lparr>rn_RefreshToken = lr_RefreshToken lr\<rparr>)) v")
      (auto simp: wp_def)
qed

section \<open>Sign in with Apple\<close>

text \<open>What the sign-in may do to the accounts: nothing, or add one without a password, linked to an Apple
  id, under an address nobody else has.\<close>

definition apple_accounts :: "env \<Rightarrow> database \<Rightarrow> database \<Rightarrow> bool" where
  "apple_accounts E d d' \<longleftrightarrow> users d' = users d
     \<or> (\<exists>u. users d' = users d @ [u] \<and> u_PasswordHash u = None \<and> u_AppleUserID u \<noteq> None
          \<and> (\<forall>x \<in> set (users d). pg_lower E (u_Email x) \<noteq> pg_lower E (u_Email u)))"

lemma CreateUser_apple:
  assumes "CreateUser arg E i d = (r, d')" and "cu_PasswordHash arg = None" and "cu_AppleUserID arg = Some sub"
  shows "apple_accounts E d d' \<and> d' = d\<lparr>users := users d'\<rparr>
    \<and> (\<forall>u. r = Inr u \<longrightarrow> u \<in> set (users d') \<and> u_AppleUserID u = Some sub)"
  using assms by (auto simp: apple_accounts_def CreateUser_def Let_def list_ex_iff user_conflict_def split: if_splits)

text \<open>Finding the account or making it: what comes back is linked to the id.\<close>

lemma wp_find_or_create:
  assumes ok: "\<And>u w'. apple_accounts E (db w) (db w') \<Longrightarrow> db w' = (db w)\<lparr>users := users (db w')\<rparr> \<Longrightarrow>
      u \<in> set (users (db w')) \<Longrightarrow> u_AppleUserID u = Some (id_Subject ident) \<Longrightarrow> Q (Inr u) w'"
    and err: "\<And>e w'. apple_accounts E (db w) (db w') \<Longrightarrow> Q (Inl e) w'"
  shows "wp (db_call E (GetUserByAppleID (Some (id_Subject ident))))
    (\<lambda>r. wp (if r = Inl NoRows then createAppleUser E ident fallback (Some (id_Subject ident))
              else State_Monad.return r) Q) w"
proof -
  have kept: "apple_accounts E d d" for d by (simp add: apple_accounts_def)
  have answer: "Q r w'" if "apple_accounts E (db w) (db w')" "db w' = (db w)\<lparr>users := users (db w')\<rparr>"
    "\<forall>u. r = Inr u \<longrightarrow> u \<in> set (users (db w')) \<and> u_AppleUserID u = Some (id_Subject ident)" for r w'
    using that ok err by (cases r) auto
  let ?arg = "\<lparr>cu_Email = apple_email ident fallback, cu_PasswordHash = None, cu_AppleUserID = Some (id_Subject ident)\<rparr>"
  have create: "wp (createAppleUser E ident fallback (Some (id_Subject ident))) Q w'" if "db w' = db w" for w'
    unfolding createAppleUser_def
    by (rule wp_db_call) (auto simp: that kept intro!: answer err dest!: CreateUser_apple[of ?arg])
  show ?thesis
    by (rule wp_read) (auto simp: GetUserByAppleID_def query_row_def find_Some_iff kept create
        intro!: answer err split: option.splits)
qed

text \<open>C17: Sign in with Apple: the users only ever grow, by one Apple-only account without a password
  whose e-mail no existing account has, so an existing password account is never linked or changed; and a
  200 answer means that the identity token passed Apple's checks when it was presented: its issuer is
  Apple, its audience the configured one, its signature is valid then under the key of its key id that a
  lookup at the call may use (cached for less than an hour, or the one Apple serves at that moment, or the
  cached one while Apple serves none), and its subject is not empty. The session in the answer is the one
  row that was added, for the account with that subject.\<close>

theorem apple_sign_in_sound:
  assumes "run_state (appleSignIn E srv cx body) w = (r, w')"
  shows "(users (db w') = users (db w)
      \<or> (\<exists>u. users (db w') = users (db w) @ [u] \<and> u_PasswordHash u = None \<and> u_AppleUserID u \<noteq> None
          \<and> (\<forall>x \<in> set (users (db w)). pg_lower E (u_Email x) \<noteq> pg_lower E (u_Email u))))
    \<and> (\<forall>lr. r = Reply StatusOK lr \<longrightarrow>
        (\<exists>aud req ident u. sv_apple srv = Some aud \<and> body = Some req
          \<and> identity_checked E aud (as_IdentityToken req) ident w
          \<and> u \<in> set (users (db w')) \<and> u_AppleUserID u = Some (id_Subject ident)
          \<and> session_issued E srv u lr (ticks w') ((db w)\<lparr>users := users (db w')\<rparr>) (db w')))"
proof -
  define Q where "Q = (\<lambda>r (w' :: world). apple_accounts E (db w) (db w')
    \<and> (\<forall>lr. r = Reply StatusOK lr \<longrightarrow>
        (\<exists>aud req ident u. sv_apple srv = Some aud \<and> body = Some req
          \<and> identity_checked E aud (as_IdentityToken req) ident w
          \<and> u \<in> set (users (db w')) \<and> u_AppleUserID u = Some (id_Subject ident)
          \<and> session_issued E srv u lr (ticks w') ((db w)\<lparr>users := users (db w')\<rparr>) (db w'))))"
  have same: "apple_accounts E (db w) d" if "users d = users (db w)" for d
    using that by (simp add: apple_accounts_def)
  have issue: "wp (issueSession E srv cx u) Q t"
    if "sv_apple srv = Some aud" "body = Some req" "identity_checked E aud (as_IdentityToken req) ident w"
      "u \<in> set (users (db t))" "u_AppleUserID u = Some (id_Subject ident)" "apple_accounts E (db w) (db t)"
      "db t = (db w)\<lparr>users := users (db t)\<rparr>"
    for aud req ident u t
  proof (rule wp_issueSession)
    fix lr and w' :: world
    assume i: "session_issued E srv u lr (ticks w') (db t) (db w')"
    then have u: "users (db w') = users (db t)" by (rule session_issued_users)
    have "session_issued E srv u lr (ticks w') ((db w)\<lparr>users := users (db w')\<rparr>) (db w')"
      using i that(7) unfolding u by simp
    with that u show "Q (Reply StatusOK lr) w'" unfolding Q_def apple_accounts_def by auto
  qed (use that(6) in \<open>simp add: Q_def apple_accounts_def\<close>)
  have "wp (appleSignIn E srv cx body) Q w"
  proof (cases "\<exists>aud req. sv_apple srv = Some aud \<and> ShouldBindJSON valid_appleSignInRequest body = Some req")
    case True
    then obtain aud req where c: "sv_apple srv = Some aud" "body = Some req"
      "ShouldBindJSON valid_appleSignInRequest body = Some req" by auto
    show ?thesis
      unfolding appleSignIn_def c(1,3) option.case wp_bind
    proof (rule wp_Verify, goal_cases)
      case (2 ident v)
      show ?case
        unfolding sum.case wp_bind
        by (rule wp_find_or_create) (use 2 issue[OF c(1,2) 2(3)] in \<open>simp_all add: Q_def\<close>)
    qed (simp add: Q_def same)
  qed (auto simp: appleSignIn_def Q_def same split: option.splits)
  from wpD[OF this assms] show ?thesis unfolding Q_def apple_accounts_def .
qed

end
