(* ===== verification/GF_Auth_Runs.thy ===== *)
theory GF_Auth_Runs
  imports GF_Auth
begin

text \<open>
  Concrete runs of the account handlers, and the witnesses of their properties: Ann registers,
  logs in, calls a guarded route, refreshes her token, and somebody signs in with Apple.
\<close>

section \<open>Sample runs\<close>

text \<open>Ann registers, logs in, and refreshes her access token.\<close>

definition ann_registration :: registerUserRequest where
  "ann_registration = \<lparr>rg_Email = ''ann@example.jp'', rg_Password = ''long password''\<rparr>"

definition ann :: User where
  "ann = new_user sample_env 1
     \<lparr>cu_Email = ''ann@example.jp'', cu_PasswordHash = Some ''$long password'', cu_AppleUserID = None\<rparr>"

definition ann_db :: database where "ann_db = empty_db\<lparr>users := [ann]\<rparr>"

definition ann_credentials :: loginUserRequest where
  "ann_credentials = \<lparr>lg_Email = ''Ann@Example.jp'', lg_Password = ''long password''\<rparr>"

definition ann_refresh :: Payload where
  "ann_refresh = sample_payload 3 (u_ID ann) ''ann@example.jp'' RoleUser None (24 * hour)"

definition ann_session :: Session where
  "ann_session = new_session sample_env 5
     \<lparr>cs_ID = pl_ID ann_refresh, cs_UserID = u_ID ann,
      cs_RefreshToken = sample_token (secretKey sample_maker) ann_refresh,
      cs_UserAgent = ''agent'', cs_ClientIp = ''10.0.0.1'', cs_IsBlocked = False,
      cs_ExpiresAt = pl_ExpiredAt ann_refresh\<rparr>"

definition ann_login :: loginUserResponse where
  "ann_login =
     (let ap = sample_payload 1 (u_ID ann) ''ann@example.jp'' RoleUser None (15 * minute) in
      \<lparr>lr_AccessToken = sample_token (secretKey sample_maker) ap, lr_AccessTokenExpiresAt = pl_ExpiredAt ap,
       lr_RefreshToken = sample_token (secretKey sample_maker) ann_refresh,
       lr_RefreshTokenExpiresAt = pl_ExpiredAt ann_refresh, lr_SessionID = pl_ID ann_refresh,
       lr_User = newUserResponse ann\<rparr>)"

lemma ann_registers:
  "run_state (registerUser sample_env sample_server (Some ann_registration)) (world_of empty_db) =
     (Reply StatusCreated (newUserResponse ann), (world_of ann_db)\<lparr>ticks := 2\<rparr>)"
  by (simp add: registerUser_def valid_registerUserRequest_def ann_registration_def RuneCount_def
      CreateUser_def Let_def empty_db_def ann_def ann_db_def world_of_def)

lemma ann_sel [simp]:
  "u_ID ann = 2001" "u_Email ann = ''ann@example.jp''" "u_PasswordHash ann = Some ''$long password''"
  "users ann_db = [ann]" "sessions ann_db = []"
  by (simp_all add: ann_def ann_db_def empty_db_def)

lemma ann_found: "find (\<lambda>r. ToLower (u_Email r) = ToLower ''Ann@Example.jp'') [ann] = Some ann"
proof -
  have "ToLower ''ann@example.jp'' = ToLower ''Ann@Example.jp''" by code_simp
  then show ?thesis by simp
qed

lemma ann_logs_in:
  "run_state (loginUser sample_env sample_server sample_ctx (Some ann_credentials)) (world_of ann_db) =
     (Reply StatusOK ann_login, (world_of (ann_db\<lparr>sessions := [ann_session]\<rparr>))\<lparr>ticks := 6\<rparr>)"
  by (simp add: loginUser_def valid_loginUserRequest_def ann_credentials_def GetUserByEmail_def ann_found
      CheckPassword_def issueSession_def CreateToken_def CreateRoleToken_def NewPayload_def CreateSession_def
      Let_def ann_login_def ann_session_def ann_refresh_def sample_payload_def sample_ctx_def world_of_def
      numeral_eq_Suc del: find.simps)

section \<open>Witnesses\<close>

definition ann_access :: Payload where
  "ann_access = sample_payload 1 2001 ''ann@example.jp'' RoleUser None (15 * minute)"

definition ann_bearer :: string where
  "ann_bearer = ''Bearer '' @ lr_AccessToken ann_login"

lemma ann_access_token: "lr_AccessToken ann_login = sample_token (secretKey sample_maker) ann_access"
  by (simp add: ann_login_def ann_access_def Let_def)

lemma ann_bearer_token: "bearer_token ann_bearer = Inr (sample_token (secretKey sample_maker) ann_access)"
  unfolding ann_bearer_def ann_access_token
  by (rule bearer_sample_token) (simp_all add: ann_access_def sample_payload_def plain_def RoleUser_def)

lemma ann_access_verified:
  "2 \<le> i \<Longrightarrow> i < 900 \<Longrightarrow>
   verify_at sample_env sample_maker (sample_now i) (sample_token (secretKey sample_maker) ann_access) =
     Inr ann_access"
  by (simp add: verify_sample_token GetExpirationTime_def GetNotBefore_def ann_access_def sample_payload_def
      NewNumericDate_def sample_now_def second_def minute_def)

theorem token_window_witness:
  "fst (run_state (VerifyToken sample_env sample_maker (sample_token (secretKey sample_maker) ann_access))
      ((world_of ann_db)\<lparr>ticks := 60\<rparr>)) = Inr ann_access"
proof -
  have "run_state (CreateRoleToken sample_env sample_maker 2001 ''ann@example.jp'' RoleUser None (15 * minute))
      ((world_of ann_db)\<lparr>ticks := 1\<rparr>) =
    (Some (sample_token (secretKey sample_maker) ann_access, ann_access), (world_of ann_db)\<lparr>ticks := 3\<rparr>)"
    by (simp add: CreateRoleToken_def NewPayload_def ann_access_def sample_payload_def)
  from token_window[OF sample_jwt_laws this] show ?thesis
    by (simp del: run_VerifyToken)
      (simp add: sample_now_def second_def minute_def NewNumericDate_def)
qed

theorem guarded_route_witness:
  "run_state (authMiddleware sample_env sample_maker ann_bearer (requireRole RoleUser (getCurrentUser sample_env)))
      ((world_of ann_db)\<lparr>ticks := 60\<rparr>) =
    run_state (getCurrentUser sample_env ann_access) ((world_of ann_db)\<lparr>ticks := 61\<rparr>)"
proof -
  let ?m = "authMiddleware sample_env sample_maker ann_bearer (requireRole RoleUser (getCurrentUser sample_env))"
  let ?w = "(world_of ann_db)\<lparr>ticks := 60\<rparr>"
  have r: "fst (run_state ?m ?w) = Reply StatusOK (newUserResponse ann)"
    using ann_access_verified[of 60]
    by (simp add: authMiddleware_def ann_bearer_token requireRole_def getCurrentUser_def currentUser_def
        GetUserByID_def ann_access_def sample_payload_def)
  have run: "run_state ?m ?w = (Reply StatusOK (newUserResponse ann), snd (run_state ?m ?w))"
    using r by (metis prod.collapse)
  from guarded_route[OF sample_jwt_laws run] obtain scheme tok rest p where
    "Fields ann_bearer = scheme # tok # rest" "ToLower scheme = ''bearer''"
    "verify_at sample_env sample_maker (sample_now 60) tok = Inr p"
    "run_state (getCurrentUser sample_env p) ((world_of ann_db)\<lparr>ticks := 61\<rparr>) =
      (Reply StatusOK (newUserResponse ann), snd (run_state ?m ?w))"
    by auto
  then show ?thesis
    using run ann_access_verified[of 60] ann_bearer_token by (auto simp: bearer_token_Inr)
qed

lemma ann_password: "rg_Password ann_registration = ''long password''"
  by (simp add: ann_registration_def)

theorem register_adds_one_user_witness:
  "\<exists>u. users (db (snd (run_state (registerUser sample_env sample_server (Some ann_registration))
      (world_of empty_db)))) = [u] \<and> u_PasswordHash u = Some ''$long password''"
proof -
  from register_adds_one_user[OF ann_registers] obtain u h where
    "ann_db = empty_db\<lparr>users := users empty_db @ [u]\<rparr>" "u_PasswordHash u = Some h"
    "bcrypt_Generate sample_env 0 (rg_Password ann_registration) = Some h"
    by auto
  moreover from arg_cong[OF this(1), of users] have "users ann_db = [u]" by (simp add: empty_db_def)
  ultimately show ?thesis by (auto simp: ann_registers ann_password)
qed

theorem login_sound_witness:
  "\<exists>u lr. session_issued sample_env sample_server u lr 6 ann_db (ann_db\<lparr>sessions := [ann_session]\<rparr>)"
  using login_sound[OF ann_logs_in] by auto

theorem login_failures_alike_witness:
  "fst (run_state (loginUser sample_env sample_server sample_ctx
      (Some \<lparr>lg_Email = ''Ann@Example.jp'', lg_Password = ''wrong''\<rparr>)) (world_of ann_db)) =
    Fail StatusUnauthorized errInvalidCredentials"
  by (subst login_failures_alike) (auto simp: valid_loginUserRequest_def ann_found)

theorem refresh_needs_live_session_witness:
  "\<forall>b. fst (run_state (renewAccessToken sample_env sample_server
      (Some \<lparr>rn_RefreshToken = lr_RefreshToken ann_login\<rparr>))
      (world_of (ann_db\<lparr>sessions := [ann_session\<lparr>se_IsBlocked := True\<rparr>]\<rparr>))) \<noteq> Reply StatusOK b"
proof -
  let ?m = "renewAccessToken sample_env sample_server (Some \<lparr>rn_RefreshToken = lr_RefreshToken ann_login\<rparr>)"
  let ?w = "world_of (ann_db\<lparr>sessions := [ann_session\<lparr>se_IsBlocked := True\<rparr>]\<rparr>)"
  have "run_state ?m ?w = (fst (run_state ?m ?w), snd (run_state ?m ?w))" by simp
  from refresh_needs_live_session[OF this] show ?thesis by simp
qed

lemma sample_tokens_available [simp]: "tokens_available sample_env"
  by (simp add: tokens_available_def)

lemma sample_monotone_clock [simp]: "monotone_clock sample_env"
  by (simp add: monotone_clock_def)

theorem login_then_refresh_witness:
  "\<exists>b v'. run_state (renewAccessToken sample_env sample_server
      (Some \<lparr>rn_RefreshToken = lr_RefreshToken ann_login\<rparr>))
      ((world_of (ann_db\<lparr>sessions := [ann_session]\<rparr>))\<lparr>ticks := 3600\<rparr>) = (Reply StatusOK b, v')"
  by (rule login_then_refresh[OF sample_jwt_laws _ sample_tokens_available sample_monotone_clock ann_logs_in])
    (simp_all add: GetSession_def ann_login_def ann_refresh_def sample_payload_def Let_def sample_now_def
      second_def minute_def hour_def NewNumericDate_def)

text \<open>A token Apple signed, and the environment that accepts it.\<close>

definition apple_env :: env where
  "apple_env = sample_env\<lparr>apple_decode := (\<lambda>s. Some (Some (JStr ''k1''), [(''sub'', JStr ''apple-7'')])),
     apple_check := (\<lambda>_ _ _ _ _. True),
     apple_fetch := (\<lambda>_. Inr [(''RSA'', ''k1'', ''3q0'', ''AQAB'')])\<rparr>"

definition apple_request :: appleSignInRequest where
  "apple_request = \<lparr>as_IdentityToken = ''jwt'', as_Email = ''ann@example.jp''\<rparr>"

lemma apple_key: "rsaPublicKeyFromJWK ''3q0'' ''AQAB'' = Some \<lparr>rsa_N = 57005, rsa_E = 65537\<rparr>"
  by (simp add: rsaPublicKeyFromJWK_def RawURLDecode_def b64_val_def bytes_def codes_def modulus_def
      exponent_def Let_def)

lemma apple_env_sel [simp]:
  "db_fault apple_env i = NoFault" "clock apple_env = sample_now" "pg_clock apple_env = sample_now"
  "new_random apple_env i = Some (of_nat (1000 + i))" "pg_lower apple_env = ToLower"
  "jwt_Sign apple_env key p = Some (sample_token key p)"
  "apple_decode apple_env s = Some (Some (JStr ''k1''), [(''sub'', JStr ''apple-7'')])"
  "apple_check apple_env now iss aud k s"
  "apple_fetch apple_env i = Inr [(''RSA'', ''k1'', ''3q0'', ''AQAB'')]"
  by (simp_all add: apple_env_def)

lemma apple_signs_in:
  "\<exists>lr w'. run_state (appleSignIn apple_env sample_server sample_ctx (Some apple_request)) (world_of empty_db)
    = (Reply StatusOK lr, w')"
  by (simp add: appleSignIn_def apple_request_def valid_appleSignInRequest_def Verify_def Key_def
     get_keys_def world_of_def key_refresh_def apple_key set_keys_def Let_def claim_def
     GetUserByAppleID_def empty_db_def createAppleUser_def apple_email_def CreateUser_def
     issueSession_def CreateToken_def CreateRoleToken_def NewPayload_def CreateSession_def)

theorem apple_sign_in_sound_witness:
  "\<exists>lr w' u ident. run_state (appleSignIn apple_env sample_server sample_ctx (Some apple_request))
      (world_of empty_db) = (Reply StatusOK lr, w')
    \<and> u \<in> set (users (db w')) \<and> u_AppleUserID u = Some (id_Subject ident)
    \<and> identity_checked apple_env ''jp.app'' ''jwt'' ident (world_of empty_db)
    \<and> trusted_key apple_env (world_of empty_db) ''k1'' \<lparr>rsa_N = 57005, rsa_E = 65537\<rparr> 2"
proof -
  obtain lr w' where run: "run_state (appleSignIn apple_env sample_server sample_ctx (Some apple_request))
      (world_of empty_db) = (Reply StatusOK lr, w')"
    using apple_signs_in by blast
  from apple_sign_in_sound[OF run] obtain u ident where
    "u \<in> set (users (db w'))" "u_AppleUserID u = Some (id_Subject ident)"
    "identity_checked apple_env ''jp.app'' ''jwt'' ident (world_of empty_db)"
    by (auto simp: apple_request_def)
  moreover have "trusted_key apple_env (world_of empty_db) ''k1'' \<lparr>rsa_N = 57005, rsa_E = 65537\<rparr> 2"
    by (simp add: trusted_key_def Let_def world_of_def apple_key)
  ultimately show ?thesis using run by blast
qed

end
