(* ===== verification/GF_Subscription.thy ===== *)
theory GF_Subscription
  imports GF_Sample
begin

text \<open>
  Subscriptions: \<open>api/storekit.go\<close> (verifying a StoreKit transaction, App Store server
  notifications) and \<open>api/subscription.go\<close>.
\<close>

section \<open>Status of a transaction\<close>

definition deriveStatus :: "TransactionPayload \<Rightarrow> time \<Rightarrow> ReceiptStatus \<times> SubscriptionStatus" where
  "deriveStatus tx now =
     (if IsRevoked tx then (ReceiptStatusRevoked, SubscriptionStatusRevoked)
      else if tx_ExpiresDateMS tx > 0 \<and> ExpiresAt tx < now then (ReceiptStatusExpired, SubscriptionStatusExpired)
      else (ReceiptStatusActive, SubscriptionStatusActive))"

definition statusFromNotification ::
  "string \<Rightarrow> TransactionPayload \<Rightarrow> time \<Rightarrow> ReceiptStatus \<times> SubscriptionStatus" where
  "statusFromNotification nType tx now =
     (if nType = ''SUBSCRIBED'' \<or> nType = ''DID_RENEW'' then (ReceiptStatusActive, SubscriptionStatusActive)
      else if nType = ''DID_FAIL_TO_RENEW'' then (ReceiptStatusBillingRetry, SubscriptionStatusActive)
      else if nType = ''EXPIRED'' then (ReceiptStatusExpired, SubscriptionStatusExpired)
      else if nType = ''REVOKE'' then (ReceiptStatusRevoked, SubscriptionStatusRevoked)
      else deriveStatus tx now)"

definition expiryTimestamptz :: "int \<Rightarrow> time option" where
  "expiryTimestamptz ms = (if ms \<le> 0 then None else Some (UnixMilli ms))"

definition environmentFromApple :: "string \<Rightarrow> SubscriptionEnvironment" where
  "environmentFromApple env =
     (if EqualFold env ''Production'' then SubscriptionEnvironmentProduction
      else SubscriptionEnvironmentSandbox)"

section \<open>Handlers\<close>

definition errStoreKitNotConfigured :: api_error where
  "errStoreKitNotConfigured = ErrMsg ''apple subscription verification is not configured''"

record verifySubscriptionRequest =
  vs_SignedTransaction :: string

definition valid_verifySubscriptionRequest :: "verifySubscriptionRequest \<Rightarrow> bool" where
  "valid_verifySubscriptionRequest req \<longleftrightarrow> vs_SignedTransaction req \<noteq> []"

record subscriptionResponse =
  sb_SubscriptionStatus :: string
  sb_SubExpiresAt :: "time option"
  sb_OriginalTxID :: string
  sb_Environment :: string

text \<open>The two statements that record a status: the receipt, then its user.\<close>

definition receipt_params ::
  "uuid \<Rightarrow> TransactionPayload \<Rightarrow> ReceiptStatus \<Rightarrow> UpsertSubscriptionReceiptParams" where
  "receipt_params uid tx receiptStatus =
     \<lparr>ur_UserID = uid, ur_OriginalTxID = tx_OriginalTransactionID tx, ur_ProductID = tx_ProductID tx,
      ur_Environment = environmentFromApple (tx_Environment tx), ur_Status = receiptStatus,
      ur_ExpiresAt = expiryTimestamptz (tx_ExpiresDateMS tx)\<rparr>"

definition user_params :: "uuid \<Rightarrow> TransactionPayload \<Rightarrow> SubscriptionStatus \<Rightarrow> UpdateSubscriptionParams" where
  "user_params uid tx userStatus =
     \<lparr>us_ID = uid, us_SubscriptionStatus = userStatus,
      us_SubExpiresAt = expiryTimestamptz (tx_ExpiresDateMS tx)\<rparr>"

definition verifySubscription ::
  "env \<Rightarrow> Server \<Rightarrow> verifySubscriptionRequest option \<Rightarrow> Payload \<Rightarrow> (world, subscriptionResponse reply) state" where
  "verifySubscription E srv body authPayload =
     (case sv_appstore srv of
        None \<Rightarrow> State_Monad.return (Fail StatusNotImplemented errStoreKitNotConfigured)
      | Some v \<Rightarrow>
          (case ShouldBindJSON valid_verifySubscriptionRequest body of
             None \<Rightarrow> State_Monad.return (Fail StatusBadRequest ErrBinding)
           | Some req \<Rightarrow> do {
               t \<leftarrow> VerifyTransaction E v (vs_SignedTransaction req);
               case t of
                 Inl err \<Rightarrow> State_Monad.return (Fail StatusBadRequest (ErrLib err))
               | Inr tx \<Rightarrow>
                   (if tx_OriginalTransactionID tx = []
                    then State_Monad.return
                      (Fail StatusBadRequest (ErrMsg ''transaction missing originalTransactionId''))
                    else do {
                      now \<leftarrow> TimeNow E;
                      let (receiptStatus, userStatus) = deriveStatus tx now;
                      r \<leftarrow> db_call E (UpsertSubscriptionReceipt
                        (receipt_params (pl_UserID authPayload) tx receiptStatus));
                      case r of
                        Inl err \<Rightarrow> State_Monad.return (Fail StatusInternalServerError (ErrDB err))
                      | Inr receipt \<Rightarrow> do {
                          u \<leftarrow> db_call E (UpdateSubscription (user_params (pl_UserID authPayload) tx userStatus));
                          State_Monad.return (case u of
                            Inl err \<Rightarrow> Fail StatusInternalServerError (ErrDB err)
                          | Inr user \<Rightarrow> Reply StatusOK
                              \<lparr>sb_SubscriptionStatus = SubscriptionStatus_text (u_SubscriptionStatus user),
                               sb_SubExpiresAt = u_SubExpiresAt user,
                               sb_OriginalTxID = sr_OriginalTxID receipt,
                               sb_Environment = SubscriptionEnvironment_text (sr_Environment receipt)\<rparr>)
                        }
                    })
             }))"

record appleWebhookRequest =
  wr_SignedPayload :: string

definition valid_appleWebhookRequest :: "appleWebhookRequest \<Rightarrow> bool" where
  "valid_appleWebhookRequest req \<longleftrightarrow> wr_SignedPayload req \<noteq> []"

record webhookResponse =
  wh_ok :: bool
  wh_handled :: bool

definition appleWebhook ::
  "env \<Rightarrow> Server \<Rightarrow> appleWebhookRequest option \<Rightarrow> (world, webhookResponse reply) state" where
  "appleWebhook E srv body =
     (case sv_appstore srv of
        None \<Rightarrow> State_Monad.return (Fail StatusNotImplemented errStoreKitNotConfigured)
      | Some v \<Rightarrow>
          (case ShouldBindJSON valid_appleWebhookRequest body of
             None \<Rightarrow> State_Monad.return (Fail StatusBadRequest ErrBinding)
           | Some req \<Rightarrow> do {
               n \<leftarrow> VerifyNotification E v (wr_SignedPayload req);
               case n of
                 Inl err \<Rightarrow> State_Monad.return (Fail StatusBadRequest (ErrLib err))
               | Inr (notif, txo) \<Rightarrow>
                   (case txo of
                      None \<Rightarrow> State_Monad.return (Reply StatusOK \<lparr>wh_ok = True, wh_handled = False\<rparr>)
                    | Some tx \<Rightarrow>
                        (if tx_OriginalTransactionID tx = []
                         then State_Monad.return (Reply StatusOK \<lparr>wh_ok = True, wh_handled = False\<rparr>)
                         else do {
                           g \<leftarrow> db_call E (GetReceiptByOriginalTxID (tx_OriginalTransactionID tx));
                           case g of
                             Inl err \<Rightarrow> State_Monad.return
                               (if err = NoRows then Reply StatusOK \<lparr>wh_ok = True, wh_handled = False\<rparr>
                                else Fail StatusInternalServerError (ErrDB err))
                           | Inr receipt \<Rightarrow> do {
                               now \<leftarrow> TimeNow E;
                               let (receiptStatus, userStatus) =
                                 statusFromNotification (np_NotificationType notif) tx now;
                               r \<leftarrow> db_call E (UpsertSubscriptionReceipt
                                 (receipt_params (sr_UserID receipt) tx receiptStatus));
                               case r of
                                 Inl err \<Rightarrow> State_Monad.return (Fail StatusInternalServerError (ErrDB err))
                               | Inr _ \<Rightarrow> do {
                                   u \<leftarrow> db_call E (UpdateSubscription
                                     (user_params (sr_UserID receipt) tx userStatus));
                                   State_Monad.return (case u of
                                     Inl err \<Rightarrow> Fail StatusInternalServerError (ErrDB err)
                                   | Inr _ \<Rightarrow> Reply StatusOK \<lparr>wh_ok = True, wh_handled = True\<rparr>)
                                 }
                             }
                         }))
             }))"

record subscriptionStatusResponse =
  ss_SubscriptionStatus :: string
  ss_IsActive :: bool
  ss_SubExpiresAt :: "time option"

definition getSubscriptionStatus :: "env \<Rightarrow> Payload \<Rightarrow> (world, subscriptionStatusResponse reply) state" where
  "getSubscriptionStatus E authPayload = do {
     r \<leftarrow> db_call E (GetUserByID (pl_UserID authPayload));
     State_Monad.return (case r of
       Inl err \<Rightarrow>
         (if err = NoRows then Fail StatusNotFound (ErrMsg ''user not found'')
          else Fail StatusInternalServerError (ErrDB err))
     | Inr user \<Rightarrow> Reply StatusOK
         \<lparr>ss_SubscriptionStatus = SubscriptionStatus_text (u_SubscriptionStatus user),
          ss_IsActive = (SubscriptionStatus_text (u_SubscriptionStatus user) = ''active''),
          ss_SubExpiresAt = u_SubExpiresAt user\<rparr>)
   }"

section \<open>Facts\<close>

text \<open>What never changes of a receipt: its id, its transaction, its owner.\<close>

definition receipt_identity :: "SubscriptionReceipt \<Rightarrow> uuid \<times> string \<times> uuid" where
  "receipt_identity r = (sr_ID r, sr_OriginalTxID r, sr_UserID r)"

text \<open>What both handlers leave behind when both statements succeed.\<close>

definition subscription_recorded ::
  "uuid \<Rightarrow> TransactionPayload \<Rightarrow> ReceiptStatus \<times> SubscriptionStatus \<Rightarrow> database \<Rightarrow> database \<Rightarrow> bool" where
  "subscription_recorded uid tx st d d' \<longleftrightarrow>
     (\<exists>u \<in> set (users d'). u_ID u = uid \<and> u_SubscriptionStatus u = snd st
        \<and> u_SubExpiresAt u = expiryTimestamptz (tx_ExpiresDateMS tx))
   \<and> filter (\<lambda>u. u_ID u \<noteq> uid) (users d') = filter (\<lambda>u. u_ID u \<noteq> uid) (users d)
   \<and> (\<exists>r \<in> set (subscription_receipts d'). sr_OriginalTxID r = tx_OriginalTransactionID tx
        \<and> sr_Status r = fst st)
   \<and> receipt_identity ` set (subscription_receipts d) \<subseteq> receipt_identity ` set (subscription_receipts d')
   \<and> d' = d\<lparr>users := users d', subscription_receipts := subscription_receipts d'\<rparr>"

lemma Upsert_Inr:
  assumes "UpsertSubscriptionReceipt arg E i d = (Inr r, d')"
  shows "r \<in> set (subscription_receipts d')" "sr_OriginalTxID r = ur_OriginalTxID arg"
    "sr_Status r = ur_Status arg" "sr_Environment r = ur_Environment arg"
    "d' = d\<lparr>subscription_receipts := subscription_receipts d'\<rparr>"
    "receipt_identity ` set (subscription_receipts d) \<subseteq> receipt_identity ` set (subscription_receipts d')"
proof -
  have same: "receipt_identity ` set (update_where P (set_receipt E i arg) rows) = receipt_identity ` set rows"
    for P rows
    by (rule image_update_where) (simp add: receipt_identity_def)
  show "r \<in> set (subscription_receipts d')" "sr_OriginalTxID r = ur_OriginalTxID arg"
    "sr_Status r = ur_Status arg" "sr_Environment r = ur_Environment arg"
    "d' = d\<lparr>subscription_receipts := subscription_receipts d'\<rparr>"
    using assms
    by (auto simp: UpsertSubscriptionReceipt_def Let_def set_update_where find_Some_iff
        split: option.splits if_splits)
  show "receipt_identity ` set (subscription_receipts d) \<subseteq> receipt_identity ` set (subscription_receipts d')"
    using assms
    by (auto simp: UpsertSubscriptionReceipt_def Let_def same split: option.splits if_splits)
qed

lemma UpdateSubscription_Inr:
  assumes "UpdateSubscription arg E i d = (Inr u, d')"
  shows "u \<in> set (users d')" "u_ID u = us_ID arg" "u_SubscriptionStatus u = us_SubscriptionStatus arg"
    "u_SubExpiresAt u = us_SubExpiresAt arg" "d' = d\<lparr>users := users d'\<rparr>"
    "filter (\<lambda>u. u_ID u \<noteq> us_ID arg) (users d') = filter (\<lambda>u. u_ID u \<noteq> us_ID arg) (users d)"
  using assms
  by (auto simp: UpdateSubscription_def set_update_where find_Some_iff intro!: filter_update_where)

lemma recorded:
  assumes "UpsertSubscriptionReceipt (receipt_params uid tx rs) E i d = (Inr r, d1)"
    and "UpdateSubscription (user_params uid tx us) E j d1 = (Inr u, d2)"
  shows "subscription_recorded uid tx (rs, us) d d2"
proof -
  note a = Upsert_Inr[OF assms(1)] and b = UpdateSubscription_Inr[OF assms(2)]
  have u: "users d1 = users d"
    using arg_cong[OF a(5), of users] by simp
  have r: "subscription_receipts d2 = subscription_receipts d1"
    using arg_cong[OF b(5), of subscription_receipts] by simp
  have "d2 = d\<lparr>users := users d2, subscription_receipts := subscription_receipts d2\<rparr>"
    using a(5) b(5) r by (metis database.surjective database.update_convs(1) database.update_convs(3))
  then show ?thesis
    using a b u r unfolding subscription_recorded_def by (auto simp: receipt_params_def user_params_def)
qed

text \<open>A verified notification: the library accepted its chain, and its transaction, when it carries
  one, was verified too.\<close>

definition notification_verified ::
  "env \<Rightarrow> Verifier \<Rightarrow> string \<Rightarrow> NotificationPayload \<Rightarrow> TransactionPayload option \<Rightarrow> bool" where
  "notification_verified E v s notif txo \<longleftrightarrow>
     (\<exists>c n. jws_ParseNotification E n (x5c_keyFunc E v c) s = Inr notif)
   \<and> (case txo of
        None \<Rightarrow> nd_SignedTransactionInfo (np_Data notif) = []
      | Some tx \<Rightarrow> \<exists>c n. transaction_at E v c n (nd_SignedTransactionInfo (np_Data notif)) = Inr tx)"

lemma wp_VerifyNotification:
  assumes "\<And>err w'. db w' = db w \<Longrightarrow> Q (Inl err) w'"
    and "\<And>notif txo w'. db w' = db w \<Longrightarrow> notification_verified E v s notif txo \<Longrightarrow>
      ticks w' = ticks w + (if txo = None then 2 else 4) \<Longrightarrow> Q (Inr (notif, txo)) w'"
  shows "wp (VerifyNotification E v s) Q w"
proof (cases "jws_ParseNotification E (clock E (Suc (ticks w))) (x5c_keyFunc E v (clock E (ticks w))) s")
  case (Inl e)
  then show ?thesis by (simp add: VerifyNotification_def assms(1))
next
  case (Inr notif)
  let ?info = "nd_SignedTransactionInfo (np_Data notif)"
  have n: "\<exists>c n. jws_ParseNotification E n (x5c_keyFunc E v c) s = Inr notif" using Inr by blast
  show ?thesis
  proof (cases "?info = []")
    case True
    with n have "notification_verified E v s notif None" by (simp add: notification_verified_def)
    with Inr True show ?thesis by (simp add: VerifyNotification_def assms(2))
  next
    case False
    let ?t = "transaction_at E v (clock E (Suc (Suc (ticks w)))) (clock E (Suc (Suc (Suc (ticks w))))) ?info"
    show ?thesis
    proof (cases ?t)
      case (Inl e)
      with \<open>jws_ParseNotification _ _ _ s = Inr notif\<close> False show ?thesis
        by (simp add: VerifyNotification_def assms(1))
    next
      case t: (Inr tx)
      with n have "notification_verified E v s notif (Some tx)"
        unfolding notification_verified_def by auto
      with Inr t False show ?thesis by (simp add: VerifyNotification_def assms(2))
    qed
  qed
qed

lemma wp_verifySubscription:
  "wp (verifySubscription E srv body p) (\<lambda>r w'. \<forall>b. r = Reply StatusOK b \<longrightarrow>
     (\<exists>v req tx. sv_appstore srv = Some v \<and> body = Some req
        \<and> transaction_at E v (clock E (ticks w)) (clock E (Suc (ticks w))) (vs_SignedTransaction req) = Inr tx
        \<and> tx_OriginalTransactionID tx \<noteq> []
        \<and> subscription_recorded (pl_UserID p) tx (deriveStatus tx (clock E (ticks w + 2))) (db w) (db w')
        \<and> sb_SubscriptionStatus b =
            SubscriptionStatus_text (snd (deriveStatus tx (clock E (ticks w + 2))))
        \<and> sb_OriginalTxID b = tx_OriginalTransactionID tx)) w"
proof (cases "sv_appstore srv")
  case v: (Some v)
  show ?thesis
  proof (cases "ShouldBindJSON valid_verifySubscriptionRequest body")
    case req: (Some req)
    let ?t = "transaction_at E v (clock E (ticks w)) (clock E (Suc (ticks w))) (vs_SignedTransaction req)"
    show ?thesis
    proof (cases ?t)
      case (Inl e)
      then show ?thesis by (simp add: verifySubscription_def v req)
    next
      case (Inr tx)
      show ?thesis
      proof (cases "tx_OriginalTransactionID tx = []")
        case True
        with Inr show ?thesis by (simp add: verifySubscription_def v req)
      next
        case False
        obtain rs us where st: "deriveStatus tx (clock E (ticks w + 2)) = (rs, us)"
          by (cases "deriveStatus tx (clock E (ticks w + 2))")
        show ?thesis
          using False Inr v req st
          apply (simp add: verifySubscription_def numeral_2_eq_2)
          apply (rule wp_db_call)
            apply (clarsimp split: sum.split)
            apply (rule wp_db_call)
              apply (clarsimp split: sum.split)
              apply (frule (1) recorded)
              apply (drule UpdateSubscription_Inr(3))
              apply (drule Upsert_Inr(2))
              apply (auto simp: receipt_params_def user_params_def)
          done
      qed
    qed
  qed (simp add: verifySubscription_def v)
qed (simp add: verifySubscription_def)

definition webhook_handled :: webhookResponse where
  "webhook_handled = \<lparr>wh_ok = True, wh_handled = True\<rparr>"

lemma wp_appleWebhook:
  "wp (appleWebhook E srv body) (\<lambda>r w'.
     (r = Reply StatusOK webhook_handled \<longrightarrow>
       (\<exists>v req notif tx rc. sv_appstore srv = Some v \<and> body = Some req
          \<and> notification_verified E v (wr_SignedPayload req) notif (Some tx)
          \<and> tx_OriginalTransactionID tx \<noteq> []
          \<and> find (\<lambda>r. sr_OriginalTxID r = tx_OriginalTransactionID tx) (subscription_receipts (db w)) = Some rc
          \<and> subscription_recorded (sr_UserID rc) tx
              (statusFromNotification (np_NotificationType notif) tx (clock E (ticks w + 5))) (db w) (db w')))
   \<and> (\<forall>b. r = Reply StatusOK b \<and> b \<noteq> webhook_handled \<longrightarrow> db w' = db w)) w"
proof (cases "sv_appstore srv")
  case v: (Some v)
  show ?thesis
  proof (cases "ShouldBindJSON valid_appleWebhookRequest body")
    case req: (Some req)
    show ?thesis
      unfolding appleWebhook_def v req option.case wp_bind
    proof (rule wp_VerifyNotification, goal_cases)
      case ver: (2 notif txo x)
      show ?case
      proof (cases txo)
        case None
        with ver(1) show ?thesis by (simp add: webhook_handled_def)
      next
        case txo: (Some tx)
        show ?thesis
        proof (cases "tx_OriginalTransactionID tx = []")
          case True
          with txo ver(1) show ?thesis by (simp add: webhook_handled_def)
        next
          case False
          have "Suc (ticks x) = ticks w + 5" using ver(3) txo by simp
          then obtain rs us where st: "statusFromNotification (np_NotificationType notif) tx
              (clock E (Suc (ticks x))) = (rs, us)"
            "statusFromNotification (np_NotificationType notif) tx (clock E (ticks w + 5)) = (rs, us)"
            by (metis surj_pair)
          show ?thesis
            using txo False req ver v st
            apply (simp add: webhook_handled_def)
            apply (rule wp_read)
              apply simp
             apply (clarsimp simp: GetReceiptByOriginalTxID_def split: sum.split)
             apply (rule wp_db_call)
               apply (clarsimp split: sum.split)
               apply (rule wp_db_call)
                 apply (clarsimp split: sum.split)
                 apply (frule (1) recorded)
                 apply (rule exI[of _ notif], rule exI[of _ tx], simp)
                apply simp_all
            done
        qed
      qed
    qed simp
  qed (simp add: appleWebhook_def v)
qed (simp add: appleWebhook_def)

section \<open>Properties\<close>

text \<open>The receipt's and the user's status always agree, whatever the notification: the user is
  active exactly while the receipt is active or in billing retry, expired and revoked together;
  and a transaction's own fields make it active only if it is neither revoked nor past its expiry.\<close>

lemma statuses_agree:
  "(snd (statusFromNotification nType tx now) = SubscriptionStatusActive \<longleftrightarrow>
      fst (statusFromNotification nType tx now) \<in> {ReceiptStatusActive, ReceiptStatusBillingRetry})
   \<and> (snd (statusFromNotification nType tx now) = SubscriptionStatusExpired \<longleftrightarrow>
      fst (statusFromNotification nType tx now) = ReceiptStatusExpired)
   \<and> (snd (statusFromNotification nType tx now) = SubscriptionStatusRevoked \<longleftrightarrow>
      fst (statusFromNotification nType tx now) = ReceiptStatusRevoked)
   \<and> (snd (deriveStatus tx now) = SubscriptionStatusActive \<longleftrightarrow>
      tx_RevocationDateMS tx \<le> 0 \<and> (tx_ExpiresDateMS tx \<le> 0 \<or> now \<le> tx_ExpiresDateMS tx * 1000))"
  by (auto simp: statusFromNotification_def deriveStatus_def IsRevoked_def ExpiresAt_def msToTime_def
      UnixMilli_def)

text \<open>C4: Verifying a purchase: a 200 answer means that the StoreKit parser accepted the request's signed
  transaction with a certificate chain that leads to a configured Apple root at the time of the call, that
  the bundle of this very transaction is the configured one (if one is configured), and that the caller's
  row has exactly the status and expiry this transaction gives; nobody else's row changes, a receipt with
  its id is on file, and receipts keep their owners. The answer reports its id and that status.\<close>

theorem verify_subscription_sound:
  assumes "jws_tx_law E header"
    and "run_state (verifySubscription E srv body p) w = (Reply StatusOK b, w')"
  shows "\<exists>v req tx. sv_appstore srv = Some v \<and> body = Some req
    \<and> jws_ParseTransaction E (clock E (ticks w + 1)) (x5c_keyFunc E v (clock E (ticks w)))
        (vs_SignedTransaction req) = Inr tx
    \<and> trusted_chain E v (clock E (ticks w)) (header (vs_SignedTransaction req))
    \<and> (av_expectedBundle v = [] \<or> tx_BundleID tx = av_expectedBundle v)
    \<and> tx_OriginalTransactionID tx \<noteq> [] \<and> sb_OriginalTxID b = tx_OriginalTransactionID tx
    \<and> subscription_recorded (pl_UserID p) tx (deriveStatus tx (clock E (ticks w + 2))) (db w) (db w')
    \<and> sb_SubscriptionStatus b = SubscriptionStatus_text (snd (deriveStatus tx (clock E (ticks w + 2))))"
proof -
  from wpD[OF wp_verifySubscription assms(2)] obtain v req tx where
    f: "sv_appstore srv = Some v" "body = Some req"
      "transaction_at E v (clock E (ticks w)) (clock E (ticks w + 1)) (vs_SignedTransaction req) = Inr tx"
      "tx_OriginalTransactionID tx \<noteq> []" "sb_OriginalTxID b = tx_OriginalTransactionID tx"
      "subscription_recorded (pl_UserID p) tx (deriveStatus tx (clock E (ticks w + 2))) (db w) (db w')"
      "sb_SubscriptionStatus b = SubscriptionStatus_text (snd (deriveStatus tx (clock E (ticks w + 2))))"
    by auto
  from transaction_at_trusted[OF assms(1) f(3)] transaction_at_parsed[OF f(3)] f show ?thesis by blast
qed

text \<open>C5: Server notifications: a notification is reported as handled only if it and its transaction
  were verified and its original transaction has a receipt; then exactly the receipt's owner gets
  the status of the notification. Every other 200 answer changed nothing.\<close>

theorem webhook_sound:
  assumes "run_state (appleWebhook E srv body) w = (r, w')"
  shows "(r = Reply StatusOK \<lparr>wh_ok = True, wh_handled = True\<rparr> \<longrightarrow>
       (\<exists>v req notif tx rc. sv_appstore srv = Some v \<and> body = Some req
          \<and> notification_verified E v (wr_SignedPayload req) notif (Some tx)
          \<and> find (\<lambda>r. sr_OriginalTxID r = tx_OriginalTransactionID tx) (subscription_receipts (db w)) = Some rc
          \<and> subscription_recorded (sr_UserID rc) tx
              (statusFromNotification (np_NotificationType notif) tx (clock E (ticks w + 5))) (db w) (db w')))
   \<and> (\<forall>b. r = Reply StatusOK b \<and> b \<noteq> \<lparr>wh_ok = True, wh_handled = True\<rparr> \<longrightarrow> db w' = db w)"
  using wpD[OF wp_appleWebhook assms] unfolding webhook_handled_def by blast

text \<open>The receipts' identities only grow.\<close>

definition receipts_grow :: "database \<Rightarrow> database \<Rightarrow> bool" where
  "receipts_grow d d' \<longleftrightarrow>
     receipt_identity ` set (subscription_receipts d) \<subseteq> receipt_identity ` set (subscription_receipts d')"

interpretation receipts_grow: db_frame receipts_grow
  by unfold_locales (auto simp: receipts_grow_def)

lemma Upsert_grows: "query_rel receipts_grow E (UpsertSubscriptionReceipt arg)"
proof (rule query_relI)
  fix i d
  show "receipts_grow d (snd (UpsertSubscriptionReceipt arg E i d))"
  proof (cases "UpsertSubscriptionReceipt arg E i d")
    case (Pair r d')
    then show ?thesis
      by (cases r) (auto simp: receipts_grow_def dest: Upsert_Inr(6),
        auto simp: UpsertSubscriptionReceipt_def Let_def split: option.splits if_splits)
  qed
qed

lemma UpdateSubscription_grows: "query_rel receipts_grow E (UpdateSubscription arg)"
  by (simp add: query_rel_def receipts_grow_def UpdateSubscription_def)

lemma webhook_grows: "state_io_rel (db_rel receipts_grow) (appleWebhook E srv body)"
  unfolding appleWebhook_def
  by (intro receipts_grow.program receipts_grow.server_effects receipts_grow.read_only_rel
      Upsert_grows UpdateSubscription_grows) simp

lemma verify_grows: "state_io_rel (db_rel receipts_grow) (verifySubscription E srv body p)"
  unfolding verifySubscription_def
  by (intro receipts_grow.program receipts_grow.server_effects Upsert_grows UpdateSubscription_grows)

lemma verify_keeps_schema: "keeps (schema_ok E) (verifySubscription E srv body p)"
  unfolding keeps_def verifySubscription_def
  by (intro kept.program kept.server_effects query_rel_keptI schema_UpsertSubscriptionReceipt
      schema_UpdateSubscription)

lemma webhook_keeps_schema: "keeps (schema_ok E) (appleWebhook E srv body)"
  unfolding keeps_def appleWebhook_def
  by (intro kept.program kept.server_effects query_rel_keptI schema_UpsertSubscriptionReceipt
      schema_UpdateSubscription) (simp add: GetReceiptByOriginalTxID_def)

text \<open>C27: A receipt belongs for ever to the account that verified its transaction first: no later
  verification of the same transaction, by anybody and with any database failure, changes its
  owner, and there is never a second receipt for it.\<close>

theorem receipt_owner_fixed:
  assumes "schema_ok E (db w)" and "run_state (verifySubscription E srv body p) w = (x, w')"
    and "r \<in> set (subscription_receipts (db w))" and "r' \<in> set (subscription_receipts (db w'))"
    and "sr_OriginalTxID r' = sr_OriginalTxID r"
  shows "sr_UserID r' = sr_UserID r \<and> sr_ID r' = sr_ID r"
proof -
  have "receipts_grow (db w) (db w')"
    using verify_grows[of E srv body p] assms(2) unfolding state_io_rel_def db_rel_def
    by (metis snd_conv)
  then have "receipt_identity r \<in> receipt_identity ` set (subscription_receipts (db w'))"
    using assms(3) unfolding receipts_grow_def by blast
  then obtain r'' where r'': "r'' \<in> set (subscription_receipts (db w'))"
    "receipt_identity r'' = receipt_identity r"
    by (elim imageE) simp
  have "schema_ok E (db w')" using keepsD[OF verify_keeps_schema assms(2,1)] .
  then have "unique_on sr_OriginalTxID (subscription_receipts (db w'))"
    by (simp add: schema_defs)
  from unique_on_eq[OF this r''(1) assms(4)] r''(2) assms(5) show ?thesis
    by (simp add: receipt_identity_def)
qed

text \<open>Whatever a notification is answered, failures of the database included, it changes no row of an account but the owner's of the receipt of a verified transaction.\<close>

lemma Upsert_users: "users (snd (UpsertSubscriptionReceipt arg E i d)) = users d"
  by (simp add: UpsertSubscriptionReceipt_def Let_def split: option.split)

lemma UpdateSubscription_others:
  "filter (\<lambda>u. u_ID u \<noteq> us_ID arg) (users (snd (UpdateSubscription arg E i d))) = filter (\<lambda>u. u_ID u \<noteq> us_ID arg) (users d)"
  by (auto simp: UpdateSubscription_def intro!: filter_update_where)

definition others_kept :: "uuid \<Rightarrow> database \<Rightarrow> database \<Rightarrow> bool" where
  "others_kept uid d d' \<longleftrightarrow> filter (\<lambda>u. u_ID u \<noteq> uid) (users d') = filter (\<lambda>u. u_ID u \<noteq> uid) (users d)"

interpretation others_kept: db_frame "others_kept uid" for uid
  by unfold_locales (auto simp: others_kept_def)

lemma others_kept_statements:
  "query_rel (others_kept uid) E (UpsertSubscriptionReceipt arg)"
  "query_rel (others_kept uid) E (UpdateSubscription (user_params uid tx us))"
  using UpdateSubscription_others[of "user_params uid tx us"]
  by (simp_all add: query_rel_def others_kept_def Upsert_users user_params_def)

lemma wp_from_rel:
  assumes "state_io_rel (db_rel D) m" and "\<And>r w'. D (db y) (db w') \<Longrightarrow> Q r w'"
  shows "wp m Q y"
  using assms unfolding state_io_rel_def db_rel_def wp_def by (simp add: case_prod_beta)

text \<open>A notification about the transaction \<open>otid\<close>, if it is one at all.\<close>

definition about :: "env \<Rightarrow> Server \<Rightarrow> string \<Rightarrow> appleWebhookRequest option \<Rightarrow> bool" where
  "about E srv otid body \<longleftrightarrow>
     (\<forall>v req notif tx. sv_appstore srv = Some v \<and> body = Some req
        \<and> notification_verified E v (wr_SignedPayload req) notif (Some tx) \<longrightarrow> tx_OriginalTransactionID tx = otid)"

definition notified :: "env \<Rightarrow> Server \<Rightarrow> string \<Rightarrow> world \<Rightarrow> world \<Rightarrow> bool" where
  "notified E srv otid w w' \<longleftrightarrow> (\<exists>body r. about E srv otid body \<and> run_state (appleWebhook E srv body) w = (r, w'))"

lemma wp_webhook_others:
  assumes "about E srv otid body"
    and "find (\<lambda>r. sr_OriginalTxID r = otid) (subscription_receipts (db w)) = Some rc"
  shows "wp (appleWebhook E srv body) (\<lambda>_ w'. others_kept (sr_UserID rc) (db w) (db w')) w"
proof (cases "\<exists>v req. sv_appstore srv = Some v \<and> ShouldBindJSON valid_appleWebhookRequest body = Some req")
  case True
  then obtain v req where v: "sv_appstore srv = Some v" "body = Some req"
      "ShouldBindJSON valid_appleWebhookRequest body = Some req" by auto
  let ?K = "\<lambda>_ w'. others_kept (sr_UserID rc) (db w) (db w')"
  have quiet: "?K r x" if "db x = db w" for r and x :: world using that by (simp add: others_kept.D_refl)
  show ?thesis
    unfolding appleWebhook_def v(1,3) option.case wp_bind
  proof (rule wp_VerifyNotification, goal_cases)
    case ver: (2 notif txo x)
    show ?case
    proof (cases "\<exists>tx. txo = Some tx \<and> tx_OriginalTransactionID tx \<noteq> []")
      case True
      then obtain tx where tx: "txo = Some tx" "tx_OriginalTransactionID tx \<noteq> []" by blast
      have "tx_OriginalTransactionID tx = otid" using assms(1) v ver(2) tx(1) unfolding about_def by blast
      then have g: "GetReceiptByOriginalTxID (tx_OriginalTransactionID tx) E i (db w) = (Inr rc, db w)" for i
        using assms(2) by (simp add: GetReceiptByOriginalTxID_def)
      have rel: "state_io_rel (db_rel (others_kept (sr_UserID rc)))
          (case st of (rs, us) \<Rightarrow> do {
             r \<leftarrow> db_call E (UpsertSubscriptionReceipt (receipt_params (sr_UserID rc) tx rs));
             case r of
               Inl err \<Rightarrow> State_Monad.return (Fail StatusInternalServerError (ErrDB err))
             | Inr _ \<Rightarrow> do {
                 u \<leftarrow> db_call E (UpdateSubscription (user_params (sr_UserID rc) tx us));
                 State_Monad.return (case u of
                   Inl err \<Rightarrow> Fail StatusInternalServerError (ErrDB err)
                 | Inr _ \<Rightarrow> Reply StatusOK \<lparr>wh_ok = True, wh_handled = True\<rparr>)
               }
           })" for st
        by (intro others_kept.program others_kept.server_effects others_kept_statements)
      show ?thesis
        unfolding sum.case prod.case tx(1) option.case wp_bind
        using tx(2) ver(1)
        by simp (rule wp_read, simp, auto simp: g others_kept.D_refl intro!: wp_from_rel[OF rel])
    qed (use ver(1) in \<open>auto intro!: quiet split: option.split\<close>)
  qed (simp add: quiet)
qed (auto simp: appleWebhook_def others_kept.D_refl split: option.splits)

lemma receipt_stays:
  assumes "schema_ok E d'" and "receipts_grow d d'"
    and "find (\<lambda>r. sr_OriginalTxID r = otid) (subscription_receipts d) = Some rc"
  obtains rc' where "find (\<lambda>r. sr_OriginalTxID r = otid) (subscription_receipts d') = Some rc'"
    and "sr_UserID rc' = sr_UserID rc"
proof -
  have rc: "rc \<in> set (subscription_receipts d)" "sr_OriginalTxID rc = otid"
    using assms(3) by (auto simp: find_Some_iff)
  then obtain rc' where "rc' \<in> set (subscription_receipts d')" "receipt_identity rc' = receipt_identity rc"
    using assms(2) unfolding receipts_grow_def by (metis (no_types) image_eqI imageE subsetD)
  moreover have "unique_on sr_OriginalTxID (subscription_receipts d')" using assms(1) by (simp add: schema_defs)
  ultimately show thesis using that[of rc'] rc(2) by (simp add: find_key_iff receipt_identity_def)
qed

lemma rel_run: "state_io_rel (db_rel D) m \<Longrightarrow> run_state m w = (r, w') \<Longrightarrow> D (db w) (db w')"
  unfolding state_io_rel_def db_rel_def by (metis snd_conv)

lemma notified_keeps:
  assumes "notified E srv otid v v'" and "schema_ok E (db v)"
    and "find (\<lambda>r. sr_OriginalTxID r = otid) (subscription_receipts (db v)) = Some rc"
    and "u \<in> set (users (db v))" and "u_ID u \<noteq> sr_UserID rc"
  shows "schema_ok E (db v') \<and> u \<in> set (users (db v'))
    \<and> (\<exists>rc'. find (\<lambda>r. sr_OriginalTxID r = otid) (subscription_receipts (db v')) = Some rc' \<and> sr_UserID rc' = sr_UserID rc)"
proof -
  obtain body r where b: "about E srv otid body" "run_state (appleWebhook E srv body) v = (r, v')"
    using assms(1) unfolding notified_def by blast
  have ok: "schema_ok E (db v')" using keepsD[OF webhook_keeps_schema b(2) assms(2)] .
  have "others_kept (sr_UserID rc) (db v) (db v')" using wpD[OF wp_webhook_others[OF b(1) assms(3)] b(2)] .
  moreover have "u \<in> set (filter (\<lambda>u. u_ID u \<noteq> sr_UserID rc) (users (db v)))" using assms(4,5) by simp
  ultimately have "u \<in> set (filter (\<lambda>u. u_ID u \<noteq> sr_UserID rc) (users (db v')))" by (simp add: others_kept_def)
  then have u: "u \<in> set (users (db v'))" by simp
  obtain rc' where "find (\<lambda>r. sr_OriginalTxID r = otid) (subscription_receipts (db v')) = Some rc'"
    "sr_UserID rc' = sr_UserID rc"
    by (rule receipt_stays[OF ok rel_run[OF webhook_grows b(2)] assms(3)])
  with ok u show ?thesis by blast
qed

text \<open>C28: A purchase that a second account has verified outlives its revocation. If the receipt of the
  verified transaction belongs to another account, a 200 answer still gives the caller's row the status in
  the answer, while the receipt stays with its first owner. From then on any number of notifications about
  the transaction, revocations and expiries included and whatever the database does, leaves the caller's
  row exactly as the purchase set it; one that is reported as handled gives its status to the first owner
  alone.\<close>

theorem second_verifier_outlives_revocation:
  assumes "schema_ok E (db w)"
    and "find (\<lambda>r. sr_OriginalTxID r = sb_OriginalTxID b) (subscription_receipts (db w)) = Some rc"
    and "sr_UserID rc \<noteq> pl_UserID p"
    and "run_state (verifySubscription E srv body p) w = (Reply StatusOK b, w1)"
    and "rtranclp (notified E srv (sb_OriginalTxID b)) w1 w2"
  shows "\<exists>u. u \<in> set (users (db w1)) \<and> u_ID u = pl_UserID p
    \<and> SubscriptionStatus_text (u_SubscriptionStatus u) = sb_SubscriptionStatus b
    \<and> u \<in> set (users (db w2))
    \<and> (\<exists>rc2. find (\<lambda>r. sr_OriginalTxID r = sb_OriginalTxID b) (subscription_receipts (db w2)) = Some rc2
          \<and> sr_UserID rc2 = sr_UserID rc)
    \<and> (\<forall>wbody w3. about E srv (sb_OriginalTxID b) wbody
          \<and> run_state (appleWebhook E srv wbody) w2 = (Reply StatusOK \<lparr>wh_ok = True, wh_handled = True\<rparr>, w3) \<longrightarrow>
        u \<in> set (users (db w3))
        \<and> (\<exists>v req notif tx owner. sv_appstore srv = Some v \<and> wbody = Some req
              \<and> notification_verified E v (wr_SignedPayload req) notif (Some tx)
              \<and> owner \<in> set (users (db w3)) \<and> u_ID owner = sr_UserID rc
              \<and> u_SubscriptionStatus owner =
                  snd (statusFromNotification (np_NotificationType notif) tx (clock E (ticks w2 + 5)))))"
proof -
  let ?otid = "sb_OriginalTxID b"
  let ?I = "\<lambda>u v. schema_ok E (db v) \<and> u \<in> set (users (db v))
    \<and> (\<exists>r. find (\<lambda>r. sr_OriginalTxID r = ?otid) (subscription_receipts (db v)) = Some r \<and> sr_UserID r = sr_UserID rc)"
  from wpD[OF wp_verifySubscription assms(4)] obtain tx where
    rec: "subscription_recorded (pl_UserID p) tx (deriveStatus tx (clock E (ticks w + 2))) (db w) (db w1)"
    and b: "sb_SubscriptionStatus b = SubscriptionStatus_text (snd (deriveStatus tx (clock E (ticks w + 2))))"
    by auto
  obtain u where u: "u \<in> set (users (db w1))" "u_ID u = pl_UserID p"
      "SubscriptionStatus_text (u_SubscriptionStatus u) = sb_SubscriptionStatus b"
    using rec b unfolding subscription_recorded_def by metis
  have other: "u_ID u \<noteq> sr_UserID rc" using assms(3) u(2) by simp
  have ok: "schema_ok E (db w1)" using keepsD[OF verify_keeps_schema assms(4,1)] .
  have one: "?I u w1"
    by (rule receipt_stays[OF ok rel_run[OF verify_grows assms(4)] assms(2)]) (use u(1) ok in blast)
  have step: "?I u v'" if "?I u v" "notified E srv ?otid v v'" for v v'
  proof -
    from that(1) obtain r where r: "find (\<lambda>r. sr_OriginalTxID r = ?otid) (subscription_receipts (db v)) = Some r"
      "sr_UserID r = sr_UserID rc" by blast
    from notified_keeps[OF that(2) _ r(1), of u] that(1) other r(2) show ?thesis by simp
  qed
  have two: "?I u w2"
    using assms(5) by (induction rule: rtranclp_induct) (rule one, rule step)
  moreover have "u \<in> set (users (db w3))
      \<and> (\<exists>v req notif tx owner. sv_appstore srv = Some v \<and> wbody = Some req
            \<and> notification_verified E v (wr_SignedPayload req) notif (Some tx)
            \<and> owner \<in> set (users (db w3)) \<and> u_ID owner = sr_UserID rc
            \<and> u_SubscriptionStatus owner =
                snd (statusFromNotification (np_NotificationType notif) tx (clock E (ticks w2 + 5))))"
    if a: "about E srv ?otid wbody"
      "run_state (appleWebhook E srv wbody) w2 = (Reply StatusOK \<lparr>wh_ok = True, wh_handled = True\<rparr>, w3)" for wbody w3
  proof -
    have "?I u w3" using a by (intro step[OF two]) (auto simp: notified_def)
    from wpD[OF wp_appleWebhook a(2)] obtain v req notif tx r where
      n: "sv_appstore srv = Some v" "wbody = Some req"
        "notification_verified E v (wr_SignedPayload req) notif (Some tx)"
        "find (\<lambda>r. sr_OriginalTxID r = tx_OriginalTransactionID tx) (subscription_receipts (db w2)) = Some r"
        "subscription_recorded (sr_UserID r) tx
          (statusFromNotification (np_NotificationType notif) tx (clock E (ticks w2 + 5))) (db w2) (db w3)"
      by (auto simp: webhook_handled_def)
    have "tx_OriginalTransactionID tx = ?otid" using a(1) n(1-3) unfolding about_def by blast
    then have "sr_UserID r = sr_UserID rc" using two n(4) by auto
    with n(5) obtain owner where "owner \<in> set (users (db w3))" "u_ID owner = sr_UserID rc"
      "u_SubscriptionStatus owner =
        snd (statusFromNotification (np_NotificationType notif) tx (clock E (ticks w2 + 5)))"
      unfolding subscription_recorded_def by auto
    with n(1-3) \<open>?I u w3\<close> show ?thesis by blast
  qed
  ultimately show ?thesis using u by blast
qed

end
