(* ===== verification/GF_Subscription_Runs.thy ===== *)
theory GF_Subscription_Runs
  imports GF_Subscription
begin

text \<open>
  Concrete runs of the subscription handlers and the witnesses of their properties. Two users
  verify the same transaction, and then the store announces that it was revoked.
\<close>

definition tx1 :: TransactionPayload where
  "tx1 = \<lparr>tx_TransactionID = ''t2'', tx_OriginalTransactionID = ''t1'', tx_BundleID = ''jp.app'',
     tx_ProductID = ''monthly'', tx_SubscriptionGroupID = ''g'', tx_PurchaseDateMS = 1760000000000,
     tx_OriginalPurchaseDateMS = 1760000000000, tx_ExpiresDateMS = 1762678400000, tx_Type = ''auto'',
     tx_InAppOwnershipType = ''PURCHASED'', tx_Environment = ''production'', tx_RevocationDateMS = 0,
     tx_RevocationReason = None\<rparr>"

text \<open>Every payload's header carries the chain consisting of the trusted root \<open>apple\<close>; a notification's
  payload is its type.\<close>

definition apple_header :: "string \<Rightarrow> json option" where
  "apple_header s = Some (JArr [JStr ''YXBwbGU=''])"

definition notif_of :: "string \<Rightarrow> NotificationPayload" where
  "notif_of ty = \<lparr>np_NotificationType = ty, np_Subtype = [], np_NotificationUUID = ''n'', np_Version = ''2.0'',
     np_SignedDateMS = 0, np_Data = \<lparr>nd_AppAppleID = 1, nd_BundleID = ''jp.app'', nd_BundleVersion = ''1'',
       nd_Environment = ''Production'', nd_SignedTransactionInfo = ''tx1'', nd_SignedRenewalInfo = []\<rparr>\<rparr>"

definition store_env :: env where
  "store_env = sample_env\<lparr>
     jws_ParseTransaction := (\<lambda>now kf s. case kf (apple_header s) of Inl e \<Rightarrow> Inl e | Inr _ \<Rightarrow> Inr tx1),
     jws_ParseNotification := (\<lambda>now kf s. case kf (apple_header s) of Inl e \<Rightarrow> Inl e | Inr _ \<Rightarrow> Inr (notif_of s))\<rparr>"

lemma store_env_sel [simp]:
  "db_fault store_env i = NoFault" "clock store_env = sample_now" "pg_clock store_env = sample_now"
  "pg_lower store_env = ToLower" "gen_random_uuid store_env i = of_nat (2000 + i)"
  "jws_ParseTransaction store_env now kf s = (case kf (apple_header s) of Inl e \<Rightarrow> Inl e | Inr _ \<Rightarrow> Inr tx1)"
  "jws_ParseNotification store_env now kf s =
     (case kf (apple_header s) of Inl e \<Rightarrow> Inl e | Inr _ \<Rightarrow> Inr (notif_of s))"
  "x509_Parse store_env = Some" "x509_ecdsa store_env = Some"
  "x509_Verify store_env roots others now leaf = (leaf \<in> set roots)"
  by (simp_all add: store_env_def) (simp_all add: sample_env_def)

lemma store_tx_law: "jws_tx_law store_env apple_header"
  by (auto simp: jws_tx_law_def split: sum.splits)

lemma apple_bytes: "bytes [97, 112, 112, 108, 101] = ''apple''"
  by code_simp

lemma apple_chain: "chain_certs store_env [JStr ''YXBwbGU=''] = Inr [''apple'']"
  by (simp add: StdDecode_def b64_val_def Let_def apple_bytes)

lemma apple_accepted [simp]:
  "x5c_keyFunc store_env \<lparr>av_roots = [''apple''], av_expectedBundle = ''jp.app''\<rparr> now (apple_header s) = Inr ''apple''"
  by (simp add: x5c_keyFunc_def apple_header_def apple_chain del: chain_certs.simps)

definition buyer :: "nat \<Rightarrow> User" where
  "buyer n = new_user sample_env n \<lparr>cu_Email = nat_digits n, cu_PasswordHash = None, cu_AppleUserID = None\<rparr>"

definition buyers_db :: database where "buyers_db = empty_db\<lparr>users := [buyer 0, buyer 1]\<rparr>"

definition buyer_payload :: "nat \<Rightarrow> Payload" where
  "buyer_payload n = sample_payload n (of_nat (2000 + n)) (nat_digits n) RoleUser None hour"

definition purchase :: verifySubscriptionRequest where
  "purchase = \<lparr>vs_SignedTransaction = ''tx1''\<rparr>"

definition revocation :: appleWebhookRequest where "revocation = \<lparr>wr_SignedPayload = ''REVOKE''\<rparr>"

lemma buyer_sel [simp]: "u_ID (buyer n) = of_nat (2000 + n)" "u_SubscriptionStatus (buyer n) = SubscriptionStatusFree"
  by (simp_all add: buyer_def)

definition receipt1 :: SubscriptionReceipt where
  "receipt1 = new_receipt store_env 3 (receipt_params 2000 tx1 ReceiptStatusActive)"

definition paid :: "nat \<Rightarrow> User" where
  "paid n = set_subscription store_env 4 (user_params (of_nat (2000 + n)) tx1 SubscriptionStatusActive) (buyer n)"

lemmas tx1_sel = tx1_def IsRevoked_def ExpiresAt_def msToTime_def UnixMilli_def

lemma tx1_active: "deriveStatus tx1 (sample_now 2) = (ReceiptStatusActive, SubscriptionStatusActive)"
  by (simp add: deriveStatus_def tx1_sel sample_now_def second_def)

lemma tx1_ids [simp]: "tx_OriginalTransactionID tx1 = ''t1''" "tx_BundleID tx1 = ''jp.app''"
  by (simp_all add: tx1_def)

definition shared_db :: database where
  "shared_db = buyers_db\<lparr>users := [paid 0, paid 1], subscription_receipts := [receipt1]\<rparr>"

lemma receipt1_sel [simp]: "sr_OriginalTxID receipt1 = ''t1''" "sr_UserID receipt1 = 2000"
  by (simp_all add: receipt1_def receipt_params_def)

lemma paid_sel [simp]: "u_ID (paid n) = of_nat (2000 + n)"
  by (simp add: paid_def)

lemma params_sel [simp]:
  "ur_OriginalTxID (receipt_params uid tx rs) = tx_OriginalTransactionID tx"
  "ur_UserID (receipt_params uid tx rs) = uid" "us_ID (user_params uid tx us) = uid"
  by (simp_all add: receipt_params_def user_params_def)

lemma buyer_payload_sel [simp]: "pl_UserID (buyer_payload n) = of_nat (2000 + n)"
  by (simp add: buyer_payload_def sample_payload_def)

lemma first_purchase:
  "\<exists>b. run_state (verifySubscription store_env sample_server (Some purchase) (buyer_payload 0)) (world_of buyers_db)
    = (Reply StatusOK b,
       (world_of (buyers_db\<lparr>users := [paid 0, buyer 1], subscription_receipts := [receipt1]\<rparr>))\<lparr>ticks := 5\<rparr>)"
  using tx1_active
  by (simp add: verifySubscription_def purchase_def valid_verifySubscriptionRequest_def
    VerifyTransaction_def UpsertSubscriptionReceipt_def buyers_db_def empty_db_def
    world_of_def UpdateSubscription_def Let_def update_where_def paid_def receipt1_def numeral_eq_Suc)

lemma revoke_notification:
  "\<exists>w'. run_state (appleWebhook store_env sample_server (Some revocation)) (world_of shared_db)
    = (Reply StatusOK \<lparr>wh_ok = True, wh_handled = True\<rparr>, w')"
  by (simp add: appleWebhook_def revocation_def valid_appleWebhookRequest_def
    VerifyNotification_def VerifyTransaction_def notif_of_def statusFromNotification_def shared_db_def
    UpsertSubscriptionReceipt_def buyers_db_def empty_db_def GetReceiptByOriginalTxID_def
    world_of_def UpdateSubscription_def Let_def)

section \<open>Witnesses\<close>

theorem verify_subscription_sound_witness:
  "\<exists>w'. trusted_chain store_env \<lparr>av_roots = [''apple''], av_expectedBundle = ''jp.app''\<rparr> (sample_now 0)
      (apple_header ''tx1'')
    \<and> fst (run_state (verifySubscription store_env sample_server (Some purchase) (buyer_payload 0))
        (world_of buyers_db)) = Reply StatusOK w'"
proof -
  obtain b where run: "run_state (verifySubscription store_env sample_server (Some purchase) (buyer_payload 0))
      (world_of buyers_db) = (Reply StatusOK b,
       (world_of (buyers_db\<lparr>users := [paid 0, buyer 1], subscription_receipts := [receipt1]\<rparr>))\<lparr>ticks := 5\<rparr>)"
    using first_purchase by blast
  from verify_subscription_sound[OF store_tx_law run]
  have "trusted_chain store_env \<lparr>av_roots = [''apple''], av_expectedBundle = ''jp.app''\<rparr> (sample_now 0)
      (apple_header ''tx1'')"
    by (auto simp: purchase_def)
  with run show ?thesis by simp
qed

theorem webhook_sound_witness:
  "\<exists>w' st. run_state (appleWebhook store_env sample_server (Some revocation)) (world_of shared_db)
      = (Reply StatusOK \<lparr>wh_ok = True, wh_handled = True\<rparr>, w')
    \<and> (\<exists>tx. subscription_recorded 2000 tx st shared_db (db w'))"
proof -
  obtain w' where run: "run_state (appleWebhook store_env sample_server (Some revocation)) (world_of shared_db)
    = (Reply StatusOK \<lparr>wh_ok = True, wh_handled = True\<rparr>, w')"
    using revoke_notification by blast
  have f: "find P (subscription_receipts shared_db) = Some rc \<Longrightarrow> rc = receipt1" for P rc
    by (auto simp: shared_db_def split: if_splits)
  from webhook_sound[OF run] obtain tx :: TransactionPayload and notif :: NotificationPayload and now rc where
    "find (\<lambda>r. sr_OriginalTxID r = tx_OriginalTransactionID tx) (subscription_receipts shared_db) = Some rc"
    "subscription_recorded (sr_UserID rc) tx (statusFromNotification (np_NotificationType notif) tx now)
      shared_db (db w')"
    by auto
  with f have "subscription_recorded 2000 tx (statusFromNotification (np_NotificationType notif) tx now)
      shared_db (db w')" by fastforce
  with run show ?thesis by blast
qed

lemma buyer_emails: "ToLower (u_Email (paid 0)) \<noteq> ToLower (u_Email (paid 1))"
proof -
  have "ToLower (nat_digits 0) \<noteq> ToLower (nat_digits 1)" by code_simp
  then show ?thesis by (simp add: paid_def buyer_def)
qed

lemma shared_db_ok: "schema_ok store_env shared_db"
  using buyer_emails
  by (simp add: schema_defs shared_db_def buyers_db_def empty_db_def unique_on_def unique_partial_def
      List.map_filter_def paid_def buyer_def)

theorem receipt_owner_fixed_witness:
  "sr_UserID ` {r' \<in> set (subscription_receipts (db (snd (run_state
      (verifySubscription store_env sample_server (Some purchase) (buyer_payload 1)) (world_of shared_db))))).
      sr_OriginalTxID r' = ''t1''} = {2000}"
proof -
  let ?m = "verifySubscription store_env sample_server (Some purchase) (buyer_payload 1)"
  let ?rs = "set (subscription_receipts (db (snd (run_state ?m (world_of shared_db)))))"
  have run: "run_state ?m (world_of shared_db) =
    (fst (run_state ?m (world_of shared_db)), snd (run_state ?m (world_of shared_db)))" by simp
  have r: "receipt1 \<in> set (subscription_receipts (db (world_of shared_db)))" by (simp add: shared_db_def)
  have "sr_UserID r' = 2000" if "r' \<in> ?rs" "sr_OriginalTxID r' = ''t1''" for r'
    using receipt_owner_fixed[OF _ run r that(1)] shared_db_ok that(2) by simp
  moreover have "receipt_identity receipt1 \<in> receipt_identity ` ?rs"
    using verify_grows[of store_env sample_server "Some purchase" "buyer_payload 1"] r
    unfolding state_io_rel_def db_rel_def receipts_grow_def by blast
  then obtain r' where "r' \<in> ?rs" "receipt_identity r' = receipt_identity receipt1"
    by (metis imageE)
  ultimately show ?thesis by (auto simp: receipt_identity_def image_iff)
qed

text \<open>The second user verifies the transaction of the first user's receipt.\<close>

definition late_db :: database where
  "late_db = buyers_db\<lparr>users := [paid 0, buyer 1], subscription_receipts := [receipt1]\<rparr>"

lemma late_db_ok: "schema_ok store_env late_db"
proof -
  have "ToLower (nat_digits 0) \<noteq> ToLower (nat_digits 1)" by code_simp
  then show ?thesis
    by (simp add: schema_defs late_db_def buyers_db_def empty_db_def unique_on_def unique_partial_def
        List.map_filter_def paid_def buyer_def)
qed

lemma second_purchase:
  "\<exists>b w1. run_state (verifySubscription store_env sample_server (Some purchase) (buyer_payload 1)) (world_of late_db)
     = (Reply StatusOK b, w1) \<and> sb_SubscriptionStatus b = ''active'' \<and> sb_OriginalTxID b = ''t1''"
  using tx1_active[unfolded numeral_2_eq_2]
  by (simp add: verifySubscription_def purchase_def valid_verifySubscriptionRequest_def late_db_def
    VerifyTransaction_def UpsertSubscriptionReceipt_def buyers_db_def empty_db_def
    world_of_def UpdateSubscription_def Let_def update_where_def user_params_def)

lemma revocation_about: "about store_env sample_server ''t1'' (Some revocation)"
  by (auto simp: about_def notification_verified_def transaction_at_def split: if_splits)

theorem second_verifier_outlives_revocation_witness:
  "\<exists>b w1 u. run_state (verifySubscription store_env sample_server (Some purchase) (buyer_payload 1)) (world_of late_db)
      = (Reply StatusOK b, w1)
    \<and> u_ID u = 2001 \<and> SubscriptionStatus_text (u_SubscriptionStatus u) = ''active''
    \<and> u \<in> set (users (db (snd (run_state (appleWebhook store_env sample_server (Some revocation)) w1))))"
proof -
  obtain b w1 where run: "run_state (verifySubscription store_env sample_server (Some purchase) (buyer_payload 1))
      (world_of late_db) = (Reply StatusOK b, w1)" and b: "sb_SubscriptionStatus b = ''active''" "sb_OriginalTxID b = ''t1''"
    using second_purchase by blast
  let ?w2 = "snd (run_state (appleWebhook store_env sample_server (Some revocation)) w1)"
  have rc: "find (\<lambda>r. sr_OriginalTxID r = sb_OriginalTxID b) (subscription_receipts (db (world_of late_db))) = Some receipt1"
    by (simp add: late_db_def b(2))
  have "notified store_env sample_server (sb_OriginalTxID b) w1 ?w2"
    unfolding notified_def b(2) using revocation_about surjective_pairing by blast
  then have "rtranclp (notified store_env sample_server (sb_OriginalTxID b)) w1 ?w2" by (rule r_into_rtranclp)
  from second_verifier_outlives_revocation[OF _ rc _ run this] obtain u where
    "u_ID u = 2001" "SubscriptionStatus_text (u_SubscriptionStatus u) = ''active''" "u \<in> set (users (db ?w2))"
    using late_db_ok b(1) by auto
  with run show ?thesis by blast
qed

end
