(* ===== verification/GF_Browse.thy ===== *)
theory GF_Browse
  imports GF_Sample GF_Queries_Stores
begin

text \<open>
  What subscribers read: \<open>api/store.go\<close> (the browse list with its cursor pages, store detail, the
  menu behind the paywall, opening hours) and \<open>api/ward.go\<close>.
\<close>

section \<open>Opening hours\<close>

record openingHour =
  oh_Day :: int64
  oh_Open :: string
  oh_Close :: string

text \<open>\<open>json.Marshal\<close> of a slice of opening hours.\<close>

definition hour_json :: "openingHour \<Rightarrow> json" where
  "hour_json h =
     JObj [(''day'', JInt (sint (oh_Day h))), (''open'', JStr (oh_Open h)), (''close'', JStr (oh_Close h))]"

definition hours_json :: "openingHour list \<Rightarrow> json" where
  "hours_json hs = JArr (map hour_json hs)"

text \<open>
  \<open>json.Unmarshal\<close> into a struct: keys match field names ignoring case, later members win,
  unknown keys and nulls are skipped, a member of the wrong type is an error (\<open>None\<close>).
\<close>

definition set_hour_field :: "string \<Rightarrow> json \<Rightarrow> openingHour \<Rightarrow> openingHour option" where
  "set_hour_field k v h =
     (if EqualFold k ''day'' then
        (case v of
           JInt n \<Rightarrow> (if - (2 ^ 63) \<le> n \<and> n < 2 ^ 63 then Some (h\<lparr>oh_Day := word_of_int n\<rparr>) else None)
         | JNull \<Rightarrow> Some h | _ \<Rightarrow> None)
      else if EqualFold k ''open'' then
        (case v of JStr s \<Rightarrow> Some (h\<lparr>oh_Open := s\<rparr>) | JNull \<Rightarrow> Some h | _ \<Rightarrow> None)
      else if EqualFold k ''close'' then
        (case v of JStr s \<Rightarrow> Some (h\<lparr>oh_Close := s\<rparr>) | JNull \<Rightarrow> Some h | _ \<Rightarrow> None)
      else Some h)"

fun set_hour_fields :: "(string \<times> json) list \<Rightarrow> openingHour \<Rightarrow> openingHour option" where
  "set_hour_fields [] h = Some h"
| "set_hour_fields ((k, v) # kvs) h = Option.bind (set_hour_field k v h) (set_hour_fields kvs)"

definition zero_hour :: openingHour where
  "zero_hour = \<lparr>oh_Day = 0, oh_Open = [], oh_Close = []\<rparr>"

definition json_hour :: "json \<Rightarrow> openingHour option" where
  "json_hour v = (case v of JObj kvs \<Rightarrow> set_hour_fields kvs zero_hour | JNull \<Rightarrow> Some zero_hour | _ \<Rightarrow> None)"

fun json_hours :: "json list \<Rightarrow> openingHour list option" where
  "json_hours [] = Some []"
| "json_hours (v # vs) =
     (case json_hour v of None \<Rightarrow> None | Some h \<Rightarrow> map_option ((#) h) (json_hours vs))"

text \<open>\<open>parseOpeningHours\<close> of a \<open>jsonb\<close> value: outer \<open>None\<close> is an error, inner \<open>None\<close> the nil slice
  that a JSON null leaves.\<close>

definition parseOpeningHours :: "json \<Rightarrow> openingHour list option option" where
  "parseOpeningHours raw =
     (case raw of JArr vs \<Rightarrow> map_option Some (json_hours vs) | JNull \<Rightarrow> Some None | _ \<Rightarrow> None)"

section \<open>The browse list\<close>

definition storesPageLimit :: nat where "storesPageLimit = 20"

definition errInvalidStoreID :: api_error where "errInvalidStoreID = ErrMsg ''invalid store id''"
definition errStoreNotFound :: api_error where "errStoreNotFound = ErrMsg ''store not found''"

record wardRef =
  wf_ID :: int32
  wf_NameJa :: string
  wf_NameEn :: string

record storeCard =
  sc_ID :: uuid
  sc_Name :: string
  sc_Ward :: wardRef
  sc_IsGfOriented :: bool
  sc_GfStatus :: string
  sc_Cuisine :: string
  sc_PriceLevel :: int32
  sc_Rating :: float32
  sc_ReviewCount :: int32
  sc_NearestStation :: string
  sc_Blurb :: string
  sc_Address :: string
  sc_PhotoURL :: "string option"

definition row_ward :: "StoreWardRow \<Rightarrow> wardRef" where
  "row_ward r = \<lparr>wf_ID = st_WardID (sw_Store r), wf_NameJa = sw_WardNameJa r, wf_NameEn = sw_WardNameEn r\<rparr>"

definition store_card :: "StoreWardRow \<Rightarrow> storeCard" where
  "store_card r = (let s = sw_Store r in
     \<lparr>sc_ID = st_ID s, sc_Name = st_Name s, sc_Ward = row_ward r, sc_IsGfOriented = st_IsGfOriented s,
      sc_GfStatus = GfStatus_text (st_GfStatus s), sc_Cuisine = st_Cuisine s,
      sc_PriceLevel = st_PriceLevel s, sc_Rating = st_Rating s, sc_ReviewCount = st_ReviewCount s,
      sc_NearestStation = st_NearestStation s, sc_Blurb = st_Blurb s, sc_Address = st_Address s,
      sc_PhotoURL = st_PhotoUrl s\<rparr>)"

record listStoresResponse =
  ls_Tier :: string
  ls_NextCursor :: "uuid option"
  ls_Stores :: "storeCard list"

text \<open>The two optional query parameters: an empty string is absent, \<open>None\<close> an error; \<open>int32(n)\<close> keeps
  the low 32 bits.\<close>

definition ward_param :: "string \<Rightarrow> int32 option option" where
  "ward_param raw =
     (if raw \<noteq> [] then (case Atoi raw of None \<Rightarrow> None | Some n \<Rightarrow> Some (Some (word_of_int n)))
      else Some None)"

definition cursor_param :: "env \<Rightarrow> string \<Rightarrow> uuid option" where
  "cursor_param E raw = (if raw \<noteq> [] then uuid_Parse E raw else Some uuid_Nil)"

text \<open>The page shown of the rows fetched (one more than a page).\<close>

definition page_response :: "User \<Rightarrow> StoreWardRow list \<Rightarrow> listStoresResponse" where
  "page_response user rows =
     \<lparr>ls_Tier = SubscriptionStatus_text (u_SubscriptionStatus user),
      ls_NextCursor =
        (if length rows > storesPageLimit then Some (st_ID (sw_Store (rows ! (storesPageLimit - 1)))) else None),
      ls_Stores =
        map store_card (if length rows > storesPageLimit then take storesPageLimit rows else rows)\<rparr>"

definition listStores ::
  "env \<Rightarrow> string \<Rightarrow> string \<Rightarrow> Payload \<Rightarrow> (world, listStoresResponse reply) state" where
  "listStores E ward_id cursor payload = do {
     u \<leftarrow> currentUser E payload;
     case u of
       Inl err \<Rightarrow> State_Monad.return (respondUserLookupError err)
     | Inr user \<Rightarrow>
         (case ward_param ward_id of
            None \<Rightarrow> State_Monad.return (Fail StatusBadRequest (ErrMsg ''ward_id must be an integer''))
          | Some wardID \<Rightarrow>
              (case cursor_param E cursor of
                 None \<Rightarrow> State_Monad.return (Fail StatusBadRequest (ErrMsg ''cursor must be a valid uuid''))
               | Some c \<Rightarrow> do {
                   r \<leftarrow> db_call E (ListApprovedStores
                     \<lparr>la_WardID = wardID, la_Cursor = c, la_PageLimit = word_of_nat (storesPageLimit + 1)\<rparr>);
                   State_Monad.return (case r of
                     Inl err \<Rightarrow> Fail StatusInternalServerError (ErrDB err)
                   | Inr rows \<Rightarrow> Reply StatusOK (page_response user rows))
                 }))
   }"

section \<open>Store detail\<close>

record storeDetailResponse =
  sd_ID :: uuid
  sd_Name :: string
  sd_Ward :: wardRef
  sd_Address :: string
  sd_Latitude :: float64
  sd_Longitude :: float64
  sd_IsGfOriented :: bool
  sd_OpeningHours :: "openingHour list option"
  sd_ApprovedAt :: "time option"

definition getStore :: "env \<Rightarrow> string \<Rightarrow> (world, storeDetailResponse reply) state" where
  "getStore E idParam =
     (case uuid_Parse E idParam of
        None \<Rightarrow> State_Monad.return (Fail StatusBadRequest errInvalidStoreID)
      | Some sid \<Rightarrow> do {
          r \<leftarrow> db_call E (GetApprovedStore sid);
          State_Monad.return (case r of
            Inl err \<Rightarrow>
              (if err = NoRows then Fail StatusNotFound errStoreNotFound
               else Fail StatusInternalServerError (ErrDB err))
          | Inr row \<Rightarrow>
              (case parseOpeningHours (st_OpeningHours (sw_Store row)) of
                 None \<Rightarrow> Fail StatusInternalServerError (ErrLib ''invalid opening_hours'')
               | Some hours \<Rightarrow>
                   (let s = sw_Store row in Reply StatusOK
                     \<lparr>sd_ID = st_ID s, sd_Name = st_Name s, sd_Ward = row_ward row, sd_Address = st_Address s,
                      sd_Latitude = st_Latitude s, sd_Longitude = st_Longitude s,
                      sd_IsGfOriented = st_IsGfOriented s, sd_OpeningHours = hours,
                      sd_ApprovedAt = st_ApprovedAt s\<rparr>)))
        })"

section \<open>The menu behind the paywall\<close>

record menuItemResponse =
  mr_ID :: uuid
  mr_Name :: string
  mr_PriceYen :: int32
  mr_ImageURL :: "string option"
  mr_GfStatus :: string
  mr_GfNote :: "string option"
  mr_SortOrder :: int32

definition menu_item_response :: "MenuItem \<Rightarrow> menuItemResponse" where
  "menu_item_response m =
     \<lparr>mr_ID = mi_ID m, mr_Name = mi_Name m, mr_PriceYen = mi_PriceYen m, mr_ImageURL = mi_ImageUrl m,
      mr_GfStatus = GfStatus_text (mi_GfStatus m), mr_GfNote = mi_GfNote m, mr_SortOrder = mi_SortOrder m\<rparr>"

text \<open>The 402 body and the 200 body.\<close>

datatype menuBody =
  Paywall (paywall_tier: string) (paywall_upgrade: bool)
| MenuBody (menu_store: uuid) (menu_list: "menuItemResponse list")

definition getStoreMenu :: "env \<Rightarrow> string \<Rightarrow> Payload \<Rightarrow> (world, menuBody reply) state" where
  "getStoreMenu E idParam payload =
     (case uuid_Parse E idParam of
        None \<Rightarrow> State_Monad.return (Fail StatusBadRequest errInvalidStoreID)
      | Some sid \<Rightarrow> do {
          u \<leftarrow> currentUser E payload;
          case u of
            Inl err \<Rightarrow> State_Monad.return (respondUserLookupError err)
          | Inr user \<Rightarrow>
              (if \<not> isPaidUser user
               then State_Monad.return (Reply StatusPaymentRequired
                 (Paywall (SubscriptionStatus_text (u_SubscriptionStatus user)) True))
               else do {
                 g \<leftarrow> db_call E (GetApprovedStore sid);
                 case g of
                   Inl err \<Rightarrow> State_Monad.return
                     (if err = NoRows then Fail StatusNotFound errStoreNotFound
                      else Fail StatusInternalServerError (ErrDB err))
                 | Inr _ \<Rightarrow> do {
                     m \<leftarrow> db_call E (ListAvailableMenuItems sid);
                     State_Monad.return (case m of
                       Inl err \<Rightarrow> Fail StatusInternalServerError (ErrDB err)
                     | Inr items \<Rightarrow> Reply StatusOK (MenuBody sid (map menu_item_response items)))
                   }
               })
        })"

section \<open>Wards (\<open>ward.go\<close>)\<close>

definition listWards :: "env \<Rightarrow> (world, wardRef list reply) state" where
  "listWards E = do {
     r \<leftarrow> db_call E ListWards;
     State_Monad.return (case r of
       Inl err \<Rightarrow> Fail StatusInternalServerError (ErrDB err)
     | Inr ws \<Rightarrow> Reply StatusOK (map (\<lambda>w. \<lparr>wf_ID = w_ID w, wf_NameJa = w_NameJa w, wf_NameEn = w_NameEn w\<rparr>) ws))
   }"

section \<open>Facts\<close>

lemma hour_names [simp]:
  "EqualFold ''day'' ''day''" "\<not> EqualFold ''open'' ''day''" "\<not> EqualFold ''close'' ''day''"
  "EqualFold ''open'' ''open''" "\<not> EqualFold ''close'' ''open''" "EqualFold ''close'' ''close''"
  by code_simp+

lemma json_hour_hour_json [simp]: "json_hour (hour_json h) = Some h"
  using sint_greater_eq[of "oh_Day h"] sint_less[of "oh_Day h"]
  by (simp add: json_hour_def hour_json_def set_hour_field_def zero_hour_def)

lemma json_hours_hours [simp]: "json_hours (map hour_json hs) = Some hs"
  by (induction hs) simp_all

lemma parse_hours_json [simp]: "parseOpeningHours (hours_json hs) = Some (Some hs)"
  by (simp add: parseOpeningHours_def hours_json_def)

text \<open>Under the schema every store joins with exactly its ward.\<close>

lemma filter_unique_key:
  assumes "unique_on key rows" and "k \<in> key ` set rows"
  obtains r where "filter (\<lambda>r. key r = k) rows = [r]" and "key r = k"
  using assms
proof (induction rows arbitrary: thesis)
  case (Cons a rows)
  show ?case
  proof (cases "key a = k")
    case True
    then have "filter (\<lambda>r. key r = k) rows = []"
      using Cons.prems(2) by (auto simp: unique_on_def filter_empty_conv image_iff)
    with True Cons.prems(1) show ?thesis by simp
  next
    case False
    with Cons.prems have "unique_on key rows" "k \<in> key ` set rows" by (auto simp: unique_on_def)
    from Cons.IH[OF _ this] False Cons.prems(1) show ?thesis by auto
  qed
qed simp

lemma join_one:
  "[\<lparr>sw_Store = s, sw_WardNameJa = w_NameJa w, sw_WardNameEn = w_NameEn w\<rparr>. w \<leftarrow> ws, w_ID w = k] =
   map (\<lambda>w. \<lparr>sw_Store = s, sw_WardNameJa = w_NameJa w, sw_WardNameEn = w_NameEn w\<rparr>)
     (filter (\<lambda>w. w_ID w = k) ws)"
  by (induction ws) auto

lemma join_stores:
  assumes "stores_ok d"
  shows "map sw_Store (join_wards d) = stores d"
proof -
  have u: "unique_on w_ID (wards d)" and f: "st_WardID ` set (stores d) \<subseteq> w_ID ` set (wards d)"
    using assms by (auto simp: stores_ok_def)
  have one: "map sw_Store (map (\<lambda>w. \<lparr>sw_Store = s, sw_WardNameJa = w_NameJa w, sw_WardNameEn = w_NameEn w\<rparr>)
      (filter (\<lambda>w. w_ID w = st_WardID s) (wards d))) = [s]" if "s \<in> set (stores d)" for s
  proof -
    from that f have "st_WardID s \<in> w_ID ` set (wards d)" by auto
    from filter_unique_key[OF u this] obtain w where "filter (\<lambda>w. w_ID w = st_WardID s) (wards d) = [w]"
      by blast
    then show ?thesis by simp
  qed
  have "map sw_Store (concat (map (\<lambda>s. map (\<lambda>w. \<lparr>sw_Store = s, sw_WardNameJa = w_NameJa w,
      sw_WardNameEn = w_NameEn w\<rparr>) (filter (\<lambda>w. w_ID w = st_WardID s) (wards d))) ss)) = ss"
    if "set ss \<subseteq> set (stores d)" for ss
    using that by (induction ss) (auto simp: one simp del: map_map)
  from this[of "stores d"] show ?thesis by (simp add: join_wards_def join_one)
qed

lemma join_unique:
  assumes "stores_ok d"
  shows "unique_on (\<lambda>r. st_ID (sw_Store r)) (join_wards d)"
proof -
  have "map (\<lambda>r. st_ID (sw_Store r)) (join_wards d) = map st_ID (stores d)"
    using arg_cong[OF join_stores[OF assms], of "map st_ID"] by (simp add: comp_def)
  then show ?thesis using assms by (simp add: stores_ok_def unique_on_def)
qed

text \<open>Pages of a strictly ascending list.\<close>

lemma filter_greater_nth:
  fixes k :: "'r \<Rightarrow> 'k :: linorder"
  assumes "sorted_wrt (<) (map k xs)" and "n < length xs"
  shows "filter (\<lambda>r. k r > k (xs ! n)) xs = drop (Suc n) xs"
proof -
  have lt: "i < j \<Longrightarrow> j < length xs \<Longrightarrow> k (xs ! i) < k (xs ! j)" for i j
    using assms(1) by (auto simp: sorted_wrt_iff_nth_less)
  have "filter (\<lambda>r. k r > k (xs ! n)) (take (Suc n) xs) = []"
    using lt assms(2) by (auto simp: filter_empty_conv in_set_conv_nth) (metis less_SucE less_asym less_irrefl)
  moreover have "filter (\<lambda>r. k r > k (xs ! n)) (drop (Suc n) xs) = drop (Suc n) xs"
    using lt assms(2) by (auto simp: filter_id_conv in_set_conv_nth)
  ultimately show ?thesis by (metis append_take_drop_id filter_append self_append_conv2)
qed

text \<open>The approved stores of a ward in the order of the list, and the page after a cursor.\<close>

definition catalogue :: "int32 option \<Rightarrow> database \<Rightarrow> StoreWardRow list" where
  "catalogue ward d = sort_key (\<lambda>r. st_ID (sw_Store r))
     (filter (\<lambda>r. st_Status (sw_Store r) = StoreStatusApproved
        \<and> (ward = None \<or> ward = Some (st_WardID (sw_Store r)))) (join_wards d))"

definition after :: "uuid \<Rightarrow> StoreWardRow list \<Rightarrow> StoreWardRow list" where
  "after c rows = filter (\<lambda>r. st_ID (sw_Store r) > c) rows"

lemma ListApprovedStores_catalogue:
  "ListApprovedStores \<lparr>la_WardID = ward, la_Cursor = c, la_PageLimit = word_of_nat (storesPageLimit + 1)\<rparr> E i d =
     (Inr (take 21 (after c (catalogue ward d))), d)"
proof -
  have "filter (approved_after ward c) (join_wards d) =
    filter (\<lambda>r. st_ID (sw_Store r) > c) (filter (\<lambda>r. st_Status (sw_Store r) = StoreStatusApproved
        \<and> (ward = None \<or> ward = Some (st_WardID (sw_Store r)))) (join_wards d))"
    unfolding filter_filter by (rule filter_cong) (auto simp: approved_after_def)
  then show ?thesis
    by (simp add: ListApprovedStores_def limit_rows_def storesPageLimit_def catalogue_def after_def filter_sort)
qed

lemma catalogue_strict:
  assumes "stores_ok d"
  shows "sorted_wrt (<) (map (\<lambda>r. st_ID (sw_Store r)) (catalogue ward d))"
proof -
  have "distinct (map (\<lambda>r. st_ID (sw_Store r)) (catalogue ward d))"
    using join_unique[OF assms]
    by (simp add: catalogue_def unique_on_def distinct_map inj_on_def)
  then show ?thesis by (simp add: strict_sorted_iff catalogue_def)
qed

lemma after_strict:
  "sorted_wrt (<) (map (\<lambda>r. st_ID (sw_Store r)) xs) \<Longrightarrow>
   sorted_wrt (<) (map (\<lambda>r. st_ID (sw_Store r)) (after c xs))"
  by (simp add: after_def sorted_wrt_map sorted_wrt_filter)

lemma after_next:
  assumes "sorted_wrt (<) (map (\<lambda>r. st_ID (sw_Store r)) xs)" and "n < length (after c xs)"
  shows "after (st_ID (sw_Store (after c xs ! n))) xs = drop (Suc n) (after c xs)"
proof -
  let ?x = "after c xs ! n"
  have "?x \<in> set (after c xs)" using assms(2) by simp
  then have "c < st_ID (sw_Store ?x)" by (simp add: after_def)
  then have "after (st_ID (sw_Store ?x)) xs = after (st_ID (sw_Store ?x)) (after c xs)"
    by (auto simp: after_def intro!: filter_cong)
  also have "\<dots> = drop (Suc n) (after c xs)"
    using filter_greater_nth[OF after_strict[OF assms(1)] assms(2)] by (simp add: after_def)
  finally show ?thesis .
qed

lemma catalogue_stores:
  assumes "stores_ok d"
  shows "sw_Store ` set (catalogue ward d) =
    {s \<in> set (stores d). st_Status s = StoreStatusApproved \<and> (ward = None \<or> ward = Some (st_WardID s))}"
proof -
  have "sw_Store ` set (join_wards d) = set (stores d)"
    using arg_cong[OF join_stores[OF assms], of set] by simp
  then show ?thesis by (auto simp: catalogue_def)
qed

lemma page_response_after:
  "page_response user (take 21 rows) =
     \<lparr>ls_Tier = SubscriptionStatus_text (u_SubscriptionStatus user),
      ls_NextCursor = (if length rows > 20 then Some (st_ID (sw_Store (rows ! 19))) else None),
      ls_Stores = map store_card (take 20 rows)\<rparr>"
  by (auto simp: page_response_def storesPageLimit_def min_def)

lemma wp_listStores:
  "wp (listStores E ward_id cursor p) (\<lambda>r w'. db w' = db w \<and> (\<forall>resp. r = Reply StatusOK resp \<longrightarrow>
     (\<exists>user ward c. find (\<lambda>u. u_ID u = pl_UserID p) (users (db w)) = Some user
        \<and> ward_param ward_id = Some ward \<and> cursor_param E cursor = Some c
        \<and> resp = page_response user (take 21 (after c (catalogue ward (db w))))))) w"
  unfolding listStores_def currentUser_def wp_bind
  apply (rule wp_read)
    apply simp
   apply (clarsimp simp: GetUserByID_def respondUserLookupError_def split: sum.split option.split)
   apply (rule wp_read)
     apply simp
    apply (simp add: ListApprovedStores_catalogue[simplified])
   apply simp
  apply (simp add: respondUserLookupError_def)
  done

lemma sc_ID_store_card [simp]: "sc_ID (store_card r) = st_ID (sw_Store r)"
  by (simp add: store_card_def Let_def)

lemma more_than_page:
  assumes "distinct (map k xs)"
  shows "n < length xs \<longleftrightarrow> (\<exists>x \<in> set xs. k x \<notin> k ` set (take n xs))"
proof
  assume n: "n < length xs"
  have ne: "k (xs ! n) \<noteq> k (xs ! i)" if "i < n" for i
    using assms n that nth_eq_iff_index_eq[of "map k xs" n i] by simp
  have "k (xs ! n) \<notin> k ` set (take n xs)"
  proof
    assume "k (xs ! n) \<in> k ` set (take n xs)"
    then obtain y where "y \<in> set (take n xs)" "k (xs ! n) = k y" by auto
    then obtain i where "i < n" "y = xs ! i" by (auto simp: in_set_conv_nth)
    with ne[of i] \<open>k (xs ! n) = k y\<close> show False by simp
  qed
  with n show "\<exists>x \<in> set xs. k x \<notin> k ` set (take n xs)" by (meson nth_mem)
next
  assume "\<exists>x \<in> set xs. k x \<notin> k ` set (take n xs)"
  then show "n < length xs" by (metis imageI not_less take_all)
qed

lemma after_catalogue_stores:
  assumes "stores_ok d"
  shows "sw_Store ` set (after c (catalogue ward d)) =
    {s \<in> set (stores d). st_Status s = StoreStatusApproved \<and> (ward = None \<or> ward = Some (st_WardID s)) \<and> c < st_ID s}"
proof -
  have "sw_Store ` set (after c (catalogue ward d)) = {s \<in> sw_Store ` set (catalogue ward d). c < st_ID s}"
    by (auto simp: after_def)
  then show ?thesis unfolding catalogue_stores[OF assms] by auto
qed

section \<open>Properties\<close>

text \<open>The browse list shows nothing but approved stores of the requested ward, each with its id past
  the cursor, in ascending order without repetition and at most twenty; the cursor it returns is
  its last card's id, present exactly when a further approved store exists; and it writes nothing.\<close>

lemma list_stores_page:
  assumes "schema_ok E (db w)"
    and "run_state (listStores E ward_id cursor p) w = (Reply StatusOK resp, w')"
  shows "db w' = db w
    \<and> (\<exists>ward c. ward_param ward_id = Some ward \<and> cursor_param E cursor = Some c
      \<and> (\<forall>card \<in> set (ls_Stores resp). \<exists>s \<in> set (stores (db w)). st_ID s = sc_ID card
          \<and> st_Status s = StoreStatusApproved \<and> (ward = None \<or> ward = Some (st_WardID s)) \<and> c < st_ID s)
      \<and> sorted_wrt (<) (map sc_ID (ls_Stores resp)) \<and> length (ls_Stores resp) \<le> 20
      \<and> (ls_NextCursor resp \<noteq> None \<longleftrightarrow>
          (\<exists>s \<in> set (stores (db w)). st_Status s = StoreStatusApproved
            \<and> (ward = None \<or> ward = Some (st_WardID s)) \<and> c < st_ID s
            \<and> st_ID s \<notin> sc_ID ` set (ls_Stores resp)))
      \<and> (\<forall>n. ls_NextCursor resp = Some n \<longrightarrow> ls_Stores resp \<noteq> [] \<and> n = sc_ID (last (ls_Stores resp))))"
proof -
  from wpD[OF wp_listStores assms(2)] obtain user ward c where
    d: "db w' = db w" and q: "ward_param ward_id = Some ward" "cursor_param E cursor = Some c"
    and resp: "resp = page_response user (take 21 (after c (catalogue ward (db w))))"
    by auto
  let ?T = "after c (catalogue ward (db w))"
  have ok: "stores_ok (db w)" using assms(1) by (simp add: schema_ok_def)
  note T = after_catalogue_stores[OF ok, of c ward]
  have strict: "sorted_wrt (<) (map (\<lambda>r. st_ID (sw_Store r)) ?T)"
    by (rule after_strict[OF catalogue_strict[OF ok]])
  then have dist: "distinct (map (\<lambda>r. st_ID (sw_Store r)) ?T)" by (simp add: strict_sorted_iff)
  have f: "ls_Stores resp = map store_card (take 20 ?T)"
    "ls_NextCursor resp = (if length ?T > 20 then Some (st_ID (sw_Store (?T ! 19))) else None)"
    using resp by (simp_all add: page_response_after)
  have cards: "\<forall>card \<in> set (ls_Stores resp). \<exists>s \<in> set (stores (db w)). st_ID s = sc_ID card
      \<and> st_Status s = StoreStatusApproved \<and> (ward = None \<or> ward = Some (st_WardID s)) \<and> c < st_ID s"
  proof
    fix card
    assume "card \<in> set (ls_Stores resp)"
    then obtain r where "r \<in> set ?T" "card = store_card r" by (auto simp: f dest: in_set_takeD)
    then have "sw_Store r \<in> sw_Store ` set ?T" "st_ID (sw_Store r) = sc_ID card" by simp_all
    then show "\<exists>s \<in> set (stores (db w)). st_ID s = sc_ID card
      \<and> st_Status s = StoreStatusApproved \<and> (ward = None \<or> ward = Some (st_WardID s)) \<and> c < st_ID s"
      unfolding T by blast
  qed
  have sorted: "sorted_wrt (<) (map sc_ID (ls_Stores resp))"
    using sorted_wrt_take[OF strict, of 20] by (simp add: f comp_def take_map)
  have "ls_NextCursor resp \<noteq> None \<longleftrightarrow> (\<exists>s \<in> sw_Store ` set ?T. st_ID s \<notin> sc_ID ` set (ls_Stores resp))"
    using more_than_page[OF dist, of 20] by (simp add: f image_image)
  then have further: "ls_NextCursor resp \<noteq> None \<longleftrightarrow>
      (\<exists>s \<in> set (stores (db w)). st_Status s = StoreStatusApproved
        \<and> (ward = None \<or> ward = Some (st_WardID s)) \<and> c < st_ID s \<and> st_ID s \<notin> sc_ID ` set (ls_Stores resp))"
    unfolding T by blast
  have "\<forall>n. ls_NextCursor resp = Some n \<longrightarrow> ls_Stores resp \<noteq> [] \<and> n = sc_ID (last (ls_Stores resp))"
  proof (intro allI impI)
    fix n
    assume "ls_NextCursor resp = Some n"
    then have n: "20 < length ?T" "n = st_ID (sw_Store (?T ! 19))" by (auto simp: f split: if_splits)
    then have ne: "take 20 ?T \<noteq> []" by auto
    have "last (take 20 ?T) = ?T ! 19" using n(1) by (simp add: last_conv_nth[OF ne])
    with n ne show "ls_Stores resp \<noteq> [] \<and> n = sc_ID (last (ls_Stores resp))" by (simp add: f last_map)
  qed
  with d q cards sorted further f show ?thesis by (auto simp: f(1))
qed

text \<open>A client that follows the cursors: \<open>fmt\<close> prints an id, \<open>fuel\<close> bounds the number of pages.\<close>

fun browse_all ::
  "env \<Rightarrow> (uuid \<Rightarrow> string) \<Rightarrow> string \<Rightarrow> Payload \<Rightarrow> nat \<Rightarrow> string \<Rightarrow> (world, storeCard list option) state" where
  "browse_all E fmt ward_id p 0 cursor = State_Monad.return None"
| "browse_all E fmt ward_id p (Suc fuel) cursor = do {
     r \<leftarrow> listStores E ward_id cursor p;
     case r of
       Fail _ _ \<Rightarrow> State_Monad.return None
     | Reply _ resp \<Rightarrow>
         (case ls_NextCursor resp of
            None \<Rightarrow> State_Monad.return (Some (ls_Stores resp))
          | Some n \<Rightarrow> do {
              rest \<leftarrow> browse_all E fmt ward_id p fuel (fmt n);
              State_Monad.return (map_option ((@) (ls_Stores resp)) rest)
            })
   }"

lemma run_listStores:
  assumes "no_faults E" and "find (\<lambda>u. u_ID u = pl_UserID p) (users (db w)) = Some user"
    and "ward_param ward_id = Some ward" and "cursor_param E cursor = Some c"
  shows "\<exists>w'. run_state (listStores E ward_id cursor p) w =
    (Reply StatusOK (page_response user (take 21 (after c (catalogue ward (db w))))), w') \<and> db w' = db w"
  using assms
  by (simp add: listStores_def currentUser_def GetUserByID_def ListApprovedStores_catalogue[simplified])

lemma browse_all_after:
  assumes "no_faults E" and "stores_ok (db w)"
    and "find (\<lambda>u. u_ID u = pl_UserID p) (users (db w)) = Some user"
    and "ward_param ward_id = Some ward" and "\<And>u. cursor_param E (fmt u) = Some u"
    and "cursor_param E cursor = Some c" and "length (after c (catalogue ward (db w))) < 20 * fuel"
  shows "\<exists>w'. run_state (browse_all E fmt ward_id p fuel cursor) w =
    (Some (map store_card (after c (catalogue ward (db w)))), w')"
  using assms(2-)
proof (induction fuel arbitrary: w cursor c)
  case (Suc fuel)
  let ?T = "after c (catalogue ward (db w))"
  obtain w1 where r: "run_state (listStores E ward_id cursor p) w =
      (Reply StatusOK (page_response user (take 21 ?T)), w1)" "db w1 = db w"
    using run_listStores[OF assms(1) Suc.prems(2,3,5)] by blast
  note r' = r(1)[unfolded page_response_after]
  show ?case
  proof (cases "length ?T > 20")
    case False
    with r' show ?thesis by simp
  next
    case True
    have next_page: "after (st_ID (sw_Store (?T ! 19))) (catalogue ward (db w)) = drop 20 ?T"
      using after_next[OF catalogue_strict[OF Suc.prems(1)], of 19 c ward] True by simp
    have "length (after (st_ID (sw_Store (?T ! 19))) (catalogue ward (db w1))) < 20 * fuel"
      using Suc.prems(6) r(2) next_page True by simp
    from Suc.IH[OF _ _ _ Suc.prems(4,4) this] Suc.prems r(2) obtain w2 where
      "run_state (browse_all E fmt ward_id p fuel (fmt (st_ID (sw_Store (?T ! 19))))) w1 =
        (Some (map store_card (drop 20 ?T)), w2)"
      by (auto simp: next_page)
    with r' True show ?thesis by simp (metis append_take_drop_id map_append)
  qed
qed simp

text \<open>C13: A client that follows the cursors sees the whole list: with a reachable database that does not
  change, ids that print and parse back, and no store with the nil id, the pages together are
  exactly the approved stores of the ward, each once, in ascending order of ids, and the client
  needs at most one page for every twenty stores and one more.\<close>

theorem browse_all_complete:
  assumes "no_faults E" and "schema_ok E (db w)"
    and "find (\<lambda>u. u_ID u = pl_UserID p) (users (db w)) = Some user"
    and "ward_param ward_id = Some ward" and "\<And>u. cursor_param E (fmt u) = Some u"
    and "\<forall>s \<in> set (stores (db w)). st_ID s \<noteq> uuid_Nil"
    and "length (stores (db w)) < 20 * fuel"
  shows "\<exists>cards w'. run_state (browse_all E fmt ward_id p fuel []) w = (Some cards, w')
    \<and> sorted_wrt (<) (map sc_ID cards)
    \<and> sc_ID ` set cards = st_ID ` {s \<in> set (stores (db w)). st_Status s = StoreStatusApproved
        \<and> (ward = None \<or> ward = Some (st_WardID s))}"
proof -
  have ok: "stores_ok (db w)" using assms(2) by (simp add: schema_ok_def)
  let ?T = "after uuid_Nil (catalogue ward (db w))"
  have "length ?T \<le> length (join_wards (db w))"
    unfolding after_def catalogue_def
    by (rule order_trans[OF length_filter_le]) simp
  also have "\<dots> = length (stores (db w))" using arg_cong[OF join_stores[OF ok], of length] by simp
  finally have len: "length ?T < 20 * fuel" using assms(7) by simp
  have "cursor_param E [] = Some uuid_Nil" by (simp add: cursor_param_def)
  from browse_all_after[OF assms(1) ok assms(3,4,5) this len] obtain w' where
    run: "run_state (browse_all E fmt ward_id p fuel []) w = (Some (map store_card ?T), w')" by blast
  have "sorted_wrt (<) (map sc_ID (map store_card ?T))"
    using after_strict[OF catalogue_strict[OF ok]] by (simp add: comp_def)
  moreover have "sw_Store ` set ?T = {s \<in> set (stores (db w)). st_Status s = StoreStatusApproved
      \<and> (ward = None \<or> ward = Some (st_WardID s))}"
    using assms(6) unfolding after_catalogue_stores[OF ok] uuid_Nil_def by (auto simp: word_gt_0)
  then have "sc_ID ` set (map store_card ?T) = st_ID ` {s \<in> set (stores (db w)).
      st_Status s = StoreStatusApproved \<and> (ward = None \<or> ward = Some (st_WardID s))}"
    by (auto simp: image_image simp flip: image_image[of st_ID sw_Store])
  ultimately show ?thesis using run by blast
qed

lemma approved_row:
  assumes "find (\<lambda>r. st_ID (sw_Store r) = sid \<and> st_Status (sw_Store r) = StoreStatusApproved) (join_wards d) = Some row"
  shows "sw_Store row \<in> set (stores d) \<and> st_ID (sw_Store row) = sid \<and> st_Status (sw_Store row) = StoreStatusApproved"
  using assms by (auto simp: find_Some_iff dest!: nth_mem) (auto simp: join_wards_def)

text \<open>The menu of an approved store: a card is answered only with its available dishes.\<close>

lemma wp_approved_menu:
  assumes fail: "\<And>st err v'. db v' = db v \<Longrightarrow> Q (Fail st err) v'"
    and shown: "\<And>s items v'. db v' = db v \<Longrightarrow> s \<in> set (stores (db v)) \<Longrightarrow> st_ID s = sid \<Longrightarrow>
      st_Status s = StoreStatusApproved \<Longrightarrow>
      set items = menu_item_response ` {m \<in> set (menu_items (db v)). mi_StoreID m = sid \<and> mi_IsAvailable m} \<Longrightarrow>
      Q (Reply StatusOK (MenuBody sid items)) v'"
  shows "wp (db_call E (GetApprovedStore sid)) (\<lambda>g. wp (case g of
        Inl err \<Rightarrow> State_Monad.return
          (if err = NoRows then Fail StatusNotFound errStoreNotFound
           else Fail StatusInternalServerError (ErrDB err))
      | Inr _ \<Rightarrow> do {
          m \<leftarrow> db_call E (ListAvailableMenuItems sid);
          State_Monad.return (case m of
            Inl err \<Rightarrow> Fail StatusInternalServerError (ErrDB err)
          | Inr items \<Rightarrow> Reply StatusOK (MenuBody sid (map menu_item_response items)))
        }) Q) v"
proof (rule wp_read, goal_cases)
  case 2
  show ?case
  proof (cases "find (\<lambda>r. st_ID (sw_Store r) = sid \<and> st_Status (sw_Store r) = StoreStatusApproved) (join_wards (db v))")
    case (Some row)
    have s: "sw_Store row \<in> set (stores (db v))" "st_ID (sw_Store row) = sid"
      "st_Status (sw_Store row) = StoreStatusApproved"
      using approved_row[OF Some] by simp_all
    have "wp (db_call E (ListAvailableMenuItems sid)) (\<lambda>m. wp (State_Monad.return (case m of
        Inl err \<Rightarrow> Fail StatusInternalServerError (ErrDB err)
      | Inr items \<Rightarrow> Reply StatusOK (MenuBody sid (map menu_item_response items)))) Q) (v\<lparr>ticks := Suc (ticks v)\<rparr>)"
      by (rule wp_read) (simp_all add: ListAvailableMenuItems_def fail shown[OF _ s])
    then show ?thesis by (simp add: GetApprovedStore_def Some)
  qed (simp add: GetApprovedStore_def fail)
qed (simp_all add: fail)

text \<open>C14: The menu paywall: the call writes nothing; a menu is shown only to a user whose subscription is
  active, only for an approved store, and holds exactly that store's available items; and an
  existing user without an active subscription gets the 402 answer whatever the store.\<close>

theorem menu_paywall:
  assumes "run_state (getStoreMenu E idParam p) w = (r, w')"
  shows "db w' = db w
    \<and> (\<forall>sid items. r = Reply StatusOK (MenuBody sid items) \<longrightarrow>
        (\<exists>user s. find (\<lambda>u. u_ID u = pl_UserID p) (users (db w)) = Some user
          \<and> u_SubscriptionStatus user = SubscriptionStatusActive \<and> uuid_Parse E idParam = Some sid
          \<and> s \<in> set (stores (db w)) \<and> st_ID s = sid \<and> st_Status s = StoreStatusApproved
          \<and> set items = menu_item_response ` {m \<in> set (menu_items (db w)). mi_StoreID m = sid \<and> mi_IsAvailable m}))
    \<and> (\<forall>user sid. no_faults E \<and> uuid_Parse E idParam = Some sid
        \<and> find (\<lambda>u. u_ID u = pl_UserID p) (users (db w)) = Some user
        \<and> u_SubscriptionStatus user \<noteq> SubscriptionStatusActive \<longrightarrow>
        r = Reply StatusPaymentRequired (Paywall (SubscriptionStatus_text (u_SubscriptionStatus user)) True))"
proof -
  define Q where "Q = (\<lambda>r (w' :: world). db w' = db w
    \<and> (\<forall>sid items. r = Reply StatusOK (MenuBody sid items) \<longrightarrow>
        (\<exists>user s. find (\<lambda>u. u_ID u = pl_UserID p) (users (db w)) = Some user
          \<and> u_SubscriptionStatus user = SubscriptionStatusActive \<and> uuid_Parse E idParam = Some sid
          \<and> s \<in> set (stores (db w)) \<and> st_ID s = sid \<and> st_Status s = StoreStatusApproved
          \<and> set items = menu_item_response ` {m \<in> set (menu_items (db w)). mi_StoreID m = sid \<and> mi_IsAvailable m})))"
  have "wp (getStoreMenu E idParam p) Q w"
  proof (cases "uuid_Parse E idParam")
    case (Some sid)
    show ?thesis
      unfolding getStoreMenu_def currentUser_def Some option.case wp_bind
    proof (rule wp_read, goal_cases)
      case 2
      show ?case
        by (cases "find (\<lambda>u. u_ID u = pl_UserID p) (users (db w))")
          (auto simp: GetUserByID_def respondUserLookupError_def isPaidUser_def Q_def Some intro!: wp_approved_menu)
    qed (simp_all add: respondUserLookupError_def Q_def)
  qed (simp add: getStoreMenu_def Q_def)
  from wpD[OF this assms] have q: "Q r w'" .
  have "no_faults E \<Longrightarrow> uuid_Parse E idParam = Some sid \<Longrightarrow>
      find (\<lambda>u. u_ID u = pl_UserID p) (users (db w)) = Some user \<Longrightarrow>
      u_SubscriptionStatus user \<noteq> SubscriptionStatusActive \<Longrightarrow>
      r = Reply StatusPaymentRequired (Paywall (SubscriptionStatus_text (u_SubscriptionStatus user)) True)"
    for user sid
    using assms by (simp add: getStoreMenu_def currentUser_def GetUserByID_def isPaidUser_def)
  with q show ?thesis unfolding Q_def by blast
qed

text \<open>Opening hours survive the database: what the server stores for a list of opening hours parses
  back to the same list, so a client never sees null for them.\<close>

lemma opening_hours_roundtrip: "parseOpeningHours (hours_json hs) = Some (Some hs)"
  by (rule parse_hours_json)

text \<open>The ward filter keeps the low 32 bits of a larger number.\<close>

lemma ward_filter_wraps: "ward_param ''4294967297'' = ward_param ''1''"
  by (simp add: ward_param_def Atoi_def Let_def decimal_val_def digit_val_def is_digit_def)

end
