(* ===== verification/GF_Browse_Runs.thy ===== *)
theory GF_Browse_Runs
  imports GF_Browse
begin

text \<open>
  A small catalogue (one ward, an approved store with a menu and a draft) and two users, one
  paying; concrete runs of the browse handlers, and the witnesses of their properties.
\<close>

definition sample_ward :: Ward where
  "sample_ward = \<lparr>w_ID = 13, w_NameJa = ''minato'', w_NameEn = ''Minato''\<rparr>"

definition sample_store :: "nat \<Rightarrow> StoreStatus \<Rightarrow> Store" where
  "sample_store i st =
     (new_store sample_env i
       \<lparr>cr_WardID = 13, cr_Name = ''soba'', cr_Address = ''1-2-3'', cr_Latitude = 0, cr_Longitude = 0,
        cr_IsGfOriented = True, cr_OpeningHours = hours_json []\<rparr>)\<lparr>st_Status := st\<rparr>"

definition sample_item :: "nat \<Rightarrow> uuid \<Rightarrow> bool \<Rightarrow> MenuItem" where
  "sample_item i sid avail =
     new_menu_item sample_env i GfStatusCertified
       \<lparr>cm_StoreID = sid, cm_Name = ''rice'', cm_PriceYen = 500, cm_ImageUrl = None,
        cm_GfStatus = ''certified'', cm_GfNote = None, cm_SortOrder = 0, cm_IsAvailable = avail\<rparr>"

definition sample_user :: "nat \<Rightarrow> SubscriptionStatus \<Rightarrow> User" where
  "sample_user i st =
     (new_user sample_env i \<lparr>cu_Email = nat_digits i, cu_PasswordHash = None, cu_AppleUserID = None\<rparr>)
       \<lparr>u_SubscriptionStatus := st\<rparr>"

definition catalogue_db :: database where
  "catalogue_db = empty_db\<lparr>
     users := [sample_user 0 SubscriptionStatusActive, sample_user 1 SubscriptionStatusExpired],
     wards := [sample_ward],
     stores := [sample_store 10 StoreStatusApproved, sample_store 11 StoreStatusDraft],
     menu_items := [sample_item 20 2010 True, sample_item 21 2010 False]\<rparr>"

definition reader :: "nat \<Rightarrow> Payload" where
  "reader i = sample_payload i (of_nat (2000 + i)) (nat_digits i) RoleUser None hour"

lemma sample_sel [simp]:
  "w_ID sample_ward = 13"
  "st_ID (sample_store i st) = of_nat (2000 + i)" "st_Status (sample_store i st) = st"
  "st_WardID (sample_store i st) = 13" "st_OpeningHours (sample_store i st) = hours_json []"
  "mi_ID (sample_item i sid av) = of_nat (2000 + i)" "mi_StoreID (sample_item i sid av) = sid"
  "mi_IsAvailable (sample_item i sid av) = av" "mi_SortOrder (sample_item i sid av) = 0"
  "u_ID (sample_user i sub) = of_nat (2000 + i)" "u_SubscriptionStatus (sample_user i sub) = sub"
  "u_AppleUserID (sample_user i sub) = None" "u_Email (sample_user i sub) = nat_digits i"
  "pl_UserID (reader i) = of_nat (2000 + i)"
  by (simp_all add: sample_ward_def sample_store_def new_store_def sample_item_def new_menu_item_def
      sample_user_def reader_def sample_payload_def)

lemma catalogue_db_sel [simp]:
  "users catalogue_db = [sample_user 0 SubscriptionStatusActive, sample_user 1 SubscriptionStatusExpired]"
  "wards catalogue_db = [sample_ward]"
  "stores catalogue_db = [sample_store 10 StoreStatusApproved, sample_store 11 StoreStatusDraft]"
  "menu_items catalogue_db = [sample_item 20 2010 True, sample_item 21 2010 False]"
  by (simp_all add: catalogue_db_def)

lemma catalogue_db_ok: "schema_ok sample_env catalogue_db"
proof -
  have "ToLower (nat_digits 0) \<noteq> ToLower (nat_digits 1)" by code_simp
  then show ?thesis
    by (simp add: schema_defs unique_on_def unique_partial_def List.map_filter_def) (simp add: catalogue_db_def empty_db_def)
qed

lemma first_page:
  "\<exists>resp w'. run_state (listStores sample_env [] [] (reader 1)) (world_of catalogue_db) = (Reply StatusOK resp, w')"
  by (simp add: listStores_def currentUser_def GetUserByID_def ward_param_def cursor_param_def
      ListApprovedStores_def limit_rows_def storesPageLimit_def)

theorem list_stores_page_witness:
  "\<exists>resp w'. run_state (listStores sample_env [] [] (reader 1)) (world_of catalogue_db) = (Reply StatusOK resp, w')
    \<and> length (ls_Stores resp) \<le> 20 \<and> db w' = catalogue_db"
proof -
  obtain resp w' where run: "run_state (listStores sample_env [] [] (reader 1)) (world_of catalogue_db) =
      (Reply StatusOK resp, w')"
    using first_page by blast
  have ok: "schema_ok sample_env (db (world_of catalogue_db))" using catalogue_db_ok by simp
  from list_stores_page[OF ok run] run show ?thesis by auto
qed

lemma reader_found:
  "find (\<lambda>u. u_ID u = pl_UserID (reader 1)) (users (db (world_of catalogue_db))) =
    Some (sample_user 1 SubscriptionStatusExpired)"
  by simp

theorem browse_all_complete_witness:
  "\<exists>cards w'. run_state (browse_all sample_env (\<lambda>u. nat_digits (unat u)) [] (reader 1) 1 [])
      (world_of catalogue_db) = (Some cards, w') \<and> sc_ID ` set cards = {2010}"
proof -
  have "{s \<in> set (stores catalogue_db). st_Status s = StoreStatusApproved} = {sample_store 10 StoreStatusApproved}"
    by auto
  moreover have "cursor_param sample_env (nat_digits (unat u)) = Some u" for u :: uuid
    by (simp add: cursor_param_def nat_digits_digits)
  ultimately show ?thesis
    using browse_all_complete[of sample_env "world_of catalogue_db" "reader 1" _ "[]" None
        "\<lambda>u. nat_digits (unat u)" 1, OF _ _ reader_found] catalogue_db_ok
    by (auto simp: ward_param_def uuid_Nil_def simp del: browse_all.simps)
qed

theorem menu_paywall_witness:
  "fst (run_state (getStoreMenu sample_env ''2010'' (reader 1)) (world_of catalogue_db))
    = Reply StatusPaymentRequired (Paywall ''expired'' True)"
proof -
  let ?m = "getStoreMenu sample_env ''2010'' (reader 1)"
  have "run_state ?m (world_of catalogue_db) =
    (fst (run_state ?m (world_of catalogue_db)), snd (run_state ?m (world_of catalogue_db)))" by simp
  from menu_paywall[OF this] reader_found show ?thesis
    by (auto simp: is_digit_def decimal_val_def digit_val_def)
qed

end
