(* ===== verification/GF_StoreAdmin.thy ===== *)
theory GF_StoreAdmin
  imports GF_Auth GF_Browse
begin

text \<open>
  The store-admin portal, \<open>api/admin.go\<close>: a partner's login, the profile of the one store its
  token is scoped to, submission for review, and that store's menu.
\<close>

section \<open>Scope and login\<close>

definition errInvalidMenuID :: api_error where "errInvalidMenuID = ErrMsg ''invalid menu item id''"
definition errMenuNotFound :: api_error where "errMenuNotFound = ErrMsg ''menu item not found''"
definition errNoStoreScope :: api_error where "errNoStoreScope = ErrMsg ''token is missing store scope''"
definition errStoreNotInPath :: api_error where
  "errStoreNotInPath = ErrMsg ''store is not in a submittable state (must be draft or rejected)''"

definition adminStoreID :: "Payload \<Rightarrow> uuid option" where
  "adminStoreID payload = pl_StoreID payload"

definition textOrNull :: "string \<Rightarrow> string option" where
  "textOrNull s = (if s = [] then None else Some s)"

record adminLoginRequest =
  al_Email :: string
  al_Password :: string

definition valid_adminLoginRequest :: "env \<Rightarrow> adminLoginRequest \<Rightarrow> bool" where
  "valid_adminLoginRequest E req \<longleftrightarrow> al_Email req \<noteq> [] \<and> valid_email E (al_Email req) \<and> al_Password req \<noteq> []"

record adminLoginResponse =
  ar_AccessToken :: string
  ar_AccessTokenExpiresAt :: time
  ar_StoreID :: uuid
  ar_Email :: string

definition adminLogin :: "env \<Rightarrow> Server \<Rightarrow> adminLoginRequest option \<Rightarrow> (world, adminLoginResponse reply) state" where
  "adminLogin E srv body =
     (case ShouldBindJSON (valid_adminLoginRequest E) body of
        None \<Rightarrow> State_Monad.return (Fail StatusBadRequest ErrBinding)
      | Some req \<Rightarrow> do {
          r \<leftarrow> db_call E (GetStoreAdminByEmail (al_Email req));
          case r of
            Inl err \<Rightarrow> State_Monad.return
              (if err = NoRows then Fail StatusUnauthorized errInvalidCredentials
               else Fail StatusInternalServerError (ErrDB err))
          | Inr admin \<Rightarrow>
              (if \<not> CheckPassword E (al_Password req) (sa_PasswordHash admin)
               then State_Monad.return (Fail StatusUnauthorized errInvalidCredentials)
               else do {
                 a \<leftarrow> CreateRoleToken E (sv_tokenMaker srv) (sa_ID admin) (sa_Email admin) RoleStoreAdmin
                   (Some (sa_StoreID admin)) (AccessTokenDuration (sv_config srv));
                 State_Monad.return (case a of
                   None \<Rightarrow> Fail StatusInternalServerError (ErrLib ''create token'')
                 | Some (accessToken, payload) \<Rightarrow> Reply StatusOK
                     \<lparr>ar_AccessToken = accessToken, ar_AccessTokenExpiresAt = pl_ExpiredAt payload,
                      ar_StoreID = sa_StoreID admin, ar_Email = sa_Email admin\<rparr>)
               })
        })"

section \<open>Store profile\<close>

record adminStoreResponse =
  asr_ID :: uuid
  asr_WardID :: int32
  asr_Name :: string
  asr_Address :: string
  asr_Latitude :: float64
  asr_Longitude :: float64
  asr_IsGfOriented :: bool
  asr_OpeningHours :: "openingHour list option"
  asr_Status :: string
  asr_Cuisine :: string
  asr_PriceLevel :: int32
  asr_Rating :: float32
  asr_ReviewCount :: int32
  asr_NearestStation :: string
  asr_Blurb :: string
  asr_GfStatus :: string
  asr_PhotoURL :: "string option"
  asr_NameEn :: string
  asr_Phone :: string
  asr_SourceURL :: string
  asr_Notes :: string
  asr_RejectionReason :: "string option"
  asr_ApprovedAt :: "time option"

definition newAdminStoreResponse :: "Store \<Rightarrow> adminStoreResponse option" where
  "newAdminStoreResponse s =
     (case parseOpeningHours (st_OpeningHours s) of
        None \<Rightarrow> None
      | Some hours \<Rightarrow> Some
          \<lparr>asr_ID = st_ID s, asr_WardID = st_WardID s, asr_Name = st_Name s, asr_Address = st_Address s,
           asr_Latitude = st_Latitude s, asr_Longitude = st_Longitude s,
           asr_IsGfOriented = st_IsGfOriented s, asr_OpeningHours = hours,
           asr_Status = StoreStatus_text (st_Status s), asr_Cuisine = st_Cuisine s,
           asr_PriceLevel = st_PriceLevel s, asr_Rating = st_Rating s, asr_ReviewCount = st_ReviewCount s,
           asr_NearestStation = st_NearestStation s, asr_Blurb = st_Blurb s,
           asr_GfStatus = GfStatus_text (st_GfStatus s), asr_PhotoURL = st_PhotoUrl s,
           asr_NameEn = st_NameEn s, asr_Phone = st_Phone s, asr_SourceURL = st_SourceUrl s,
           asr_Notes = st_Notes s, asr_RejectionReason = st_RejectionReason s,
           asr_ApprovedAt = st_ApprovedAt s\<rparr>)"

definition respondAdminStore :: "nat \<Rightarrow> Store \<Rightarrow> adminStoreResponse reply" where
  "respondAdminStore code s =
     (case newAdminStoreResponse s of
        None \<Rightarrow> Fail StatusInternalServerError (ErrLib ''invalid opening_hours'')
      | Some resp \<Rightarrow> Reply code resp)"

definition adminGetStore :: "env \<Rightarrow> Payload \<Rightarrow> (world, adminStoreResponse reply) state" where
  "adminGetStore E payload =
     (case adminStoreID payload of
        None \<Rightarrow> State_Monad.return (Fail StatusBadRequest errNoStoreScope)
      | Some storeID \<Rightarrow> do {
          r \<leftarrow> db_call E (GetStoreByID storeID);
          State_Monad.return (case r of
            Inl err \<Rightarrow>
              (if err = NoRows then Fail StatusNotFound errStoreNotFound
               else Fail StatusInternalServerError (ErrDB err))
          | Inr s \<Rightarrow> respondAdminStore StatusOK s)
        })"

record updateStoreRequest =
  ud_Name :: string
  ud_Address :: string
  ud_Latitude :: float64
  ud_Longitude :: float64
  ud_IsGfOriented :: bool
  ud_OpeningHours :: "openingHour list option"
  ud_Cuisine :: string
  ud_PriceLevel :: int32
  ud_NearestStation :: string
  ud_Blurb :: string
  ud_GfStatus :: string
  ud_PhotoURL :: string

text \<open>The values the tag \<open>oneof=certified on_request contains_hidden_gluten\<close> admits.\<close>

definition gf_labels :: "string list" where
  "gf_labels = [''certified'', ''on_request'', ''contains_hidden_gluten'']"

definition valid_updateStoreRequest :: "updateStoreRequest \<Rightarrow> bool" where
  "valid_updateStoreRequest req \<longleftrightarrow>
     ud_Name req \<noteq> [] \<and> ud_Address req \<noteq> []
   \<and> (ud_PriceLevel req = 0 \<or> 1 \<le> sint (ud_PriceLevel req) \<and> sint (ud_PriceLevel req) \<le> 3)
   \<and> (ud_GfStatus req = [] \<or> ud_GfStatus req \<in> set gf_labels)"

definition hoursJSON :: "openingHour list option \<Rightarrow> json" where
  "hoursJSON hours = (case hours of None \<Rightarrow> JArr [] | Some hs \<Rightarrow> hours_json hs)"

definition adminUpdateStore ::
  "env \<Rightarrow> updateStoreRequest option \<Rightarrow> Payload \<Rightarrow> (world, adminStoreResponse reply) state" where
  "adminUpdateStore E body payload =
     (case adminStoreID payload of
        None \<Rightarrow> State_Monad.return (Fail StatusBadRequest errNoStoreScope)
      | Some storeID \<Rightarrow>
          (case ShouldBindJSON valid_updateStoreRequest body of
             None \<Rightarrow> State_Monad.return (Fail StatusBadRequest ErrBinding)
           | Some req \<Rightarrow>
               (let priceLevel = (if ud_PriceLevel req = 0 then 2 else ud_PriceLevel req);
                    gfStatus = (if ud_GfStatus req = [] then ''on_request'' else ud_GfStatus req)
                in do {
                  r \<leftarrow> db_call E (UpdateStoreProfile
                    \<lparr>up_ID = storeID, up_Name = ud_Name req, up_Address = ud_Address req,
                     up_Latitude = ud_Latitude req, up_Longitude = ud_Longitude req,
                     up_IsGfOriented = ud_IsGfOriented req, up_OpeningHours = hoursJSON (ud_OpeningHours req),
                     up_Cuisine = ud_Cuisine req, up_PriceLevel = priceLevel,
                     up_NearestStation = ud_NearestStation req, up_Blurb = ud_Blurb req,
                     up_GfStatus = gfStatus, up_PhotoUrl = textOrNull (ud_PhotoURL req)\<rparr>);
                  State_Monad.return (case r of
                    Inl err \<Rightarrow>
                      (if err = NoRows then Fail StatusNotFound errStoreNotFound
                       else Fail StatusInternalServerError (ErrDB err))
                  | Inr s \<Rightarrow> respondAdminStore StatusOK s)
                })))"

definition adminSubmitStore :: "env \<Rightarrow> Payload \<Rightarrow> (world, adminStoreResponse reply) state" where
  "adminSubmitStore E payload =
     (case adminStoreID payload of
        None \<Rightarrow> State_Monad.return (Fail StatusBadRequest errNoStoreScope)
      | Some storeID \<Rightarrow> do {
          r \<leftarrow> db_call E (SubmitStore storeID);
          State_Monad.return (case r of
            Inl err \<Rightarrow>
              (if err = NoRows then Fail StatusConflict errStoreNotInPath
               else Fail StatusInternalServerError (ErrDB err))
          | Inr s \<Rightarrow> respondAdminStore StatusOK s)
        })"

section \<open>Menu\<close>

record adminMenuItemResponse =
  am_ID :: uuid
  am_Name :: string
  am_PriceYen :: int32
  am_ImageURL :: "string option"
  am_GfStatus :: string
  am_GfNote :: "string option"
  am_SortOrder :: int32
  am_IsAvailable :: bool

definition newAdminMenuItem :: "MenuItem \<Rightarrow> adminMenuItemResponse" where
  "newAdminMenuItem m =
     \<lparr>am_ID = mi_ID m, am_Name = mi_Name m, am_PriceYen = mi_PriceYen m, am_ImageURL = mi_ImageUrl m,
      am_GfStatus = GfStatus_text (mi_GfStatus m), am_GfNote = mi_GfNote m,
      am_SortOrder = mi_SortOrder m, am_IsAvailable = mi_IsAvailable m\<rparr>"

record menuItemRequest =
  mq_Name :: string
  mq_PriceYen :: int32
  mq_ImageURL :: string
  mq_GfStatus :: string
  mq_GfNote :: string
  mq_SortOrder :: int32
  mq_IsAvailable :: "bool option"

definition valid_menuItemRequest :: "menuItemRequest \<Rightarrow> bool" where
  "valid_menuItemRequest req \<longleftrightarrow>
     mq_Name req \<noteq> [] \<and> sint (mq_PriceYen req) \<ge> 0 \<and> mq_GfStatus req \<in> set gf_labels"

definition available :: "menuItemRequest \<Rightarrow> bool" where
  "available req = (case mq_IsAvailable req of None \<Rightarrow> True | Some b \<Rightarrow> b)"

text \<open>The parameters both menu writers pass on.\<close>

definition create_menu_params :: "uuid \<Rightarrow> menuItemRequest \<Rightarrow> CreateMenuItemParams" where
  "create_menu_params storeID req =
     \<lparr>cm_StoreID = storeID, cm_Name = mq_Name req, cm_PriceYen = mq_PriceYen req,
      cm_ImageUrl = textOrNull (mq_ImageURL req), cm_GfStatus = mq_GfStatus req,
      cm_GfNote = textOrNull (mq_GfNote req), cm_SortOrder = mq_SortOrder req,
      cm_IsAvailable = available req\<rparr>"

definition update_menu_params :: "uuid \<Rightarrow> uuid \<Rightarrow> menuItemRequest \<Rightarrow> UpdateMenuItemParams" where
  "update_menu_params itemID storeID req =
     \<lparr>cm_StoreID = storeID, cm_Name = mq_Name req, cm_PriceYen = mq_PriceYen req,
      cm_ImageUrl = textOrNull (mq_ImageURL req), cm_GfStatus = mq_GfStatus req,
      cm_GfNote = textOrNull (mq_GfNote req), cm_SortOrder = mq_SortOrder req,
      cm_IsAvailable = available req, um_ID = itemID\<rparr>"

definition adminListMenu :: "env \<Rightarrow> Payload \<Rightarrow> (world, adminMenuItemResponse list reply) state" where
  "adminListMenu E payload =
     (case adminStoreID payload of
        None \<Rightarrow> State_Monad.return (Fail StatusBadRequest errNoStoreScope)
      | Some storeID \<Rightarrow> do {
          r \<leftarrow> db_call E (ListMenuItemsByStore storeID);
          State_Monad.return (case r of
            Inl err \<Rightarrow> Fail StatusInternalServerError (ErrDB err)
          | Inr items \<Rightarrow> Reply StatusOK (map newAdminMenuItem items))
        })"

definition adminCreateMenu ::
  "env \<Rightarrow> menuItemRequest option \<Rightarrow> Payload \<Rightarrow> (world, adminMenuItemResponse reply) state" where
  "adminCreateMenu E body payload =
     (case adminStoreID payload of
        None \<Rightarrow> State_Monad.return (Fail StatusBadRequest errNoStoreScope)
      | Some storeID \<Rightarrow>
          (case ShouldBindJSON valid_menuItemRequest body of
             None \<Rightarrow> State_Monad.return (Fail StatusBadRequest ErrBinding)
           | Some req \<Rightarrow> do {
               r \<leftarrow> db_call E (CreateMenuItem (create_menu_params storeID req));
               State_Monad.return (case r of
                 Inl err \<Rightarrow> Fail StatusInternalServerError (ErrDB err)
               | Inr m \<Rightarrow> Reply StatusCreated (newAdminMenuItem m))
             }))"

definition adminUpdateMenu ::
  "env \<Rightarrow> string \<Rightarrow> menuItemRequest option \<Rightarrow> Payload \<Rightarrow> (world, adminMenuItemResponse reply) state" where
  "adminUpdateMenu E idParam body payload =
     (case adminStoreID payload of
        None \<Rightarrow> State_Monad.return (Fail StatusBadRequest errNoStoreScope)
      | Some storeID \<Rightarrow>
          (case uuid_Parse E idParam of
             None \<Rightarrow> State_Monad.return (Fail StatusBadRequest errInvalidMenuID)
           | Some itemID \<Rightarrow>
               (case ShouldBindJSON valid_menuItemRequest body of
                  None \<Rightarrow> State_Monad.return (Fail StatusBadRequest ErrBinding)
                | Some req \<Rightarrow> do {
                    r \<leftarrow> db_call E (UpdateMenuItem (update_menu_params itemID storeID req));
                    State_Monad.return (case r of
                      Inl err \<Rightarrow>
                        (if err = NoRows then Fail StatusNotFound errMenuNotFound
                         else Fail StatusInternalServerError (ErrDB err))
                    | Inr m \<Rightarrow> Reply StatusOK (newAdminMenuItem m))
                  })))"

text \<open>The body of a successful deletion is \<open>{"deleted": true}\<close>.\<close>

definition adminDeleteMenu :: "env \<Rightarrow> string \<Rightarrow> Payload \<Rightarrow> (world, bool reply) state" where
  "adminDeleteMenu E idParam payload =
     (case adminStoreID payload of
        None \<Rightarrow> State_Monad.return (Fail StatusBadRequest errNoStoreScope)
      | Some storeID \<Rightarrow>
          (case uuid_Parse E idParam of
             None \<Rightarrow> State_Monad.return (Fail StatusBadRequest errInvalidMenuID)
           | Some itemID \<Rightarrow> do {
               r \<leftarrow> db_call E (DeleteMenuItem itemID storeID);
               State_Monad.return (case r of
                 Inl err \<Rightarrow> Fail StatusInternalServerError (ErrDB err)
               | Inr n \<Rightarrow>
                   (if n = 0 then Fail StatusNotFound errMenuNotFound else Reply StatusOK True))
             }))"

section \<open>Menu editors\<close>

text \<open>Everything in the tables but the menu of one store.\<close>

definition other_menus :: "uuid \<Rightarrow> database \<Rightarrow> MenuItem list \<times> database" where
  "other_menus sid d = (filter (\<lambda>m. mi_StoreID m \<noteq> sid) (menu_items d), d\<lparr>menu_items := []\<rparr>)"

lemma filter_update_other:
  "(\<And>r. P r \<Longrightarrow> \<not> Q r \<and> \<not> Q (f r)) \<Longrightarrow> filter Q (update_where P f rows) = filter Q rows"
  by (induction rows) (auto simp: update_where_def)

lemma filter_delete_other: "(\<And>r. P r \<Longrightarrow> \<not> Q r) \<Longrightarrow> filter Q (delete_where P rows) = filter Q rows"
  by (induction rows) (auto simp: delete_where_def)

lemma CreateMenuItem_scoped:
  "cm_StoreID arg = sid \<Longrightarrow> query_rel (same (other_menus sid)) E (CreateMenuItem arg)"
  by (rule query_relI)
    (auto simp: same_def other_menus_def CreateMenuItem_def new_menu_item_def Let_def split: option.splits)

lemma UpdateMenuItem_scoped:
  "cm_StoreID arg = sid \<Longrightarrow> query_rel (same (other_menus sid)) E (UpdateMenuItem arg)"
  by (rule query_relI)
    (auto simp: same_def other_menus_def UpdateMenuItem_def set_menu_item_def Let_def
      intro!: filter_update_other split: option.splits)

lemma DeleteMenuItem_scoped: "query_rel (same (other_menus sid)) E (DeleteMenuItem mid sid)"
  by (rule query_relI)
    (auto simp: same_def other_menus_def DeleteMenuItem_def intro!: filter_delete_other)

text \<open>One call of an editor, whatever its outcome.\<close>

definition menu_edit_step ::
  "(env \<Rightarrow> 'who \<Rightarrow> menuItemRequest option \<Rightarrow> (world, 'a reply) state) \<Rightarrow>
   (env \<Rightarrow> 'who \<Rightarrow> string \<Rightarrow> menuItemRequest option \<Rightarrow> (world, 'a reply) state) \<Rightarrow>
   (env \<Rightarrow> 'who \<Rightarrow> string \<Rightarrow> (world, 'b reply) state) \<Rightarrow> env \<Rightarrow> 'who \<Rightarrow> world \<Rightarrow> world \<Rightarrow> bool" where
  "menu_edit_step create update remove E who w w' \<longleftrightarrow>
     (\<exists>body. w' = snd (run_state (create E who body) w))
   \<or> (\<exists>item body. w' = snd (run_state (update E who item body) w))
   \<or> (\<exists>item. w' = snd (run_state (remove E who item) w))"

text \<open>
  The contract of a menu editor: \<open>store_of\<close> is the store a caller may edit (the token's scope for
  a partner, the path's id for an operator), and no call touches anything else; a caller without
  a store changes nothing.
\<close>

locale menu_editor =
  fixes store_of :: "env \<Rightarrow> 'who \<Rightarrow> uuid option"
    and create :: "env \<Rightarrow> 'who \<Rightarrow> menuItemRequest option \<Rightarrow> (world, 'a reply) state"
    and update :: "env \<Rightarrow> 'who \<Rightarrow> string \<Rightarrow> menuItemRequest option \<Rightarrow> (world, 'a reply) state"
    and remove :: "env \<Rightarrow> 'who \<Rightarrow> string \<Rightarrow> (world, 'b reply) state"
  assumes create_scoped: "store_of E who = Some sid \<Longrightarrow>
      state_io_rel (db_rel (same (other_menus sid))) (create E who body)"
    and update_scoped: "store_of E who = Some sid \<Longrightarrow>
      state_io_rel (db_rel (same (other_menus sid))) (update E who item body)"
    and remove_scoped: "store_of E who = Some sid \<Longrightarrow>
      state_io_rel (db_rel (same (other_menus sid))) (remove E who item)"
begin

lemma edit_scoped:
  "store_of E who = Some sid \<Longrightarrow> menu_edit_step create update remove E who w w' \<Longrightarrow>
   other_menus sid (db w') = other_menus sid (db w)"
  using create_scoped update_scoped remove_scoped
  unfolding menu_edit_step_def state_io_rel_def db_rel_def same_def by metis

lemma edits_scoped:
  assumes "store_of E who = Some sid"
    and "rtranclp (menu_edit_step create update remove E who) w w'"
  shows "other_menus sid (db w') = other_menus sid (db w)"
  using assms(2) by (induction rule: rtranclp_induct) (auto dest: edit_scoped[OF assms(1)])

end

interpretation partner_menu: menu_editor "\<lambda>E p. adminStoreID p" "\<lambda>E p body. adminCreateMenu E body p"
  "\<lambda>E p item body. adminUpdateMenu E item body p" "\<lambda>E p item. adminDeleteMenu E item p"
proof unfold_locales
  fix E p sid body item
  assume s: "adminStoreID p = Some sid"
  show "state_io_rel (db_rel (same (other_menus sid))) (adminCreateMenu E body p)"
    unfolding adminCreateMenu_def s option.case
    by (intro same.program same.effects CreateMenuItem_scoped) (simp add: create_menu_params_def)
  show "state_io_rel (db_rel (same (other_menus sid))) (adminUpdateMenu E item body p)"
    unfolding adminUpdateMenu_def s option.case
    by (intro same.program same.effects UpdateMenuItem_scoped) (simp add: update_menu_params_def)
  show "state_io_rel (db_rel (same (other_menus sid))) (adminDeleteMenu E item p)"
    unfolding adminDeleteMenu_def s option.case
    by (intro same.program same.effects DeleteMenuItem_scoped)
qed

section \<open>What a partner cannot change\<close>

text \<open>Any call of the portal made with the payload \<open>p\<close>.\<close>

inductive partner_call :: "env \<Rightarrow> Payload \<Rightarrow> world \<Rightarrow> world \<Rightarrow> bool" for E :: env and p :: Payload where
  PGetStore: "run_state (adminGetStore E p) w = (r1, w') \<Longrightarrow> partner_call E p w w'"
| PUpdateStore: "run_state (adminUpdateStore E b2 p) w = (r2, w') \<Longrightarrow> partner_call E p w w'"
| PSubmitStore: "run_state (adminSubmitStore E p) w = (r3, w') \<Longrightarrow> partner_call E p w w'"
| PListMenu: "run_state (adminListMenu E p) w = (r4, w') \<Longrightarrow> partner_call E p w w'"
| PCreateMenu: "run_state (adminCreateMenu E b5 p) w = (r5, w') \<Longrightarrow> partner_call E p w w'"
| PUpdateMenu: "run_state (adminUpdateMenu E i6 b6 p) w = (r6, w') \<Longrightarrow> partner_call E p w w'"
| PDeleteMenu: "run_state (adminDeleteMenu E i7 p) w = (r7, w') \<Longrightarrow> partner_call E p w w'"

text \<open>Of every store its ward, approval, approval time and curated rating; of every store but the
  partner's the whole row; every other store's menu; and all other tables.\<close>

definition partner_frozen where
  "partner_frozen sid d =
     (map (\<lambda>s. (st_ID s, st_WardID s, st_Status s = StoreStatusApproved, st_ApprovedAt s, st_Rating s,
        st_ReviewCount s, if st_ID s = sid then None else Some s)) (stores d),
      filter (\<lambda>m. mi_StoreID m \<noteq> sid) (menu_items d), d\<lparr>stores := [], menu_items := []\<rparr>)"

lemma frozen_menus: "other_menus sid d = other_menus sid d' \<Longrightarrow> partner_frozen sid d = partner_frozen sid d'"
  by (cases d, cases d') (simp add: other_menus_def partner_frozen_def)

lemma frozen_update_store:
  assumes "\<And>s. guard s \<Longrightarrow> st_ID (f s) = st_ID s \<and> st_WardID (f s) = st_WardID s
      \<and> (st_Status (f s) = StoreStatusApproved \<longleftrightarrow> st_Status s = StoreStatusApproved)
      \<and> st_ApprovedAt (f s) = st_ApprovedAt s \<and> st_Rating (f s) = st_Rating s
      \<and> st_ReviewCount (f s) = st_ReviewCount s"
  shows "partner_frozen sid (snd (update_store sid guard f d)) = partner_frozen sid d"
  using assms by (auto simp: partner_frozen_def update_store_def update_where_def)

lemma UpdateStoreProfile_frozen:
  "up_ID arg = sid \<Longrightarrow> query_rel (same (partner_frozen sid)) E (UpdateStoreProfile arg)"
  by (rule query_relI)
    (auto simp: same_def UpdateStoreProfile_def set_profile_def intro!: frozen_update_store split: option.split)

lemma SubmitStore_frozen: "query_rel (same (partner_frozen sid)) E (SubmitStore sid)"
  by (rule query_relI) (auto simp: same_def SubmitStore_def intro!: frozen_update_store)

lemma menu_to_frozen:
  "state_io_rel (db_rel (same (other_menus sid))) m \<Longrightarrow> state_io_rel (db_rel (same (partner_frozen sid))) m"
  by (auto simp: state_io_rel_def db_rel_def same_def intro: frozen_menus)

lemma partner_call_frozen:
  assumes "partner_call E p w w'" and "adminStoreID p = Some sid"
  shows "partner_frozen sid (db w') = partner_frozen sid (db w)"
proof -
  have rel: "state_io_rel (db_rel (same (partner_frozen sid))) m \<Longrightarrow> run_state m w = (r, w') \<Longrightarrow> ?thesis"
    for m :: "(world, 'x) state" and r
    unfolding state_io_rel_def db_rel_def same_def by (metis snd_conv)
  note scoped = partner_menu.create_scoped[OF assms(2)] partner_menu.update_scoped[OF assms(2)]
    partner_menu.remove_scoped[OF assms(2)]
  show ?thesis
    using assms(1)
  proof cases
    case (PGetStore r)
    show ?thesis
      by (rule rel[OF _ PGetStore]) (auto simp: adminGetStore_def assms(2)
          intro!: same.program same.effects same.read_only_rel)
  next
    case (PUpdateStore b r)
    show ?thesis
      by (rule rel[OF _ PUpdateStore]) (auto simp: adminUpdateStore_def assms(2)
          intro!: same.program same.effects UpdateStoreProfile_frozen)
  next
    case (PSubmitStore r)
    show ?thesis
      by (rule rel[OF _ PSubmitStore]) (auto simp: adminSubmitStore_def assms(2)
          intro!: same.program same.effects SubmitStore_frozen)
  next
    case (PListMenu r)
    show ?thesis
      by (rule rel[OF _ PListMenu]) (auto simp: adminListMenu_def assms(2)
          intro!: same.program same.effects same.read_only_rel)
  qed (rule rel[OF menu_to_frozen[OF scoped(1)]] rel[OF menu_to_frozen[OF scoped(2)]]
      rel[OF menu_to_frozen[OF scoped(3)]], assumption)+
qed

section \<open>Properties\<close>

lemma frozen_approved:
  assumes "partner_frozen sid d' = partner_frozen sid d" and "s' \<in> set (stores d')"
    and "st_Status s' = StoreStatusApproved"
  shows "\<exists>s \<in> set (stores d). st_ID s = st_ID s' \<and> st_Status s = StoreStatusApproved \<and> st_ApprovedAt s = st_ApprovedAt s'"
proof -
  define f where "f = (\<lambda>s :: Store. (st_ID s, st_WardID s, st_Status s = StoreStatusApproved, st_ApprovedAt s,
        st_Rating s, st_ReviewCount s, if st_ID s = sid then None else Some s))"
  have "map f (stores d') = map f (stores d)" using assms(1) by (simp add: partner_frozen_def f_def)
  then have "f ` set (stores d') = f ` set (stores d)" by (metis list.set_map)
  then have "f s' \<in> f ` set (stores d)" using assms(2) by auto
  then obtain s where "s \<in> set (stores d)" "f s' = f s" by auto
  with assms(3) show ?thesis by (auto simp: f_def)
qed

text \<open>C6: A partner is confined to its store: whatever sequence of portal calls is made with a store
  admin's token, with whatever bodies and database failures, no other store, no other store's menu
  and no other table changes, and of its own store the ward, the approval, the approval time and
  the curated rating stay; so a store that is approved afterwards was approved before.\<close>

theorem partner_confined:
  assumes "rtranclp (partner_call E p) w w'" and "adminStoreID p = Some sid"
  shows "partner_frozen sid (db w') = partner_frozen sid (db w)
    \<and> (\<forall>s' \<in> set (stores (db w')). st_Status s' = StoreStatusApproved \<longrightarrow>
        (\<exists>s \<in> set (stores (db w)). st_ID s = st_ID s' \<and> st_Status s = StoreStatusApproved
          \<and> st_ApprovedAt s = st_ApprovedAt s'))"
proof -
  have "partner_frozen sid (db w') = partner_frozen sid (db w)"
    using assms(1) by (induction rule: rtranclp_induct) (auto dest: partner_call_frozen[OF _ assms(2)])
  then show ?thesis using frozen_approved by blast
qed

text \<open>C12: Partner login: it writes nothing, and a 200 answer means the store admin with that e-mail has
  the request's password; the access token is signed for that admin with the store-admin role and
  exactly that admin's store as its scope.\<close>

theorem partner_login_sound:
  assumes "run_state (adminLogin E srv body) w = (r, w')"
  shows "db w' = db w
    \<and> (\<forall>resp. r = Reply StatusOK resp \<longrightarrow>
        (\<exists>req a i p. body = Some req
          \<and> find (\<lambda>x. pg_lower E (sa_Email x) = pg_lower E (al_Email req)) (store_admins (db w)) = Some a
          \<and> bcrypt_Compare E (sa_PasswordHash a) (al_Password req)
          \<and> minted E (sv_tokenMaker srv) (sa_ID a) (sa_Email a) RoleStoreAdmin (Some (sa_StoreID a))
              (AccessTokenDuration (sv_config srv)) i (ar_AccessToken resp, p)
          \<and> ar_StoreID resp = sa_StoreID a))"
proof -
  let ?Q = "\<lambda>r w'. db w' = db w
    \<and> (\<forall>resp. r = Reply StatusOK resp \<longrightarrow>
        (\<exists>req a i p. body = Some req
          \<and> find (\<lambda>x. pg_lower E (sa_Email x) = pg_lower E (al_Email req)) (store_admins (db w)) = Some a
          \<and> bcrypt_Compare E (sa_PasswordHash a) (al_Password req)
          \<and> minted E (sv_tokenMaker srv) (sa_ID a) (sa_Email a) RoleStoreAdmin (Some (sa_StoreID a))
              (AccessTokenDuration (sv_config srv)) i (ar_AccessToken resp, p)
          \<and> ar_StoreID resp = sa_StoreID a))"
  have "wp (adminLogin E srv body) ?Q w"
  proof (cases "ShouldBindJSON (valid_adminLoginRequest E) body")
    case (Some req)
    show ?thesis
      unfolding adminLogin_def Some option.case wp_bind
      by (rule wp_read)
        ((use Some in \<open>auto simp: GetStoreAdminByEmail_def CheckPassword_def split: option.splits sum.splits
           intro!: wp_CreateRoleToken\<close>), blast)
  qed (simp add: adminLogin_def)
  from wpD[OF this assms] show ?thesis .
qed

end
