(* ===== verification/GF_StoreAdmin_Runs.thy ===== *)
theory GF_StoreAdmin_Runs
  imports GF_StoreAdmin GF_Browse_Runs
begin

text \<open>
  A partner of the catalogue's draft store, concrete runs of the portal's handlers, and the
  witnesses of their properties.
\<close>

definition partner_admin :: StoreAdmin where
  "partner_admin = \<lparr>sa_ID = 2030, sa_StoreID = 2011, sa_Email = ''soba@example.jp'',
     sa_PasswordHash = ''$long password'', sa_CreatedAt = sample_now 0, sa_UpdatedAt = sample_now 0\<rparr>"

definition partner_db :: database where
  "partner_db = catalogue_db\<lparr>store_admins := [partner_admin]\<rparr>"

definition partner :: Payload where
  "partner = sample_payload 1 2030 ''soba@example.jp'' RoleStoreAdmin (Some 2011) (15 * minute)"

lemma partner_sel [simp]:
  "stores partner_db = stores catalogue_db" "menu_items partner_db = menu_items catalogue_db"
  "wards partner_db = wards catalogue_db" "users partner_db = users catalogue_db"
  "store_admins partner_db = [partner_admin]" "sa_Email partner_admin = ''soba@example.jp''"
  "sa_StoreID partner_admin = 2011" "sa_ID partner_admin = 2030"
  "sa_PasswordHash partner_admin = ''$long password''"
  "adminStoreID partner = Some 2011"
  by (simp_all add: partner_db_def partner_admin_def partner_def sample_payload_def adminStoreID_def)

lemma partner_db_ok: "schema_ok sample_env partner_db"
  using catalogue_db_ok by (simp add: schema_defs unique_on_def unique_partial_def partner_db_def)

text \<open>The draft is submitted for review.\<close>

lemma partner_submits:
  "db (snd (run_state (adminSubmitStore sample_env partner) (world_of partner_db))) =
   partner_db\<lparr>stores := [sample_store 10 StoreStatusApproved,
     (sample_store 11 StoreStatusDraft)\<lparr>st_Status := StoreStatusPending, st_RejectionReason := None,
       st_UpdatedAt := sample_now 0\<rparr>]\<rparr>"
  by (simp add: adminSubmitStore_def SubmitStore_def update_store_def update_where_def)

theorem partner_confined_witness:
  "let w' = snd (run_state (adminSubmitStore sample_env partner) (world_of partner_db)) in
   map st_Status (stores (db w')) = [StoreStatusApproved, StoreStatusPending]
   \<and> partner_frozen 2011 (db w') = partner_frozen 2011 partner_db"
proof -
  let ?w' = "snd (run_state (adminSubmitStore sample_env partner) (world_of partner_db))"
  have "partner_call sample_env partner (world_of partner_db) ?w'"
    by (rule PSubmitStore[OF surjective_pairing])
  then have "partner_frozen 2011 (db ?w') = partner_frozen 2011 partner_db"
    using partner_confined[OF r_into_rtranclp, of sample_env partner "world_of partner_db" ?w' 2011] by simp
  then show ?thesis using partner_submits by (simp add: Let_def)
qed

definition partner_credentials :: adminLoginRequest where
  "partner_credentials = \<lparr>al_Email = ''soba@example.jp'', al_Password = ''long password''\<rparr>"

lemma partner_logs_in:
  "\<exists>resp w'. run_state (adminLogin sample_env sample_server (Some partner_credentials)) (world_of partner_db)
      = (Reply StatusOK resp, w')"
  by (simp add: adminLogin_def valid_adminLoginRequest_def partner_credentials_def GetStoreAdminByEmail_def
      CheckPassword_def CreateRoleToken_def NewPayload_def)

theorem partner_login_sound_witness:
  "\<exists>resp w'. run_state (adminLogin sample_env sample_server (Some partner_credentials)) (world_of partner_db)
      = (Reply StatusOK resp, w') \<and> db w' = partner_db \<and> ar_StoreID resp = 2011"
proof -
  obtain resp w' where run: "run_state (adminLogin sample_env sample_server (Some partner_credentials))
      (world_of partner_db) = (Reply StatusOK resp, w')"
    using partner_logs_in by blast
  from partner_login_sound[OF run] run show ?thesis
    by (auto split: if_splits)
qed

end
