(* ===== verification/GF_Internal.thy ===== *)
theory GF_Internal
  imports GF_StoreAdmin GF_Queries_Admins
begin

text \<open>
  Operators, \<open>api/internal.go\<close> and \<open>api/internal_menu.go\<close>: operator sessions, onboarding of a
  partner, the review queue, store records with full field access, and any store's menu.
\<close>

section \<open>Sessions\<close>

record internalLoginRequest =
  il_Email :: string
  il_Password :: string

definition valid_internalLoginRequest :: "env \<Rightarrow> internalLoginRequest \<Rightarrow> bool" where
  "valid_internalLoginRequest E req \<longleftrightarrow> il_Email req \<noteq> [] \<and> valid_email E (il_Email req) \<and> il_Password req \<noteq> []"

record internalLoginResponse =
  ir_AccessToken :: string
  ir_AccessTokenExpiresAt :: time
  ir_RefreshToken :: string
  ir_RefreshTokenExpiresAt :: time
  ir_SessionID :: uuid
  ir_Email :: string

definition issueInternalSession ::
  "env \<Rightarrow> Server \<Rightarrow> ctx \<Rightarrow> InternalAdmin \<Rightarrow> (world, internalLoginResponse reply) state" where
  "issueInternalSession E srv cx admin = do {
     a \<leftarrow> CreateRoleToken E (sv_tokenMaker srv) (ia_ID admin) (ia_Email admin) RoleInternal None
       (AccessTokenDuration (sv_config srv));
     case a of
       None \<Rightarrow> State_Monad.return (Fail StatusInternalServerError (ErrLib ''create token''))
     | Some (accessToken, accessPayload) \<Rightarrow> do {
         f \<leftarrow> CreateRoleToken E (sv_tokenMaker srv) (ia_ID admin) (ia_Email admin) RoleInternal None
           (RefreshTokenDuration (sv_config srv));
         case f of
           None \<Rightarrow> State_Monad.return (Fail StatusInternalServerError (ErrLib ''create token''))
         | Some (refreshToken, refreshPayload) \<Rightarrow> do {
             r \<leftarrow> db_call E (CreateInternalSession
               \<lparr>ci_ID = pl_ID refreshPayload, ci_AdminID = ia_ID admin, ci_RefreshToken = refreshToken,
                ci_UserAgent = cx_UserAgent cx, ci_ClientIp = cx_ClientIP cx, ci_IsBlocked = False,
                ci_ExpiresAt = pl_ExpiredAt refreshPayload\<rparr>);
             State_Monad.return (case r of
               Inl err \<Rightarrow> Fail StatusInternalServerError (ErrDB err)
             | Inr session \<Rightarrow> Reply StatusOK
                 \<lparr>ir_AccessToken = accessToken, ir_AccessTokenExpiresAt = pl_ExpiredAt accessPayload,
                  ir_RefreshToken = refreshToken, ir_RefreshTokenExpiresAt = pl_ExpiredAt refreshPayload,
                  ir_SessionID = is_ID session, ir_Email = ia_Email admin\<rparr>)
           }
       }
   }"

definition internalLogin ::
  "env \<Rightarrow> Server \<Rightarrow> ctx \<Rightarrow> internalLoginRequest option \<Rightarrow> (world, internalLoginResponse reply) state" where
  "internalLogin E srv cx body =
     (case ShouldBindJSON (valid_internalLoginRequest E) body of
        None \<Rightarrow> State_Monad.return (Fail StatusBadRequest ErrBinding)
      | Some req \<Rightarrow> do {
          r \<leftarrow> db_call E (GetInternalAdminByEmail (il_Email req));
          case r of
            Inl err \<Rightarrow> State_Monad.return
              (if err = NoRows then Fail StatusUnauthorized errInvalidCredentials
               else Fail StatusInternalServerError (ErrDB err))
          | Inr admin \<Rightarrow>
              (if \<not> CheckPassword E (il_Password req) (ia_PasswordHash admin)
               then State_Monad.return (Fail StatusUnauthorized errInvalidCredentials)
               else issueInternalSession E srv cx admin)
        })"

definition renewInternalAccessToken ::
  "env \<Rightarrow> Server \<Rightarrow> renewAccessTokenRequest option \<Rightarrow> (world, renewAccessTokenResponse reply) state" where
  "renewInternalAccessToken E srv body =
     (case ShouldBindJSON valid_renewAccessTokenRequest body of
        None \<Rightarrow> State_Monad.return (Fail StatusBadRequest ErrBinding)
      | Some req \<Rightarrow> do {
          v \<leftarrow> VerifyToken E (sv_tokenMaker srv) (rn_RefreshToken req);
          case v of
            Inl err \<Rightarrow> State_Monad.return (Fail StatusUnauthorized (ErrToken err))
          | Inr refreshPayload \<Rightarrow>
              (if pl_Role refreshPayload \<noteq> RoleInternal
               then State_Monad.return (Fail StatusUnauthorized (ErrMsg ''not an internal refresh token''))
               else do {
                 r \<leftarrow> db_call E (GetInternalSession (pl_ID refreshPayload));
                 case r of
                   Inl err \<Rightarrow> State_Monad.return
                     (if err = NoRows then Fail StatusNotFound (ErrMsg ''session not found'')
                      else Fail StatusInternalServerError (ErrDB err))
                 | Inr session \<Rightarrow>
                     (if is_IsBlocked session
                      then State_Monad.return (Fail StatusUnauthorized (ErrMsg ''blocked session''))
                      else if is_AdminID session \<noteq> pl_UserID refreshPayload
                      then State_Monad.return (Fail StatusUnauthorized (ErrMsg ''incorrect session user''))
                      else if is_RefreshToken session \<noteq> rn_RefreshToken req
                      then State_Monad.return (Fail StatusUnauthorized (ErrMsg ''mismatched session token''))
                      else do {
                        now \<leftarrow> TimeNow E;
                        if now > is_ExpiresAt session
                        then State_Monad.return (Fail StatusUnauthorized (ErrMsg ''expired session''))
                        else do {
                          a \<leftarrow> CreateRoleToken E (sv_tokenMaker srv) (pl_UserID refreshPayload)
                            (pl_Email refreshPayload) RoleInternal None (AccessTokenDuration (sv_config srv));
                          State_Monad.return (case a of
                            None \<Rightarrow> Fail StatusInternalServerError (ErrLib ''create token'')
                          | Some (accessToken, accessPayload) \<Rightarrow> Reply StatusOK
                              \<lparr>rr_AccessToken = accessToken, rr_AccessTokenExpiresAt = pl_ExpiredAt accessPayload\<rparr>)
                        }
                      })
               })
        })"

text \<open>The body is \<open>{"logged_out": true}\<close>; the deletion's outcome is ignored.\<close>

definition internalLogout :: "env \<Rightarrow> Server \<Rightarrow> renewAccessTokenRequest option \<Rightarrow> (world, bool reply) state" where
  "internalLogout E srv body =
     (case ShouldBindJSON valid_renewAccessTokenRequest body of
        None \<Rightarrow> State_Monad.return (Fail StatusBadRequest ErrBinding)
      | Some req \<Rightarrow> do {
          v \<leftarrow> VerifyToken E (sv_tokenMaker srv) (rn_RefreshToken req);
          case v of
            Inl _ \<Rightarrow> State_Monad.return (Reply StatusOK True)
          | Inr payload \<Rightarrow> do {
              _ \<leftarrow> db_call E (DeleteInternalSession (pl_ID payload));
              State_Monad.return (Reply StatusOK True)
            }
        })"

section \<open>Onboarding a partner\<close>

record provisionStoreAdminRequest =
  pv_Email :: string
  pv_Password :: string
  pv_WardID :: int32
  pv_Name :: string

definition valid_provisionStoreAdminRequest :: "env \<Rightarrow> provisionStoreAdminRequest \<Rightarrow> bool" where
  "valid_provisionStoreAdminRequest E req \<longleftrightarrow>
     pv_Email req \<noteq> [] \<and> valid_email E (pv_Email req) \<and> pv_Password req \<noteq> []
   \<and> RuneCount (pv_Password req) \<ge> 8 \<and> pv_WardID req \<noteq> 0 \<and> pv_Name req \<noteq> []"

record provisionResponse =
  pp_StoreID :: uuid
  pp_StoreAdminID :: uuid
  pp_Email :: string
  pp_Status :: string

definition provisionStoreAdmin ::
  "env \<Rightarrow> provisionStoreAdminRequest option \<Rightarrow> (world, provisionResponse reply) state" where
  "provisionStoreAdmin E body =
     (case ShouldBindJSON (valid_provisionStoreAdminRequest E) body of
        None \<Rightarrow> State_Monad.return (Fail StatusBadRequest ErrBinding)
      | Some req \<Rightarrow> do {
          g \<leftarrow> db_call E (GetStoreAdminByEmail (pv_Email req));
          case g of
            Inr _ \<Rightarrow> State_Monad.return (Fail StatusConflict (ErrMsg ''store admin email already exists''))
          | Inl err \<Rightarrow>
              (if err \<noteq> NoRows then State_Monad.return (Fail StatusInternalServerError (ErrDB err))
               else do {
                 r \<leftarrow> db_call E (CreateStore
                   \<lparr>cr_WardID = pv_WardID req, cr_Name = pv_Name req, cr_Address = [], cr_Latitude = 0,
                    cr_Longitude = 0, cr_IsGfOriented = False, cr_OpeningHours = JArr []\<rparr>);
                 case r of
                   Inl err \<Rightarrow> State_Monad.return
                     (if isWardFKViolation err then Fail StatusBadRequest (ErrMsg ''unknown ward_id'')
                      else Fail StatusInternalServerError (ErrDB err))
                 | Inr store \<Rightarrow> do {
                     h \<leftarrow> HashPassword E (pv_Password req);
                     case h of
                       None \<Rightarrow> State_Monad.return (Fail StatusInternalServerError (ErrLib ''failed to hash password''))
                     | Some hash \<Rightarrow> do {
                         a \<leftarrow> db_call E (CreateStoreAdmin (st_ID store) (pv_Email req) hash);
                         State_Monad.return (case a of
                           Inl err \<Rightarrow> Fail StatusInternalServerError (ErrDB err)
                         | Inr admin \<Rightarrow> Reply StatusCreated
                             \<lparr>pp_StoreID = st_ID store, pp_StoreAdminID = sa_ID admin, pp_Email = sa_Email admin,
                              pp_Status = StoreStatus_text (st_Status store)\<rparr>)
                       }
                   }
               })
        })"

section \<open>Review queue\<close>

definition validStoreStatus :: "string \<Rightarrow> bool" where
  "validStoreStatus s \<longleftrightarrow> s = ''draft'' \<or> s = ''pending'' \<or> s = ''approved'' \<or> s = ''rejected''"

record internalStoreRow =
  iw_ID :: uuid
  iw_Name :: string
  iw_Ward :: wardRef
  iw_Address :: string
  iw_IsGfOriented :: bool
  iw_Status :: string
  iw_RejectionReason :: "string option"
  iw_CreatedAt :: time

definition internal_store_row :: "StoreWardRow \<Rightarrow> internalStoreRow" where
  "internal_store_row r = (let s = sw_Store r in
     \<lparr>iw_ID = st_ID s, iw_Name = st_Name s, iw_Ward = row_ward r, iw_Address = st_Address s,
      iw_IsGfOriented = st_IsGfOriented s, iw_Status = StoreStatus_text (st_Status s),
      iw_RejectionReason = st_RejectionReason s, iw_CreatedAt = st_CreatedAt s\<rparr>)"

text \<open>\<open>status\<close> is the query parameter, \<open>None\<close> when absent; the status string becomes the statement's
  enum parameter.\<close>

definition internalListStores ::
  "env \<Rightarrow> string option \<Rightarrow> (world, (string \<times> internalStoreRow list) reply) state" where
  "internalListStores E status =
     (let statusStr = (case status of None \<Rightarrow> ''pending'' | Some s \<Rightarrow> s) in
      if \<not> validStoreStatus statusStr
      then State_Monad.return (Fail StatusBadRequest (ErrMsg ''invalid status''))
      else do {
        r \<leftarrow> db_call E (case StoreStatus_scan statusStr of
          Some st \<Rightarrow> ListStoresByStatus st
        | None \<Rightarrow> (\<lambda>E i d. (Inl (PgError invalid_text), d)));
        State_Monad.return (case r of
          Inl err \<Rightarrow> Fail StatusInternalServerError (ErrDB err)
        | Inr rows \<Rightarrow> Reply StatusOK (statusStr, map internal_store_row rows))
      })"

definition approveStore :: "env \<Rightarrow> string \<Rightarrow> (world, adminStoreResponse reply) state" where
  "approveStore E idParam =
     (case uuid_Parse E idParam of
        None \<Rightarrow> State_Monad.return (Fail StatusBadRequest errInvalidStoreID)
      | Some sid \<Rightarrow> do {
          r \<leftarrow> db_call E (ApproveStore sid);
          State_Monad.return (case r of
            Inl err \<Rightarrow>
              (if err = NoRows then Fail StatusConflict (ErrMsg ''store not found, or already approved/rejected'')
               else Fail StatusInternalServerError (ErrDB err))
          | Inr s \<Rightarrow> respondAdminStore StatusOK s)
        })"

record rejectStoreRequest =
  rj_Reason :: string

definition valid_rejectStoreRequest :: "rejectStoreRequest \<Rightarrow> bool" where
  "valid_rejectStoreRequest req \<longleftrightarrow> rj_Reason req \<noteq> []"

definition rejectStore :: "env \<Rightarrow> string \<Rightarrow> rejectStoreRequest option \<Rightarrow> (world, adminStoreResponse reply) state" where
  "rejectStore E idParam body =
     (case uuid_Parse E idParam of
        None \<Rightarrow> State_Monad.return (Fail StatusBadRequest errInvalidStoreID)
      | Some sid \<Rightarrow>
          (case ShouldBindJSON valid_rejectStoreRequest body of
             None \<Rightarrow> State_Monad.return (Fail StatusBadRequest ErrBinding)
           | Some req \<Rightarrow> do {
               r \<leftarrow> db_call E (RejectStore sid (textOrNull (rj_Reason req)));
               State_Monad.return (case r of
                 Inl err \<Rightarrow>
                   (if err = NoRows then Fail StatusConflict (ErrMsg ''store not found or not pending'')
                    else Fail StatusInternalServerError (ErrDB err))
               | Inr s \<Rightarrow> respondAdminStore StatusOK s)
             }))"

section \<open>Store records\<close>

record internalStoreRequest =
  iq_WardID :: int32
  iq_Name :: string
  iq_Address :: string
  iq_Latitude :: float64
  iq_Longitude :: float64
  iq_IsGfOriented :: bool
  iq_OpeningHours :: "openingHour list option"
  iq_Status :: string
  iq_Cuisine :: string
  iq_PriceLevel :: int32
  iq_Rating :: float32
  iq_ReviewCount :: int32
  iq_NearestStation :: string
  iq_Blurb :: string
  iq_GfStatus :: string
  iq_PhotoURL :: string
  iq_NameEn :: string
  iq_Phone :: string
  iq_SourceURL :: string
  iq_Notes :: string

definition status_labels :: "string list" where
  "status_labels = [''draft'', ''pending'', ''approved'', ''rejected'']"

definition valid_internalStoreRequest :: "internalStoreRequest \<Rightarrow> bool" where
  "valid_internalStoreRequest req \<longleftrightarrow>
     iq_WardID req \<noteq> 0 \<and> iq_Name req \<noteq> [] \<and> iq_Status req \<in> set status_labels
   \<and> (iq_PriceLevel req = 0 \<or> 1 \<le> sint (iq_PriceLevel req) \<and> sint (iq_PriceLevel req) \<le> 3)
   \<and> 0 \<le> iq_Rating req \<and> iq_Rating req \<le> 5 \<and> sint (iq_ReviewCount req) \<ge> 0
   \<and> iq_GfStatus req \<in> set gf_labels"

definition priceLevel :: "internalStoreRequest \<Rightarrow> int32" where
  "priceLevel req = (if iq_PriceLevel req = 0 then 2 else iq_PriceLevel req)"

definition full_params :: "internalStoreRequest \<Rightarrow> CreateStoreFullParams" where
  "full_params req =
     \<lparr>cf_WardID = iq_WardID req, cf_Name = iq_Name req, cf_Address = iq_Address req,
      cf_Latitude = iq_Latitude req, cf_Longitude = iq_Longitude req,
      cf_IsGfOriented = iq_IsGfOriented req, cf_OpeningHours = hoursJSON (iq_OpeningHours req),
      cf_Status = iq_Status req, cf_Cuisine = iq_Cuisine req, cf_PriceLevel = priceLevel req,
      cf_Rating = iq_Rating req, cf_ReviewCount = iq_ReviewCount req,
      cf_NearestStation = iq_NearestStation req, cf_Blurb = iq_Blurb req,
      cf_GfStatus = iq_GfStatus req, cf_PhotoUrl = textOrNull (iq_PhotoURL req),
      cf_NameEn = iq_NameEn req, cf_Phone = iq_Phone req, cf_SourceUrl = iq_SourceURL req,
      cf_Notes = iq_Notes req\<rparr>"

definition internalCreateStore ::
  "env \<Rightarrow> internalStoreRequest option \<Rightarrow> (world, adminStoreResponse reply) state" where
  "internalCreateStore E body =
     (case ShouldBindJSON valid_internalStoreRequest body of
        None \<Rightarrow> State_Monad.return (Fail StatusBadRequest ErrBinding)
      | Some req \<Rightarrow> do {
          r \<leftarrow> db_call E (CreateStoreFull (full_params req));
          State_Monad.return (case r of
            Inl err \<Rightarrow>
              (if isWardFKViolation err then Fail StatusBadRequest (ErrMsg ''unknown ward_id'')
               else Fail StatusInternalServerError (ErrDB err))
          | Inr s \<Rightarrow> respondAdminStore StatusCreated s)
        })"

definition internalGetStore :: "env \<Rightarrow> string \<Rightarrow> (world, adminStoreResponse reply) state" where
  "internalGetStore E idParam =
     (case uuid_Parse E idParam of
        None \<Rightarrow> State_Monad.return (Fail StatusBadRequest errInvalidStoreID)
      | Some sid \<Rightarrow> do {
          r \<leftarrow> db_call E (GetStoreByID sid);
          State_Monad.return (case r of
            Inl err \<Rightarrow>
              (if err = NoRows then Fail StatusNotFound errStoreNotFound
               else Fail StatusInternalServerError (ErrDB err))
          | Inr s \<Rightarrow> respondAdminStore StatusOK s)
        })"

definition internalUpdateStore ::
  "env \<Rightarrow> string \<Rightarrow> internalStoreRequest option \<Rightarrow> (world, adminStoreResponse reply) state" where
  "internalUpdateStore E idParam body =
     (case uuid_Parse E idParam of
        None \<Rightarrow> State_Monad.return (Fail StatusBadRequest errInvalidStoreID)
      | Some sid \<Rightarrow>
          (case ShouldBindJSON valid_internalStoreRequest body of
             None \<Rightarrow> State_Monad.return (Fail StatusBadRequest ErrBinding)
           | Some req \<Rightarrow> do {
               r \<leftarrow> db_call E (UpdateStoreFull (CreateStoreFullParams.extend (full_params req)
                 (UpdateStoreFullParams.fields sid)));
               State_Monad.return (case r of
                 Inl err \<Rightarrow>
                   (if isWardFKViolation err then Fail StatusBadRequest (ErrMsg ''unknown ward_id'')
                    else if err = NoRows then Fail StatusNotFound errStoreNotFound
                    else Fail StatusInternalServerError (ErrDB err))
               | Inr s \<Rightarrow> respondAdminStore StatusOK s)
             }))"

definition internalDeleteStore :: "env \<Rightarrow> string \<Rightarrow> (world, bool reply) state" where
  "internalDeleteStore E idParam =
     (case uuid_Parse E idParam of
        None \<Rightarrow> State_Monad.return (Fail StatusBadRequest errInvalidStoreID)
      | Some sid \<Rightarrow> do {
          r \<leftarrow> db_call E (DeleteStore sid);
          State_Monad.return (case r of
            Inl err \<Rightarrow> Fail StatusInternalServerError (ErrDB err)
          | Inr n \<Rightarrow> (if n = 0 then Fail StatusNotFound errStoreNotFound else Reply StatusOK True))
        })"

section \<open>Any store's menu (\<open>internal_menu.go\<close>)\<close>

definition storeIDFromPath :: "env \<Rightarrow> string \<Rightarrow> api_error + uuid" where
  "storeIDFromPath E idParam =
     (case uuid_Parse E idParam of None \<Rightarrow> Inl errInvalidStoreID | Some sid \<Rightarrow> Inr sid)"

definition menuItemIDFromPath :: "env \<Rightarrow> string \<Rightarrow> api_error + uuid" where
  "menuItemIDFromPath E itemParam =
     (case uuid_Parse E itemParam of None \<Rightarrow> Inl errInvalidMenuID | Some mid \<Rightarrow> Inr mid)"

definition internalListMenu :: "env \<Rightarrow> string \<Rightarrow> (world, adminMenuItemResponse list reply) state" where
  "internalListMenu E idParam =
     (case storeIDFromPath E idParam of
        Inl e \<Rightarrow> State_Monad.return (Fail StatusBadRequest e)
      | Inr storeID \<Rightarrow> do {
          r \<leftarrow> db_call E (ListMenuItemsByStore storeID);
          State_Monad.return (case r of
            Inl err \<Rightarrow> Fail StatusInternalServerError (ErrDB err)
          | Inr items \<Rightarrow> Reply StatusOK (map newAdminMenuItem items))
        })"

definition internalCreateMenu ::
  "env \<Rightarrow> string \<Rightarrow> menuItemRequest option \<Rightarrow> (world, adminMenuItemResponse reply) state" where
  "internalCreateMenu E idParam body =
     (case storeIDFromPath E idParam of
        Inl e \<Rightarrow> State_Monad.return (Fail StatusBadRequest e)
      | Inr storeID \<Rightarrow>
          (case ShouldBindJSON valid_menuItemRequest body of
             None \<Rightarrow> State_Monad.return (Fail StatusBadRequest ErrBinding)
           | Some req \<Rightarrow> do {
               r \<leftarrow> db_call E (CreateMenuItem (create_menu_params storeID req));
               State_Monad.return (case r of
                 Inl err \<Rightarrow>
                   (if isWardFKViolation err then Fail StatusNotFound errStoreNotFound
                    else Fail StatusInternalServerError (ErrDB err))
               | Inr m \<Rightarrow> Reply StatusCreated (newAdminMenuItem m))
             }))"

definition internalUpdateMenu ::
  "env \<Rightarrow> string \<Rightarrow> string \<Rightarrow> menuItemRequest option \<Rightarrow> (world, adminMenuItemResponse reply) state" where
  "internalUpdateMenu E idParam itemParam body =
     (case storeIDFromPath E idParam of
        Inl e \<Rightarrow> State_Monad.return (Fail StatusBadRequest e)
      | Inr storeID \<Rightarrow>
          (case menuItemIDFromPath E itemParam of
             Inl e \<Rightarrow> State_Monad.return (Fail StatusBadRequest e)
           | Inr itemID \<Rightarrow>
               (case ShouldBindJSON valid_menuItemRequest body of
                  None \<Rightarrow> State_Monad.return (Fail StatusBadRequest ErrBinding)
                | Some req \<Rightarrow> do {
                    r \<leftarrow> db_call E (UpdateMenuItem (update_menu_params itemID storeID req));
                    State_Monad.return (case r of
                      Inl err \<Rightarrow>
                        (if err = NoRows then Fail StatusNotFound errMenuNotFound
                         else Fail StatusInternalServerError (ErrDB err))
                    | Inr m \<Rightarrow> Reply StatusOK (newAdminMenuItem m))
                  })))"

definition internalDeleteMenu :: "env \<Rightarrow> string \<Rightarrow> string \<Rightarrow> (world, bool reply) state" where
  "internalDeleteMenu E idParam itemParam =
     (case storeIDFromPath E idParam of
        Inl e \<Rightarrow> State_Monad.return (Fail StatusBadRequest e)
      | Inr storeID \<Rightarrow>
          (case menuItemIDFromPath E itemParam of
             Inl e \<Rightarrow> State_Monad.return (Fail StatusBadRequest e)
           | Inr itemID \<Rightarrow> do {
               r \<leftarrow> db_call E (DeleteMenuItem itemID storeID);
               State_Monad.return (case r of
                 Inl err \<Rightarrow> Fail StatusInternalServerError (ErrDB err)
               | Inr n \<Rightarrow>
                   (if n = 0 then Fail StatusNotFound errMenuNotFound else Reply StatusOK True))
             }))"

section \<open>Operators' refresh tokens\<close>

lemma renewInternalAccessToken_live:
  "wp (renewInternalAccessToken E srv body) (\<lambda>r w'. db w' = db w \<and>
     (\<forall>b. r = Reply StatusOK b \<longrightarrow>
       (\<exists>req p s ap. body = Some req
        \<and> verify_at E (sv_tokenMaker srv) (clock E (ticks w)) (rn_RefreshToken req) = Inr p
        \<and> fst (GetInternalSession (pl_ID p) E (ticks w) (db w)) = Inr s \<and> \<not> is_IsBlocked s
        \<and> is_AdminID s = pl_UserID p
        \<and> is_RefreshToken s = rn_RefreshToken req \<and> clock E (ticks w + 2) \<le> is_ExpiresAt s
        \<and> minted E (sv_tokenMaker srv) (is_AdminID s) (pl_Email p) RoleInternal None
            (AccessTokenDuration (sv_config srv)) (ticks w + 3) (rr_AccessToken b, ap)))) w"
proof (cases "ShouldBindJSON valid_renewAccessTokenRequest body")
  case (Some req)
  show ?thesis
  proof (cases "verify_at E (sv_tokenMaker srv) (clock E (ticks w)) (rn_RefreshToken req)")
    case (Inr p)
    have get: "fst (GetInternalSession (pl_ID p) E (Suc (ticks w)) (db w)) =
        fst (GetInternalSession (pl_ID p) E (ticks w) (db w))"
      by (simp add: GetInternalSession_def)
    show ?thesis
    proof (cases "pl_Role p = RoleInternal")
      case True
      show ?thesis
        unfolding renewInternalAccessToken_def Some option.case wp_bind wp_VerifyToken Inr sum.case
        apply (simp only: True simp_thms if_False wp_bind)
        by (rule wp_read)
          (use Some Inr in \<open>auto simp: numeral_eq_Suc get not_less split: sum.splits intro!: wp_CreateRoleToken\<close>)
    qed (simp add: renewInternalAccessToken_def Some Inr)
  qed (simp add: renewInternalAccessToken_def Some)
qed (simp add: renewInternalAccessToken_def)

interpretation operator_refresh: refresh_endpoint internal_sessions is_ID GetInternalSession is_AdminID
  is_RefreshToken is_IsBlocked is_ExpiresAt RoleInternal renewInternalAccessToken
  by unfold_locales (use wpD[OF renewInternalAccessToken_live] in blast)+

interpretation operator_menu: menu_editor "\<lambda>E idParam. uuid_Parse E idParam"
  "\<lambda>E idParam body. internalCreateMenu E idParam body"
  "\<lambda>E idParam item body. internalUpdateMenu E idParam item body"
  "\<lambda>E idParam item. internalDeleteMenu E idParam item"
proof unfold_locales
  fix E :: env and idParam sid body item
  assume s: "uuid_Parse E idParam = Some sid"
  then have path: "storeIDFromPath E idParam = Inr sid" by (simp add: storeIDFromPath_def)
  show "state_io_rel (db_rel (same (other_menus sid))) (internalCreateMenu E idParam body)"
    unfolding internalCreateMenu_def path sum.case
    by (intro same.program same.effects CreateMenuItem_scoped) (simp add: create_menu_params_def)
  show "state_io_rel (db_rel (same (other_menus sid))) (internalUpdateMenu E idParam item body)"
    unfolding internalUpdateMenu_def path sum.case
    by (intro same.program same.effects UpdateMenuItem_scoped) (simp add: update_menu_params_def)
  show "state_io_rel (db_rel (same (other_menus sid))) (internalDeleteMenu E idParam item)"
    unfolding internalDeleteMenu_def path sum.case
    by (intro same.program same.effects DeleteMenuItem_scoped)
qed

text \<open>An operator's menu calls are confined to the store named in the path: whatever calls are
  made on it, no other store's menu and no other table changes.\<close>

lemma operator_menu_confined:
  assumes "rtranclp (menu_edit_step internalCreateMenu internalUpdateMenu internalDeleteMenu E idParam) w w'"
    and "uuid_Parse E idParam = Some sid"
  shows "other_menus sid (db w') = other_menus sid (db w)"
  using operator_menu.edits_scoped[OF assms(2,1)] .

section \<open>Operator sessions\<close>

lemma CreateInternalSession_Inr:
  "CreateInternalSession arg E i d = (Inr s, d') \<longleftrightarrow>
     s = new_internal_session E i arg \<and> d' = d\<lparr>internal_sessions := internal_sessions d @ [s]\<rparr>
   \<and> (\<forall>x \<in> set (internal_sessions d). is_ID x \<noteq> ci_ID arg) \<and> (\<exists>a \<in> set (internal_admins d). ia_ID a = ci_AdminID arg)"
  by (auto simp: CreateInternalSession_def Let_def list_ex_iff split: if_splits)

lemma CreateInternalSession_Inl: "CreateInternalSession arg E i d = (Inl e, d') \<Longrightarrow> d' = d"
  by (auto simp: CreateInternalSession_def Let_def split: if_splits)

text \<open>What a successful operator login leaves behind.\<close>

definition internal_session_issued ::
  "env \<Rightarrow> Server \<Rightarrow> InternalAdmin \<Rightarrow> internalLoginResponse \<Rightarrow> database \<Rightarrow> database \<Rightarrow> bool" where
  "internal_session_issued E srv a lr d d' \<longleftrightarrow>
     (\<exists>s i ap j rp.
        d' = d\<lparr>internal_sessions := internal_sessions d @ [s]\<rparr>
      \<and> (\<forall>x \<in> set (internal_sessions d). is_ID x \<noteq> is_ID s)
      \<and> is_AdminID s = ia_ID a \<and> \<not> is_IsBlocked s \<and> is_ID s = ir_SessionID lr
      \<and> is_RefreshToken s = ir_RefreshToken lr \<and> is_ExpiresAt s = ir_RefreshTokenExpiresAt lr
      \<and> minted E (sv_tokenMaker srv) (ia_ID a) (ia_Email a) RoleInternal None
          (AccessTokenDuration (sv_config srv)) i (ir_AccessToken lr, ap)
      \<and> minted E (sv_tokenMaker srv) (ia_ID a) (ia_Email a) RoleInternal None
          (RefreshTokenDuration (sv_config srv)) j (ir_RefreshToken lr, rp)
      \<and> pl_ID rp = ir_SessionID lr \<and> pl_ExpiredAt rp = ir_RefreshTokenExpiresAt lr)"

lemma internal_session_issuedI:
  assumes "minted E (sv_tokenMaker srv) (ia_ID a) (ia_Email a) RoleInternal None
      (AccessTokenDuration (sv_config srv)) i (acc, ap)"
    and "minted E (sv_tokenMaker srv) (ia_ID a) (ia_Email a) RoleInternal None
      (RefreshTokenDuration (sv_config srv)) j (rt, rp)"
    and "CreateInternalSession
      \<lparr>ci_ID = pl_ID rp, ci_AdminID = ia_ID a, ci_RefreshToken = rt, ci_UserAgent = ua, ci_ClientIp = ip,
       ci_IsBlocked = False, ci_ExpiresAt = pl_ExpiredAt rp\<rparr> E k d = (Inr s, d')"
  shows "internal_session_issued E srv a
      \<lparr>ir_AccessToken = acc, ir_AccessTokenExpiresAt = pl_ExpiredAt ap, ir_RefreshToken = rt,
       ir_RefreshTokenExpiresAt = pl_ExpiredAt rp, ir_SessionID = is_ID s, ir_Email = ia_Email a\<rparr> d d'"
  unfolding internal_session_issued_def
  by (rule exI[of _ s], rule exI[of _ i], rule exI[of _ ap], rule exI[of _ j], rule exI[of _ rp])
    (use assms in \<open>auto simp: CreateInternalSession_Inr\<close>)

lemma wp_issueInternalSession:
  assumes "\<And>e w'. internal_admins (db w') = internal_admins (db w) \<Longrightarrow> Q (Fail StatusInternalServerError e) w'"
    and "\<And>lr w'. internal_session_issued E srv a lr (db w) (db w') \<Longrightarrow> Q (Reply StatusOK lr) w'"
  shows "wp (issueInternalSession E srv cx a) Q w"
  unfolding issueInternalSession_def wp_bind
  apply (rule wp_CreateRoleToken)
   apply (simp add: assms(1))
  apply (clarsimp split: prod.splits)
  apply (rule wp_CreateRoleToken)
   apply (simp add: assms(1))
  apply (clarsimp split: prod.splits)
  apply (rule wp_db_call)
    apply (clarsimp split: sum.splits)
    apply (intro conjI allI impI)
     apply (fastforce dest: CreateInternalSession_Inl intro: assms(1))
    apply (rule assms(2))
    apply clarsimp
    apply (erule (2) internal_session_issuedI)
   apply (simp add: assms(1))
  apply (clarsimp simp: CreateInternalSession_def Let_def assms(1) split: if_splits)
  done

text \<open>Operator login: a 200 answer means the operator with that e-mail has the request's password,
  the tokens are signed for that operator with the internal role, and the one change is one new,
  unblocked session of that operator holding the refresh token.\<close>

lemma internal_login_sound:
  assumes "run_state (internalLogin E srv cx body) w = (r, w')"
  shows "internal_admins (db w') = internal_admins (db w)
    \<and> (\<forall>lr. r = Reply StatusOK lr \<longrightarrow>
        (\<exists>req a. body = Some req
          \<and> find (\<lambda>x. pg_lower E (ia_Email x) = pg_lower E (il_Email req)) (internal_admins (db w)) = Some a
          \<and> bcrypt_Compare E (ia_PasswordHash a) (il_Password req)
          \<and> internal_session_issued E srv a lr (db w) (db w')))"
proof -
  have issue: "internal_session_issued E srv a lr d d' \<Longrightarrow> internal_admins d' = internal_admins d" for a lr d d'
    by (auto simp: internal_session_issued_def)
  have "wp (internalLogin E srv cx body) (\<lambda>r w'. internal_admins (db w') = internal_admins (db w)
    \<and> (\<forall>lr. r = Reply StatusOK lr \<longrightarrow>
        (\<exists>req a. body = Some req
          \<and> find (\<lambda>x. pg_lower E (ia_Email x) = pg_lower E (il_Email req)) (internal_admins (db w)) = Some a
          \<and> bcrypt_Compare E (ia_PasswordHash a) (il_Password req)
          \<and> internal_session_issued E srv a lr (db w) (db w')))) w"
  proof (cases "ShouldBindJSON (valid_internalLoginRequest E) body")
    case (Some req)
    show ?thesis
      unfolding internalLogin_def Some option.case wp_bind
      by (rule wp_read)
        (use Some in \<open>auto simp: GetInternalAdminByEmail_def CheckPassword_def issue split: option.splits sum.splits
           intro!: wp_issueInternalSession\<close>)
  qed (simp add: internalLogin_def)
  from wpD[OF this assms] show ?thesis .
qed

text \<open>C18: Logout: with a reachable database, logging out with a refresh token the server signed and
  that is still valid is answered 200 and deletes that token's session and nothing else; from then
  on, as long as no session has that id, the token is never exchanged for an access token, at any
  time.\<close>

theorem logout_ends_session:
  assumes "jwt_laws E" and "no_faults E" and "rn_RefreshToken req \<noteq> []"
    and "jwt_Sign E (secretKey (sv_tokenMaker srv)) p = Some (rn_RefreshToken req)"
    and "GetNotBefore p \<le> clock E (ticks w)" and "clock E (ticks w) < GetExpirationTime p"
  shows "run_state (internalLogout E srv (Some req)) w = (Reply StatusOK True,
      w\<lparr>ticks := ticks w + 2,
        db := (db w)\<lparr>internal_sessions := filter (\<lambda>s. is_ID s \<noteq> pl_ID p) (internal_sessions (db w))\<rparr>\<rparr>)
    \<and> (\<forall>v b. pl_ID p \<notin> is_ID ` set (internal_sessions (db v)) \<longrightarrow>
        fst (run_state (renewInternalAccessToken E srv (Some req)) v) \<noteq> Reply StatusOK b)"
proof -
  note v = verify_at_signed[OF assms(1,4)]
  have "fst (run_state (renewInternalAccessToken E srv (Some req)) v) \<noteq> Reply StatusOK b"
    if "pl_ID p \<notin> is_ID ` set (internal_sessions (db v))" for v b
    by (rule operator_refresh.missing_session_not_renewed[OF surjective_pairing])
      (use that in \<open>auto simp: v image_iff split: if_splits\<close>)
  moreover have "verify_at E (sv_tokenMaker srv) (clock E (ticks w)) (rn_RefreshToken req) = Inr p"
    using assms(5,6) by (simp add: v)
  ultimately show ?thesis
    using assms(2,3)
    by (simp add: internalLogout_def valid_renewAccessTokenRequest_def DeleteInternalSession_def
        delete_where_def numeral_2_eq_2)
qed

section \<open>The review of a store\<close>

text \<open>The specification: which status each call leads to, \<open>None\<close> where it is refused.\<close>

datatype review_action = Submit | Approve | Reject

fun review :: "review_action \<Rightarrow> StoreStatus \<Rightarrow> StoreStatus option" where
  "review Submit st = (if st = StoreStatusDraft \<or> st = StoreStatusRejected then Some StoreStatusPending else None)"
| "review Approve st = (if st = StoreStatusDraft \<or> st = StoreStatusPending then Some StoreStatusApproved else None)"
| "review Reject st = (if st = StoreStatusPending then Some StoreStatusRejected else None)"

text \<open>The handler of each call: a partner submits with its token \<open>p\<close>, an operator approves and rejects
  by the path's id.\<close>

fun review_call ::
  "env \<Rightarrow> Payload \<Rightarrow> string \<Rightarrow> string \<Rightarrow> review_action \<Rightarrow> (world, adminStoreResponse reply) state" where
  "review_call E p idParam reason Submit = adminSubmitStore E p"
| "review_call E p idParam reason Approve = approveStore E idParam"
| "review_call E p idParam reason Reject = rejectStore E idParam (Some \<lparr>rj_Reason = reason\<rparr>)"

fun review_query :: "review_action \<Rightarrow> uuid \<Rightarrow> string \<Rightarrow> Store query" where
  "review_query Submit sid reason = SubmitStore sid"
| "review_query Approve sid reason = ApproveStore sid"
| "review_query Reject sid reason = RejectStore sid (Some reason)"

fun reviewed :: "env \<Rightarrow> nat \<Rightarrow> review_action \<Rightarrow> string \<Rightarrow> StoreStatus \<Rightarrow> Store \<Rightarrow> Store" where
  "reviewed E i Submit reason st =
     (\<lambda>s. s\<lparr>st_Status := st, st_RejectionReason := None, st_UpdatedAt := pg_clock E i\<rparr>)"
| "reviewed E i Approve reason st =
     (\<lambda>s. s\<lparr>st_Status := st, st_ApprovedAt := Some (pg_clock E i), st_RejectionReason := None,
            st_UpdatedAt := pg_clock E i\<rparr>)"
| "reviewed E i Reject reason st =
     (\<lambda>s. s\<lparr>st_Status := st, st_RejectionReason := Some reason, st_UpdatedAt := pg_clock E i\<rparr>)"

lemma update_store_found:
  assumes "unique_on st_ID (stores d)" and "find (\<lambda>s. st_ID s = sid) (stores d) = Some s"
  shows "update_store sid g f d =
    (if g s then (Inr (f s), d\<lparr>stores := update_where (\<lambda>x. st_ID x = sid) f (stores d)\<rparr>) else (Inl NoRows, d))"
proof -
  have s: "s \<in> set (stores d)" "st_ID s = sid" using assms(2) by (auto simp: find_Some_iff)
  have u: "st_ID x = sid \<longleftrightarrow> x = s" if "x \<in> set (stores d)" for x
    using unique_on_eq[OF assms(1) that s(1)] s(2) by auto
  show ?thesis
  proof (cases "g s")
    case True
    with u have eq: "st_ID x = sid \<and> g x \<longleftrightarrow> st_ID x = sid" if "x \<in> set (stores d)" for x
      using that by auto
    have "find (\<lambda>x. st_ID x = sid \<and> g x) (stores d) = Some s"
      using find_cong[OF refl eq, of "stores d"] assms(2) by simp
    with True eq show ?thesis by (simp add: update_store_def update_where_def)
  next
    case False
    with u have none: "\<forall>x \<in> set (stores d). \<not> (st_ID x = sid \<and> g x)" by auto
    then have "find (\<lambda>x. st_ID x = sid \<and> g x) (stores d) = None" by (simp add: find_None_iff)
    with False update_where_none[OF none] show ?thesis by (simp add: update_store_def)
  qed
qed

lemma review_query_found:
  assumes "unique_on st_ID (stores d)" and "find (\<lambda>s. st_ID s = sid) (stores d) = Some s"
  shows "review_query act sid reason E i d =
    (case review act (st_Status s) of
       None \<Rightarrow> (Inl NoRows, d)
     | Some st \<Rightarrow> (Inr (reviewed E i act reason st s),
         d\<lparr>stores := update_where (\<lambda>x. st_ID x = sid) (reviewed E i act reason st) (stores d)\<rparr>))"
  by (cases act)
    (auto simp: SubmitStore_def ApproveStore_def RejectStore_def update_store_found[OF assms])

text \<open>C7: The review of a store follows the specified machine: with a reachable database and unique
  store ids, submitting, approving or rejecting an existing store moves it exactly along
  \<open>review\<close> (rejection records the reason, approval the time, and a submission clears the reason),
  touching no other store and no other table; a call the machine refuses is answered 409 and
  changes nothing.\<close>

theorem review_follows_machine:
  assumes "no_faults E" and "stores_ok (db w)"
    and "find (\<lambda>s. st_ID s = sid) (stores (db w)) = Some s"
    and "adminStoreID p = Some sid" and "uuid_Parse E idParam = Some sid" and "reason \<noteq> []"
  shows "case review act (st_Status s) of
      None \<Rightarrow> \<exists>e. run_state (review_call E p idParam reason act) w =
        (Fail StatusConflict e, w\<lparr>ticks := Suc (ticks w)\<rparr>)
    | Some st \<Rightarrow> run_state (review_call E p idParam reason act) w =
        (respondAdminStore StatusOK (reviewed E (ticks w) act reason st s),
         w\<lparr>ticks := Suc (ticks w),
           db := (db w)\<lparr>stores := update_where (\<lambda>x. st_ID x = sid) (reviewed E (ticks w) act reason st)
             (stores (db w))\<rparr>\<rparr>)"
proof -
  note q = review_query_found[where E = E and i = "ticks w" and reason = reason,
      OF _ assms(3), of act] 
  have "unique_on st_ID (stores (db w))" using assms(2) by (simp add: stores_ok_def)
  from q[OF this] show ?thesis
    using assms(1,4-6)
    by (cases act; cases "review act (st_Status s)")
      (simp_all add: adminSubmitStore_def approveStore_def rejectStore_def valid_rejectStoreRequest_def textOrNull_def)
qed

section \<open>Approval times\<close>

text \<open>The invariant the comment in \<open>internal_stores.sql\<close> states: \<open>approved_at\<close> is set iff the store is
  currently approved.\<close>

definition stamped :: "Store \<Rightarrow> bool" where
  "stamped s \<longleftrightarrow> (st_Status s = StoreStatusApproved \<longleftrightarrow> st_ApprovedAt s \<noteq> None)"

definition approvals_stamped :: "database \<Rightarrow> bool" where
  "approvals_stamped d \<longleftrightarrow> (\<forall>s \<in> set (stores d). stamped s)"

lemma stamped_update_store:
  "approvals_stamped d \<Longrightarrow> (\<And>s. guard s \<Longrightarrow> stamped s \<Longrightarrow> stamped (f s)) \<Longrightarrow>
   approvals_stamped (snd (update_store sid guard f d))"
  by (auto simp: approvals_stamped_def update_store_def set_update_where)

lemma stamped_insert_store:
  "approvals_stamped d \<Longrightarrow> stamped r \<Longrightarrow> approvals_stamped (snd (insert_store r d))"
  by (auto simp: approvals_stamped_def insert_store_def)

lemma stamped_SubmitStore: "approvals_stamped d \<Longrightarrow> approvals_stamped (snd (SubmitStore sid E i d))"
  unfolding SubmitStore_def by (rule stamped_update_store) (auto simp: stamped_def)

lemma stamped_ApproveStore: "approvals_stamped d \<Longrightarrow> approvals_stamped (snd (ApproveStore sid E i d))"
  unfolding ApproveStore_def by (rule stamped_update_store) (auto simp: stamped_def)

lemma stamped_RejectStore: "approvals_stamped d \<Longrightarrow> approvals_stamped (snd (RejectStore sid reason E i d))"
  unfolding RejectStore_def by (rule stamped_update_store) (auto simp: stamped_def)

lemma stamped_UpdateStoreProfile:
  "approvals_stamped d \<Longrightarrow> approvals_stamped (snd (UpdateStoreProfile arg E i d))"
  unfolding UpdateStoreProfile_def
  by (auto split: option.split intro!: stamped_update_store simp: stamped_def set_profile_def)

lemma stamped_UpdateStoreFull:
  "approvals_stamped d \<Longrightarrow> approvals_stamped (snd (UpdateStoreFull arg E i d))"
  unfolding UpdateStoreFull_def
  by (auto split: option.split intro!: stamped_update_store simp: stamped_def set_full_def)

lemma stamped_CreateStore: "approvals_stamped d \<Longrightarrow> approvals_stamped (snd (CreateStore arg E i d))"
  unfolding CreateStore_def by (rule stamped_insert_store) (auto simp: stamped_def new_store_def)

lemma stamped_CreateStoreFull:
  "cf_Status arg \<noteq> ''approved'' \<Longrightarrow> approvals_stamped d \<Longrightarrow> approvals_stamped (snd (CreateStoreFull arg E i d))"
  unfolding CreateStoreFull_def
  by (auto split: option.split intro!: stamped_insert_store
      simp: stamped_def full_store_def StoreStatus_scan_def split: if_splits)

lemma stamped_DeleteStore: "approvals_stamped d \<Longrightarrow> approvals_stamped (snd (DeleteStore sid E i d))"
  by (auto simp: approvals_stamped_def DeleteStore_def set_delete_where)

text \<open>Creating a store with the status \<open>approved\<close> breaks that invariant: with a reachable database
  a 201 answer for such a request adds a listed store without an approval time.\<close>

lemma create_approved_unstamped:
  assumes "run_state (internalCreateStore E (Some req)) w = (Reply StatusCreated resp, w')"
    and "iq_Status req = ''approved''"
  shows "\<exists>s. db w' = (db w)\<lparr>stores := stores (db w) @ [s]\<rparr> \<and> st_Status s = StoreStatusApproved
    \<and> st_ApprovedAt s = None \<and> asr_ID resp = st_ID s \<and> \<not> approvals_stamped (db w')"
proof -
  have "wp (internalCreateStore E (Some req)) (\<lambda>r w'. \<forall>resp. r = Reply StatusCreated resp \<longrightarrow>
      (\<exists>s. db w' = (db w)\<lparr>stores := stores (db w) @ [s]\<rparr> \<and> st_Status s = StoreStatusApproved
        \<and> st_ApprovedAt s = None \<and> asr_ID resp = st_ID s \<and> \<not> approvals_stamped (db w'))) w"
  proof (cases "ShouldBindJSON valid_internalStoreRequest (Some req)")
    case (Some req')
    then have req': "req' = req" by simp
    have st: "StoreStatus_scan (cf_Status (full_params req)) = Some StoreStatusApproved"
      using assms(2) by (simp add: full_params_def StoreStatus_scan_def)
    show ?thesis
      unfolding internalCreateStore_def Some option.case wp_bind req'
      by (rule wp_db_call)
        (auto simp: CreateStoreFull_def st insert_store_Inr full_store_def respondAdminStore_def
          newAdminStoreResponse_def approvals_stamped_def stamped_def split: option.splits sum.splits)
  qed (simp add: internalCreateStore_def)
  from wpD[OF this assms(1)] show ?thesis by simp
qed

section \<open>Onboarding and removal\<close>

text \<open>Onboarding: with a reachable database a 201 answer adds exactly one draft store and one
  admin scoped to it, with the request's e-mail and a hash of its password; every other answer
  changes nothing, or is a 500 that leaves one draft store without an admin behind.\<close>

lemma provision_adds_store_and_admin:
  assumes "run_state (provisionStoreAdmin E body) w = (r, w')" and "no_faults E"
  shows "(\<exists>req s a resp. body = Some req \<and> r = Reply StatusCreated resp
        \<and> db w' = (db w)\<lparr>stores := stores (db w) @ [s], store_admins := store_admins (db w) @ [a]\<rparr>
        \<and> st_Status s = StoreStatusDraft \<and> st_WardID s = pv_WardID req \<and> st_Name s = pv_Name req
        \<and> sa_StoreID a = st_ID s \<and> sa_Email a = pv_Email req
        \<and> (\<exists>i. bcrypt_Generate E i (pv_Password req) = Some (sa_PasswordHash a))
        \<and> pp_StoreID resp = st_ID s \<and> pp_StoreAdminID resp = sa_ID a)
    \<or> (\<exists>code e. r = Fail code e \<and> (db w' = db w
        \<or> code = StatusInternalServerError
          \<and> (\<exists>s. st_Status s = StoreStatusDraft \<and> db w' = (db w)\<lparr>stores := stores (db w) @ [s]\<rparr>)))"
    (is "?Q r w'")
proof -
  have "wp (provisionStoreAdmin E body) ?Q w"
  proof (cases "ShouldBindJSON (valid_provisionStoreAdminRequest E) body")
    case (Some req)
    define arg where "arg = \<lparr>cr_WardID = pv_WardID req, cr_Name = pv_Name req, cr_Address = [],
        cr_Latitude = 0, cr_Longitude = 0, cr_IsGfOriented = False, cr_OpeningHours = JArr []\<rparr>"
    note def = provisionStoreAdmin_def GetStoreAdminByEmail_def arg_def[symmetric]
    show ?thesis
    proof (cases "find (\<lambda>a. pg_lower E (sa_Email a) = pg_lower E (pv_Email req)) (store_admins (db w))")
      case None
      show ?thesis
      proof (cases "CreateStore arg E (Suc (ticks w)) (db w)")
        case (Pair x d)
        show ?thesis
        proof (cases x)
          case (Inl e)
          with Pair have "d = db w" by (auto simp: CreateStore_def dest: insert_store_Inl)
          with assms(2) Some None Pair Inl show ?thesis by (simp add: def)
        next
          case (Inr s)
          with Pair have s: "s = new_store E (Suc (ticks w)) arg" "d = (db w)\<lparr>stores := stores (db w) @ [s]\<rparr>"
            by (auto simp: CreateStore_def insert_store_Inr)
          have "st_Status s = StoreStatusDraft" "st_WardID s = pv_WardID req" "st_Name s = pv_Name req"
            by (simp_all add: s(1) new_store_def arg_def)
          note facts = this assms(2) Some None Pair Inr s(2)
          show ?thesis
          proof (cases "bcrypt_Generate E (ticks w + 2) (pv_Password req)")
            case None
            with facts show ?thesis by (auto simp: def numeral_2_eq_2)
          next
            case h: (Some h)
            define a where "a = \<lparr>sa_ID = gen_random_uuid E (ticks w + 3), sa_StoreID = st_ID s,
              sa_Email = pv_Email req, sa_PasswordHash = h, sa_CreatedAt = pg_clock E (ticks w + 3),
              sa_UpdatedAt = pg_clock E (ticks w + 3)\<rparr>"
            have "sa_StoreID a = st_ID s" "sa_Email a = pv_Email req" "sa_PasswordHash a = h"
              by (simp_all add: a_def)
            moreover have "CreateStoreAdmin (st_ID s) (pv_Email req) h E (ticks w + 3) d = (x', d')
                \<Longrightarrow> x' = Inr a \<and> d' = d\<lparr>store_admins := store_admins d @ [a]\<rparr> \<or> (\<exists>e. x' = Inl e) \<and> d' = d" for x' d'
              unfolding CreateStoreAdmin_def Let_def a_def[symmetric] by (auto split: if_splits)
            ultimately show ?thesis
              using facts h
              by (cases "CreateStoreAdmin (st_ID s) (pv_Email req) h E (ticks w + 3) d")
                (fastforce simp: def numeral_eq_Suc)
          qed
        qed
      qed
    qed (use assms(2) Some in \<open>simp add: def\<close>)
  qed (simp add: provisionStoreAdmin_def)
  from wpD[OF this assms(1)] show ?thesis .
qed

text \<open>C39: The orphan store that onboarding means to avoid: when the password cannot be hashed (bcrypt
  refuses more than 72 bytes, the binding does not), a valid request for a new e-mail and an existing ward
  is answered 500, but its draft store stays as the one change to the tables, without any admin.\<close>

theorem provision_orphan:
  assumes "no_faults E" and "valid_provisionStoreAdminRequest E req"
    and "\<forall>a \<in> set (store_admins (db w)). pg_lower E (sa_Email a) \<noteq> pg_lower E (pv_Email req)"
    and "\<forall>s \<in> set (stores (db w)). st_ID s \<noteq> gen_random_uuid E (Suc (ticks w))"
    and "\<exists>wd \<in> set (wards (db w)). w_ID wd = pv_WardID req"
    and "bcrypt_Generate E (ticks w + 2) (pv_Password req) = None"
  shows "\<exists>e s w'. run_state (provisionStoreAdmin E (Some req)) w = (Fail StatusInternalServerError e, w')
    \<and> db w' = (db w)\<lparr>stores := stores (db w) @ [s]\<rparr> \<and> st_Name s = pv_Name req \<and> st_Status s = StoreStatusDraft"
proof -
  have "find (\<lambda>a. pg_lower E (sa_Email a) = pg_lower E (pv_Email req)) (store_admins (db w)) = None"
    using assms(3) by (simp add: find_None_iff)
  then show ?thesis
    using assms by (auto simp: provisionStoreAdmin_def GetStoreAdminByEmail_def CreateStore_def insert_store_def
        list_ex_iff new_store_def numeral_2_eq_2)
qed

text \<open>Deleting a store takes its menu and its admins with it and nothing else: with a reachable
  database an existing store is answered 200 and the rows of exactly that store are gone from the
  three tables; an unknown one is answered 404 and nothing changes.\<close>

lemma delete_store_cascades:
  assumes "no_faults E" and "uuid_Parse E idParam = Some sid"
  shows "run_state (internalDeleteStore E idParam) w =
    (if \<exists>s \<in> set (stores (db w)). st_ID s = sid
     then (Reply StatusOK True,
           w\<lparr>ticks := Suc (ticks w),
             db := (db w)\<lparr>stores := filter (\<lambda>s. st_ID s \<noteq> sid) (stores (db w)),
               menu_items := filter (\<lambda>m. mi_StoreID m \<noteq> sid) (menu_items (db w)),
               store_admins := filter (\<lambda>a. sa_StoreID a \<noteq> sid) (store_admins (db w))\<rparr>\<rparr>)
     else (Fail StatusNotFound errStoreNotFound, w\<lparr>ticks := Suc (ticks w)\<rparr>))"
  using assms
  by (auto simp: internalDeleteStore_def DeleteStore_def list_ex_iff delete_where_def rows_matching_0)

end
