(* ===== verification/GF_Internal_Runs.thy ===== *)
theory GF_Internal_Runs
  imports GF_Internal GF_StoreAdmin_Runs
begin

text \<open>
  An operator over the catalogue, concrete runs of the operators' handlers, and the witnesses of
  their properties.
\<close>

definition operator :: InternalAdmin where
  "operator = \<lparr>ia_ID = 2040, ia_Email = ''op@example.jp'', ia_PasswordHash = ''$long password'',
     ia_CreatedAt = sample_now 0, ia_Name = ''Op'', ia_UpdatedAt = sample_now 0\<rparr>"

definition operator_db :: database where
  "operator_db = partner_db\<lparr>internal_admins := [operator]\<rparr>"

lemma operator_sel [simp]:
  "stores operator_db = stores catalogue_db" "menu_items operator_db = menu_items catalogue_db"
  "wards operator_db = wards catalogue_db" "store_admins operator_db = [partner_admin]"
  "internal_admins operator_db = [operator]" "internal_sessions operator_db = []"
  "internal_password_resets operator_db = []"
  "ia_ID operator = 2040" "ia_Email operator = ''op@example.jp''" "ia_Name operator = ''Op''"
  "ia_PasswordHash operator = ''$long password''"
  by (simp_all add: operator_db_def operator_def partner_db_def catalogue_db_def empty_db_def)

lemma operator_db_ok: "schema_ok sample_env operator_db"
  using partner_db_ok by (simp add: schema_defs unique_on_def unique_partial_def operator_db_def partner_db_def
      catalogue_db_def empty_db_def)

lemma parse_store [simp]: "uuid_Parse sample_env ''2010'' = Some 2010" "uuid_Parse sample_env ''2011'' = Some 2011"
  by (simp_all add: is_digit_def decimal_val_def digit_val_def)

section \<open>Menu and sessions\<close>

theorem operator_menu_confined_witness:
  "let w' = snd (run_state (internalDeleteMenu sample_env ''2010'' ''2020'') (world_of operator_db)) in
   length (menu_items (db w')) = 1 \<and> other_menus 2010 (db w') = other_menus 2010 operator_db"
proof -
  let ?w' = "snd (run_state (internalDeleteMenu sample_env ''2010'' ''2020'') (world_of operator_db))"
  have "menu_edit_step internalCreateMenu internalUpdateMenu internalDeleteMenu sample_env ''2010''
      (world_of operator_db) ?w'"
    unfolding menu_edit_step_def by blast
  then have "other_menus 2010 (db ?w') = other_menus 2010 operator_db"
    using operator_menu_confined[OF r_into_rtranclp] parse_store(1) by fastforce
  moreover have "length (menu_items (db ?w')) = 1"
    by (simp add: internalDeleteMenu_def storeIDFromPath_def menuItemIDFromPath_def DeleteMenuItem_def
        delete_where_def is_digit_def decimal_val_def digit_val_def)
  ultimately show ?thesis by (simp add: Let_def)
qed

definition operator_credentials :: internalLoginRequest where
  "operator_credentials = \<lparr>il_Email = ''op@example.jp'', il_Password = ''long password''\<rparr>"

lemma operator_logs_in:
  "\<exists>resp w'. run_state (internalLogin sample_env sample_server sample_ctx (Some operator_credentials))
      (world_of operator_db) = (Reply StatusOK resp, w')"
  by (simp add: internalLogin_def valid_internalLoginRequest_def operator_credentials_def
      GetInternalAdminByEmail_def CheckPassword_def issueInternalSession_def CreateRoleToken_def NewPayload_def
      CreateInternalSession_def Let_def)

theorem internal_login_sound_witness:
  "\<exists>resp w' s. run_state (internalLogin sample_env sample_server sample_ctx (Some operator_credentials))
      (world_of operator_db) = (Reply StatusOK resp, w')
    \<and> internal_sessions (db w') = [s] \<and> is_AdminID s = 2040 \<and> is_RefreshToken s = ir_RefreshToken resp"
proof -
  obtain resp w' where run: "run_state (internalLogin sample_env sample_server sample_ctx
      (Some operator_credentials)) (world_of operator_db) = (Reply StatusOK resp, w')"
    using operator_logs_in by blast
  from internal_login_sound[OF run] have "internal_session_issued sample_env sample_server operator resp
      operator_db (db w')"
    by (auto split: if_splits)
  with run show ?thesis by (auto simp: internal_session_issued_def)
qed

definition operator_refresh_payload :: Payload where
  "operator_refresh_payload = sample_payload 2 2040 ''op@example.jp'' RoleInternal None (24 * hour)"

definition operator_refresh_request :: renewAccessTokenRequest where
  "operator_refresh_request =
     \<lparr>rn_RefreshToken = sample_token (secretKey sample_maker) operator_refresh_payload\<rparr>"

definition operator_session :: InternalSession where
  "operator_session = new_internal_session sample_env 5
     \<lparr>ci_ID = pl_ID operator_refresh_payload, ci_AdminID = 2040,
      ci_RefreshToken = rn_RefreshToken operator_refresh_request,
      ci_UserAgent = ''agent'', ci_ClientIp = ''10.0.0.1'', ci_IsBlocked = False,
      ci_ExpiresAt = pl_ExpiredAt operator_refresh_payload\<rparr>"

definition session_world :: world where
  "session_world = (world_of (operator_db\<lparr>internal_sessions := [operator_session]\<rparr>))\<lparr>ticks := 6\<rparr>"

theorem logout_ends_session_witness:
  "internal_sessions (db session_world) = [operator_session]
   \<and> (let w' = snd (run_state (internalLogout sample_env sample_server (Some operator_refresh_request)) session_world)
      in internal_sessions (db w') = []
       \<and> (\<forall>b. fst (run_state (renewInternalAccessToken sample_env sample_server (Some operator_refresh_request)) w')
           \<noteq> Reply StatusOK b))"
proof -
  have w: "GetNotBefore operator_refresh_payload \<le> clock sample_env (ticks session_world)"
    "clock sample_env (ticks session_world) < GetExpirationTime operator_refresh_payload"
    by (simp_all add: session_world_def operator_refresh_payload_def sample_payload_def GetNotBefore_def
        GetExpirationTime_def NewNumericDate_def sample_now_def second_def minute_def hour_def)
  have s: "is_ID operator_session = pl_ID operator_refresh_payload" by (simp add: operator_session_def)
  have "internal_sessions (db session_world) = [operator_session]" by (simp add: session_world_def)
  with logout_ends_session[OF sample_jwt_laws _ _ _ w, of operator_refresh_request sample_server] s
  show ?thesis by (simp add: operator_refresh_request_def Let_def)
qed

section \<open>Review\<close>

lemma stores_ok_world: "stores_ok (db (world_of operator_db))"
  using operator_db_ok by (simp add: schema_ok_def)

theorem review_follows_machine_witness:
  "(let w' = snd (run_state (review_call sample_env partner ''2011'' ''no menu'' Approve) (world_of operator_db)) in
     map st_Status (stores (db w')) = [StoreStatusApproved, StoreStatusApproved])
   \<and> (\<exists>e. run_state (review_call sample_env partner ''2011'' ''no menu'' Reject) (world_of operator_db) =
        (Fail StatusConflict e, (world_of operator_db)\<lparr>ticks := 1\<rparr>))"
proof -
  have f: "find (\<lambda>s. st_ID s = 2011) (stores (db (world_of operator_db))) = Some (sample_store 11 StoreStatusDraft)"
    by simp
  note m = review_follows_machine[OF _ stores_ok_world f, of sample_env partner "''2011''" "''no menu''"]
  from m[of Approve, OF _ _ parse_store(2)] m[of Reject, OF _ _ parse_store(2)] show ?thesis
    by (simp add: Let_def update_where_def del: review_call.simps)
qed

section \<open>Store records\<close>

definition approved_request :: internalStoreRequest where
  "approved_request =
     \<lparr>iq_WardID = 13, iq_Name = ''udon'', iq_Address = ''4-5-6'', iq_Latitude = 0, iq_Longitude = 0,
      iq_IsGfOriented = False, iq_OpeningHours = None, iq_Status = ''approved'', iq_Cuisine = [],
      iq_PriceLevel = 0, iq_Rating = 4, iq_ReviewCount = 10, iq_NearestStation = [], iq_Blurb = [],
      iq_GfStatus = ''certified'', iq_PhotoURL = [], iq_NameEn = [], iq_Phone = [], iq_SourceURL = [],
      iq_Notes = []\<rparr>"

lemma approved_request_created:
  "\<exists>resp w'. run_state (internalCreateStore sample_env (Some approved_request)) (world_of operator_db) =
     (Reply StatusCreated resp, w')"
  by (simp add: internalCreateStore_def valid_internalStoreRequest_def approved_request_def status_labels_def
      gf_labels_def CreateStoreFull_def full_params_def StoreStatus_scan_def GfStatus_scan_def insert_store_def
      full_store_def respondAdminStore_def newAdminStoreResponse_def hoursJSON_def parseOpeningHours_def)

theorem create_approved_unstamped_witness:
  "\<exists>resp w'. run_state (internalCreateStore sample_env (Some approved_request)) (world_of operator_db) =
     (Reply StatusCreated resp, w') \<and> \<not> approvals_stamped (db w')"
proof -
  obtain resp w' where run: "run_state (internalCreateStore sample_env (Some approved_request))
      (world_of operator_db) = (Reply StatusCreated resp, w')"
    using approved_request_created by blast
  from create_approved_unstamped[OF run] run show ?thesis by (auto simp: approved_request_def)
qed

definition provision_request :: "string \<Rightarrow> provisionStoreAdminRequest" where
  "provision_request pw = \<lparr>pv_Email = ''new@example.jp'', pv_Password = pw, pv_WardID = 13, pv_Name = ''ramen''\<rparr>"

lemma provision_request_sel [simp]:
  "pv_Email (provision_request pw) = ''new@example.jp''" "pv_Password (provision_request pw) = pw"
  "pv_WardID (provision_request pw) = 13" "pv_Name (provision_request pw) = ''ramen''"
  by (simp_all add: provision_request_def)

lemma new_email: "ToLower ''soba@example.jp'' \<noteq> ToLower ''new@example.jp''"
  by code_simp

theorem provision_adds_store_and_admin_witness:
  "\<exists>resp w'. run_state (provisionStoreAdmin sample_env (Some (provision_request ''long password'')))
      (world_of operator_db) = (Reply StatusCreated resp, w')
    \<and> length (stores (db w')) = 3 \<and> length (store_admins (db w')) = 2"
proof -
  have "\<exists>resp w'. run_state (provisionStoreAdmin sample_env (Some (provision_request ''long password'')))
      (world_of operator_db) = (Reply StatusCreated resp, w')"
    by (simp add: provisionStoreAdmin_def valid_provisionStoreAdminRequest_def RuneCount_def
        GetStoreAdminByEmail_def new_email CreateStore_def insert_store_def new_store_def CreateStoreAdmin_def Let_def)
  then obtain resp w' where run: "run_state (provisionStoreAdmin sample_env (Some (provision_request ''long password'')))
      (world_of operator_db) = (Reply StatusCreated resp, w')"
    by blast
  from provision_adds_store_and_admin[OF run] run show ?thesis by auto
qed

theorem provision_orphan_witness:
  "\<exists>e s w'. run_state (provisionStoreAdmin sample_env (Some (provision_request (replicate 73 CHR ''p''))))
      (world_of operator_db) = (Fail StatusInternalServerError e, w')
    \<and> stores (db w') = stores operator_db @ [s] \<and> store_admins (db w') = store_admins operator_db"
proof -
  have "valid_provisionStoreAdminRequest sample_env (provision_request (replicate 73 CHR ''p''))"
    by (simp add: valid_provisionStoreAdminRequest_def RuneCount_def)
  from provision_orphan[OF _ this, of "world_of operator_db"] new_email show ?thesis by auto
qed

theorem delete_store_cascades_witness:
  "let w' = snd (run_state (internalDeleteStore sample_env ''2010'') (world_of operator_db)) in
   map st_ID (stores (db w')) = [2011] \<and> menu_items (db w') = [] \<and> store_admins (db w') = [partner_admin]"
  using delete_store_cascades[of sample_env "''2010''" 2010 "world_of operator_db"] parse_store(1)
  by (simp add: Let_def)

end
