(* ===== verification/GF_InternalAdmins.thy ===== *)
theory GF_InternalAdmins
  imports GF_Internal
begin

text \<open>
  Operator accounts, \<open>api/internal_admins.go\<close>: listing and creating operators, setting and changing
  passwords, and the reset by an e-mailed one-time link.
\<close>

section \<open>Accounts\<close>

record internalAdminResponse =
  ian_ID :: uuid
  ian_Email :: string
  ian_Name :: string
  ian_CreatedAt :: time
  ian_UpdatedAt :: time

definition newInternalAdminResponse :: "InternalAdmin \<Rightarrow> internalAdminResponse" where
  "newInternalAdminResponse a =
     \<lparr>ian_ID = ia_ID a, ian_Email = ia_Email a, ian_Name = ia_Name a, ian_CreatedAt = ia_CreatedAt a,
      ian_UpdatedAt = ia_UpdatedAt a\<rparr>"

definition authenticatedAdminID :: "Payload \<Rightarrow> uuid" where
  "authenticatedAdminID payload = pl_UserID payload"

definition listInternalAdmins :: "env \<Rightarrow> (world, internalAdminResponse list reply) state" where
  "listInternalAdmins E = do {
     r \<leftarrow> db_call E ListInternalAdmins;
     State_Monad.return (case r of
       Inl err \<Rightarrow> Fail StatusInternalServerError (ErrDB err)
     | Inr admins \<Rightarrow> Reply StatusOK (map newInternalAdminResponse admins))
   }"

record createInternalAdminRequest =
  ca_Email :: string
  ca_Password :: string
  ca_Name :: string

definition valid_createInternalAdminRequest :: "env \<Rightarrow> createInternalAdminRequest \<Rightarrow> bool" where
  "valid_createInternalAdminRequest E req \<longleftrightarrow>
     ca_Email req \<noteq> [] \<and> valid_email E (ca_Email req) \<and> ca_Password req \<noteq> [] \<and> RuneCount (ca_Password req) \<ge> 8"

definition createInternalAdmin ::
  "env \<Rightarrow> createInternalAdminRequest option \<Rightarrow> (world, internalAdminResponse reply) state" where
  "createInternalAdmin E body =
     (case ShouldBindJSON (valid_createInternalAdminRequest E) body of
        None \<Rightarrow> State_Monad.return (Fail StatusBadRequest ErrBinding)
      | Some req \<Rightarrow>
          (let email = TrimSpace (ca_Email req) in do {
             h \<leftarrow> HashPassword E (ca_Password req);
             case h of
               None \<Rightarrow> State_Monad.return (Fail StatusInternalServerError (ErrLib ''failed to hash password''))
             | Some hash \<Rightarrow> do {
                 r \<leftarrow> db_call E (CreateInternalAdmin email hash (TrimSpace (ca_Name req)));
                 State_Monad.return (case r of
                   Inl err \<Rightarrow>
                     (if is_unique_violation err
                      then Fail StatusConflict (ErrMsg ''an admin with that email already exists'')
                      else Fail StatusInternalServerError (ErrDB err))
                 | Inr admin \<Rightarrow> Reply StatusCreated (newInternalAdminResponse admin))
               }
           }))"

section \<open>Passwords\<close>

text \<open>The new hash is stored; the two deletions are best effort. \<open>None\<close> is success.\<close>

definition replaceAdminPassword :: "env \<Rightarrow> uuid \<Rightarrow> string \<Rightarrow> (world, api_error option) state" where
  "replaceAdminPassword E adminID password = do {
     h \<leftarrow> HashPassword E password;
     case h of
       None \<Rightarrow> State_Monad.return (Some (ErrLib ''failed to hash password''))
     | Some hash \<Rightarrow> do {
         u \<leftarrow> db_call E (UpdateInternalAdminPassword adminID hash);
         case u of
           Inl err \<Rightarrow> State_Monad.return (Some (ErrDB err))
         | Inr _ \<Rightarrow> do {
             _ \<leftarrow> db_call E (DeleteInternalSessionsForAdmin adminID);
             _ \<leftarrow> db_call E (DeleteInternalPasswordResetsForAdmin adminID);
             State_Monad.return None
           }
       }
   }"

record setInternalAdminPasswordRequest =
  sp_Password :: string

definition valid_setInternalAdminPasswordRequest :: "setInternalAdminPasswordRequest \<Rightarrow> bool" where
  "valid_setInternalAdminPasswordRequest req \<longleftrightarrow> sp_Password req \<noteq> [] \<and> RuneCount (sp_Password req) \<ge> 8"

definition setInternalAdminPassword ::
  "env \<Rightarrow> string \<Rightarrow> setInternalAdminPasswordRequest option \<Rightarrow> (world, bool reply) state" where
  "setInternalAdminPassword E idParam body =
     (case uuid_Parse E idParam of
        None \<Rightarrow> State_Monad.return (Fail StatusBadRequest (ErrMsg ''invalid admin id''))
      | Some aid \<Rightarrow>
          (case ShouldBindJSON valid_setInternalAdminPasswordRequest body of
             None \<Rightarrow> State_Monad.return (Fail StatusBadRequest ErrBinding)
           | Some req \<Rightarrow> do {
               g \<leftarrow> db_call E (GetInternalAdminByID aid);
               case g of
                 Inl err \<Rightarrow> State_Monad.return
                   (if err = NoRows then Fail StatusNotFound (ErrMsg ''admin not found'')
                    else Fail StatusInternalServerError (ErrDB err))
               | Inr _ \<Rightarrow> do {
                   e \<leftarrow> replaceAdminPassword E aid (sp_Password req);
                   State_Monad.return (case e of
                     Some err \<Rightarrow> Fail StatusInternalServerError err
                   | None \<Rightarrow> Reply StatusOK True)
                 }
             }))"

record changeInternalPasswordRequest =
  cp_CurrentPassword :: string
  cp_NewPassword :: string

definition valid_changeInternalPasswordRequest :: "changeInternalPasswordRequest \<Rightarrow> bool" where
  "valid_changeInternalPasswordRequest req \<longleftrightarrow>
     cp_CurrentPassword req \<noteq> [] \<and> cp_NewPassword req \<noteq> [] \<and> RuneCount (cp_NewPassword req) \<ge> 8"

definition changeInternalPassword ::
  "env \<Rightarrow> Server \<Rightarrow> ctx \<Rightarrow> changeInternalPasswordRequest option \<Rightarrow> Payload \<Rightarrow>
    (world, internalLoginResponse reply) state" where
  "changeInternalPassword E srv cx body payload =
     (case ShouldBindJSON valid_changeInternalPasswordRequest body of
        None \<Rightarrow> State_Monad.return (Fail StatusBadRequest ErrBinding)
      | Some req \<Rightarrow>
          (let adminID = authenticatedAdminID payload in do {
             g \<leftarrow> db_call E (GetInternalAdminByID adminID);
             case g of
               Inl err \<Rightarrow> State_Monad.return
                 (if err = NoRows then Fail StatusNotFound (ErrMsg ''admin not found'')
                  else Fail StatusInternalServerError (ErrDB err))
             | Inr admin \<Rightarrow>
                 (if \<not> CheckPassword E (cp_CurrentPassword req) (ia_PasswordHash admin)
                  then State_Monad.return (Fail StatusUnauthorized (ErrMsg ''current password is incorrect''))
                  else do {
                    e \<leftarrow> replaceAdminPassword E adminID (cp_NewPassword req);
                    case e of
                      Some err \<Rightarrow> State_Monad.return (Fail StatusInternalServerError err)
                    | None \<Rightarrow> issueInternalSession E srv cx admin
                  })
           }))"

section \<open>Reset by e-mail\<close>

definition hashResetToken :: "env \<Rightarrow> string \<Rightarrow> string" where
  "hashResetToken E raw = HexEncode (sha256_Sum E raw)"

text \<open>\<open>rand_read\<close> gives the 32 random bytes.\<close>

definition newResetToken :: "env \<Rightarrow> (world, string option) state" where
  "newResetToken E = do { i \<leftarrow> tick; State_Monad.return (map_option RawURLEncode (rand_read E i)) }"

text \<open>Hours and minutes are truncated; below a second minute it is one minute.\<close>

definition formatDuration :: "duration \<Rightarrow> string" where
  "formatDuration d =
     (if d \<ge> hour
      then (let hours = d div hour in
            if hours = 1 then ''1 hour'' else Itoa hours @ '' hours'')
      else (let minutes = d div minute in
            if minutes \<le> 1 then ''1 minute'' else Itoa minutes @ '' minutes''))"

abbreviation newline :: string where "newline \<equiv> [CHR 0x0A]"
abbreviation em_dash :: string where "em_dash \<equiv> bytes [0xE2, 0x80, 0x94]"

definition buildResetMail :: "InternalAdmin \<Rightarrow> string \<Rightarrow> duration \<Rightarrow> Message" where
  "buildResetMail admin link ttl =
     (let greeting = (if ia_Name admin \<noteq> [] then ''Hello '' @ ia_Name admin else ''Hello'');
          validFor = formatDuration ttl;
          txt = greeting @ '','' @ newline @ newline
            @ ''Someone requested a password reset for your Gurufuri operator account ('' @ ia_Email admin @ '').''
            @ newline @ newline
            @ ''Open this link to choose a new password. It works once and expires in '' @ validFor @ '':''
            @ newline @ newline @ link @ newline @ newline
            @ ''If you did not request this, you can ignore this email '' @ em_dash
            @ '' your password will not change.'' @ newline;
          html = ''<p>'' @ greeting @ '',</p>'' @ newline
            @ ''<p>Someone requested a password reset for your Gurufuri operator account (<strong>''
            @ ia_Email admin @ ''</strong>).</p>'' @ newline
            @ ''<p><a href='' @ [CHR 0x22] @ link @ [CHR 0x22] @ ''>Choose a new password</a></p>'' @ newline
            @ ''<p>The link works once and expires in '' @ validFor @ ''.</p>'' @ newline
            @ ''<p>If you did not request this, you can ignore this email &mdash; your password will not change.</p>''
            @ newline
      in \<lparr>ms_To = ia_Email admin, ms_Subject = ''Reset your Gurufuri operator password'',
          ms_Text = txt, ms_HTML = html\<rparr>)"

record forgotInternalPasswordRequest =
  fp_Email :: string

definition valid_forgotInternalPasswordRequest :: "env \<Rightarrow> forgotInternalPasswordRequest \<Rightarrow> bool" where
  "valid_forgotInternalPasswordRequest E req \<longleftrightarrow> fp_Email req \<noteq> [] \<and> valid_email E (fp_Email req)"

definition reset_link :: "Server \<Rightarrow> string \<Rightarrow> string" where
  "reset_link srv raw =
     TrimRightSlash (AdminPortalURL (sv_config srv)) @ ''/reset-password?token='' @ QueryEscape raw"

text \<open>The body of the uniform answer is \<open>{"sent": true}\<close>.\<close>

definition forgotInternalPassword ::
  "env \<Rightarrow> Server \<Rightarrow> forgotInternalPasswordRequest option \<Rightarrow> (world, bool reply) state" where
  "forgotInternalPassword E srv body =
     (case ShouldBindJSON (valid_forgotInternalPasswordRequest E) body of
        None \<Rightarrow> State_Monad.return (Fail StatusBadRequest ErrBinding)
      | Some req \<Rightarrow>
          (if \<not> Enabled (sv_mailer srv)
           then State_Monad.return (Fail StatusNotImplemented
             (ErrMsg ''email delivery is not configured; ask another operator to reset your password''))
           else if AdminPortalURL (sv_config srv) = []
           then State_Monad.return (Fail StatusNotImplemented (ErrMsg ''password reset is not configured''))
           else do {
             g \<leftarrow> db_call E (GetInternalAdminByEmail (TrimSpace (fp_Email req)));
             case g of
               Inl _ \<Rightarrow> State_Monad.return (Reply StatusOK True)
             | Inr admin \<Rightarrow> do {
                 t \<leftarrow> newResetToken E;
                 case t of
                   None \<Rightarrow> State_Monad.return (Fail StatusInternalServerError (ErrLib ''generate reset token''))
                 | Some raw \<Rightarrow> do {
                     now \<leftarrow> TimeNow E;
                     c \<leftarrow> db_call E (CreateInternalPasswordReset (ia_ID admin) (hashResetToken E raw)
                       (now + PasswordResetTokenDuration (sv_config srv)));
                     case c of
                       Inl err \<Rightarrow> State_Monad.return (Fail StatusInternalServerError (ErrDB err))
                     | Inr _ \<Rightarrow> do {
                         _ \<leftarrow> Send E (sv_mailer srv) (buildResetMail admin (reset_link srv raw)
                           (PasswordResetTokenDuration (sv_config srv)));
                         State_Monad.return (Reply StatusOK True)
                       }
                   }
               }
           }))"

record resetInternalPasswordRequest =
  rp_Token :: string
  rp_NewPassword :: string

definition valid_resetInternalPasswordRequest :: "resetInternalPasswordRequest \<Rightarrow> bool" where
  "valid_resetInternalPasswordRequest req \<longleftrightarrow>
     rp_Token req \<noteq> [] \<and> rp_NewPassword req \<noteq> [] \<and> RuneCount (rp_NewPassword req) \<ge> 8"

definition errInvalidReset :: api_error where
  "errInvalidReset = ErrMsg ''this reset link is invalid or has expired''"

definition resetInternalPassword ::
  "env \<Rightarrow> resetInternalPasswordRequest option \<Rightarrow> (world, bool reply) state" where
  "resetInternalPassword E body =
     (case ShouldBindJSON valid_resetInternalPasswordRequest body of
        None \<Rightarrow> State_Monad.return (Fail StatusBadRequest ErrBinding)
      | Some req \<Rightarrow> do {
          g \<leftarrow> db_call E (GetInternalPasswordResetByTokenHash (hashResetToken E (rp_Token req)));
          case g of
            Inl err \<Rightarrow> State_Monad.return
              (if err = NoRows then Fail StatusBadRequest errInvalidReset
               else Fail StatusInternalServerError (ErrDB err))
          | Inr reset \<Rightarrow>
              (if pr_UsedAt reset \<noteq> None
               then State_Monad.return (Fail StatusBadRequest errInvalidReset)
               else do {
                 now \<leftarrow> TimeNow E;
                 if now > pr_ExpiresAt reset
                 then State_Monad.return (Fail StatusBadRequest errInvalidReset)
                 else do {
                   m \<leftarrow> db_call E (MarkInternalPasswordResetUsed (pr_ID reset));
                   case m of
                     Inl err \<Rightarrow> State_Monad.return (Fail StatusInternalServerError (ErrDB err))
                   | Inr claimed \<Rightarrow>
                       (if claimed = 0
                        then State_Monad.return (Fail StatusBadRequest errInvalidReset)
                        else do {
                          e \<leftarrow> replaceAdminPassword E (pr_AdminID reset) (rp_NewPassword req);
                          State_Monad.return (case e of
                            Some err \<Rightarrow> Fail StatusInternalServerError err
                          | None \<Rightarrow> Reply StatusOK True)
                        })
                 }
               })
        })"

section \<open>Replacing a password\<close>

text \<open>The tables after a password was replaced: the new hash, no sessions and no reset links of that
  operator.\<close>

definition password_replaced :: "env \<Rightarrow> nat \<Rightarrow> uuid \<Rightarrow> string \<Rightarrow> database \<Rightarrow> database" where
  "password_replaced E i aid hash d =
     d\<lparr>internal_admins := update_where (\<lambda>a. ia_ID a = aid)
         (\<lambda>a. a\<lparr>ia_PasswordHash := hash, ia_UpdatedAt := pg_clock E i\<rparr>) (internal_admins d),
       internal_sessions := filter (\<lambda>s. is_AdminID s \<noteq> aid) (internal_sessions d),
       internal_password_resets := filter (\<lambda>r. pr_AdminID r \<noteq> aid) (internal_password_resets d)\<rparr>"

lemma password_replaced_sel [simp]:
  "internal_sessions (password_replaced E i aid h d) = filter (\<lambda>s. is_AdminID s \<noteq> aid) (internal_sessions d)"
  "internal_password_resets (password_replaced E i aid h d) =
     filter (\<lambda>r. pr_AdminID r \<noteq> aid) (internal_password_resets d)"
  by (simp_all add: password_replaced_def)

lemma run_replaceAdminPassword:
  assumes "no_faults E" and "bcrypt_Generate E (ticks w) pw = Some h"
    and "a \<in> set (internal_admins (db w))" and "ia_ID a = aid"
  shows "run_state (replaceAdminPassword E aid pw) w =
    (None, w\<lparr>ticks := ticks w + 4, db := password_replaced E (Suc (ticks w)) aid h (db w)\<rparr>)"
proof (cases "find (\<lambda>a. ia_ID a = aid) (internal_admins (db w))")
  case None
  with assms(3,4) show ?thesis by (auto simp: find_None_iff)
next
  case (Some b)
  with assms(1,2) show ?thesis
    by (simp add: replaceAdminPassword_def UpdateInternalAdminPassword_def DeleteInternalSessionsForAdmin_def
        DeleteInternalPasswordResetsForAdmin_def Let_def password_replaced_def delete_where_def numeral_eq_Suc)
qed

lemma run_replaceAdminPassword_long:
  assumes "bcrypt_Generate E (ticks w) pw = None"
  shows "run_state (replaceAdminPassword E aid pw) w =
    (Some (ErrLib ''failed to hash password''), w\<lparr>ticks := Suc (ticks w)\<rparr>)"
  using assms by (simp add: replaceAdminPassword_def)

text \<open>C31: Setting a colleague's password: with a reachable database, a well-formed request for an
  existing operator whose password can be hashed is answered 200, stores that hash and removes
  every session and reset link of that operator, and nothing else changes; for an unknown operator
  the answer is 404 and nothing changes.\<close>

theorem set_password_revokes:
  assumes "no_faults E" and "uuid_Parse E idParam = Some aid" and "valid_setInternalAdminPasswordRequest req"
    and "bcrypt_Generate E (Suc (ticks w)) (sp_Password req) = Some h"
  shows "run_state (setInternalAdminPassword E idParam (Some req)) w =
    (if \<exists>a \<in> set (internal_admins (db w)). ia_ID a = aid
     then (Reply StatusOK True, w\<lparr>ticks := ticks w + 5, db := password_replaced E (Suc (Suc (ticks w))) aid h (db w)\<rparr>)
     else (Fail StatusNotFound (ErrMsg ''admin not found''), w\<lparr>ticks := Suc (ticks w)\<rparr>))"
proof (cases "find (\<lambda>a. ia_ID a = aid) (internal_admins (db w))")
  case None
  then have "\<not> (\<exists>a \<in> set (internal_admins (db w)). ia_ID a = aid)" by (auto simp: find_None_iff)
  with None show ?thesis using assms
    by (simp add: setInternalAdminPassword_def GetInternalAdminByID_def)
next
  case (Some a)
  then have "a \<in> set (internal_admins (db w))" "ia_ID a = aid" by (auto simp: find_Some_iff)
  with Some show ?thesis
    using assms run_replaceAdminPassword[OF assms(1), of "w\<lparr>ticks := Suc (ticks w)\<rparr>" "sp_Password req" h a aid]
    by (auto simp: setInternalAdminPassword_def GetInternalAdminByID_def)
qed

text \<open>Changing one's own password: with a reachable database, a 200 answer means the current
  password was right; the stored hash is one of the new password, every earlier session and every
  reset link of the operator is gone, and the one session it now has is the one answered.\<close>

lemma change_password_revokes:
  assumes "no_faults E"
    and "run_state (changeInternalPassword E srv cx body p) w = (Reply StatusOK lr, w')"
  shows "\<exists>req a h i. body = Some req \<and> ia_ID a = pl_UserID p
    \<and> find (\<lambda>a. ia_ID a = pl_UserID p) (internal_admins (db w)) = Some a
    \<and> bcrypt_Compare E (ia_PasswordHash a) (cp_CurrentPassword req)
    \<and> bcrypt_Generate E (Suc (ticks w)) (cp_NewPassword req) = Some h
    \<and> internal_session_issued E srv a lr (password_replaced E i (pl_UserID p) h (db w)) (db w')
    \<and> (\<forall>s \<in> set (internal_sessions (db w')). is_AdminID s = pl_UserID p \<longrightarrow> is_ID s = ir_SessionID lr)
    \<and> (\<forall>r \<in> set (internal_password_resets (db w')). pr_AdminID r \<noteq> pl_UserID p)"
proof -
  define Q where "Q = (\<lambda>r (w' :: world). \<forall>lr. r = Reply StatusOK lr \<longrightarrow>
    (\<exists>req a h. body = Some req \<and> ia_ID a = pl_UserID p
    \<and> find (\<lambda>a. ia_ID a = pl_UserID p) (internal_admins (db w)) = Some a
    \<and> bcrypt_Compare E (ia_PasswordHash a) (cp_CurrentPassword req)
    \<and> bcrypt_Generate E (Suc (ticks w)) (cp_NewPassword req) = Some h
    \<and> internal_session_issued E srv a lr (password_replaced E (Suc (Suc (ticks w))) (pl_UserID p) h (db w)) (db w')))"
  have "wp (changeInternalPassword E srv cx body p) Q w"
  proof (cases "ShouldBindJSON valid_changeInternalPasswordRequest body")
    case (Some req)
    note def = changeInternalPassword_def Some authenticatedAdminID_def GetInternalAdminByID_def Let_def
    show ?thesis
    proof (cases "find (\<lambda>a. ia_ID a = pl_UserID p) (internal_admins (db w))")
      case None
      with assms(1) show ?thesis by (simp add: def Q_def)
    next
      case a: (Some a)
      then have a': "a \<in> set (internal_admins (db w))" "ia_ID a = pl_UserID p" by (auto simp: find_Some_iff)
      let ?v = "w\<lparr>ticks := Suc (ticks w)\<rparr>"
      show ?thesis
      proof (cases "bcrypt_Generate E (Suc (ticks w)) (cp_NewPassword req)")
        case None
        with assms(1) a run_replaceAdminPassword_long[of E ?v] show ?thesis
          by (simp add: def Q_def CheckPassword_def wp_def)
      next
        case h: (Some h)
        have r: "run_state (replaceAdminPassword E (pl_UserID p) (cp_NewPassword req)) ?v =
            (None, ?v\<lparr>ticks := ticks w + 5, db := password_replaced E (Suc (Suc (ticks w))) (pl_UserID p) h (db w)\<rparr>)"
          using run_replaceAdminPassword[OF assms(1), of ?v "cp_NewPassword req" h a "pl_UserID p"] h a' by simp
        have "wp (issueInternalSession E srv cx a) Q
            (?v\<lparr>ticks := ticks w + 5, db := password_replaced E (Suc (Suc (ticks w))) (pl_UserID p) h (db w)\<rparr>)"
          if "bcrypt_Compare E (ia_PasswordHash a) (cp_CurrentPassword req)"
          by (rule wp_issueInternalSession) (use that Some h a a' in \<open>simp_all add: Q_def\<close>)
        with assms(1) a r show ?thesis
          by (auto simp: def CheckPassword_def wp_def[of "replaceAdminPassword _ _ _"]) (simp add: Q_def)
      qed
    qed
  qed (simp add: changeInternalPassword_def Q_def)
  from wpD[OF this assms(2)] show ?thesis
    unfolding Q_def by (fastforce simp: internal_session_issued_def)
qed

section \<open>Creating operators\<close>

text \<open>Creating an operator: with a reachable database a 201 answer adds exactly one operator, with
  the trimmed e-mail, which no operator had in any capitalisation, and a hash of the password;
  every other answer changes nothing.\<close>

lemma create_operator_unique:
  assumes "run_state (createInternalAdmin E body) w = (r, w')" and "no_faults E"
  shows "(\<exists>req a. body = Some req \<and> r = Reply StatusCreated (newInternalAdminResponse a)
        \<and> db w' = (db w)\<lparr>internal_admins := internal_admins (db w) @ [a]\<rparr>
        \<and> ia_Email a = TrimSpace (ca_Email req) \<and> ia_Name a = TrimSpace (ca_Name req)
        \<and> bcrypt_Generate E (ticks w) (ca_Password req) = Some (ia_PasswordHash a)
        \<and> (\<forall>x \<in> set (internal_admins (db w)). pg_lower E (ia_Email x) \<noteq> pg_lower E (ia_Email a)))
    \<or> (\<exists>code e. r = Fail code e) \<and> db w' = db w"
    (is "?Q r w'")
proof -
  have "wp (createInternalAdmin E body) ?Q w"
  proof (cases "ShouldBindJSON (valid_createInternalAdminRequest E) body")
    case (Some req)
    then show ?thesis
      using assms(2) by (auto simp: createInternalAdmin_def Let_def CreateInternalAdmin_def list_ex_iff split: option.splits)
  qed (simp add: createInternalAdmin_def)
  from wpD[OF this assms(1)] show ?thesis .
qed

section \<open>Redeeming a reset link\<close>

lemma CreateInternalPasswordReset_Inr:
  "CreateInternalPasswordReset aid h t E i d = (Inr r, d') \<longleftrightarrow>
     r = new_reset E i aid h t \<and> d' = d\<lparr>internal_password_resets := internal_password_resets d @ [r]\<rparr>
   \<and> (\<forall>x \<in> set (internal_password_resets d). pr_ID x \<noteq> pr_ID r \<and> pr_TokenHash x \<noteq> h)
   \<and> (\<exists>a \<in> set (internal_admins d). ia_ID a = aid)"
  by (auto simp: CreateInternalPasswordReset_def Let_def list_ex_iff split: if_splits)

text \<open>The tables in which the link of the reset \<open>r\<close> is used up.\<close>

definition link_used :: "env \<Rightarrow> nat \<Rightarrow> InternalPasswordReset \<Rightarrow> database \<Rightarrow> database" where
  "link_used E i r d =
     d\<lparr>internal_password_resets := update_where (\<lambda>x. pr_ID x = pr_ID r \<and> pr_UsedAt x = None)
         (\<lambda>x. x\<lparr>pr_UsedAt := Some (pg_clock E i)\<rparr>) (internal_password_resets d)\<rparr>"

lemma link_used_sel [simp]:
  "internal_admins (link_used E i r d) = internal_admins d"
  "internal_sessions (link_used E i r d) = internal_sessions d"
  by (simp_all add: link_used_def)

lemma link_used_update: "internal_password_resets (link_used E i r d) =
    update_where (\<lambda>x. pr_ID x = pr_ID r \<and> pr_UsedAt x = None)
      (\<lambda>x. x\<lparr>pr_UsedAt := Some (pg_clock E i)\<rparr>) (internal_password_resets d)"
  by (simp add: link_used_def)

lemma run_resetInternalPassword:
  assumes "no_faults E" and "valid_resetInternalPasswordRequest req"
    and f: "find (\<lambda>r. pr_TokenHash r = hashResetToken E (rp_Token req)) (internal_password_resets (db w)) = Some r"
    and "pr_UsedAt r = None" and "clock E (Suc (ticks w)) \<le> pr_ExpiresAt r"
  shows "run_state (resetInternalPassword E (Some req)) w =
    (case run_state (replaceAdminPassword E (pr_AdminID r) (rp_NewPassword req))
        (w\<lparr>ticks := ticks w + 3, db := link_used E (Suc (Suc (ticks w))) r (db w)\<rparr>) of
       (e, v) \<Rightarrow> (case e of Some err \<Rightarrow> Fail StatusInternalServerError err | None \<Rightarrow> Reply StatusOK True, v))"
proof -
  have "r \<in> set (internal_password_resets (db w))" using f by (auto simp: find_Some_iff)
  with assms(4) have "rows_matching (\<lambda>x. pr_ID x = pr_ID r \<and> pr_UsedAt x = None) (internal_password_resets (db w)) \<noteq> 0"
    by (auto simp: rows_matching_0)
  with assms show ?thesis
    by (simp add: resetInternalPassword_def GetInternalPasswordResetByTokenHash_def
        MarkInternalPasswordResetUsed_def Let_def link_used_def numeral_eq_Suc split: prod.split)
qed

text \<open>A reset that is refused does not say why: with a reachable database an unknown token, a used
  one and an expired one get the same 400 answer, and nothing changes.\<close>

lemma reset_failures_alike:
  assumes "no_faults E" and "valid_resetInternalPasswordRequest req"
    and "\<forall>r. find (\<lambda>r. pr_TokenHash r = hashResetToken E (rp_Token req)) (internal_password_resets (db w)) = Some r \<longrightarrow>
      pr_UsedAt r \<noteq> None \<or> pr_ExpiresAt r < clock E (Suc (ticks w))"
  shows "\<exists>n. run_state (resetInternalPassword E (Some req)) w =
    (Fail StatusBadRequest errInvalidReset, w\<lparr>ticks := n\<rparr>)"
proof (cases "find (\<lambda>r. pr_TokenHash r = hashResetToken E (rp_Token req)) (internal_password_resets (db w))")
  case None
  with assms(1,2) show ?thesis
    by (auto simp: resetInternalPassword_def GetInternalPasswordResetByTokenHash_def)
next
  case (Some r)
  with assms show ?thesis
    by (auto simp: resetInternalPassword_def GetInternalPasswordResetByTokenHash_def)
qed

text \<open>The 32 bytes \<open>crypto/rand\<close> fills the buffer with.\<close>

definition rand_law :: "env \<Rightarrow> bool" where
  "rand_law E \<longleftrightarrow> (\<forall>i b. rand_read E i = Some b \<longrightarrow> length b = 32)"

lemma RawURLEncode_32: "length b = 32 \<Longrightarrow> length (RawURLEncode b) = 43"
  by (simp add: RawURLEncode_def length_b64_encode)

text \<open>What a request that finds the operator \<open>a\<close> leaves behind.\<close>

definition link_mailed :: "env \<Rightarrow> Server \<Rightarrow> InternalAdmin \<Rightarrow> string \<Rightarrow> InternalPasswordReset \<Rightarrow> world \<Rightarrow> world \<Rightarrow> bool" where
  "link_mailed E srv a raw r w w' \<longleftrightarrow>
     db w' = (db w)\<lparr>internal_password_resets := internal_password_resets (db w) @ [r]\<rparr>
   \<and> (\<forall>x \<in> set (internal_password_resets (db w)). pr_ID x \<noteq> pr_ID r \<and> pr_TokenHash x \<noteq> pr_TokenHash r)
   \<and> pr_AdminID r = ia_ID a \<and> pr_TokenHash r = hashResetToken E raw \<and> pr_UsedAt r = None
   \<and> pr_ExpiresAt r = clock E (ticks w + 2) + PasswordResetTokenDuration (sv_config srv)
   \<and> outbox w' = outbox w @ [buildResetMail a (reset_link srv raw) (PasswordResetTokenDuration (sv_config srv))]"

lemma forgot_mails:
  assumes "no_faults E" and "Enabled (sv_mailer srv)" and "AdminPortalURL (sv_config srv) \<noteq> []"
    and "valid_forgotInternalPasswordRequest E req"
    and "find (\<lambda>a. pg_lower E (ia_Email a) = pg_lower E (TrimSpace (fp_Email req))) (internal_admins (db w)) = Some a"
    and "run_state (forgotInternalPassword E srv (Some req)) w = (Reply StatusOK True, w')"
  shows "\<exists>buf r. rand_read E (Suc (ticks w)) = Some buf \<and> link_mailed E srv a (RawURLEncode buf) r w w'"
proof -
  define Q where "Q = (\<lambda>x (w' :: world). x = Reply StatusOK True \<longrightarrow>
    (\<exists>buf r. rand_read E (Suc (ticks w)) = Some buf \<and> link_mailed E srv a (RawURLEncode buf) r w w'))"
  have "wp (forgotInternalPassword E srv (Some req)) Q w"
  proof (cases "rand_read E (Suc (ticks w))")
    case None
    with assms(1-5) show ?thesis
      by (simp add: forgotInternalPassword_def GetInternalAdminByEmail_def newResetToken_def Q_def)
  next
    case (Some buf)
    let ?t = "clock E (Suc (Suc (ticks w))) + PasswordResetTokenDuration (sv_config srv)"
    show ?thesis
    proof (cases "CreateInternalPasswordReset (ia_ID a) (hashResetToken E (RawURLEncode buf)) ?t E
        (Suc (Suc (Suc (ticks w)))) (db w)")
      case (Pair x d)
      show ?thesis
      proof (cases x)
        case (Inl e)
        with assms(1-5) Some Pair show ?thesis
          by (simp add: forgotInternalPassword_def GetInternalAdminByEmail_def newResetToken_def Q_def)
      next
        case (Inr r)
        note c = Pair[unfolded Inr CreateInternalPasswordReset_Inr]
        have lm: "link_mailed E srv a (RawURLEncode buf) r w w'" if "db w' = d"
            "outbox w' = outbox w @ [buildResetMail a (reset_link srv (RawURLEncode buf))
              (PasswordResetTokenDuration (sv_config srv))]" for w' :: world
          using c that by (auto simp: link_mailed_def)
        with assms(1-5) Some Pair Inr show ?thesis
          by (auto simp: forgotInternalPassword_def GetInternalAdminByEmail_def newResetToken_def Q_def
              intro!: exI[of _ r] lm)
      qed
    qed
  qed
  from wpD[OF this assms(6)] show ?thesis by (simp add: Q_def)
qed

text \<open>C30: A mailed link works, once: with a reachable database, a request for an operator's reset that
  is answered 200 mailed the operator a link with a fresh token, unchanged by the URL's escaping;
  as long as the tables are as the request left them and the link has not expired, redeeming the
  token with a password that can be hashed is answered 200, stores that hash, and removes the
  operator's sessions and reset links; and redeeming the token again is refused as invalid.\<close>

theorem reset_link_works_once:
  assumes "no_faults E" and "rand_law E" and "Enabled (sv_mailer srv)" and "AdminPortalURL (sv_config srv) \<noteq> []"
    and "valid_forgotInternalPasswordRequest E req"
    and "find (\<lambda>a. pg_lower E (ia_Email a) = pg_lower E (TrimSpace (fp_Email req))) (internal_admins (db w)) = Some a"
    and "run_state (forgotInternalPassword E srv (Some req)) w = (Reply StatusOK True, w1)"
    and "db v = db w1"
    and "clock E (Suc (ticks v)) \<le> clock E (ticks w + 2) + PasswordResetTokenDuration (sv_config srv)"
    and "RuneCount pw \<ge> 8" and "pw \<noteq> []" and "bcrypt_Generate E (ticks v + 3) pw = Some h"
  shows "\<exists>raw. outbox w1 = outbox w @ [buildResetMail a
        (TrimRightSlash (AdminPortalURL (sv_config srv)) @ ''/reset-password?token='' @ raw)
        (PasswordResetTokenDuration (sv_config srv))]
    \<and> run_state (resetInternalPassword E (Some \<lparr>rp_Token = raw, rp_NewPassword = pw\<rparr>)) v =
        (Reply StatusOK True, v\<lparr>ticks := ticks v + 7, db := password_replaced E (ticks v + 4) (ia_ID a) h (db w)\<rparr>)
    \<and> (\<forall>u. db u = password_replaced E (ticks v + 4) (ia_ID a) h (db w) \<longrightarrow>
        fst (run_state (resetInternalPassword E (Some \<lparr>rp_Token = raw, rp_NewPassword = pw\<rparr>)) u) =
          Fail StatusBadRequest errInvalidReset)"
proof -
  obtain buf r where buf: "rand_read E (Suc (ticks w)) = Some buf"
    and m: "link_mailed E srv a (RawURLEncode buf) r w w1"
    using forgot_mails[OF assms(1,3-7)] by blast
  let ?raw = "RawURLEncode buf"
  let ?req = "\<lparr>rp_Token = ?raw, rp_NewPassword = pw\<rparr>"
  let ?rs = "internal_password_resets (db w)"
  note m' = m[unfolded link_mailed_def]
  have "length buf = 32" using assms(2) buf unfolding rand_law_def by blast
  then have "?raw \<noteq> []" using RawURLEncode_32[of buf] by auto
  then have valid: "valid_resetInternalPasswordRequest ?req"
    using assms(10,11) by (simp add: valid_resetInternalPasswordRequest_def)
  have none: "find (\<lambda>x. pr_TokenHash x = hashResetToken E ?raw) ?rs = None"
    using m' by (auto simp: find_None_iff)
  then have f: "find (\<lambda>x. pr_TokenHash x = hashResetToken E (rp_Token ?req)) (internal_password_resets (db v)) = Some r"
    using m' assms(8) by (simp add: find_append)
  have a: "a \<in> set (internal_admins (db w))" using assms(6) by (auto simp: find_Some_iff)
  let ?v = "v\<lparr>ticks := ticks v + 3, db := link_used E (Suc (Suc (ticks v))) r (db v)\<rparr>"
  have "update_where (\<lambda>x. pr_ID x = pr_ID r \<and> pr_UsedAt x = None) g ?rs = ?rs" for g
    using m' by (intro update_where_none) auto
  then have lu: "link_used E i r (db v) = (db w)\<lparr>internal_password_resets :=
      ?rs @ [r\<lparr>pr_UsedAt := Some (pg_clock E i)\<rparr>]\<rparr>" for i
    using m' assms(8) by (simp add: link_used_def update_where_def)
  have pr: "password_replaced E i (ia_ID a) h (link_used E j r (db v)) = password_replaced E i (ia_ID a) h (db w)" for i j
    using m' by (simp add: lu password_replaced_def)
  have "run_state (replaceAdminPassword E (pr_AdminID r) pw) ?v =
      (None, ?v\<lparr>ticks := ticks ?v + 4, db := password_replaced E (Suc (ticks ?v)) (ia_ID a) h (db ?v)\<rparr>)"
    using run_replaceAdminPassword[OF assms(1), of ?v pw h a "ia_ID a"] a m' assms(8,12) by simp
  then have ok: "run_state (resetInternalPassword E (Some ?req)) v =
      (Reply StatusOK True, v\<lparr>ticks := ticks v + 7, db := password_replaced E (ticks v + 4) (ia_ID a) h (db w)\<rparr>)"
    using run_resetInternalPassword[OF assms(1) valid f] m' assms(9) by (simp add: pr add.commute)
  have again: "fst (run_state (resetInternalPassword E (Some ?req)) u) = Fail StatusBadRequest errInvalidReset"
    if "db u = password_replaced E (ticks v + 4) (ia_ID a) h (db w)" for u
  proof -
    have "find (\<lambda>x. pr_TokenHash x = hashResetToken E ?raw) (internal_password_resets (db u)) = None"
      using none that by (auto simp: find_None_iff)
    then show ?thesis
      using assms(1) valid by (simp add: resetInternalPassword_def GetInternalPasswordResetByTokenHash_def)
  qed
  show ?thesis
    using m' ok again by (intro exI[of _ ?raw]) (simp add: reset_link_def QueryEscape_RawURLEncode)
qed

text \<open>A reset request does not tell whether an account exists, as long as the database answers,
  randomness is available and the fresh ids collide with nothing: the answer is 200 for every
  e-mail; an unknown one changes nothing and sends nothing, and for an operator's one link is
  stored and mailed to the address stored for that operator.\<close>

lemma forgot_answers_alike:
  assumes "no_faults E" and "Enabled (sv_mailer srv)" and "AdminPortalURL (sv_config srv) \<noteq> []"
    and "valid_forgotInternalPasswordRequest E req"
    and "rand_read E (Suc (ticks w)) = Some buf"
    and "\<forall>r \<in> set (internal_password_resets (db w)). pr_ID r \<noteq> gen_random_uuid E (ticks w + 3)
      \<and> pr_TokenHash r \<noteq> hashResetToken E (RawURLEncode buf)"
  shows "\<exists>w'. run_state (forgotInternalPassword E srv (Some req)) w = (Reply StatusOK True, w')
    \<and> (case find (\<lambda>a. pg_lower E (ia_Email a) = pg_lower E (TrimSpace (fp_Email req))) (internal_admins (db w)) of
         None \<Rightarrow> db w' = db w \<and> outbox w' = outbox w
       | Some a \<Rightarrow> \<exists>r. link_mailed E srv a (RawURLEncode buf) r w w')"
proof (cases "find (\<lambda>a. pg_lower E (ia_Email a) = pg_lower E (TrimSpace (fp_Email req))) (internal_admins (db w))")
  case None
  with assms(1-4) show ?thesis
    by (simp add: forgotInternalPassword_def GetInternalAdminByEmail_def)
next
  case (Some a)
  then have "a \<in> set (internal_admins (db w))" by (auto simp: find_Some_iff)
  with assms(6) have c: "\<exists>r d. CreateInternalPasswordReset (ia_ID a) (hashResetToken E (RawURLEncode buf)) t E
      (Suc (Suc (Suc (ticks w)))) (db w) = (Inr r, d)" for t
    by (auto simp: CreateInternalPasswordReset_Inr numeral_3_eq_3)
  have ok: "\<exists>w'. run_state (forgotInternalPassword E srv (Some req)) w = (Reply StatusOK True, w')"
  proof -
    obtain r d where "CreateInternalPasswordReset (ia_ID a) (hashResetToken E (RawURLEncode buf))
        (clock E (Suc (Suc (ticks w))) + PasswordResetTokenDuration (sv_config srv)) E
        (Suc (Suc (Suc (ticks w)))) (db w) = (Inr r, d)"
      using c by blast
    with assms(1-5) Some have "wp (forgotInternalPassword E srv (Some req)) (\<lambda>r _. r = Reply StatusOK True) w"
      by (simp add: forgotInternalPassword_def GetInternalAdminByEmail_def newResetToken_def)
    then show ?thesis by (auto simp: wp_def split: prod.splits)
  qed
  then obtain w' where run: "run_state (forgotInternalPassword E srv (Some req)) w = (Reply StatusOK True, w')"
    by blast
  from forgot_mails[OF assms(1-4) Some run] obtain buf' r where
    "rand_read E (Suc (ticks w)) = Some buf'" "link_mailed E srv a (RawURLEncode buf') r w w'"
    by blast
  with run Some assms(5) show ?thesis by auto
qed

text \<open>Without that proviso the answer does tell: when the randomness fails, an operator's e-mail is
  answered 500 and an unknown one 200.\<close>

lemma forgot_reveals_account:
  assumes "no_faults E" and "Enabled (sv_mailer srv)" and "AdminPortalURL (sv_config srv) \<noteq> []"
    and "valid_forgotInternalPasswordRequest E req" and "rand_read E (Suc (ticks w)) = None"
  shows "reply_code (fst (run_state (forgotInternalPassword E srv (Some req)) w)) =
    (if find (\<lambda>a. pg_lower E (ia_Email a) = pg_lower E (TrimSpace (fp_Email req))) (internal_admins (db w)) = None
     then StatusOK else StatusInternalServerError)"
  using assms
  by (cases "find (\<lambda>a. pg_lower E (ia_Email a) = pg_lower E (TrimSpace (fp_Email req))) (internal_admins (db w))")
    (simp_all add: forgotInternalPassword_def GetInternalAdminByEmail_def newResetToken_def)

text \<open>C40: A new password bcrypt refuses (more than 72 bytes) burns the link: the request is answered
  500, no operator's password changes, and the link is used up, so redeeming it again with any
  password is refused as invalid.\<close>

theorem long_password_burns_link:
  assumes "no_faults E" and "valid_resetInternalPasswordRequest req"
    and "find (\<lambda>r. pr_TokenHash r = hashResetToken E (rp_Token req)) (internal_password_resets (db w)) = Some r"
    and "pr_UsedAt r = None" and "clock E (Suc (ticks w)) \<le> pr_ExpiresAt r"
    and "bcrypt_Generate E (ticks w + 3) (rp_NewPassword req) = None"
  shows "\<exists>e w'. run_state (resetInternalPassword E (Some req)) w = (Fail StatusInternalServerError e, w')
    \<and> internal_admins (db w') = internal_admins (db w)
    \<and> (\<forall>v req'. db v = db w' \<and> rp_Token req' = rp_Token req \<and> valid_resetInternalPasswordRequest req' \<longrightarrow>
        fst (run_state (resetInternalPassword E (Some req')) v) = Fail StatusBadRequest errInvalidReset)"
proof -
  let ?w' = "w\<lparr>ticks := Suc (ticks w + 3), db := link_used E (Suc (Suc (ticks w))) r (db w)\<rparr>"
  let ?g = "\<lambda>x :: InternalPasswordReset. if pr_ID x = pr_ID r \<and> pr_UsedAt x = None then x\<lparr>pr_UsedAt := Some (pg_clock E (Suc (Suc (ticks w))))\<rparr> else x"
  have run: "run_state (resetInternalPassword E (Some req)) w =
      (Fail StatusInternalServerError (ErrLib ''failed to hash password''), ?w')"
    using run_resetInternalPassword[OF assms(1-5)]
      run_replaceAdminPassword_long[of E "w\<lparr>ticks := ticks w + 3, db := link_used E (Suc (Suc (ticks w))) r (db w)\<rparr>"
        "rp_NewPassword req" "pr_AdminID r"] assms(6)
    by simp
  have "find (\<lambda>x. pr_TokenHash x = hh) (map ?g rs) = map_option ?g (find (\<lambda>x. pr_TokenHash x = hh) rs)" for hh rs
    by (induction rs) auto
  then have f: "find (\<lambda>x. pr_TokenHash x = hashResetToken E (rp_Token req))
      (internal_password_resets (link_used E (Suc (Suc (ticks w))) r (db w))) =
      Some (r\<lparr>pr_UsedAt := Some (pg_clock E (Suc (Suc (ticks w))))\<rparr>)"
    using assms(3,4) by (simp add: link_used_update update_where_def)
  have "fst (run_state (resetInternalPassword E (Some req')) v) = Fail StatusBadRequest errInvalidReset"
    if "db v = db ?w'" "rp_Token req' = rp_Token req" "valid_resetInternalPasswordRequest req'" for v req'
    using that f assms(1) by (simp add: resetInternalPassword_def GetInternalPasswordResetByTokenHash_def)
  with run show ?thesis by auto
qed

end
