(* ===== verification/GF_ResetRace.thy ===== *)
theory GF_ResetRace
  imports GF_InternalAdmins
begin

text \<open>
  Concurrent redemptions of reset links. \<open>redeem_step\<close> is \<open>resetInternalPassword\<close> cut at its calls,
  so that the calls of any number of requests, and of other handlers, interleave; running the
  steps of one request in a row is the handler.
\<close>

section \<open>A redemption, step by step\<close>

datatype redeem =
  Looking
| Claiming InternalPasswordReset
| Hashing InternalPasswordReset
| Storing InternalPasswordReset string
| Revoking InternalPasswordReset
| Clearing InternalPasswordReset
| Finished "InternalPasswordReset option" "bool reply"

fun redeem_step :: "env \<Rightarrow> resetInternalPasswordRequest \<Rightarrow> redeem \<Rightarrow> (world, redeem) state" where
  "redeem_step E req Looking = do {
     g \<leftarrow> db_call E (GetInternalPasswordResetByTokenHash (hashResetToken E (rp_Token req)));
     case g of
       Inl err \<Rightarrow> State_Monad.return (Finished None
         (if err = NoRows then Fail StatusBadRequest errInvalidReset
          else Fail StatusInternalServerError (ErrDB err)))
     | Inr reset \<Rightarrow>
         (if pr_UsedAt reset \<noteq> None
          then State_Monad.return (Finished None (Fail StatusBadRequest errInvalidReset))
          else do {
            now \<leftarrow> TimeNow E;
            State_Monad.return
              (if now > pr_ExpiresAt reset then Finished None (Fail StatusBadRequest errInvalidReset)
               else Claiming reset)
          })
   }"
| "redeem_step E req (Claiming reset) = do {
     m \<leftarrow> db_call E (MarkInternalPasswordResetUsed (pr_ID reset));
     State_Monad.return (case m of
       Inl err \<Rightarrow> Finished None (Fail StatusInternalServerError (ErrDB err))
     | Inr claimed \<Rightarrow>
         (if claimed = 0 then Finished None (Fail StatusBadRequest errInvalidReset) else Hashing reset))
   }"
| "redeem_step E req (Hashing reset) = do {
     h \<leftarrow> HashPassword E (rp_NewPassword req);
     State_Monad.return (case h of
       None \<Rightarrow> Finished (Some reset) (Fail StatusInternalServerError (ErrLib ''failed to hash password''))
     | Some hash \<Rightarrow> Storing reset hash)
   }"
| "redeem_step E req (Storing reset hash) = do {
     u \<leftarrow> db_call E (UpdateInternalAdminPassword (pr_AdminID reset) hash);
     State_Monad.return (case u of
       Inl err \<Rightarrow> Finished (Some reset) (Fail StatusInternalServerError (ErrDB err))
     | Inr _ \<Rightarrow> Revoking reset)
   }"
| "redeem_step E req (Revoking reset) = do {
     _ \<leftarrow> db_call E (DeleteInternalSessionsForAdmin (pr_AdminID reset));
     State_Monad.return (Clearing reset)
   }"
| "redeem_step E req (Clearing reset) = do {
     _ \<leftarrow> db_call E (DeleteInternalPasswordResetsForAdmin (pr_AdminID reset));
     State_Monad.return (Finished (Some reset) (Reply StatusOK True))
   }"
| "redeem_step E req (Finished c r) = State_Monad.return (Finished c r)"

fun redeem_steps :: "env \<Rightarrow> resetInternalPasswordRequest \<Rightarrow> nat \<Rightarrow> redeem \<Rightarrow> (world, redeem) state" where
  "redeem_steps E req 0 p = State_Monad.return p"
| "redeem_steps E req (Suc n) p = do { p' \<leftarrow> redeem_step E req p; redeem_steps E req n p' }"

lemma redeem_steps_Finished: "redeem_steps E req n (Finished c r) = State_Monad.return (Finished c r)"
  by (induction n) (simp_all add: state.expand)

text \<open>The steps are the handler: for a well-formed request, six steps in a row from the first one end
  with the handler's answer and the handler's changes, in every environment.\<close>

lemma redeem_steps_are_the_handler:
  assumes "valid_resetInternalPasswordRequest req"
  shows "\<exists>c. run_state (redeem_steps E req 6 Looking) w =
    (case run_state (resetInternalPassword E (Some req)) w of (r, w') \<Rightarrow> (Finished c r, w'))"
  using assms
  by (simp add: resetInternalPassword_def replaceAdminPassword_def numeral_eq_Suc redeem_steps_Finished
      split: prod.split sum.split option.split)

section \<open>Races\<close>

text \<open>The link a redemption has claimed.\<close>

fun claimed :: "redeem \<Rightarrow> uuid option" where
  "claimed (Hashing r) = Some (pr_ID r)"
| "claimed (Storing r h) = Some (pr_ID r)"
| "claimed (Revoking r) = Some (pr_ID r)"
| "claimed (Clearing r) = Some (pr_ID r)"
| "claimed (Finished c r) = map_option pr_ID c"
| "claimed p = None"

text \<open>An unused link that somebody has claimed.\<close>

definition reopened :: "(resetInternalPasswordRequest \<times> redeem) list \<Rightarrow> database \<Rightarrow> bool" where
  "reopened ts d \<longleftrightarrow>
     (\<exists>r \<in> set (internal_password_resets d). pr_UsedAt r = None \<and> (\<exists>t \<in> set ts. claimed (snd t) = Some (pr_ID r)))"

text \<open>Requests arrive and their steps interleave with each other and with anything else that happens,
  as long as that does not reopen a claimed link (a fresh link gets a fresh id).\<close>

inductive race_step ::
  "env \<Rightarrow> (resetInternalPasswordRequest \<times> redeem) list \<times> world \<Rightarrow>
    (resetInternalPasswordRequest \<times> redeem) list \<times> world \<Rightarrow> bool" for E :: env where
  Arrive: "race_step E (ts, w) (ts @ [(req, Looking)], w)"
| Redeem: "i < length ts \<Longrightarrow> ts ! i = (req, p) \<Longrightarrow> run_state (redeem_step E req p) w = (p', w') \<Longrightarrow>
    race_step E (ts, w) (ts[i := (req, p')], w')"
| Other: "\<not> reopened ts (db w') \<Longrightarrow> race_step E (ts, w) (ts, w')"

text \<open>What one step may do to the links: it opens none, and it claims a link only by closing an open
  one.\<close>

definition open_links :: "database \<Rightarrow> uuid set" where
  "open_links d = {rid. \<exists>r \<in> set (internal_password_resets d). pr_ID r = rid \<and> pr_UsedAt r = None}"

definition answered :: "redeem \<Rightarrow> bool" where
  "answered p \<longleftrightarrow> (\<exists>code b. p = Finished None (Reply code b))"

definition fair_step :: "database \<Rightarrow> redeem \<Rightarrow> redeem \<Rightarrow> database \<Rightarrow> bool" where
  "fair_step d p p' d' \<longleftrightarrow> open_links d' \<subseteq> open_links d \<and> (answered p' \<longrightarrow> answered p)
   \<and> (claimed p' = claimed p
      \<or> claimed p = None \<and> (\<exists>rid. claimed p' = Some rid \<and> rid \<in> open_links d \<and> rid \<notin> open_links d'))"

lemma reopened_open_links: "reopened ts d \<longleftrightarrow> (\<exists>t \<in> set ts. \<exists>rid \<in> open_links d. claimed (snd t) = Some rid)"
  by (auto simp: reopened_def open_links_def)

lemma open_links_same: "internal_password_resets d' = internal_password_resets d \<Longrightarrow> open_links d' = open_links d"
  by (simp add: open_links_def)

lemma open_links_mark: "open_links (snd (MarkInternalPasswordResetUsed rid E i d)) = open_links d - {rid}"
proof -
  define g where "g = (\<lambda>r :: InternalPasswordReset.
    if pr_ID r = rid \<and> pr_UsedAt r = None then r\<lparr>pr_UsedAt := Some (pg_clock E i)\<rparr> else r)"
  have g: "pr_ID (g r) = k \<and> pr_UsedAt (g r) = None \<longleftrightarrow> (pr_ID r = k \<and> pr_UsedAt r = None) \<and> k \<noteq> rid" for r k
    by (cases "pr_ID r = rid \<and> pr_UsedAt r = None") (auto simp: g_def)
  have mark: "(\<exists>x \<in> set (map g rs). pr_ID x = k \<and> pr_UsedAt x = None) \<longleftrightarrow>
      (\<exists>x \<in> set rs. pr_ID x = k \<and> pr_UsedAt x = None) \<and> k \<noteq> rid" for k rs
    unfolding set_map bex_simps g by blast
  have d: "internal_password_resets (snd (MarkInternalPasswordResetUsed rid E i d)) = map g (internal_password_resets d)"
    by (simp add: MarkInternalPasswordResetUsed_def Let_def update_where_def g_def)
  show ?thesis unfolding open_links_def d mark by blast
qed

lemma mark_count: "fst (MarkInternalPasswordResetUsed rid E i d) = Inr n \<Longrightarrow> n \<noteq> 0 \<Longrightarrow> rid \<in> open_links d"
  using rows_matching_0[of "\<lambda>r. pr_ID r = rid \<and> pr_UsedAt r = None" "internal_password_resets d"]
  by (auto simp: open_links_def MarkInternalPasswordResetUsed_def Let_def)

lemma open_links_queries:
  "open_links (snd (UpdateInternalAdminPassword aid h E i d)) = open_links d"
  "open_links (snd (DeleteInternalSessionsForAdmin aid E i d)) = open_links d"
  "open_links (snd (DeleteInternalPasswordResetsForAdmin aid E i d)) \<subseteq> open_links d"
  by (auto simp: open_links_def UpdateInternalAdminPassword_def DeleteInternalSessionsForAdmin_def
      DeleteInternalPasswordResetsForAdmin_def Let_def set_delete_where)

lemma redeem_step_fair: "wp (redeem_step E req p) (\<lambda>p' w'. fair_step (db w) p p' (db w')) w"
proof (cases p)
  case Looking
  show ?thesis
    unfolding Looking redeem_step.simps wp_bind
    by (rule wp_read) (auto simp: fair_step_def answered_def split: sum.splits)
next
  case (Claiming reset)
  show ?thesis
    unfolding Claiming redeem_step.simps wp_bind
  proof (rule wp_db_call, goal_cases)
    case (1 x d)
    then have d: "open_links d = open_links (db w) - {pr_ID reset}"
      using open_links_mark[of "pr_ID reset" E "ticks w" "db w"] by simp
    show ?case
    proof (cases x)
      case (Inr n)
      then have "n \<noteq> 0 \<Longrightarrow> pr_ID reset \<in> open_links (db w)"
        using mark_count[of "pr_ID reset" E "ticks w" "db w" n] 1 by simp
      with d Inr show ?thesis by (auto simp: fair_step_def answered_def)
    qed (use d in \<open>auto simp: fair_step_def answered_def\<close>)
  next
    case 2
    show ?case by (simp add: fair_step_def answered_def)
  next
    case (3 x d)
    then have "open_links d = open_links (db w) - {pr_ID reset}"
      using open_links_mark[of "pr_ID reset" E "ticks w" "db w"] by simp
    then show ?case by (auto simp: fair_step_def answered_def)
  qed
next
  case (Hashing reset)
  then show ?thesis by (auto simp: fair_step_def answered_def split: option.splits)
next
  case (Storing reset hash)
  have "open_links d = open_links (db w)"
    if "UpdateInternalAdminPassword (pr_AdminID reset) hash E i (db w) = (x, d)" for x d i
    using open_links_queries(1)[of "pr_AdminID reset" hash E i "db w"] that by simp
  then show ?thesis
    unfolding Storing redeem_step.simps wp_bind
    by (intro wp_db_call) (auto simp: fair_step_def answered_def split: sum.splits)
next
  case (Revoking reset)
  have "open_links d = open_links (db w)"
    if "DeleteInternalSessionsForAdmin (pr_AdminID reset) E i (db w) = (x, d)" for x d i
    using open_links_queries(2)[of "pr_AdminID reset" E i "db w"] that by simp
  then show ?thesis
    unfolding Revoking redeem_step.simps wp_bind
    by (intro wp_db_call) (auto simp: fair_step_def answered_def)
next
  case (Clearing reset)
  have "open_links d \<subseteq> open_links (db w)"
    if "DeleteInternalPasswordResetsForAdmin (pr_AdminID reset) E i (db w) = (x, d)" for x d i
    using open_links_queries(3)[of "pr_AdminID reset" E i "db w"] that by simp
  then show ?thesis
    unfolding Clearing redeem_step.simps wp_bind
    by (intro wp_db_call) (auto simp: fair_step_def answered_def)
qed (simp add: fair_step_def)

section \<open>Single use\<close>

definition race_ok :: "(resetInternalPasswordRequest \<times> redeem) list \<Rightarrow> database \<Rightarrow> bool" where
  "race_ok ts d \<longleftrightarrow>
     (\<forall>i < length ts. \<forall>j < length ts. \<forall>rid.
        claimed (snd (ts ! i)) = Some rid \<longrightarrow> claimed (snd (ts ! j)) = Some rid \<longrightarrow> i = j)
   \<and> (\<forall>t \<in> set ts. \<not> answered (snd t)) \<and> \<not> reopened ts d"

lemma race_ok_redeem:
  assumes ok: "race_ok ts d" and i: "i < length ts" "ts ! i = (req, p)" and f: "fair_step d p p' d'"
  shows "race_ok (ts[i := (req, p')]) d'"
proof -
  let ?ts = "ts[i := (req, p')]"
  have mem: "t = (req, p') \<or> t \<in> set ts" if "t \<in> set ?ts" for t
    using that set_update_subset_insert[of ts i "(req, p')"] by auto
  have p: "(req, p) \<in> set ts" using i by (metis nth_mem)
  have new: "claimed (snd (ts ! j)) \<noteq> Some rid" if "rid \<in> open_links d" "j < length ts" for j rid
    using ok that by (auto simp: race_ok_def reopened_open_links)
  have "\<not> answered (snd t)" if "t \<in> set ?ts" for t
    using mem[OF that] ok p f by (auto simp: race_ok_def fair_step_def)
  moreover have "\<not> reopened ?ts d'"
  proof
    assume "reopened ?ts d'"
    then obtain t rid where t: "t \<in> set ?ts" "rid \<in> open_links d'" "claimed (snd t) = Some rid"
      by (auto simp: reopened_open_links)
    then have d: "rid \<in> open_links d" using f by (auto simp: fair_step_def)
    show False
    proof (cases "t \<in> set ts")
      case True
      with d t(3) ok show False by (auto simp: race_ok_def reopened_open_links)
    next
      case False
      with mem[OF t(1)] t(3) have "claimed p' = Some rid" by simp
      with f t(2) have "claimed p = Some rid" by (auto simp: fair_step_def)
      with d p ok show False by (force simp: race_ok_def reopened_open_links)
    qed
  qed
  moreover have "j = k" if "j < length ts" "k < length ts" "claimed (snd (?ts ! j)) = Some rid"
      "claimed (snd (?ts ! k)) = Some rid" for j k rid
  proof -
    have c: "claimed (snd (ts ! l)) = Some rid \<or> l = i \<and> rid \<in> open_links d"
      if "l < length ts" "claimed (snd (?ts ! l)) = Some rid" for l
      using that f i by (cases "l = i") (auto simp: fair_step_def)
    from c[OF that(1,3)] c[OF that(2,4)] show ?thesis
      using ok that(1,2) new by (auto simp: race_ok_def)
  qed
  ultimately show ?thesis by (simp add: race_ok_def)
qed

lemma race_ok_step: "race_step E s s' \<Longrightarrow> race_ok (fst s) (db (snd s)) \<Longrightarrow> race_ok (fst s') (db (snd s'))"
proof (induction rule: race_step.induct)
  case (Arrive ts w req)
  then show ?case
    by (auto simp: race_ok_def reopened_def answered_def nth_append less_Suc_eq)
next
  case (Redeem i ts req p w p' w')
  then show ?case
    using race_ok_redeem[OF _ Redeem(1,2)] wpD[OF redeem_step_fair Redeem(3)] by simp
next
  case (Other ts w' w)
  then show ?case by (simp add: race_ok_def)
qed

text \<open>C29: A reset link is redeemed at most once, however requests interleave: for any number of
  concurrent redemptions, each running call by call between the others' calls, other handlers'
  changes and database failures, no two of them have claimed the same link, and none has been
  answered 200 without having claimed its own; so at most one of them changes the password.\<close>

theorem link_redeemed_once:
  assumes "rtranclp (race_step E) ([], w) (ts, w')"
  shows "(\<forall>i < length ts. \<forall>j < length ts. \<forall>rid.
      claimed (snd (ts ! i)) = Some rid \<and> claimed (snd (ts ! j)) = Some rid \<longrightarrow> i = j)
    \<and> (\<forall>t \<in> set ts. \<forall>code b. snd t \<noteq> Finished None (Reply code b))"
proof -
  have "race_ok (fst s) (db (snd s))" if "rtranclp (race_step E) ([], w) s" for s
    using that
  proof (induction rule: rtranclp_induct)
    case base
    show ?case by (simp add: race_ok_def reopened_def)
  qed (rule race_ok_step)
  from this[OF assms] show ?thesis by (auto simp: race_ok_def answered_def)
qed

end
