(* ===== verification/GF_InternalAdmins_Runs.thy ===== *)
theory GF_InternalAdmins_Runs
  imports GF_ResetRace GF_Internal_Runs
begin

text \<open>
  Concrete runs of the operator-account handlers over the operator of the sample catalogue, and
  the witnesses of their properties.
\<close>

lemma operator_world [simp]:
  "find (\<lambda>a. ia_ID a = 2040) (internal_admins (db (world_of operator_db))) = Some operator"
  by simp

lemma parse_operator: "uuid_Parse sample_env ''2040'' = Some 2040"
  by (simp add: is_digit_def decimal_val_def digit_val_def)

section \<open>Passwords\<close>

theorem set_password_revokes_witness:
  "db (snd (run_state (setInternalAdminPassword sample_env ''2040'' (Some \<lparr>sp_Password = ''brand new pw''\<rparr>))
      session_world)) = password_replaced sample_env 8 2040 ''$brand new pw''
        (operator_db\<lparr>internal_sessions := [operator_session]\<rparr>)"
proof -
  have "valid_setInternalAdminPasswordRequest \<lparr>sp_Password = ''brand new pw''\<rparr>"
    by (simp add: valid_setInternalAdminPasswordRequest_def RuneCount_def)
  from set_password_revokes[OF _ parse_operator this, of session_world] show ?thesis
    by (simp add: session_world_def)
qed

definition operator_payload :: Payload where
  "operator_payload = sample_payload 1 2040 ''op@example.jp'' RoleInternal None (15 * minute)"

definition password_change :: changeInternalPasswordRequest where
  "password_change = \<lparr>cp_CurrentPassword = ''long password'', cp_NewPassword = ''brand new pw''\<rparr>"

lemma operator_changes_password:
  "\<exists>lr w'. run_state (changeInternalPassword sample_env sample_server sample_ctx (Some password_change)
      operator_payload) session_world = (Reply StatusOK lr, w')"
  by (simp add: changeInternalPassword_def valid_changeInternalPasswordRequest_def password_change_def
      RuneCount_def Let_def authenticatedAdminID_def operator_payload_def sample_payload_def
      GetInternalAdminByID_def CheckPassword_def replaceAdminPassword_def UpdateInternalAdminPassword_def
      DeleteInternalSessionsForAdmin_def DeleteInternalPasswordResetsForAdmin_def issueInternalSession_def
      CreateRoleToken_def NewPayload_def CreateInternalSession_def session_world_def update_where_def
      delete_where_def operator_session_def)

theorem change_password_revokes_witness:
  "\<exists>lr w'. run_state (changeInternalPassword sample_env sample_server sample_ctx (Some password_change)
      operator_payload) session_world = (Reply StatusOK lr, w')
    \<and> operator_session \<in> set (internal_sessions (db session_world))
    \<and> map is_ID (internal_sessions (db w')) = [ir_SessionID lr]"
proof -
  obtain lr w' where run: "run_state (changeInternalPassword sample_env sample_server sample_ctx
      (Some password_change) operator_payload) session_world = (Reply StatusOK lr, w')"
    using operator_changes_password by blast
  have "pl_UserID operator_payload = 2040" by (simp add: operator_payload_def sample_payload_def)
  moreover have "is_AdminID operator_session = 2040" by (simp add: operator_session_def)
  ultimately have "map is_ID (internal_sessions (db w')) = [ir_SessionID lr]"
    using change_password_revokes[OF _ run] by (auto simp: internal_session_issued_def session_world_def)
  with run show ?thesis by (simp add: session_world_def)
qed

definition second_operator :: createInternalAdminRequest where
  "second_operator = \<lparr>ca_Email = ''two@example.jp'', ca_Password = ''long password'', ca_Name = [CHR 0x20]\<rparr>"

lemma second_operator_email: "TrimSpace ''two@example.jp'' = ''two@example.jp''" "TrimSpace [CHR 0x20] = []"
  by (simp_all add: TrimSpace_def TrimLeftSpace.simps TrimRightSpace.simps ws_len_end_def codes_def Let_def)

lemma second_operator_new: "ToLower ''op@example.jp'' \<noteq> ToLower ''two@example.jp''"
  by code_simp

theorem create_operator_unique_witness:
  "\<exists>a w'. run_state (createInternalAdmin sample_env (Some second_operator)) (world_of operator_db) =
      (Reply StatusCreated (newInternalAdminResponse a), w')
    \<and> internal_admins (db w') = [operator, a] \<and> ia_Email a = ''two@example.jp''"
proof -
  have ok: "\<exists>b w'. run_state (createInternalAdmin sample_env (Some second_operator)) (world_of operator_db) =
      (Reply StatusCreated b, w')"
    using second_operator_email second_operator_new
    by (simp add: createInternalAdmin_def valid_createInternalAdminRequest_def second_operator_def RuneCount_def
        CreateInternalAdmin_def Let_def)
  then obtain b w' where run: "run_state (createInternalAdmin sample_env (Some second_operator))
      (world_of operator_db) = (Reply StatusCreated b, w')"
    by blast
  from create_operator_unique[OF run] run second_operator_email show ?thesis
    by (auto simp: second_operator_def)
qed

section \<open>Reset links\<close>

definition reset_request :: resetInternalPasswordRequest where
  "reset_request = \<lparr>rp_Token = ''token'', rp_NewPassword = ''brand new pw''\<rparr>"

definition long_request :: resetInternalPasswordRequest where
  "long_request = \<lparr>rp_Token = ''token'', rp_NewPassword = replicate 73 CHR ''p''\<rparr>"

lemma reset_request_sel [simp]:
  "rp_Token reset_request = ''token''" "rp_NewPassword reset_request = ''brand new pw''"
  "rp_Token long_request = ''token''" "rp_NewPassword long_request = replicate 73 CHR ''p''"
  by (simp_all add: reset_request_def long_request_def)

lemma reset_request_valid [simp]:
  "valid_resetInternalPasswordRequest reset_request" "valid_resetInternalPasswordRequest long_request"
  by (simp_all add: valid_resetInternalPasswordRequest_def RuneCount_def)

definition open_link :: InternalPasswordReset where
  "open_link = new_reset sample_env 50 2040 (hashResetToken sample_env ''token'') (sample_now 1000)"

lemma open_link_sel [simp]:
  "pr_ID open_link = 2050" "pr_AdminID open_link = 2040" "pr_UsedAt open_link = None"
  "pr_TokenHash open_link = hashResetToken sample_env ''token''" "pr_ExpiresAt open_link = sample_now 1000"
  by (simp_all add: open_link_def)

definition link_world :: world where
  "link_world = world_of (operator_db\<lparr>internal_password_resets := [open_link]\<rparr>)"

lemma link_world_sel [simp]: "internal_password_resets (db link_world) = [open_link]" "ticks link_world = 0"
  "internal_admins (db link_world) = [operator]"
  by (simp_all add: link_world_def)

theorem reset_failures_alike_witness:
  "\<exists>n. run_state (resetInternalPassword sample_env (Some reset_request)) (link_world\<lparr>ticks := 2000\<rparr>) =
    (Fail StatusBadRequest errInvalidReset, link_world\<lparr>ticks := n\<rparr>)"
  using reset_failures_alike[of sample_env reset_request "link_world\<lparr>ticks := 2000\<rparr>"]
  by (simp add: sample_now_def)

theorem long_password_burns_link_witness:
  "\<exists>e w'. run_state (resetInternalPassword sample_env (Some long_request)) link_world =
      (Fail StatusInternalServerError e, w')
    \<and> fst (run_state (resetInternalPassword sample_env (Some reset_request)) w') =
      Fail StatusBadRequest errInvalidReset"
proof -
  have "clock sample_env (Suc (ticks link_world)) \<le> pr_ExpiresAt open_link" by simp
  from long_password_burns_link[of sample_env long_request link_world open_link, OF _ _ _ _ this]
  obtain e and w' :: world where run: "run_state (resetInternalPassword sample_env (Some long_request)) link_world =
      (Fail StatusInternalServerError e, w')"
    and again: "\<And>v req'. db v = db w' \<Longrightarrow> rp_Token req' = rp_Token long_request \<Longrightarrow>
      valid_resetInternalPasswordRequest req' \<Longrightarrow>
      fst (run_state (resetInternalPassword sample_env (Some req')) v) = Fail StatusBadRequest errInvalidReset"
    by auto
  from again[of w' reset_request] run show ?thesis by auto
qed

definition forgot_request :: forgotInternalPasswordRequest where
  "forgot_request = \<lparr>fp_Email = ''op@example.jp''\<rparr>"

lemma forgot_request_sel: "TrimSpace (fp_Email forgot_request) = ''op@example.jp''"
  by (simp add: forgot_request_def TrimSpace_def TrimLeftSpace.simps TrimRightSpace.simps ws_len_end_def
      codes_def Let_def)

lemma forgot_request_valid: "valid_forgotInternalPasswordRequest sample_env forgot_request"
  by (simp add: valid_forgotInternalPasswordRequest_def forgot_request_def)

lemma forgot_found:
  "find (\<lambda>a. pg_lower sample_env (ia_Email a) = pg_lower sample_env (TrimSpace (fp_Email forgot_request)))
     (internal_admins (db (world_of operator_db))) = Some operator"
  by (simp add: forgot_request_sel)

theorem forgot_answers_alike_witness:
  "\<exists>w' m. run_state (forgotInternalPassword sample_env sample_server (Some forgot_request)) (world_of operator_db) =
      (Reply StatusOK True, w') \<and> outbox w' = [m] \<and> ms_To m = ''op@example.jp''"
  using forgot_answers_alike[of sample_env sample_server forgot_request "world_of operator_db", OF _ _ _ forgot_request_valid]
    forgot_found
  by (fastforce simp: link_mailed_def buildResetMail_def Let_def)

definition dry_env :: env where "dry_env = sample_env\<lparr>rand_read := (\<lambda>_. None)\<rparr>"

theorem forgot_reveals_account_witness:
  "reply_code (fst (run_state (forgotInternalPassword dry_env sample_server (Some forgot_request))
      (world_of operator_db))) = 500"
proof -
  have "valid_forgotInternalPasswordRequest dry_env forgot_request"
    using forgot_request_valid by (simp add: valid_forgotInternalPasswordRequest_def dry_env_def)
  from forgot_reveals_account[of dry_env sample_server forgot_request "world_of operator_db", OF _ _ _ this]
    forgot_found show ?thesis
    by (simp add: dry_env_def no_faults_def StatusInternalServerError_def)
qed

lemma sample_rand_law [simp]: "rand_law sample_env"
  by (auto simp: rand_law_def)

theorem reset_link_works_once_witness:
  "\<exists>w1 raw v'. run_state (forgotInternalPassword sample_env sample_server (Some forgot_request))
      (world_of operator_db) = (Reply StatusOK True, w1)
    \<and> run_state (resetInternalPassword sample_env (Some \<lparr>rp_Token = raw, rp_NewPassword = ''brand new pw''\<rparr>)) w1 =
      (Reply StatusOK True, v')
    \<and> internal_password_resets (db v') = []"
proof -
  have "wp (forgotInternalPassword sample_env sample_server (Some forgot_request))
      (\<lambda>r w'. r = Reply StatusOK True \<and> ticks w' = 5) (world_of operator_db)"
    using forgot_request_valid forgot_found
    by (simp add: forgotInternalPassword_def GetInternalAdminByEmail_def newResetToken_def
        CreateInternalPasswordReset_def Let_def)
  then obtain w1 where run: "run_state (forgotInternalPassword sample_env sample_server (Some forgot_request))
      (world_of operator_db) = (Reply StatusOK True, w1)" and t: "ticks w1 = 5"
    by (cases "run_state (forgotInternalPassword sample_env sample_server (Some forgot_request)) (world_of operator_db)")
      (auto simp: wp_def)
  have exp: "clock sample_env (Suc (ticks w1)) \<le> clock sample_env (ticks (world_of operator_db) + 2)
      + PasswordResetTokenDuration (sv_config sample_server)"
    by (simp add: t sample_now_def hour_def minute_def second_def)
  have pw: "8 \<le> RuneCount ''brand new pw''" by (simp add: RuneCount_def)
  have "bcrypt_Generate sample_env (ticks w1 + 3) ''brand new pw'' = Some ''$brand new pw''" by simp
  from reset_link_works_once[OF _ _ _ _ forgot_request_valid forgot_found run refl exp pw _ this]
  obtain raw where "run_state (resetInternalPassword sample_env (Some \<lparr>rp_Token = raw, rp_NewPassword = ''brand new pw''\<rparr>)) w1 =
      (Reply StatusOK True, w1\<lparr>ticks := ticks w1 + 7, db := password_replaced sample_env (ticks w1 + 4) (ia_ID operator)
        ''$brand new pw'' (db (world_of operator_db))\<rparr>)"
    by auto
  with run show ?thesis by fastforce
qed

section \<open>Races\<close>

text \<open>Two requests redeem the same link: both find it open, the first claims it, the second is told it
  is invalid.\<close>

definition racing :: "redeem \<Rightarrow> redeem \<Rightarrow> nat \<Rightarrow> database \<Rightarrow> (resetInternalPasswordRequest \<times> redeem) list \<times> world" where
  "racing p q n d = ([(reset_request, p), (reset_request, q)], link_world\<lparr>ticks := n, db := d\<rparr>)"

lemma race_first: "run_state (redeem_step sample_env reset_request p) (link_world\<lparr>ticks := n, db := d\<rparr>) =
    (p', link_world\<lparr>ticks := n', db := d'\<rparr>) \<Longrightarrow> race_step sample_env (racing p q n d) (racing p' q n' d')"
  using Redeem[of 0 "[(reset_request, p), (reset_request, q)]"] by (simp add: racing_def)

lemma race_second: "run_state (redeem_step sample_env reset_request q) (link_world\<lparr>ticks := n, db := d\<rparr>) =
    (q', link_world\<lparr>ticks := n', db := d'\<rparr>) \<Longrightarrow> race_step sample_env (racing p q n d) (racing p q' n' d')"
  using Redeem[of 1 "[(reset_request, p), (reset_request, q)]"] by (simp add: racing_def)

lemma race_finds: "d = db link_world \<Longrightarrow> n < 100 \<Longrightarrow>
  run_state (redeem_step sample_env reset_request Looking) (link_world\<lparr>ticks := n, db := d\<rparr>) =
    (Claiming open_link, link_world\<lparr>ticks := Suc (Suc n), db := d\<rparr>)"
  by (simp add: GetInternalPasswordResetByTokenHash_def not_less)

definition claimed_db :: database where "claimed_db = link_used sample_env 4 open_link (db link_world)"

lemma claimed_db_resets: "internal_password_resets claimed_db = [open_link\<lparr>pr_UsedAt := Some (sample_now 4)\<rparr>]"
  by (simp add: claimed_db_def link_used_def update_where_def)

lemma race_claims: "run_state (redeem_step sample_env reset_request (Claiming open_link))
    (link_world\<lparr>ticks := 4, db := db link_world\<rparr>) = (Hashing open_link, link_world\<lparr>ticks := 5, db := claimed_db\<rparr>)"
  by (simp add: MarkInternalPasswordResetUsed_def Let_def rows_matching_def claimed_db_def link_used_def)

lemma race_loses: "run_state (redeem_step sample_env reset_request (Claiming open_link))
    (link_world\<lparr>ticks := 5, db := claimed_db\<rparr>) =
    (Finished None (Fail StatusBadRequest errInvalidReset), link_world\<lparr>ticks := 6, db := claimed_db\<rparr>)"
  using claimed_db_resets by (simp add: MarkInternalPasswordResetUsed_def Let_def rows_matching_def update_where_def)

theorem link_redeemed_once_witness:
  "\<exists>ts w'. rtranclp (race_step sample_env) ([], link_world) (ts, w')
    \<and> map (claimed \<circ> snd) ts = [Some 2050, None] \<and> (\<exists>c. snd (ts ! 1) = Finished c (Fail StatusBadRequest errInvalidReset))
    \<and> \<not> answered (snd (ts ! 0))"
proof -
  let ?lost = "Finished None (Fail StatusBadRequest errInvalidReset)"
  have w: "link_world\<lparr>ticks := 0, db := db link_world\<rparr> = link_world" by (simp add: link_world_def world_of_def)
  have "rtranclp (race_step sample_env) ([], link_world) (racing Looking Looking 0 (db link_world))"
    using Arrive[of sample_env "[]" link_world reset_request]
      Arrive[of sample_env "[(reset_request, Looking)]" link_world reset_request]
    unfolding racing_def w by (simp add: converse_rtranclp_into_rtranclp)
  also have "race_step sample_env (racing Looking Looking 0 (db link_world))
      (racing (Claiming open_link) Looking 2 (db link_world))"
    by (rule race_first, subst race_finds) simp_all
  also have "race_step sample_env \<dots> (racing (Claiming open_link) (Claiming open_link) 4 (db link_world))"
    by (rule race_second, subst race_finds) simp_all
  also have "race_step sample_env \<dots> (racing (Hashing open_link) (Claiming open_link) 5 claimed_db)"
    by (rule race_first, rule race_claims)
  also have "race_step sample_env \<dots> (racing (Hashing open_link) ?lost 6 claimed_db)"
    by (rule race_second, rule race_loses)
  finally have run: "rtranclp (race_step sample_env) ([], link_world)
      ([(reset_request, Hashing open_link), (reset_request, ?lost)], link_world\<lparr>ticks := 6, db := claimed_db\<rparr>)"
    by (simp add: racing_def)
  from link_redeemed_once[OF run] run show ?thesis
    by (intro exI[of _ "[(reset_request, Hashing open_link), (reset_request, ?lost)]"]
        exI[of _ "link_world\<lparr>ticks := 6, db := claimed_db\<rparr>"]) (simp add: answered_def)
qed

end
