(* ===== verification/GF_Net.thy ===== *)
theory GF_Net
  imports GF_Server
begin

text \<open>
  The parameters of the code that talks to other services: \<open>net\<close> holds the answers of the GSI
  geocoder, the web-search provider, the fetched web pages and the image bucket, indexed like the
  environment's choices, and the parsers (URLs, IP addresses, HTML, JSON) and Unicode tables of the
  libraries. Then the functions of Go's \<open>strings\<close> package this code uses.
\<close>

section \<open>Parameters\<close>

record web_url =
  wu_Scheme :: string
  wu_HasUser :: bool
  wu_Hostname :: string
  wu_Port :: string
  wu_Path :: string
  wu_RawQuery :: string
  wu_Fragment :: string

text \<open>A parsed HTML document: an element with its name, attributes and children, a text, or any other
  node (document, comment, doctype) with its children.\<close>

datatype html =
  Element string "(string \<times> string) list" "html list"
| TextNode string
| OtherNode "html list"

text \<open>One exchange of the HTTP client with a server: a transport error, a redirect to an absolute URL,
  or a response with its status, its body (\<open>None\<close> when reading it fails) and its content type.\<close>

datatype http_reply = HopFail string | HopRedirect string | HopDone nat "string option" string

text \<open>\<open>gsi_get\<close> and \<open>brave_get\<close> answer a request with a transport error or a status and what the code
  reads of the body, \<open>None\<close> when that does not decode; \<open>web_get\<close> is one exchange for a page. \<open>RFC3339\<close>
  prints a time.\<close>

record net =
  unicode_lower :: "string \<Rightarrow> string"
  ctx_done :: "nat \<Rightarrow> bool"
  gsi_get :: "nat \<Rightarrow> string \<Rightarrow> string + nat \<times> (rat list \<times> string) list option"
  gcs_fault :: "nat \<Rightarrow> fault"
  uuid_String :: "uuid \<Rightarrow> string"
  url_Parse :: "string \<Rightarrow> web_url option"
  url_String :: "web_url \<Rightarrow> string"
  url_Resolve :: "web_url \<Rightarrow> web_url \<Rightarrow> web_url"
  ParseAddr :: "string \<Rightarrow> ip_addr option"
  brave_get :: "nat \<Rightarrow> string \<Rightarrow> string \<Rightarrow> string + nat \<times> string list option"
  LookupNetIP :: "nat \<Rightarrow> string \<Rightarrow> ip_addr list option"
  web_get :: "nat \<Rightarrow> string \<Rightarrow> http_reply"
  html_Parse :: "string \<Rightarrow> html option"
  json_Unmarshal :: "string \<Rightarrow> json option"
  json_MarshalIndent :: "json \<Rightarrow> string"
  RFC3339 :: "time \<Rightarrow> string"

text \<open>The request is on record before its answer.\<close>

definition visit :: "string \<Rightarrow> (world, nat) state" where
  "visit u = State (\<lambda>w. (ticks w, w\<lparr>ticks := Suc (ticks w), visited := visited w @ [u]\<rparr>))"

lemma wp_visit [simp]:
  "wp (visit u) Q w = Q (ticks w) (w\<lparr>ticks := Suc (ticks w), visited := visited w @ [u]\<rparr>)"
  by (simp add: visit_def wp_def)

lemma run_visit [simp]:
  "run_state (visit u) w = (ticks w, w\<lparr>ticks := Suc (ticks w), visited := visited w @ [u]\<rparr>)"
  by (simp add: visit_def)

context db_frame begin

lemma visiting: "state_io_rel (db_rel D) (visit u)"
  by (rule from_wp) (simp add: D_refl)

end

section \<open>Searching and splitting strings\<close>

text \<open>\<open>strings.Index\<close>: the byte offset of the first occurrence.\<close>

fun strings_Index :: "string \<Rightarrow> string \<Rightarrow> nat option" where
  "strings_Index [] sub = (if sub = [] then Some 0 else None)"
| "strings_Index (c # s) sub =
     (if take (length sub) (c # s) = sub then Some 0 else map_option Suc (strings_Index s sub))"

definition strings_Contains :: "string \<Rightarrow> string \<Rightarrow> bool" where
  "strings_Contains s sub \<longleftrightarrow> strings_Index s sub \<noteq> None"

definition HasSuffix :: "string \<Rightarrow> string \<Rightarrow> bool" where
  "HasSuffix s suf \<longleftrightarrow> length suf \<le> length s \<and> drop (length s - length suf) s = suf"

definition TrimSuffix :: "string \<Rightarrow> string \<Rightarrow> string" where
  "TrimSuffix s suf = (if HasSuffix s suf then take (length s - length suf) s else s)"

definition TrimPrefix :: "string \<Rightarrow> string \<Rightarrow> string" where
  "TrimPrefix s pre = (if take (length pre) s = pre then drop (length pre) s else s)"

text \<open>\<open>strings.ReplaceAll\<close> for a non-empty \<open>old\<close>.\<close>

function ReplaceAll :: "string \<Rightarrow> string \<Rightarrow> string \<Rightarrow> string" where
  "ReplaceAll [] old new = []"
| "ReplaceAll (c # s) old new =
     (if old \<noteq> [] \<and> take (length old) (c # s) = old
      then new @ ReplaceAll (drop (length old) (c # s)) old new
      else c # ReplaceAll s old new)"
  by pat_completeness auto
termination
  by (relation "measure (\<lambda>(s, _, _). length s)") auto

text \<open>\<open>strings.Split\<close> at a one-byte separator: never empty.\<close>

fun SplitByte :: "string \<Rightarrow> char \<Rightarrow> string list" where
  "SplitByte [] sep = [[]]"
| "SplitByte (c # s) sep =
     (if c = sep then [] # SplitByte s sep
      else case SplitByte s sep of [] \<Rightarrow> [[c]] | p # ps \<Rightarrow> (c # p) # ps)"

definition strings_Join :: "string list \<Rightarrow> string \<Rightarrow> string" where
  "strings_Join xs sep = (case xs of [] \<Rightarrow> [] | x # r \<Rightarrow> x @ concat (map (\<lambda>y. sep @ y) r))"

lemma strings_Index_Some: "strings_Index s sub = Some i \<Longrightarrow> i + length sub \<le> length s \<and> take (length sub) (drop i s) = sub"
proof (induction s sub arbitrary: i rule: strings_Index.induct)
  case (2 c s sub)
  then show ?case
    by (auto split: if_splits) (metis length_Cons length_take min.absorb_iff2 nat_le_linear order_refl)+
qed (simp split: if_splits)

lemma SplitByte_not_Nil: "SplitByte s sep \<noteq> []"
  by (induction s) (auto split: list.splits)

end
