(* ===== verification/GF_Geocode.thy ===== *)
theory GF_Geocode
  imports GF_Net "HOL-Library.Sublist"
begin

text \<open>
  \<open>geocode/geocode.go\<close>: the normalisation of an address, the throttle in front of the GSI service
  and the reading of its answer. \<open>gsi_last\<close> is the \<open>last\<close> field of the geocoder; its mutex is held
  for the whole of \<open>throttle\<close>, which is why that is one piece of the program here.
\<close>

section \<open>Results\<close>

record Result =
  ge_Lat :: float64
  ge_Lng :: float64
  ge_MatchedAddress :: string
  ge_Precise :: bool

text \<open>\<open>GeoNotFound\<close> is \<open>ErrNotFound\<close>.\<close>

datatype geo_error = GeoNotFound | GeoErr string

section \<open>Normalisation\<close>

definition re_space :: "char \<Rightarrow> bool" where
  "re_space c \<longleftrightarrow> (of_char c :: nat) \<in> {9, 10, 12, 13, 32}"

definition ideographic_space :: string where "ideographic_space = bytes [0xE3, 0x80, 0x80]"
definition postal_mark :: string where "postal_mark = bytes [0xE3, 0x80, 0x92]"

definition all_digits :: "string \<Rightarrow> bool" where
  "all_digits s \<longleftrightarrow> list_all is_digit s"

text \<open>\<open>postalPrefix\<close>: what follows the match of \<open>^\s*M?\s*\d{3}-?\d{4}\s*\<close> (\<open>M\<close> the postal mark),
  \<open>None\<close> without a match. No two neighbouring parts of the expression can start with the same
  character, so there is nothing to backtrack over.\<close>

definition postalPrefix :: "string \<Rightarrow> string option" where
  "postalPrefix s =
     (let s1 = dropWhile re_space (TrimPrefix (dropWhile re_space s) postal_mark);
          s2 = TrimPrefix (drop 3 s1) ''-''
      in if length s1 \<ge> 3 \<and> all_digits (take 3 s1) \<and> length s2 \<ge> 4 \<and> all_digits (take 4 s2)
         then Some (dropWhile re_space (drop 4 s2)) else None)"

definition Normalize :: "string \<Rightarrow> string" where
  "Normalize address =
     (let address = ReplaceAll address ideographic_space '' '' in
      TrimSpace (case postalPrefix address of None \<Rightarrow> address | Some rest \<Rightarrow> rest))"

section \<open>Throttle\<close>

text \<open>The \<open>select\<close>: the timer fires no earlier than \<open>wait\<close> after \<open>t\<close>, so the clock has reached that
  time; or the request's context is done first.\<close>

definition sleep :: "env \<Rightarrow> net \<Rightarrow> time \<Rightarrow> duration \<Rightarrow> (world, time option) state" where
  "sleep E N t wait = do {
     i \<leftarrow> tick;
     State_Monad.return (if ctx_done N i then None else Some (max (clock E i) (t + wait)))
   }"

definition set_last :: "time \<Rightarrow> (world, unit) state" where
  "set_last t = State (\<lambda>w. ((), w\<lparr>gsi_last := t\<rparr>))"

text \<open>\<open>False\<close> is \<open>ctx.Err()\<close>.\<close>

definition throttle :: "env \<Rightarrow> net \<Rightarrow> GSI \<Rightarrow> (world, bool) state" where
  "throttle E N g = do {
     last \<leftarrow> State (\<lambda>w. (gsi_last w, w));
     t \<leftarrow> TimeNow E;
     let wait = gs_minInterval g - (t - last);
     if wait > 0
     then do {
       r \<leftarrow> sleep E N t wait;
       case r of
         None \<Rightarrow> State_Monad.return False
       | Some now \<Rightarrow> do { set_last now; State_Monad.return True }
     }
     else do { now \<leftarrow> TimeNow E; set_last now; State_Monad.return True }
   }"

section \<open>Lookup\<close>

definition ku_marker :: string where "ku_marker = bytes [0xE5, 0x8C, 0xBA]"
definition shi_marker :: string where "shi_marker = bytes [0xE5, 0xB8, 0x82]"

text \<open>The first marker that occurs decides.\<close>

definition preciseEnough :: "string \<Rightarrow> bool" where
  "preciseEnough title =
     (case strings_Index title ku_marker of
        Some i \<Rightarrow> TrimSpace (drop (i + length ku_marker) title) \<noteq> []
      | None \<Rightarrow>
          (case strings_Index title shi_marker of
             Some i \<Rightarrow> TrimSpace (drop (i + length shi_marker) title) \<noteq> []
           | None \<Rightarrow> False))"

definition gsi_result :: "string + nat \<times> (float64 list \<times> string) list option \<Rightarrow> geo_error + Result" where
  "gsi_result resp =
     (case resp of
        Inl err \<Rightarrow> Inl (GeoErr err)
      | Inr (code, body) \<Rightarrow>
          (if code \<noteq> StatusOK then Inl (GeoErr (''geocoder returned HTTP '' @ Itoa (int code)))
           else case body of
             None \<Rightarrow> Inl (GeoErr ''decode geocoder response'')
           | Some [] \<Rightarrow> Inl GeoNotFound
           | Some ((coords, title) # _) \<Rightarrow>
               (if length coords < 2 then Inl GeoNotFound
                else Inr \<lparr>ge_Lat = coords ! 1, ge_Lng = coords ! 0, ge_MatchedAddress = title,
                          ge_Precise = preciseEnough title\<rparr>)))"

definition gsi_endpoint :: "GSI \<Rightarrow> string \<Rightarrow> string" where
  "gsi_endpoint g address = gs_baseURL g @ ''?q='' @ QueryEscape address"

definition Geocode :: "env \<Rightarrow> net \<Rightarrow> GSI \<Rightarrow> string \<Rightarrow> (world, geo_error + Result) state" where
  "Geocode E N g address =
     (let address = Normalize address in
      if address = [] then State_Monad.return (Inl GeoNotFound)
      else do {
        ok \<leftarrow> throttle E N g;
        if \<not> ok then State_Monad.return (Inl (GeoErr ''context done''))
        else do {
          i \<leftarrow> visit (gsi_endpoint g address);
          State_Monad.return (gsi_result (gsi_get N i (gsi_endpoint g address)))
        }
      })"

section \<open>Facts\<close>

lemma run_throttle_defs [simp]:
  "wp (set_last t) Q w = Q () (w\<lparr>gsi_last := t\<rparr>)"
  "wp (State (\<lambda>w. (gsi_last w, w))) P w = P (gsi_last w) w"
  "wp (sleep E N t d) R w =
     R (if ctx_done N (ticks w) then None else Some (max (clock E (ticks w)) (t + d))) (w\<lparr>ticks := Suc (ticks w)\<rparr>)"
  by (simp_all add: set_last_def sleep_def wp_def)

text \<open>What a throttled call leaves: only \<open>ticks\<close> and \<open>gsi_last\<close> move, and after a success the last
  call is at least the interval later than the one before.\<close>

definition throttled :: "GSI \<Rightarrow> bool \<Rightarrow> world \<Rightarrow> world \<Rightarrow> bool" where
  "throttled g ok w w' \<longleftrightarrow>
     (\<exists>n t. w' = w\<lparr>ticks := n, gsi_last := t\<rparr> \<and> ticks w < n
        \<and> (ok \<longrightarrow> gsi_last w + gs_minInterval g \<le> t) \<and> (\<not> ok \<longrightarrow> t = gsi_last w))"

definition steady_clock :: "env \<Rightarrow> bool" where
  "steady_clock E \<longleftrightarrow> (\<forall>i. clock E i \<le> clock E (Suc i))"

lemma wp_throttle:
  assumes "steady_clock E" and "\<And>ok w'. throttled g ok w w' \<Longrightarrow> Q ok w'"
  shows "wp (throttle E N g) Q w"
proof -
  have m: "clock E (ticks w) \<le> clock E (Suc (ticks w))" using assms(1) by (simp add: steady_clock_def)
  have T: "Q ok (w\<lparr>ticks := n, gsi_last := t\<rparr>)"
    if "ticks w < n" "ok \<longrightarrow> gsi_last w + gs_minInterval g \<le> t" "\<not> ok \<longrightarrow> t = gsi_last w" for ok n t
    using that by (intro assms(2)) (auto simp: throttled_def)
  have F: "Q False (w\<lparr>ticks := Suc (Suc (ticks w))\<rparr>)"
    using T[of "Suc (Suc (ticks w))" False "gsi_last w"] by simp
  show ?thesis using m F by (auto simp: throttle_def Let_def intro!: T split: option.split if_splits)
qed

text \<open>A lookup asks the provider at most once, and a second time no sooner than the interval.\<close>

definition looked_up :: "GSI \<Rightarrow> world \<Rightarrow> world \<Rightarrow> bool" where
  "looked_up g w w' \<longleftrightarrow>
     (\<exists>n t us. w' = w\<lparr>ticks := n, gsi_last := t, visited := visited w @ us\<rparr> \<and> length us \<le> 1
        \<and> gsi_last w + int (length us) * gs_minInterval g \<le> t)"

lemma looked_up_refl [simp]: "looked_up g w w"
proof -
  have "w = w\<lparr>ticks := ticks w, gsi_last := gsi_last w, visited := visited w @ []\<rparr>" by simp
  then show ?thesis unfolding looked_up_def by (intro exI[of _ "ticks w"] exI[of _ "gsi_last w"] exI[of _ "[]"]) simp
qed

lemma wp_Geocode:
  assumes "steady_clock E" and "\<And>r w'. looked_up g w w' \<Longrightarrow> Q r w'"
  shows "wp (Geocode E N g address) Q w"
proof -
  have U: "looked_up g w (w'\<lparr>ticks := n, visited := visited w' @ [u]\<rparr>)" if "throttled g True w w'" for w' n u
    using that unfolding throttled_def looked_up_def
    by (elim exE conjE) (rule exI[of _ n], rule exI[of _ "gsi_last w'"], rule exI[of _ "[u]"], simp)
  have F: "looked_up g w w'" if "throttled g False w w'" for w'
    using that unfolding throttled_def looked_up_def
    by (elim exE conjE) (rule exI[of _ "ticks w'"], rule exI[of _ "gsi_last w'"], rule exI[of _ "[]"], simp)
  show ?thesis
    by (auto simp: Geocode_def Let_def intro!: assms(2) wp_throttle[OF assms(1)])
      (rule F U, assumption)+
qed

text \<open>The requests that looking up addresses in turn sends: one for each that is not empty. A lookup
  whose request is cancelled while it waits sends none.\<close>

definition lookups :: "GSI \<Rightarrow> string list \<Rightarrow> string list" where
  "lookups g addresses = map (gsi_endpoint g) (filter (\<lambda>a. a \<noteq> []) (map Normalize addresses))"

definition never_done :: "net \<Rightarrow> bool" where
  "never_done N \<longleftrightarrow> (\<forall>i. \<not> ctx_done N i)"

definition looked :: "net \<Rightarrow> GSI \<Rightarrow> string list \<Rightarrow> world \<Rightarrow> world \<Rightarrow> bool" where
  "looked N g addresses w w' \<longleftrightarrow>
     (\<exists>us. visited w' = visited w @ us \<and> subseq us (lookups g addresses)
        \<and> (never_done N \<longrightarrow> us = lookups g addresses))"

lemma lookups_append: "lookups g (xs @ ys) = lookups g xs @ lookups g ys"
  by (simp add: lookups_def)

lemma looked_Nil: "visited w' = visited w \<Longrightarrow> looked N g [] w w'"
  by (simp add: looked_def lookups_def)

lemma looked_append:
  assumes "looked N g xs u v" and "looked N g ys v w"
  shows "looked N g (xs @ ys) u w"
proof -
  obtain us where us: "visited v = visited u @ us" "subseq us (lookups g xs)" "never_done N \<longrightarrow> us = lookups g xs"
    using assms(1) unfolding looked_def by blast
  obtain vs where vs: "visited w = visited v @ vs" "subseq vs (lookups g ys)" "never_done N \<longrightarrow> vs = lookups g ys"
    using assms(2) unfolding looked_def by blast
  have "subseq (us @ vs) (lookups g (xs @ ys))"
    unfolding lookups_append using us(2) vs(2) by (rule list_emb_append_mono)
  with us vs show ?thesis unfolding looked_def by (intro exI[of _ "us @ vs"]) (simp add: lookups_append)
qed

text \<open>Whatever the clock does: a hit is the provider's answer to the normalised address.\<close>

lemma wp_Geocode_hit:
  assumes "\<And>r w'. db w' = db w \<Longrightarrow> looked N g [address] w w' \<Longrightarrow> (\<forall>hit. r = Inr hit \<longrightarrow>
      (\<exists>i. gsi_result (gsi_get N i (gsi_endpoint g (Normalize address))) = Inr hit)
      \<and> visited w' = visited w @ [gsi_endpoint g (Normalize address)]) \<Longrightarrow> Q r w'"
  shows "wp (Geocode E N g address) Q w"
proof (cases "Normalize address = []")
  case True
  then show ?thesis by (simp add: Geocode_def assms looked_def lookups_def)
next
  case False
  have asked: "Q (gsi_result (gsi_get N i (gsi_endpoint g (Normalize address)))) v"
    if "db v = db w" "visited v = visited w @ [gsi_endpoint g (Normalize address)]" for v i
    using that False by (intro assms) (auto simp: looked_def lookups_def)
  have cancelled: "Q (Inl e) v" if "db v = db w" "visited v = visited w" "\<not> never_done N" for v e
    using that by (intro assms) (auto simp: looked_def)
  show ?thesis
    using False by (auto simp: Geocode_def throttle_def Let_def never_done_def intro!: asked cancelled)
qed

context db_frame begin

lemma geocoding: "state_io_rel (db_rel D) (Geocode E N g address)"
proof (rule from_wp)
  show "wp (Geocode E N g address) (\<lambda>_ w'. D (db w) (db w')) w" for w
    by (simp add: Geocode_def throttle_def Let_def D_refl split: option.split)
qed

end

end
