(* ===== verification/GF_Csv.thy ===== *)
theory GF_Csv
  imports GF_Prelude
begin

text \<open>
  What the store import uses of Go's library: \<open>http.MaxBytesReader\<close> over a request body and the
  CSV reader of \<open>encoding/csv\<close> as the import configures it (comma, no comment character,
  \<open>LazyQuotes\<close>, any number of fields per record). A body is its bytes and what reading past them
  reports: \<open>None\<close> is \<open>io.EOF\<close>, anything else an error that every later read reports again, as
  \<open>MaxBytesReader\<close> does.
\<close>

section \<open>Bodies\<close>

record body =
  bo_rest :: string
  bo_err :: "string option"

definition MaxBytesReader :: "nat \<Rightarrow> body \<Rightarrow> body" where
  "MaxBytesReader n b =
     (if length (bo_rest b) \<le> n then b
      else \<lparr>bo_rest = take n (bo_rest b), bo_err = Some ''http: request body too large''\<rparr>)"

section \<open>Lines\<close>

text \<open>The \<open>error\<close> of a read: none, \<open>io.EOF\<close> or another one.\<close>

datatype read_error = NilErr | EOF | ReadError string

text \<open>The position of the first \<open>c\<close>.\<close>

fun IndexByte :: "string \<Rightarrow> char \<Rightarrow> nat option" where
  "IndexByte [] c = None"
| "IndexByte (x # s) c = (if x = c then Some 0 else map_option Suc (IndexByte s c))"

definition newline :: char where "newline = char_of (10 :: nat)"
definition carriage_return :: char where "carriage_return = char_of (13 :: nat)"
definition quote :: char where "quote = char_of (34 :: nat)"

text \<open>A carriage return before the newline is dropped, and one before the end of the file.\<close>

definition readLine :: "body \<Rightarrow> string \<times> read_error \<times> body" where
  "readLine b =
     (case IndexByte (bo_rest b) newline of
        Some i \<Rightarrow>
          (let line = take (Suc i) (bo_rest b) in
           (if i \<ge> 1 \<and> line ! (i - 1) = carriage_return then take (i - 1) line @ [newline] else line,
            NilErr, b\<lparr>bo_rest := drop (Suc i) (bo_rest b)\<rparr>))
      | None \<Rightarrow>
          (let line = bo_rest b; b' = b\<lparr>bo_rest := []\<rparr> in
           case bo_err b of
             Some e \<Rightarrow> (line, ReadError e, b')
           | None \<Rightarrow>
               (if line = [] then ([], EOF, b')
                else (if last line = carriage_return then butlast line else line, NilErr, b'))))"

definition lengthNL :: "string \<Rightarrow> nat" where
  "lengthNL s = (if s \<noteq> [] \<and> last s = newline then 1 else 0)"

lemma IndexByte_less: "IndexByte s c = Some i \<Longrightarrow> i < length s"
  by (induction s arbitrary: i) (auto split: if_splits)

text \<open>A line never holds more than was left to read.\<close>

lemma readLine_length:
  "readLine b = (line, e, b') \<Longrightarrow> length line + length (bo_rest b') \<le> length (bo_rest b)"
  by (auto simp: readLine_def Let_def split: option.splits if_splits dest: IndexByte_less)

lemma readLine_shrinks:
  "readLine b = (line, NilErr, b') \<Longrightarrow> length (bo_rest b') < length (bo_rest b)"
  by (auto simp: readLine_def Let_def split: option.splits if_splits dest: IndexByte_less)

lemma readLine_err: "readLine b = (line, e, b') \<Longrightarrow> bo_err b' = bo_err b"
  by (auto simp: readLine_def Let_def split: option.splits if_splits)

section \<open>Records\<close>

text \<open>The loop over blank lines at the start of \<open>readRecord\<close>.\<close>

function skip_blank :: "body \<Rightarrow> string \<times> read_error \<times> body" where
  "skip_blank b =
     (case readLine b of (line, e, b') \<Rightarrow>
        (if e = NilErr \<and> length line = lengthNL line then skip_blank b' else (line, e, b')))"
  by pat_completeness auto
termination
  by (relation "measure (\<lambda>b. length (bo_rest b))") (auto dest: readLine_shrinks[OF sym])

text \<open>\<open>parseField\<close>: \<open>quoted\<close> tells whether the position is inside a quoted field, \<open>fld\<close> holds what that
  field has so far. A field that a read error cuts off is not part of the record.\<close>

function parseField ::
  "bool \<Rightarrow> string \<Rightarrow> string \<Rightarrow> read_error \<Rightarrow> body \<Rightarrow> string list \<times> read_error \<times> body" where
  "parseField quoted fld line e b =
     (if \<not> quoted then
        (if line = [] \<or> hd line \<noteq> quote
         then (case IndexByte line CHR '','' of
             Some i \<Rightarrow>
               (case parseField False [] (drop (Suc i) line) e b of
                  (fs, r) \<Rightarrow> (take i line # fs, r))
           | None \<Rightarrow> ([take (length line - lengthNL line) line], e, b))
         else parseField True [] (tl line) e b)
      else
        (case IndexByte line quote of
           Some i \<Rightarrow>
             (let buf = fld @ take i line; line' = drop (Suc i) line in
              if line' \<noteq> [] \<and> hd line' = quote then parseField True (buf @ [quote]) (tl line') e b
              else if line' \<noteq> [] \<and> hd line' = CHR '',''
              then (case parseField False [] (tl line') e b of (fs, r) \<Rightarrow> (buf # fs, r))
              else if length line' = lengthNL line' then ([buf], e, b)
              else parseField True (buf @ [quote]) line' e b)
         | None \<Rightarrow>
             (if line \<noteq> []
              then (if e \<noteq> NilErr then ([], e, b)
                    else case readLine b of (line', e', b') \<Rightarrow>
                      parseField True (fld @ line) line' (if e' = EOF then NilErr else e') b')
              else ([fld], e, b))))"
  by pat_completeness auto
termination
  apply (relation "measure (\<lambda>(_, _, line, _, b). length line + length (bo_rest b))")
  by (auto dest: IndexByte_less readLine_length[OF sym] intro: le_less_trans)

datatype csv_read = ReadEOF | ReadErr string | ReadRec "string list"

definition csv_Read :: "body \<Rightarrow> csv_read \<times> body" where
  "csv_Read b =
     (case skip_blank b of (line, e, b') \<Rightarrow>
        if e = EOF then (ReadEOF, b')
        else case parseField False [] line e b' of (fs, e', b'') \<Rightarrow>
          (case e' of ReadError err \<Rightarrow> ReadErr err | _ \<Rightarrow> ReadRec fs, b''))"

declare skip_blank.simps [simp del] parseField.simps [simp del]


section \<open>Facts\<close>

text \<open>Reading never changes how the body ends.\<close>

lemma skip_blank_err: "skip_blank b = (line, e, b') \<Longrightarrow> bo_err b' = bo_err b"
proof (induction b arbitrary: line e b' rule: skip_blank.induct)
  case (1 b)
  obtain l f c where r: "readLine b = (l, f, c)" by (metis prod_cases3)
  show ?case
    using 1(1)[OF r[symmetric] refl] 1(2) readLine_err[OF r]
    by (subst (asm) skip_blank.simps) (auto simp: r split: if_splits)
qed

text \<open>All a field does to the reader is to continue on the next line, as often as its quotes say.\<close>

definition next_line :: "read_error \<times> body \<Rightarrow> read_error \<times> body \<Rightarrow> bool" where
  "next_line r r' \<longleftrightarrow> (\<exists>line e. fst r = NilErr \<and> readLine (snd r) = (line, e, snd r')
     \<and> fst r' = (if e = EOF then NilErr else e))"

lemma parseField_reads: "parseField q fld line e b = (fs, e', b') \<Longrightarrow> rtranclp next_line (e, b) (e', b')"
proof (induction q fld line e b arbitrary: fs e' b' rule: parseField.induct)
  case (1 q fld line e b)
  note eq = 1(7)[unfolded parseField.simps[of q fld line e b]]
  show ?case
  proof (cases q)
    case False
    then show ?thesis
      using eq 1(1)[OF False] 1(2)[OF False] by (auto split: if_splits option.splits prod.splits)
  next
    case q: True
    then have nq: "\<not> \<not> q" by simp
    show ?thesis
    proof (cases "IndexByte line quote")
      case None
      show ?thesis
      proof (cases "line \<noteq> [] \<and> e = NilErr")
        case True
        then have l: "line \<noteq> []" and e: "e = NilErr" by simp_all
        obtain l' f c where r: "readLine b = (l', f, c)" by (metis prod_cases3)
        let ?g = "if f = EOF then NilErr else f"
        have "next_line (e, b) (?g, c)" using r e by (auto simp: next_line_def)
        moreover have "rtranclp next_line (?g, c) (e', b')"
          using 1(3)[OF nq None l _ r[symmetric] refl] eq e l q None r by simp
        ultimately show ?thesis by (rule converse_rtranclp_into_rtranclp)
      next
        case False
        then show ?thesis using eq q None by (cases "line = []") auto
      qed
    next
      case (Some i)
      then show ?thesis
        using eq q 1(4)[OF nq Some refl refl] 1(5)[OF nq Some refl refl] 1(6)[OF nq Some refl refl]
        by (auto simp: Let_def split: if_splits prod.splits)
    qed
  qed
qed

lemma next_line_err: "rtranclp next_line r r' \<Longrightarrow> bo_err (snd r') = bo_err (snd r)"
  by (induction rule: rtranclp_induct) (auto simp: next_line_def dest: readLine_err)

lemmas parseField_err = next_line_err[OF parseField_reads, simplified]

text \<open>A body with a clean end is read without errors, and every record takes some of it.\<close>

lemma readLine_clean: "bo_err b = None \<Longrightarrow> readLine b = (line, e, b') \<Longrightarrow> e = NilErr \<or> e = EOF"
  by (auto simp: readLine_def Let_def split: option.splits if_splits)

lemma skip_blank_clean:
  "bo_err b = None \<Longrightarrow> skip_blank b = (line, e, b') \<Longrightarrow>
   e = EOF \<or> e = NilErr \<and> length (bo_rest b') < length (bo_rest b)"
proof (induction b arbitrary: line e b' rule: skip_blank.induct)
  case (1 b)
  obtain l f c where r: "readLine b = (l, f, c)" by (metis prod_cases3)
  show ?case
  proof (cases "f = NilErr \<and> length l = lengthNL l")
    case True
    then have "skip_blank c = (line, e, b')" using 1(3) by (subst (asm) skip_blank.simps) (simp add: r)
    then show ?thesis
      using 1(1)[OF r[symmetric] refl True] 1(2) readLine_err[OF r] readLine_shrinks[of b l c] r True
      by fastforce
  next
    case False
    then have "line = l" "e = f" "b' = c" using 1(3) by (subst (asm) skip_blank.simps; simp add: r)+
    then show ?thesis using readLine_clean[OF 1(2) r] readLine_shrinks[of b l c] r by auto
  qed
qed

lemma next_line_clean:
  "rtranclp next_line r r' \<Longrightarrow> bo_err (snd r) = None \<Longrightarrow> fst r = NilErr \<Longrightarrow>
   fst r' = NilErr \<and> length (bo_rest (snd r')) \<le> length (bo_rest (snd r))"
proof (induction rule: rtranclp_induct)
  case (step y z)
  then have "bo_err (snd y) = None" using next_line_err[OF step(1)] by simp
  moreover obtain line e where "readLine (snd y) = (line, e, snd z)" "fst z = (if e = EOF then NilErr else e)"
    using step(2) by (auto simp: next_line_def)
  ultimately show ?case
    using step(3-5) readLine_clean[of "snd y" line e "snd z"] readLine_length[of "snd y" line e "snd z"] by auto
qed simp

lemmas parseField_clean = next_line_clean[OF parseField_reads, simplified]

lemma csv_Read_err: "csv_Read b = (r, b') \<Longrightarrow> bo_err b' = bo_err b"
  by (auto simp: csv_Read_def split: prod.splits if_splits dest!: skip_blank_err parseField_err)

lemma csv_Read_clean:
  assumes "bo_err b = None" and "csv_Read b = (r, b')"
  shows "r = ReadEOF \<or> (\<exists>rec. r = ReadRec rec) \<and> length (bo_rest b') < length (bo_rest b)"
proof -
  obtain line e c where s: "skip_blank b = (line, e, c)" by (metis prod_cases3)
  obtain fs f d where p: "parseField False [] line e c = (fs, f, d)" by (metis prod_cases3)
  show ?thesis
    using skip_blank_clean[OF assms(1) s] parseField_clean[OF p] skip_blank_err[OF s] assms s p
    by (auto simp: csv_Read_def)
qed

text \<open>A body that ends in an error never reports the end of the file.\<close>

lemma skip_blank_dirty: "bo_err b = Some x \<Longrightarrow> skip_blank b = (line, e, b') \<Longrightarrow> e \<noteq> EOF"
proof (induction b arbitrary: line e b' rule: skip_blank.induct)
  case (1 b)
  obtain l f c where r: "readLine b = (l, f, c)" by (metis prod_cases3)
  have "f \<noteq> EOF" using 1(2) r by (auto simp: readLine_def Let_def split: option.splits)
  then show ?case
    using 1(1)[OF r[symmetric] refl] 1(2,3) readLine_err[OF r]
    by (subst (asm) (2) skip_blank.simps) (auto simp: r split: if_splits)
qed

lemma csv_Read_dirty: "bo_err b = Some x \<Longrightarrow> csv_Read b = (r, b') \<Longrightarrow> r \<noteq> ReadEOF"
  by (auto simp: csv_Read_def split: prod.splits if_splits read_error.splits dest: skip_blank_dirty)

end
