(* ===== verification/GF_Import.thy ===== *)
theory GF_Import
  imports GF_Geocode GF_Csv GF_Internal
begin

text \<open>
  \<open>api/import.go\<close>, first half: the bulk import of restaurants from a CSV body. Its loop may run for
  ever, so it is a partial function: \<open>None\<close> is a request that is never answered.
\<close>

section \<open>Import: results\<close>

definition maxImportBytes :: nat where "maxImportBytes = 8 * 2 ^ 20"

text \<open>Why a row failed; the code's message texts by case.\<close>

datatype import_reason =
  MalformedRow string
| MissingName
| UnknownWard string
| DuplicateCheckFailed db_error
| CreateFailed db_error
| MenuItemSkipped db_error

record importRowError =
  ie_Row :: nat
  ie_Name :: string
  ie_Reason :: import_reason

record importResult =
  im_Created :: nat
  im_Skipped :: nat
  im_Failed :: nat
  im_MenuItems :: nat
  im_Errors :: "importRowError list"

definition no_imports :: importResult where
  "no_imports = \<lparr>im_Created = 0, im_Skipped = 0, im_Failed = 0, im_MenuItems = 0, im_Errors = []\<rparr>"

definition row_failed :: "nat \<Rightarrow> string \<Rightarrow> import_reason \<Rightarrow> importResult \<Rightarrow> importResult" where
  "row_failed row name reason res =
     res\<lparr>im_Failed := Suc (im_Failed res),
         im_Errors := im_Errors res @ [\<lparr>ie_Row = row, ie_Name = name, ie_Reason = reason\<rparr>]\<rparr>"

definition item_skipped :: "nat \<Rightarrow> string \<Rightarrow> db_error \<Rightarrow> importResult \<Rightarrow> importResult" where
  "item_skipped row name err res =
     res\<lparr>im_Errors := im_Errors res @ [\<lparr>ie_Row = row, ie_Name = name, ie_Reason = MenuItemSkipped err\<rparr>]\<rparr>"

section \<open>Import: columns, wards and items\<close>

text \<open>A later column or ward overwrites an earlier one with the same key.\<close>

definition header_columns :: "net \<Rightarrow> string list \<Rightarrow> string \<rightharpoonup> nat" where
  "header_columns N header =
     foldl (\<lambda>col (i, h). col(unicode_lower N (TrimSpace h) \<mapsto> i)) Map.empty (List.enumerate 0 header)"

definition ward_ids :: "net \<Rightarrow> Ward list \<Rightarrow> string \<rightharpoonup> int32" where
  "ward_ids N ws =
     foldl (\<lambda>m w. m(TrimSpace (w_NameJa w) \<mapsto> w_ID w,
                    unicode_lower N (TrimSpace (w_NameEn w)) \<mapsto> w_ID w)) Map.empty ws"

definition csv_field :: "(string \<rightharpoonup> nat) \<Rightarrow> string list \<Rightarrow> string \<Rightarrow> string" where
  "csv_field col rec name =
     (case col name of
        None \<Rightarrow> []
      | Some i \<Rightarrow> if i \<ge> length rec then [] else TrimSpace (rec ! i))"

definition splitSemicolonList :: "string \<Rightarrow> string list" where
  "splitSemicolonList s = filter (\<lambda>p. p \<noteq> []) (map TrimSpace (SplitByte s CHR '';''))"

text \<open>The ward as it is written, then in lower case.\<close>

definition lookup_ward :: "net \<Rightarrow> (string \<rightharpoonup> int32) \<Rightarrow> string \<Rightarrow> int32 option" where
  "lookup_ward N wardIDs wardName =
     (case wardIDs wardName of Some i \<Rightarrow> Some i | None \<Rightarrow> wardIDs (unicode_lower N wardName))"

section \<open>Import: one row\<close>

definition draft_params :: "(string \<rightharpoonup> nat) \<Rightarrow> string list \<Rightarrow> string \<Rightarrow> int32 \<Rightarrow> CreateStoreFullParams" where
  "draft_params col rec name wardID =
     \<lparr>cf_WardID = wardID, cf_Name = name, cf_Address = csv_field col rec ''address'', cf_Latitude = 0,
      cf_Longitude = 0, cf_IsGfOriented = False, cf_OpeningHours = JArr [],
      cf_Status = StoreStatus_text StoreStatusDraft, cf_Cuisine = [], cf_PriceLevel = 2, cf_Rating = 0,
      cf_ReviewCount = 0, cf_NearestStation = [], cf_Blurb = [],
      cf_GfStatus = GfStatus_text GfStatusOnRequest, cf_PhotoUrl = textOrNull (csv_field col rec ''image_url''),
      cf_NameEn = csv_field col rec ''name_en'', cf_Phone = csv_field col rec ''phone'',
      cf_SourceUrl = csv_field col rec ''source_url'', cf_Notes = csv_field col rec ''notes''\<rparr>"

definition draft_item :: "uuid \<Rightarrow> nat \<Rightarrow> string \<Rightarrow> CreateMenuItemParams" where
  "draft_item sid i item =
     \<lparr>cm_StoreID = sid, cm_Name = item, cm_PriceYen = 0, cm_ImageUrl = None,
      cm_GfStatus = GfStatus_text GfStatusOnRequest, cm_GfNote = None, cm_SortOrder = of_nat i,
      cm_IsAvailable = True\<rparr>"

fun import_items ::
  "env \<Rightarrow> uuid \<Rightarrow> nat \<Rightarrow> string \<Rightarrow> nat \<Rightarrow> string list \<Rightarrow> importResult \<Rightarrow> (world, importResult) state" where
  "import_items E sid row name i [] res = State_Monad.return res"
| "import_items E sid row name i (item # items) res = do {
     r \<leftarrow> db_call E (CreateMenuItem (draft_item sid i item));
     import_items E sid row name (Suc i) items
       (case r of Inl err \<Rightarrow> item_skipped row name err res
        | Inr _ \<Rightarrow> res\<lparr>im_MenuItems := Suc (im_MenuItems res)\<rparr>)
   }"

text \<open>The second half of a row: the draft and its items.\<close>

definition import_create ::
  "env \<Rightarrow> (string \<rightharpoonup> nat) \<Rightarrow> nat \<Rightarrow> string list \<Rightarrow> string \<Rightarrow> int32 \<Rightarrow> importResult
     \<Rightarrow> (world, importResult) state" where
  "import_create E col row rec name wardID res = do {
     r \<leftarrow> db_call E (CreateStoreFull (draft_params col rec name wardID));
     case r of
       Inl err \<Rightarrow> State_Monad.return (row_failed row name (CreateFailed err) res)
     | Inr store \<Rightarrow>
         import_items E (st_ID store) row name 0
           (splitSemicolonList (csv_field col rec ''gluten_free_items''))
           (res\<lparr>im_Created := Suc (im_Created res)\<rparr>)
   }"

definition import_record ::
  "env \<Rightarrow> net \<Rightarrow> (string \<rightharpoonup> nat) \<Rightarrow> (string \<rightharpoonup> int32) \<Rightarrow> nat \<Rightarrow> string list \<Rightarrow> importResult
     \<Rightarrow> (world, importResult) state" where
  "import_record E N col wardIDs row rec res =
     (let name = csv_field col rec ''name''; wardName = csv_field col rec ''ward'' in
      if name = [] then State_Monad.return (row_failed row [] MissingName res)
      else case lookup_ward N wardIDs wardName of
        None \<Rightarrow> State_Monad.return (row_failed row name (UnknownWard wardName) res)
      | Some wardID \<Rightarrow> do {
          c \<leftarrow> db_call E (CountStoresByNameWard name wardID);
          case c of
            Inl err \<Rightarrow> State_Monad.return (row_failed row name (DuplicateCheckFailed err) res)
          | Inr existing \<Rightarrow>
              (if existing > 0 then State_Monad.return (res\<lparr>im_Skipped := Suc (im_Skipped res)\<rparr>)
               else import_create E col row rec name wardID res)
        })"

text \<open>A read that fails is a malformed row; the loop asks for the end of the file before.\<close>

definition import_row ::
  "env \<Rightarrow> net \<Rightarrow> (string \<rightharpoonup> nat) \<Rightarrow> (string \<rightharpoonup> int32) \<Rightarrow> nat \<Rightarrow> csv_read \<Rightarrow> importResult
     \<Rightarrow> (world, importResult) state" where
  "import_row E N col wardIDs row out res =
     (case out of
        ReadRec rec \<Rightarrow> import_record E N col wardIDs row rec res
      | ReadErr err \<Rightarrow> State_Monad.return (row_failed row [] (MalformedRow err) res)
      | ReadEOF \<Rightarrow> State_Monad.return res)"

section \<open>Import: the loop and the handler\<close>

partial_function (option) import_loop ::
  "env \<Rightarrow> net \<Rightarrow> (string \<rightharpoonup> nat) \<Rightarrow> (string \<rightharpoonup> int32) \<Rightarrow> body \<Rightarrow> nat \<Rightarrow> importResult \<Rightarrow> world
     \<Rightarrow> (importResult \<times> world) option" where
  "import_loop E N col wardIDs b row res w =
     (case csv_Read b of (out, b') \<Rightarrow>
        if out = ReadEOF then Some (res, w)
        else case run_state (import_row E N col wardIDs (Suc row) out res) w of (res', w') \<Rightarrow>
          import_loop E N col wardIDs b' (Suc row) res' w')"

definition internalImportStores :: "env \<Rightarrow> net \<Rightarrow> body \<Rightarrow> world \<Rightarrow> (importResult reply \<times> world) option" where
  "internalImportStores E N body w =
     (case csv_Read (MaxBytesReader maxImportBytes body) of
        (ReadRec header, b) \<Rightarrow>
          (let col = header_columns N header in
           if col ''name'' = None
           then Some (Fail StatusBadRequest (ErrMsg ''CSV missing required column name''), w)
           else if col ''ward'' = None
           then Some (Fail StatusBadRequest (ErrMsg ''CSV missing required column ward''), w)
           else case run_state (db_call E ListWards) w of
             (Inl err, w') \<Rightarrow> Some (Fail StatusInternalServerError (ErrDB err), w')
           | (Inr ws, w') \<Rightarrow>
               map_option (\<lambda>(res, w''). (Reply StatusOK res, w''))
                 (import_loop E N col (ward_ids N ws) b 0 no_imports w'))
      | _ \<Rightarrow> Some (Fail StatusBadRequest (ErrMsg ''could not read CSV header''), w))"


section \<open>The loop is a pass over the rows\<close>

text \<open>The reads of a body up to its end, and the rows one after the other.\<close>

inductive csv_rows :: "body \<Rightarrow> csv_read list \<Rightarrow> bool" where
  at_end: "csv_Read b = (ReadEOF, b') \<Longrightarrow> csv_rows b []"
| next_row: "csv_Read b = (out, b') \<Longrightarrow> out \<noteq> ReadEOF \<Longrightarrow> csv_rows b' outs \<Longrightarrow> csv_rows b (out # outs)"

fun import_rows ::
  "env \<Rightarrow> net \<Rightarrow> (string \<rightharpoonup> nat) \<Rightarrow> (string \<rightharpoonup> int32) \<Rightarrow> nat \<Rightarrow> csv_read list \<Rightarrow> importResult
     \<Rightarrow> (world, importResult) state" where
  "import_rows E N col wardIDs row [] res = State_Monad.return res"
| "import_rows E N col wardIDs row (out # outs) res = do {
     res' \<leftarrow> import_row E N col wardIDs (Suc row) out res;
     import_rows E N col wardIDs (Suc row) outs res'
   }"

lemma clean_rows:
  "bo_err b = None \<Longrightarrow> \<exists>outs. csv_rows b outs \<and> (\<forall>out \<in> set outs. \<exists>rec. out = ReadRec rec)"
proof (induction "length (bo_rest b)" arbitrary: b rule: less_induct)
  case less
  obtain out b' where r: "csv_Read b = (out, b')" by fastforce
  show ?case
  proof (cases "out = ReadEOF")
    case True
    then show ?thesis using csv_rows.at_end r by (intro exI[of _ "[]"]) auto
  next
    case False
    then obtain rec where out: "out = ReadRec rec" and "length (bo_rest b') < length (bo_rest b)"
      using csv_Read_clean[OF less(2) r] by auto
    then obtain outs where "csv_rows b' outs" "\<forall>out \<in> set outs. \<exists>rec. out = ReadRec rec"
      using less(1)[of b'] less(2) csv_Read_err[OF r] by auto
    then show ?thesis using csv_rows.next_row[OF r] out by (intro exI[of _ "out # outs"]) auto
  qed
qed

lemma import_loop_rows:
  "csv_rows b outs \<Longrightarrow>
   import_loop E N col wardIDs b row res w = Some (run_state (import_rows E N col wardIDs row outs res) w)"
proof (induction arbitrary: row res w rule: csv_rows.induct)
  case (at_end b b')
  then show ?case by (subst import_loop.simps) simp
next
  case (next_row b out b' outs)
  then show ?case
    by (subst import_loop.simps) (simp split: prod.splits)
qed

text \<open>A loop that ends has seen the end of the file.\<close>

lemma import_loop_returns:
  assumes "import_loop E N col wardIDs b row res w = Some y"
  shows "bo_err b = None"
  using assms
proof (rule import_loop.raw_induct[where P = "\<lambda>E N col wardIDs b row res w y. bo_err b = None", rotated])
  fix loop E N col wardIDs b row res w y
  assume IH: "\<And>E N col wardIDs b row res w y. loop E N col wardIDs b row res w = Some y \<Longrightarrow> bo_err b = None"
    and eq: "(case csv_Read b of (out, b') \<Rightarrow>
        if out = ReadEOF then Some (res, w)
        else case run_state (import_row E N col wardIDs (Suc row) out res) w of (res', w') \<Rightarrow>
          loop E N col wardIDs b' (Suc row) res' w') = Some y"
  obtain out b' where r: "csv_Read b = (out, b')" by fastforce
  show "bo_err b = None"
  proof (cases "out = ReadEOF")
    case True
    then show ?thesis using csv_Read_dirty[of b _ out b'] r by (cases "bo_err b") auto
  next
    case False
    then have "bo_err b' = None" using eq IH r by (auto split: prod.splits)
    then show ?thesis using csv_Read_err[OF r] by simp
  qed
qed

section \<open>What an import adds\<close>

definition draft_dish :: "uuid \<Rightarrow> MenuItem \<Rightarrow> bool" where
  "draft_dish sid m \<longleftrightarrow> mi_StoreID m = sid \<and> mi_PriceYen m = 0 \<and> mi_GfStatus m = GfStatusOnRequest
     \<and> mi_ImageUrl m = None"

definition dishes_added :: "uuid \<Rightarrow> database \<Rightarrow> database \<Rightarrow> bool" where
  "dishes_added sid d d' \<longleftrightarrow> (\<exists>ms. d' = d\<lparr>menu_items := menu_items d @ ms\<rparr> \<and> (\<forall>m \<in> set ms. draft_dish sid m))"

definition imported_draft :: "Store \<Rightarrow> bool" where
  "imported_draft s \<longleftrightarrow> st_Status s = StoreStatusDraft \<and> st_GfStatus s = GfStatusOnRequest
     \<and> \<not> st_IsGfOriented s \<and> st_ApprovedAt s = None \<and> st_Name s \<noteq> []
     \<and> st_Latitude s = 0 \<and> st_Longitude s = 0"

definition drafts_added :: "database \<Rightarrow> database \<Rightarrow> bool" where
  "drafts_added d d' \<longleftrightarrow>
     (\<exists>ss ms. d' = d\<lparr>stores := stores d @ ss, menu_items := menu_items d @ ms\<rparr>
        \<and> (\<forall>s \<in> set ss. imported_draft s) \<and> (\<forall>m \<in> set ms. \<exists>s \<in> set ss. draft_dish (st_ID s) m))"

interpretation dishes: db_frame "dishes_added sid" for sid
proof
  show "dishes_added sid d d" for d
    unfolding dishes_added_def by (rule exI[of _ "[]"]) simp
  show "dishes_added sid d f" if de: "dishes_added sid d e" and ef: "dishes_added sid e f" for d e f
  proof -
    obtain ms where "e = d\<lparr>menu_items := menu_items d @ ms\<rparr>" "\<forall>m \<in> set ms. draft_dish sid m"
      using de by (auto simp: dishes_added_def)
    moreover obtain ns where "f = e\<lparr>menu_items := menu_items e @ ns\<rparr>" "\<forall>m \<in> set ns. draft_dish sid m"
      using ef by (auto simp: dishes_added_def)
    ultimately show ?thesis unfolding dishes_added_def by (intro exI[of _ "ms @ ns"]) auto
  qed
qed

interpretation drafts: db_frame drafts_added
proof
  show "drafts_added d d" for d
    unfolding drafts_added_def by (intro exI[of _ "[]"]) simp
  show "drafts_added d f" if de: "drafts_added d e" and ef: "drafts_added e f" for d e f
  proof -
    obtain ss ms where "e = d\<lparr>stores := stores d @ ss, menu_items := menu_items d @ ms\<rparr>"
      "\<forall>s \<in> set ss. imported_draft s" "\<forall>m \<in> set ms. \<exists>s \<in> set ss. draft_dish (st_ID s) m"
      using de by (auto simp: drafts_added_def)
    moreover obtain ts ns where "f = e\<lparr>stores := stores e @ ts, menu_items := menu_items e @ ns\<rparr>"
      "\<forall>s \<in> set ts. imported_draft s" "\<forall>m \<in> set ns. \<exists>s \<in> set ts. draft_dish (st_ID s) m"
      using ef by (auto simp: drafts_added_def)
    ultimately show ?thesis unfolding drafts_added_def by (intro exI[of _ "ss @ ts"] exI[of _ "ms @ ns"]) auto
  qed
qed

lemma draft_item_rel: "query_rel (dishes_added sid) E (CreateMenuItem (draft_item sid i item))"
proof (rule query_relI)
  fix j d
  let ?r = "new_menu_item E j GfStatusOnRequest (draft_item sid i item)"
  have "GfStatus_scan (cm_GfStatus (draft_item sid i item)) = Some GfStatusOnRequest"
    by (simp add: draft_item_def del: GfStatus_text.simps)
  then have "snd (CreateMenuItem (draft_item sid i item) E j d) \<in> {d, d\<lparr>menu_items := menu_items d @ [?r]\<rparr>}"
    by (simp add: CreateMenuItem_def Let_def)
  moreover have "dishes_added sid d (d\<lparr>menu_items := menu_items d @ [?r]\<rparr>)"
    unfolding dishes_added_def
    by (rule exI[of _ "[?r]"]) (simp add: draft_dish_def new_menu_item_def draft_item_def)
  ultimately show "dishes_added sid d (snd (CreateMenuItem (draft_item sid i item) E j d))"
    using dishes.D_refl by auto
qed

lemma import_items_rel: "state_io_rel (db_rel (dishes_added sid)) (import_items E sid row name i items res)"
proof (induction items arbitrary: i res)
  case Nil
  then show ?case by (simp add: dishes.program)
next
  case (Cons item items)
  then show ?case by (auto intro!: dishes.bind dishes.call draft_item_rel)
qed

definition counts :: "importResult \<Rightarrow> nat \<times> nat \<times> nat" where
  "counts res = (im_Created res, im_Skipped res, im_Failed res)"

lemma import_items_counts: "counts (fst (run_state (import_items E sid row name i items res) w)) = counts res"
  by (induction items arbitrary: i res w)
    (auto simp: counts_def item_skipped_def split: prod.splits sum.splits)


text \<open>A database call, with the fault at hand where it fails.\<close>

lemma wp_db_call_faulty:
  assumes "\<And>r d. q E (ticks w) (db w) = (r, d) \<Longrightarrow> Q r (w\<lparr>ticks := Suc (ticks w), db := d\<rparr>)"
    and "\<not> no_faults E \<Longrightarrow> Q (Inl ConnError) (w\<lparr>ticks := Suc (ticks w)\<rparr>)"
    and "\<And>r d. \<not> no_faults E \<Longrightarrow> q E (ticks w) (db w) = (r, d) \<Longrightarrow>
      Q (Inl ConnError) (w\<lparr>ticks := Suc (ticks w), db := d\<rparr>)"
  shows "wp (db_call E q) Q w"
proof (cases "no_faults E")
  case True
  then show ?thesis using assms(1) by (cases "q E (ticks w) (db w)") simp
next
  case False
  with assms show ?thesis by (intro wp_db_call) auto
qed

lemma wp_import_items:
  assumes "\<And>res' w'. dishes_added sid (db w) (db w') \<Longrightarrow> counts res' = counts res \<Longrightarrow> Q res' w'"
  shows "wp (import_items E sid row name i items res) Q w"
proof (rule wpI)
  fix res' w'
  assume r: "run_state (import_items E sid row name i items res) w = (res', w')"
  have "counts res' = counts res" using import_items_counts[of E sid row name i items res w] r by simp
  moreover have "dishes_added sid (db w) (db w')"
    using import_items_rel[of sid E row name i items res] r
    unfolding state_io_rel_def db_rel_def by (metis snd_conv)
  ultimately show "Q res' w'" by (intro assms)
qed

definition row_target ::
  "net \<Rightarrow> (string \<rightharpoonup> nat) \<Rightarrow> (string \<rightharpoonup> int32) \<Rightarrow> string list \<Rightarrow> (string \<times> int32) option" where
  "row_target N col wardIDs rec =
     (let name = csv_field col rec ''name'' in
      if name = [] then None
      else map_option (Pair name) (lookup_ward N wardIDs (csv_field col rec ''ward'')))"

definition present :: "env \<Rightarrow> string \<times> int32 \<Rightarrow> database \<Rightarrow> bool" where
  "present E t d \<longleftrightarrow> (\<exists>s \<in> set (stores d). pg_lower E (st_Name s) = pg_lower E (fst t) \<and> st_WardID s = snd t)"

lemma present_mono: "drafts_added d d' \<Longrightarrow> present E t d \<Longrightarrow> present E t d'"
  by (auto simp: drafts_added_def present_def)

definition draft_store ::
  "env \<Rightarrow> nat \<Rightarrow> (string \<rightharpoonup> nat) \<Rightarrow> string list \<Rightarrow> string \<Rightarrow> int32 \<Rightarrow> Store" where
  "draft_store E i col rec name wardID =
     full_store E i StoreStatusDraft GfStatusOnRequest (draft_params col rec name wardID)"

lemma create_draft:
  "CreateStoreFull (draft_params col rec name wardID) E i d = insert_store (draft_store E i col rec name wardID) d"
proof -
  have "StoreStatus_scan (cf_Status (draft_params col rec name wardID)) = Some StoreStatusDraft"
    "GfStatus_scan (cf_GfStatus (draft_params col rec name wardID)) = Some GfStatusOnRequest"
    by (simp_all add: draft_params_def del: GfStatus_text.simps StoreStatus_text.simps)
  then show ?thesis by (simp add: CreateStoreFull_def draft_store_def)
qed

lemma draft_store_sel:
  "name \<noteq> [] \<Longrightarrow> imported_draft (draft_store E i col rec name wardID)"
  "st_Name (draft_store E i col rec name wardID) = name"
  "st_WardID (draft_store E i col rec name wardID) = wardID"
  by (simp_all add: imported_draft_def draft_store_def full_store_def draft_params_def)

lemma insert_store_cases:
  assumes "insert_store s d = (r, d')"
  obtains "r = Inr s" and "d' = d\<lparr>stores := stores d @ [s]\<rparr>" | e where "r = Inl e" and "d' = d"
  using assms by (auto simp: insert_store_def split: if_splits)

lemma drafts_added_store:
  "imported_draft s \<Longrightarrow> dishes_added (st_ID s) (d\<lparr>stores := stores d @ [s]\<rparr>) d' \<Longrightarrow>
   drafts_added d d' \<and> stores d' = stores d @ [s]"
  unfolding drafts_added_def dishes_added_def
  by (elim exE conjE, rule conjI, rule exI[of _ "[s]"], rule exI) auto

text \<open>What one read of the file leaves behind.\<close>

definition counted :: "importResult \<Rightarrow> nat" where
  "counted res = im_Created res + im_Skipped res + im_Failed res"

definition row_post ::
  "env \<Rightarrow> net \<Rightarrow> (string \<rightharpoonup> nat) \<Rightarrow> (string \<rightharpoonup> int32) \<Rightarrow> csv_read \<Rightarrow> importResult \<Rightarrow> world
     \<Rightarrow> importResult \<Rightarrow> world \<Rightarrow> bool" where
  "row_post E N col wardIDs out res w res' w' \<longleftrightarrow>
     drafts_added (db w) (db w') \<and> counted res' = Suc (counted res) \<and> im_Failed res \<le> im_Failed res'
   \<and> (no_faults E \<longrightarrow> im_Created res' + length (stores (db w)) = im_Created res + length (stores (db w')))
   \<and> (im_Failed res' = im_Failed res \<longrightarrow>
       (\<exists>rec t. out = ReadRec rec \<and> row_target N col wardIDs rec = Some t \<and> present E t (db w')))"

lemma row_post_failed:
  "drafts_added (db w) (db w') \<Longrightarrow> no_faults E \<longrightarrow> db w' = db w \<Longrightarrow>
   row_post E N col wardIDs out res w (row_failed row name reason res) w'"
  by (auto simp: row_post_def row_failed_def counted_def)

lemma count_present: "0 < rows_matching (\<lambda>s. pg_lower E (st_Name s) = pg_lower E name \<and> st_WardID s = wardID) (stores d)
    \<longleftrightarrow> present E (name, wardID) d"
  by (auto simp: present_def rows_matching_def filter_empty_conv)

lemma wp_import_create:
  assumes "name \<noteq> []" and "row_target N col wardIDs rec = Some (name, wardID)"
  shows "wp (import_create E col row rec name wardID res) (row_post E N col wardIDs (ReadRec rec) res w) (w\<lparr>ticks := n\<rparr>)"
  unfolding import_create_def wp_bind
proof (rule wp_db_call_faulty, goal_cases)
  let ?s = "draft_store E n col rec name wardID"
  note added = drafts_added_store[OF draft_store_sel(1)[OF assms(1)], of E n col rec wardID]
  {
    case (1 r d)
    then have "insert_store ?s (db w) = (r, d)" by (simp add: create_draft)
    then show ?case
    proof (cases rule: insert_store_cases)
      case 1
      have "row_post E N col wardIDs (ReadRec rec) res w res' w'"
        if "dishes_added (st_ID ?s) d (db w')" "counts res' = counts (res\<lparr>im_Created := Suc (im_Created res)\<rparr>)" for res' w'
        using added that 1(2) assms(2)
        by (auto simp: row_post_def counted_def counts_def present_def draft_store_sel)
      then show ?thesis unfolding 1(1) sum.case by (intro wp_import_items) simp
    qed (simp add: row_post_failed drafts.D_refl)
  next
    case 2
    then show ?case by (simp add: row_post_failed drafts.D_refl)
  next
    case (3 r d)
    then have "insert_store ?s (db w) = (r, d)" by (simp add: create_draft)
    then have "drafts_added (db w) d"
      using added[OF dishes.D_refl] by (cases rule: insert_store_cases) (auto simp: drafts.D_refl)
    with 3 show ?case by (simp add: row_post_failed)
  }
qed

lemma wp_import_record:
  "wp (import_record E N col wardIDs row rec res) (row_post E N col wardIDs (ReadRec rec) res w) w"
proof (cases "row_target N col wardIDs rec")
  case None
  then show ?thesis
    by (auto simp: import_record_def row_target_def Let_def intro!: row_post_failed drafts.D_refl
        split: option.split if_splits)
next
  case (Some t)
  obtain name wardID where t: "t = (name, wardID)" by fastforce
  have name: "csv_field col rec ''name'' = name" "name \<noteq> []"
    and ward: "lookup_ward N wardIDs (csv_field col rec ''ward'') = Some wardID"
    using Some t by (auto simp: row_target_def Let_def split: if_splits)
  have r: "read_only (CountStoresByNameWard name wardID)" by (simp add: read_only_def CountStoresByNameWard_def)
  have skip: "row_post E N col wardIDs (ReadRec rec) res w (res\<lparr>im_Skipped := Suc (im_Skipped res)\<rparr>)
      (w\<lparr>ticks := Suc (ticks w)\<rparr>)" if "present E (name, wardID) (db w)"
    using that Some t by (simp add: row_post_def counted_def drafts.D_refl)
  have create: "wp (import_create E col row rec name wardID res) (row_post E N col wardIDs (ReadRec rec) res w)
      (w\<lparr>ticks := Suc (ticks w)\<rparr>)"
    using Some t name(2) by (intro wp_import_create) simp_all
  show ?thesis
    unfolding import_record_def Let_def name(1) ward if_not_P[OF name(2)] option.case wp_bind
    by (rule wp_read[OF r])
      (simp_all add: CountStoresByNameWard_def count_present skip create row_post_failed drafts.D_refl)
qed

text \<open>A row whose restaurant is there is skipped.\<close>

lemma import_record_present:
  assumes "no_faults E" and "row_target N col wardIDs rec = Some t" and "present E t (db w)"
  shows "run_state (import_record E N col wardIDs row rec res) w =
    (res\<lparr>im_Skipped := Suc (im_Skipped res)\<rparr>, w\<lparr>ticks := Suc (ticks w)\<rparr>)"
  using assms
  by (cases t) (auto simp: import_record_def row_target_def Let_def CountStoresByNameWard_def count_present split: if_splits)

lemma wp_import_rows:
  assumes "\<forall>out \<in> set outs. out \<noteq> ReadEOF"
  shows "wp (import_rows E N col wardIDs row outs res) (\<lambda>res' w'.
    drafts_added (db w) (db w') \<and> counted res' = counted res + length outs \<and> im_Failed res \<le> im_Failed res'
  \<and> (no_faults E \<longrightarrow> im_Created res' + length (stores (db w)) = im_Created res + length (stores (db w')))
  \<and> (im_Failed res' = im_Failed res \<longrightarrow> (\<forall>out \<in> set outs. \<exists>rec t. out = ReadRec rec
      \<and> row_target N col wardIDs rec = Some t \<and> present E t (db w')))) w"
  using assms
proof (induction outs arbitrary: row res w)
  case (Cons out outs)
  have "wp (import_row E N col wardIDs (Suc row) out res) (row_post E N col wardIDs out res w) w"
    using Cons(2) wp_import_record[of E N col wardIDs "Suc row" _ res w]
    by (cases out) (auto simp: import_row_def row_post_failed drafts.D_refl)
  then show ?case
    unfolding import_rows.simps wp_bind
  proof (rule wp_mono)
    fix res1 w1
    assume p: "row_post E N col wardIDs out res w res1 w1"
    have "\<forall>out \<in> set outs. out \<noteq> ReadEOF" using Cons(2) by simp
    then show "wp (import_rows E N col wardIDs (Suc row) outs res1) (\<lambda>res' w'.
        drafts_added (db w) (db w') \<and> counted res' = counted res + length (out # outs) \<and> im_Failed res \<le> im_Failed res'
      \<and> (no_faults E \<longrightarrow> im_Created res' + length (stores (db w)) = im_Created res + length (stores (db w')))
      \<and> (im_Failed res' = im_Failed res \<longrightarrow> (\<forall>out \<in> set (out # outs). \<exists>rec t. out = ReadRec rec
          \<and> row_target N col wardIDs rec = Some t \<and> present E t (db w')))) w1"
      by (rule wp_mono[OF Cons(1)])
        (use p in \<open>auto simp: row_post_def intro: drafts.D_trans present_mono\<close>)
  qed
qed (simp add: drafts.D_refl)

lemma import_rows_present:
  assumes "no_faults E"
    and "\<forall>out \<in> set outs. \<exists>rec t. out = ReadRec rec \<and> row_target N col wardIDs rec = Some t \<and> present E t (db w)"
  shows "run_state (import_rows E N col wardIDs row outs res) w =
    (res\<lparr>im_Skipped := im_Skipped res + length outs\<rparr>, w\<lparr>ticks := ticks w + length outs\<rparr>)"
  using assms(2)
proof (induction outs arbitrary: row res w)
  case (Cons out outs)
  then obtain rec t where "out = ReadRec rec" "row_target N col wardIDs rec = Some t" "present E t (db w)" by auto
  then have "run_state (import_row E N col wardIDs (Suc row) out res) w =
      (res\<lparr>im_Skipped := Suc (im_Skipped res)\<rparr>, w\<lparr>ticks := Suc (ticks w)\<rparr>)"
    by (simp add: import_row_def import_record_present[OF assms(1)])
  then show ?case using Cons by simp
qed simp


section \<open>Properties of the import\<close>

text \<open>An answered import read the header, had the columns and the wards, and passed over the rows.\<close>

lemma import_OK:
  assumes "internalImportStores E N body w = Some (Reply StatusOK res, w')"
  obtains header b outs col ids where
    "csv_Read (MaxBytesReader maxImportBytes body) = (ReadRec header, b)" "csv_rows b outs"
    "\<forall>out \<in> set outs. \<exists>rec. out = ReadRec rec" "col = header_columns N header"
    "col ''name'' \<noteq> None" "col ''ward'' \<noteq> None" "db_fault E (ticks w) = NoFault"
    "ids = ward_ids N (sort_key (\<lambda>r. sint (w_ID r)) (wards (db w)))"
    "run_state (import_rows E N col ids 0 outs no_imports) (w\<lparr>ticks := Suc (ticks w)\<rparr>) = (res, w')"
proof -
  obtain out b where h: "csv_Read (MaxBytesReader maxImportBytes body) = (out, b)" by fastforce
  then obtain header where out: "out = ReadRec header"
    using assms by (cases out) (auto simp: internalImportStores_def)
  define col where "col = header_columns N header"
  define ids where "ids = ward_ids N (sort_key (\<lambda>r. sint (w_ID r)) (wards (db w)))"
  have cols: "col ''name'' \<noteq> None" "col ''ward'' \<noteq> None"
    using assms by (auto simp: internalImportStores_def h out Let_def col_def split: if_splits)
  have f: "db_fault E (ticks w) = NoFault"
    using assms cols by (cases "db_fault E (ticks w)")
      (auto simp: internalImportStores_def h out Let_def run_db_call col_def ListWards_def)
  then have l: "import_loop E N col ids b 0 no_imports (w\<lparr>ticks := Suc (ticks w)\<rparr>) = Some (res, w')"
    using assms cols
    by (auto simp: internalImportStores_def h out Let_def col_def ids_def ListWards_def split: if_splits)
  obtain outs where o: "csv_rows b outs" "\<forall>out \<in> set outs. \<exists>rec. out = ReadRec rec"
    using clean_rows[OF import_loop_returns[OF l]] by blast
  have "run_state (import_rows E N col ids 0 outs no_imports) (w\<lparr>ticks := Suc (ticks w)\<rparr>) = (res, w')"
    using l import_loop_rows[OF o(1)] by simp
  then show thesis using that[OF h[unfolded out] o col_def cols f ids_def] by blast
qed

lemma import_OK_intro:
  assumes "csv_Read (MaxBytesReader maxImportBytes body) = (ReadRec header, b)" "csv_rows b outs"
    "header_columns N header ''name'' \<noteq> None" "header_columns N header ''ward'' \<noteq> None"
    "db_fault E (ticks w) = NoFault"
    "run_state (import_rows E N (header_columns N header)
       (ward_ids N (sort_key (\<lambda>r. sint (w_ID r)) (wards (db w)))) 0 outs no_imports) (w\<lparr>ticks := Suc (ticks w)\<rparr>) = (res, w')"
  shows "internalImportStores E N body w = Some (Reply StatusOK res, w')"
  using assms by (auto simp: internalImportStores_def Let_def ListWards_def import_loop_rows[OF assms(2)])

text \<open>C21: An import is answered exactly when reading its body can reach the end: with a clean body (at
  most 8 MiB that end in \<open>io.EOF\<close>) the loop terminates, whatever the rows and the database do. A body
  over the limit, or one whose connection breaks, reports its error on every further read; once the
  header, its two columns and the wards are read, the loop counts malformed rows for ever and the
  request is never answered.\<close>

theorem import_hangs_on_read_error:
  "internalImportStores E N body w = None \<longleftrightarrow>
    (\<exists>header b. csv_Read (MaxBytesReader maxImportBytes body) = (ReadRec header, b) \<and> bo_err b \<noteq> None
       \<and> header_columns N header ''name'' \<noteq> None \<and> header_columns N header ''ward'' \<noteq> None
       \<and> db_fault E (ticks w) = NoFault)"
proof -
  obtain out b where h: "csv_Read (MaxBytesReader maxImportBytes body) = (out, b)" by fastforce
  have loop: "import_loop E N col ids b 0 no_imports v = None \<longleftrightarrow> bo_err b \<noteq> None" for col ids v
  proof
    show "bo_err b \<noteq> None" if "import_loop E N col ids b 0 no_imports v = None"
      using that clean_rows[of b] import_loop_rows by fastforce
    show "import_loop E N col ids b 0 no_imports v = None" if "bo_err b \<noteq> None"
      using that import_loop_returns by fastforce
  qed
  show ?thesis
    by (cases out; cases "db_fault E (ticks w)")
      (auto simp: internalImportStores_def h Let_def run_db_call ListWards_def loop)
qed

text \<open>C20: What an answered import did: it only appended drafts (never approved, without coordinates,
  with the cautious gluten-free label) and priceless dishes of those drafts, nothing else in the
  tables changed; every row was counted as created, skipped or failed; and with a reachable database
  the number created is the number of stores that were added.\<close>

theorem import_accounts:
  assumes "internalImportStores E N body w = Some (Reply StatusOK res, w')"
  shows "drafts_added (db w) (db w')
    \<and> (\<exists>header b rows. csv_Read (MaxBytesReader maxImportBytes body) = (ReadRec header, b) \<and> csv_rows b rows
        \<and> im_Created res + im_Skipped res + im_Failed res = length rows)
    \<and> (no_faults E \<longrightarrow> length (stores (db w')) = length (stores (db w)) + im_Created res)"
proof -
  obtain header b outs col ids where
    h: "csv_Read (MaxBytesReader maxImportBytes body) = (ReadRec header, b)" "csv_rows b outs"
    and o: "\<forall>out \<in> set outs. \<exists>rec. out = ReadRec rec"
    and r: "run_state (import_rows E N col ids 0 outs no_imports) (w\<lparr>ticks := Suc (ticks w)\<rparr>) = (res, w')"
    using assms by (rule import_OK)
  have "\<forall>out \<in> set outs. out \<noteq> ReadEOF" using o by auto
  note p = wpD[OF wp_import_rows[OF this] r]
  then have "im_Created res + im_Skipped res + im_Failed res = length outs"
    by (simp add: counted_def no_imports_def)
  moreover have "no_faults E \<longrightarrow> length (stores (db w')) = length (stores (db w)) + im_Created res"
    using p by (auto simp: no_imports_def)
  moreover have "drafts_added (db w) (db w')" using p by simp
  ultimately show ?thesis using h by blast
qed

text \<open>C22: Importing the same file again creates nothing: with a reachable database, when an import had
  no failed rows and all its restaurants are still there (whatever else was added meanwhile), a
  second import of the same body leaves the tables as they are and reports every row as skipped.\<close>

theorem reimport_creates_nothing:
  assumes "no_faults E" and "internalImportStores E N body w = Some (Reply StatusOK res, w')"
    and "im_Failed res = 0" and "set (stores (db w')) \<subseteq> set (stores (db v))" and "wards (db v) = wards (db w)"
  shows "\<exists>res2 v'. internalImportStores E N body v = Some (Reply StatusOK res2, v') \<and> db v' = db v
    \<and> im_Created res2 = 0 \<and> im_Failed res2 = 0 \<and> im_Skipped res2 = im_Created res + im_Skipped res"
proof -
  obtain header b outs col ids where
    h: "csv_Read (MaxBytesReader maxImportBytes body) = (ReadRec header, b)" "csv_rows b outs"
    and o: "\<forall>out \<in> set outs. \<exists>rec. out = ReadRec rec"
    and c: "col = header_columns N header" "col ''name'' \<noteq> None" "col ''ward'' \<noteq> None"
    and ids: "ids = ward_ids N (sort_key (\<lambda>r. sint (w_ID r)) (wards (db w)))"
    and r: "run_state (import_rows E N col ids 0 outs no_imports) (w\<lparr>ticks := Suc (ticks w)\<rparr>) = (res, w')"
    using assms(2) by (rule import_OK)
  have "\<forall>out \<in> set outs. out \<noteq> ReadEOF" using o by auto
  note p = wpD[OF wp_import_rows[OF this] r]
  have "\<forall>out \<in> set outs. \<exists>rec t. out = ReadRec rec \<and> row_target N col ids rec = Some t \<and> present E t (db w')"
    using p assms(3) by (simp add: no_imports_def)
  moreover have "present E t (db w') \<Longrightarrow> present E t (db (v\<lparr>ticks := Suc (ticks v)\<rparr>))" for t
    using assms(4) by (auto simp: present_def)
  ultimately have "run_state (import_rows E N col ids 0 outs no_imports) (v\<lparr>ticks := Suc (ticks v)\<rparr>) =
      (no_imports\<lparr>im_Skipped := length outs\<rparr>, v\<lparr>ticks := Suc (ticks v) + length outs\<rparr>)"
    by (subst import_rows_present[OF assms(1)]) (fastforce simp: no_imports_def)+
  then have "internalImportStores E N body v =
      Some (Reply StatusOK (no_imports\<lparr>im_Skipped := length outs\<rparr>), v\<lparr>ticks := Suc (ticks v) + length outs\<rparr>)"
    using h c ids assms(1,5) by (intro import_OK_intro) simp_all
  moreover have "length outs = im_Created res + im_Skipped res"
    using p assms(3) by (simp add: counted_def no_imports_def)
  ultimately show ?thesis by (simp add: no_imports_def)
qed

end
