(* ===== verification/GF_ImportRace.thy ===== *)
theory GF_ImportRace
  imports GF_Import
begin

text \<open>
  Concurrent imports. A row is a duplicate check and, if it finds nothing, an insert; no lock and no
  constraint of the schema keeps another import from running between the two. \<open>import_step\<close> is
  \<open>import_record\<close> cut there.
\<close>

section \<open>A row in two steps\<close>

datatype import_phase = Checking | Creating | Imported importResult

fun import_step ::
  "env \<Rightarrow> (string \<rightharpoonup> nat) \<Rightarrow> nat \<Rightarrow> string list \<Rightarrow> string \<times> int32 \<Rightarrow> importResult \<Rightarrow> import_phase
     \<Rightarrow> (world, import_phase) state" where
  "import_step E col row rec (name, wardID) res Checking = do {
     c \<leftarrow> db_call E (CountStoresByNameWard name wardID);
     State_Monad.return (case c of
       Inl err \<Rightarrow> Imported (row_failed row name (DuplicateCheckFailed err) res)
     | Inr existing \<Rightarrow>
         if existing > 0 then Imported (res\<lparr>im_Skipped := Suc (im_Skipped res)\<rparr>) else Creating)
   }"
| "import_step E col row rec (name, wardID) res Creating = do {
     r \<leftarrow> import_create E col row rec name wardID res;
     State_Monad.return (Imported r)
   }"
| "import_step E col row rec t res (Imported r) = State_Monad.return (Imported r)"

lemma import_steps_are_the_record:
  assumes "row_target N col wardIDs rec = Some t"
  shows "run_state (do { p \<leftarrow> import_step E col row rec t res Checking; import_step E col row rec t res p }) w =
    (case run_state (import_record E N col wardIDs row rec res) w of (r, w') \<Rightarrow> (Imported r, w'))"
proof -
  obtain wardID where "t = (csv_field col rec ''name'', wardID)" "csv_field col rec ''name'' \<noteq> []"
    "lookup_ward N wardIDs (csv_field col rec ''ward'') = Some wardID"
    using assms by (auto simp: row_target_def Let_def split: if_splits)
  then show ?thesis
    by (simp add: import_record_def Let_def split: prod.split sum.split)
qed

text \<open>Any number of imports at the same row, one step of one of them at a time.\<close>

inductive import_race ::
  "env \<Rightarrow> (string \<rightharpoonup> nat) \<Rightarrow> nat \<Rightarrow> string list \<Rightarrow> string \<times> int32 \<Rightarrow> importResult \<Rightarrow>
    import_phase list \<times> world \<Rightarrow> import_phase list \<times> world \<Rightarrow> bool" for E col row rec t res where
  Step: "i < length ps \<Longrightarrow> run_state (import_step E col row rec t res (ps ! i)) w = (p', w') \<Longrightarrow>
    import_race E col row rec t res (ps, w) (ps[i := p'], w')"

section \<open>What the steps do\<close>

lemma check_absent:
  assumes "no_faults E" and "\<not> present E t (db w)"
  shows "run_state (import_step E col row rec t res Checking) w = (Creating, w\<lparr>ticks := Suc (ticks w)\<rparr>)"
proof -
  obtain name wardID where t: "t = (name, wardID)" by (cases t)
  have "rows_matching (\<lambda>s. pg_lower E (st_Name s) = pg_lower E name \<and> st_WardID s = wardID) (stores (db w)) = 0"
    using assms(2) by (auto simp: t present_def rows_matching_def filter_empty_conv)
  with assms(1) show ?thesis by (simp add: t CountStoresByNameWard_def)
qed

lemma check_present:
  assumes "no_faults E" and "present E t (db w)"
  shows "run_state (import_step E col row rec t res Checking) w =
    (Imported (res\<lparr>im_Skipped := Suc (im_Skipped res)\<rparr>), w\<lparr>ticks := Suc (ticks w)\<rparr>)"
proof -
  obtain name wardID where t: "t = (name, wardID)" by (cases t)
  have "rows_matching (\<lambda>s. pg_lower E (st_Name s) = pg_lower E name \<and> st_WardID s = wardID) (stores (db w)) > 0"
    using assms(2) by (force simp: t present_def rows_matching_def filter_empty_conv)
  with assms(1) show ?thesis by (simp add: t CountStoresByNameWard_def)
qed

text \<open>The database's next \<open>n\<close> random ids are distinct, and no store has one of them.\<close>

definition fresh_ids :: "env \<Rightarrow> nat \<Rightarrow> world \<Rightarrow> bool" where
  "fresh_ids E n w \<longleftrightarrow> inj_on (gen_random_uuid E) {ticks w..<ticks w + n}
     \<and> (\<forall>s \<in> set (stores (db w)). st_ID s \<notin> gen_random_uuid E ` {ticks w..<ticks w + n})"

lemma fresh_ids_later:
  assumes "fresh_ids E n w" and "stores (db w') = stores (db w)" and "ticks w' = ticks w + k" and "m + k \<le> n"
  shows "fresh_ids E m w'"
proof -
  have sub: "{ticks w'..<ticks w' + m} \<subseteq> {ticks w..<ticks w + n}" using assms(3,4) by auto
  have "inj_on (gen_random_uuid E) {ticks w'..<ticks w' + m}"
    using assms(1) sub unfolding fresh_ids_def by (blast intro: inj_on_subset)
  with assms(1,2) sub show ?thesis unfolding fresh_ids_def by auto
qed

lemma fresh_ids_next:
  assumes "fresh_ids E n w" and "0 < n" and "st_ID s = gen_random_uuid E (ticks w)"
    and "stores (db w') = stores (db w) @ [s]" and "ticks w' = Suc (ticks w) + k" and "m + Suc k \<le> n"
  shows "fresh_ids E m w'"
proof -
  have sub: "{ticks w'..<ticks w' + m} \<subseteq> {ticks w..<ticks w + n}" and now: "ticks w \<in> {ticks w..<ticks w + n}"
    and not_now: "ticks w \<notin> {ticks w'..<ticks w' + m}"
    using assms(2,5,6) by auto
  have inj: "inj_on (gen_random_uuid E) {ticks w..<ticks w + n}" using assms(1) by (simp add: fresh_ids_def)
  have "gen_random_uuid E (ticks w) \<notin> gen_random_uuid E ` {ticks w'..<ticks w' + m}"
    using inj_on_image_mem_iff[OF inj now sub] not_now by simp
  moreover have "inj_on (gen_random_uuid E) {ticks w'..<ticks w' + m}"
    using inj sub by (blast intro: inj_on_subset)
  ultimately show ?thesis
    using assms(1,3,4) sub unfolding fresh_ids_def by auto
qed

definition row_items :: "(string \<rightharpoonup> nat) \<Rightarrow> string list \<Rightarrow> string list" where
  "row_items col rec = splitSemicolonList (csv_field col rec ''gluten_free_items'')"

lemma run_import_items_ticks:
  "ticks (snd (run_state (import_items E sid row name i items res) w)) = ticks w + length items"
  by (induction items arbitrary: i res w) (auto simp: run_db_call Let_def split: prod.splits fault.splits)

lemma create_row:
  assumes "no_faults E" and "fst t \<noteq> []" and "snd t \<in> w_ID ` set (wards (db w))"
    and fresh: "fresh_ids E n w" and n: "m + Suc (length (row_items col rec)) \<le> n"
  shows "\<exists>r w' s. run_state (import_step E col row rec t res Creating) w = (Imported r, w')
    \<and> im_Created r = Suc (im_Created res) \<and> stores (db w') = stores (db w) @ [s] \<and> (st_Name s, st_WardID s) = t
    \<and> wards (db w') = wards (db w) \<and> fresh_ids E m w' \<and> st_ID s \<notin> st_ID ` set (stores (db w))"
proof -
  obtain name wardID where t: "t = (name, wardID)" by (cases t)
  let ?s = "draft_store E (ticks w) col rec name wardID"
  let ?w = "w\<lparr>ticks := Suc (ticks w), db := (db w)\<lparr>stores := stores (db w) @ [?s]\<rparr>\<rparr>"
  let ?items = "import_items E (st_ID ?s) row name 0 (row_items col rec) (res\<lparr>im_Created := Suc (im_Created res)\<rparr>)"
  have id: "st_ID ?s = gen_random_uuid E (ticks w)" by (simp add: draft_store_def full_store_def)
  have "0 < n" using n by simp
  then have new: "st_ID ?s \<notin> st_ID ` set (stores (db w))"
    using fresh unfolding fresh_ids_def id by force
  then have "\<not> list_ex (\<lambda>s. st_ID s = st_ID ?s) (stores (db w))"
    unfolding list_ex_iff by (metis imageI)
  then have "insert_store ?s (db w) = (Inr ?s, (db w)\<lparr>stores := stores (db w) @ [?s]\<rparr>)"
    using assms(3) by (auto simp: insert_store_def draft_store_sel t list_ex_iff[where xs = "wards (db w)"])
  then have run: "run_state (import_create E col row rec name wardID res) w = run_state ?items ?w"
    using assms(1) by (simp add: import_create_def create_draft row_items_def)
  obtain r w' where items: "run_state ?items ?w = (r, w')" by fastforce
  have "wp ?items (\<lambda>r w'. dishes_added (st_ID ?s) (db ?w) (db w')
      \<and> counts r = counts (res\<lparr>im_Created := Suc (im_Created res)\<rparr>)) ?w"
    by (rule wp_import_items) simp
  from wpD[OF this items] have d: "dishes_added (st_ID ?s) (db ?w) (db w')" "im_Created r = Suc (im_Created res)"
    by (simp_all add: counts_def)
  then have s: "stores (db w') = stores (db w) @ [?s]" "wards (db w') = wards (db w)"
    by (auto simp: dishes_added_def)
  have "ticks w' = Suc (ticks w) + length (row_items col rec)"
    using run_import_items_ticks[of E "st_ID ?s" row name 0 "row_items col rec"
        "res\<lparr>im_Created := Suc (im_Created res)\<rparr>" ?w] items by simp
  then have "fresh_ids E m w'"
    using fresh_ids_next[OF fresh \<open>0 < n\<close> id s(1)] n by simp
  moreover have "run_state (import_step E col row rec t res Creating) w = (Imported r, w')"
    by (simp add: t run items)
  moreover have "(st_Name ?s, st_WardID ?s) = t"
    by (simp add: draft_store_sel t)
  ultimately show ?thesis
    using d(2) s new by blast
qed

section \<open>Two imports at once\<close>

lemma race_twice:
  assumes "run_state (import_step E col row rec t res p) w = (p', w1)"
    and "run_state (import_step E col row rec t res q) w1 = (q', w2)"
  shows "rtranclp (import_race E col row rec t res) ([p, q], w) ([p', q'], w2)"
proof -
  have "import_race E col row rec t res ([p, q], w) ([p', q], w1)"
    using import_race.Step[of 0 "[p, q]" E col row rec t res w p' w1] assms(1) by simp
  moreover have "import_race E col row rec t res ([p', q], w1) ([p', q'], w2)"
    using import_race.Step[of 1 "[p', q]" E col row rec t res w1 q' w2] assms(2) by simp
  ultimately show ?thesis by (meson converse_rtranclp_into_rtranclp rtranclp.rtrancl_refl)
qed

text \<open>C23: Imports are only idempotent one after the other. For a new restaurant, on a reachable database,
  two imports of its row that both look before either of them inserts leave two drafts of it with the
  same name and ward, and both report it as created. The same two rows in a row leave one draft, and
  the second is reported as skipped. No constraint of the schema stands in the way.\<close>

theorem concurrent_imports_duplicate:
  assumes "no_faults E" and "row_target N col wardIDs rec = Some t" and "\<not> present E t (db w)"
    and "snd t \<in> w_ID ` set (wards (db w))" and "fresh_ids E (2 * length (row_items col rec) + 4) w"
  shows "(\<exists>r1 r2 w' s1 s2.
        rtranclp (import_race E col row rec t res) ([Checking, Checking], w) ([Imported r1, Imported r2], w')
      \<and> im_Created r1 = Suc (im_Created res) \<and> im_Created r2 = Suc (im_Created res)
      \<and> stores (db w') = stores (db w) @ [s1, s2] \<and> st_ID s1 \<noteq> st_ID s2
      \<and> (st_Name s1, st_WardID s1) = t \<and> (st_Name s2, st_WardID s2) = t)
    \<and> (\<exists>r1 w1 w2 s.
        run_state (import_record E N col wardIDs row rec res) w = (r1, w1)
      \<and> run_state (import_record E N col wardIDs row rec res) w1 = (res\<lparr>im_Skipped := Suc (im_Skipped res)\<rparr>, w2)
      \<and> im_Created r1 = Suc (im_Created res) \<and> stores (db w2) = stores (db w) @ [s] \<and> (st_Name s, st_WardID s) = t)"
proof -
  have name: "fst t \<noteq> []"
    using assms(2) by (auto simp: row_target_def Let_def split: if_splits)
  let ?v = "w\<lparr>ticks := Suc (ticks w)\<rparr>" and ?u = "w\<lparr>ticks := Suc (Suc (ticks w))\<rparr>"
  let ?n = "length (row_items col rec)"
  have fresh: "fresh_ids E (2 * ?n + 3) ?v" "fresh_ids E (2 * ?n + 2) ?u"
    using fresh_ids_later[OF assms(5), of ?v 1] fresh_ids_later[OF assms(5), of ?u 2] by simp_all
  have "\<not> present E t (db ?v)" using assms(3) by simp
  from check_absent[OF assms(1,3)] check_absent[OF assms(1) this]
  have checks: "rtranclp (import_race E col row rec t res) ([Checking, Checking], w) ([Creating, Creating], ?u)"
    by (intro race_twice) simp_all
  obtain r1 w1 s1 where one: "run_state (import_step E col row rec t res Creating) ?u = (Imported r1, w1)"
    "im_Created r1 = Suc (im_Created res)" "stores (db w1) = stores (db w) @ [s1]" "(st_Name s1, st_WardID s1) = t"
    "wards (db w1) = wards (db w)" "fresh_ids E (Suc ?n) w1"
    using create_row[OF assms(1) name _ fresh(2), of "Suc ?n" col rec row res] assms(4) by auto
  obtain r2 w2 s2 where two: "run_state (import_step E col row rec t res Creating) w1 = (Imported r2, w2)"
    "im_Created r2 = Suc (im_Created res)" "stores (db w2) = stores (db w1) @ [s2]" "(st_Name s2, st_WardID s2) = t"
    "st_ID s2 \<notin> st_ID ` set (stores (db w1))"
    using create_row[OF assms(1) name _ one(6), of 0 col rec row res] assms(4) one(5) by auto
  have "rtranclp (import_race E col row rec t res) ([Checking, Checking], w) ([Imported r1, Imported r2], w2)"
    using checks race_twice[OF one(1) two(1)] by (rule rtranclp_trans)
  moreover have "stores (db w2) = stores (db w) @ [s1, s2]" "st_ID s1 \<noteq> st_ID s2"
    using one(3) two(3,5) by auto
  moreover obtain r w3 s where alone: "run_state (import_step E col row rec t res Creating) ?v = (Imported r, w3)"
    "im_Created r = Suc (im_Created res)" "stores (db w3) = stores (db w) @ [s]" "(st_Name s, st_WardID s) = t"
    using create_row[OF assms(1) name _ fresh(1), of 0 col rec row res] assms(4) by auto
  then have first: "run_state (import_record E N col wardIDs row rec res) w = (r, w3)"
    using import_steps_are_the_record[OF assms(2), of E row res w] check_absent[OF assms(1,3), of col row rec res]
    by (simp split: prod.splits)
  have "present E t (db w3)" using alone(3,4) by (auto simp: present_def)
  then have "run_state (import_record E N col wardIDs row rec res) w3 =
      (res\<lparr>im_Skipped := Suc (im_Skipped res)\<rparr>, w3\<lparr>ticks := Suc (ticks w3)\<rparr>)"
    using import_steps_are_the_record[OF assms(2), of E row res w3] check_present[OF assms(1), of t w3 col row rec res]
    by (simp split: prod.splits)
  moreover have "stores (db (w3\<lparr>ticks := Suc (ticks w3)\<rparr>)) = stores (db w) @ [s]" using alone(3) by simp
  ultimately show ?thesis
    using one(2,4) two(2,4) alone(2,4) first by (intro conjI) blast+
qed

end
