(* ===== verification/GF_Backfill.thy ===== *)
theory GF_Backfill
  imports GF_Geocode GF_Internal
begin

text \<open>
  The geocoding half of \<open>api/import.go\<close>: the backfill of coordinates over the stores that have an
  address but no coordinates, and the lookup of a single address for the store form.
\<close>

section \<open>Backfill\<close>

definition StatusBadGateway :: nat where "StatusBadGateway = 502"

definition defaultGeocodeLimit :: int where "defaultGeocodeLimit = 100"
definition maxGeocodeLimit :: int where "maxGeocodeLimit = 500"

text \<open>Why a store was not placed; the code's message texts by case.\<close>

datatype geocode_reason =
  NoMatch
| GeocoderError string
| AddressTooVague string
| SaveFailed db_error

record geocodeRowError =
  gr_Name :: string
  gr_Address :: string
  gr_Reason :: geocode_reason

record geocodeResult =
  gb_Geocoded :: nat
  gb_NotFound :: nat
  gb_TooVague :: nat
  gb_Failed :: nat
  gb_Remaining :: nat
  gb_Errors :: "geocodeRowError list"

definition store_unplaced :: "Store \<Rightarrow> geocode_reason \<Rightarrow> geocodeResult \<Rightarrow> geocodeResult" where
  "store_unplaced s reason res =
     res\<lparr>gb_Errors := gb_Errors res @ [\<lparr>gr_Name = st_Name s, gr_Address = st_Address s, gr_Reason = reason\<rparr>]\<rparr>"

text \<open>The \<open>switch\<close> over the lookup's outcome and what follows it.\<close>

definition geocode_outcome ::
  "env \<Rightarrow> Store \<Rightarrow> geocodeResult \<Rightarrow> geo_error + Result \<Rightarrow> (world, geocodeResult) state" where
  "geocode_outcome E s res r =
     (case r of
        Inl GeoNotFound \<Rightarrow> State_Monad.return
          (store_unplaced s NoMatch (res\<lparr>gb_NotFound := Suc (gb_NotFound res)\<rparr>))
      | Inl (GeoErr e) \<Rightarrow> State_Monad.return
          (store_unplaced s (GeocoderError e) (res\<lparr>gb_Failed := Suc (gb_Failed res)\<rparr>))
      | Inr hit \<Rightarrow>
          (if \<not> ge_Precise hit
           then State_Monad.return (store_unplaced s (AddressTooVague (ge_MatchedAddress hit))
             (res\<lparr>gb_TooVague := Suc (gb_TooVague res)\<rparr>))
           else do {
             u \<leftarrow> db_call E (UpdateStoreCoords (st_ID s) (ge_Lat hit) (ge_Lng hit));
             State_Monad.return (case u of
               Inl err \<Rightarrow> store_unplaced s (SaveFailed err) (res\<lparr>gb_Failed := Suc (gb_Failed res)\<rparr>)
             | Inr _ \<Rightarrow> res\<lparr>gb_Geocoded := Suc (gb_Geocoded res)\<rparr>)
           }))"

definition geocode_store :: "env \<Rightarrow> net \<Rightarrow> GSI \<Rightarrow> Store \<Rightarrow> geocodeResult \<Rightarrow> (world, geocodeResult) state" where
  "geocode_store E N g s res = do { r \<leftarrow> Geocode E N g (st_Address s); geocode_outcome E s res r }"

fun geocode_stores :: "env \<Rightarrow> net \<Rightarrow> GSI \<Rightarrow> Store list \<Rightarrow> geocodeResult \<Rightarrow> (world, geocodeResult) state" where
  "geocode_stores E N g [] res = State_Monad.return res"
| "geocode_stores E N g (s # ss) res = do {
     res' \<leftarrow> geocode_store E N g s res;
     geocode_stores E N g ss res'
   }"

text \<open>The query parameter \<open>limit\<close>, empty when absent; \<open>None\<close> is a bad one.\<close>

definition geocode_limit :: "string \<Rightarrow> int option" where
  "geocode_limit raw =
     (if raw = [] then Some defaultGeocodeLimit
      else case Atoi raw of
        None \<Rightarrow> None
      | Some n \<Rightarrow> if n \<le> 0 then None else Some (min n maxGeocodeLimit))"

definition internalGeocodeStores :: "env \<Rightarrow> net \<Rightarrow> Server \<Rightarrow> string \<Rightarrow> (world, geocodeResult reply) state" where
  "internalGeocodeStores E N srv raw =
     (case geocode_limit raw of
        None \<Rightarrow> State_Monad.return (Fail StatusBadRequest (ErrMsg ''limit must be a positive integer''))
      | Some limit \<Rightarrow> do {
          r \<leftarrow> db_call E (ListStoresMissingCoords (of_int (limit + 1)));
          case r of
            Inl err \<Rightarrow> State_Monad.return (Fail StatusInternalServerError (ErrDB err))
          | Inr missing \<Rightarrow> do {
              res \<leftarrow> geocode_stores E N (sv_geocoder srv) (take (nat limit) missing)
                \<lparr>gb_Geocoded = 0, gb_NotFound = 0, gb_TooVague = 0, gb_Failed = 0,
                 gb_Remaining = length missing - nat limit, gb_Errors = []\<rparr>;
              State_Monad.return (Reply StatusOK res)
            }
        })"

section \<open>Single address\<close>

record geocodeAddressRequest =
  ga_Address :: string

definition valid_geocodeAddressRequest :: "geocodeAddressRequest \<Rightarrow> bool" where
  "valid_geocodeAddressRequest req \<longleftrightarrow> ga_Address req \<noteq> []"

record geocodeAddressResponse =
  gp_Lat :: float64
  gp_Lng :: float64
  gp_MatchedAddress :: string
  gp_Precise :: bool
  gp_NormalizedQuery :: string

definition internalGeocodeAddress ::
  "env \<Rightarrow> net \<Rightarrow> Server \<Rightarrow> geocodeAddressRequest option \<Rightarrow> (world, geocodeAddressResponse reply) state" where
  "internalGeocodeAddress E N srv body =
     (case ShouldBindJSON valid_geocodeAddressRequest body of
        None \<Rightarrow> State_Monad.return (Fail StatusBadRequest ErrBinding)
      | Some req \<Rightarrow> do {
          r \<leftarrow> Geocode E N (sv_geocoder srv) (ga_Address req);
          State_Monad.return (case r of
            Inl GeoNotFound \<Rightarrow> Fail StatusNotFound (ErrMsg ''no match for this address'')
          | Inl (GeoErr e) \<Rightarrow> Fail StatusBadGateway (ErrLib e)
          | Inr hit \<Rightarrow> Reply StatusOK
              \<lparr>gp_Lat = ge_Lat hit, gp_Lng = ge_Lng hit, gp_MatchedAddress = ge_MatchedAddress hit,
               gp_Precise = ge_Precise hit, gp_NormalizedQuery = Normalize (ga_Address req)\<rparr>)
        })"

section \<open>The provider is asked at the agreed pace\<close>

text \<open>At most \<open>n\<close> requests between two states, and the time they took.\<close>

definition asked :: "GSI \<Rightarrow> nat \<Rightarrow> world \<Rightarrow> world \<Rightarrow> bool" where
  "asked g n w w' \<longleftrightarrow> (\<exists>us. visited w' = visited w @ us \<and> length us \<le> n
     \<and> gsi_last w + int (length us) * gs_minInterval g \<le> gsi_last w')"

lemma asked_0: "visited w' = visited w \<Longrightarrow> gsi_last w' = gsi_last w \<Longrightarrow> asked g 0 w w'"
  by (simp add: asked_def)

lemma asked_add:
  assumes "asked g m u v" and "asked g n v w"
  shows "asked g (m + n) u w"
proof -
  obtain us where us: "visited v = visited u @ us" "length us \<le> m"
    "gsi_last u + int (length us) * gs_minInterval g \<le> gsi_last v"
    using assms(1) unfolding asked_def by (elim exE conjE)
  obtain vs where vs: "visited w = visited v @ vs" "length vs \<le> n"
    "gsi_last v + int (length vs) * gs_minInterval g \<le> gsi_last w"
    using assms(2) unfolding asked_def by (elim exE conjE)
  have "gsi_last u + int (length (us @ vs)) * gs_minInterval g \<le> gsi_last w"
    using us(3) vs(3) by (simp add: distrib_right)
  then show ?thesis unfolding asked_def using us vs by (intro exI[of _ "us @ vs"]) simp
qed

lemma asked_same:
  "asked g n u v \<Longrightarrow> visited w = visited v \<Longrightarrow> gsi_last w = gsi_last v \<Longrightarrow> asked g n u w"
  using asked_add[OF _ asked_0] by fastforce

lemma looked_up_asked: "looked_up g w w' \<Longrightarrow> asked g (Suc 0) w w'"
  by (auto simp: looked_up_def asked_def)

lemma wp_geocode_outcome:
  assumes "\<And>res'. (\<forall>hit. r = Inr hit \<longrightarrow> \<not> ge_Precise hit) \<Longrightarrow> Q res' w"
    and "\<And>hit res' d. r = Inr hit \<Longrightarrow> ge_Precise hit \<Longrightarrow>
      d \<in> {db w, snd (UpdateStoreCoords (st_ID s) (ge_Lat hit) (ge_Lng hit) E (ticks w) (db w))} \<Longrightarrow>
      Q res' (w\<lparr>ticks := Suc (ticks w), db := d\<rparr>)"
  shows "wp (geocode_outcome E s res r) Q w"
proof -
  have u: "wp (db_call E (UpdateStoreCoords (st_ID s) (ge_Lat hit) (ge_Lng hit)))
      (\<lambda>u. wp (State_Monad.return (f u)) Q) w"
    if "r = Inr hit" "ge_Precise hit" for hit f
    using assms(2)[OF that, of "db w"] assms(2)[OF that] by (intro wp_db_call) simp_all
  show ?thesis
    by (cases r) (auto simp: geocode_outcome_def u intro!: assms(1) split: geo_error.split)
qed

lemma wp_geocode_store_pace:
  "steady_clock E \<Longrightarrow> wp (geocode_store E N g s res) (\<lambda>_ w'. asked g (Suc 0) w w') w"
  unfolding geocode_store_def wp_bind
  by (rule wp_Geocode, assumption, rule wp_geocode_outcome) (auto dest!: looked_up_asked elim: asked_same)

lemma wp_geocode_stores_pace:
  assumes "steady_clock E"
  shows "wp (geocode_stores E N g ss res) (\<lambda>_ w'. asked g (length ss) w w') w"
proof (induction ss arbitrary: res w)
  case (Cons s ss)
  then show ?case
    using wp_geocode_store_pace[OF assms, of N g s res w]
    by (auto intro!: Cons wp_mono[OF Cons] elim!: wp_mono dest: asked_add)
qed (simp add: asked_0)


section \<open>What a backfill changes\<close>

definition unplaced :: "Store \<Rightarrow> Store" where
  "unplaced s = s\<lparr>st_Latitude := 0, st_Longitude := 0, st_UpdatedAt := 0\<rparr>"

definition coords :: "Store \<Rightarrow> float64 \<times> float64" where
  "coords s = (st_Latitude s, st_Longitude s)"

text \<open>The provider's precise answer to an address.\<close>

definition placed :: "net \<Rightarrow> GSI \<Rightarrow> string \<Rightarrow> float64 \<times> float64 \<Rightarrow> bool" where
  "placed N g address c \<longleftrightarrow>
     (\<exists>i hit. gsi_result (gsi_get N i (gsi_endpoint g (Normalize address))) = Inr hit \<and> ge_Precise hit
        \<and> c = (ge_Lat hit, ge_Lng hit))"

text \<open>Only coordinates (and the time of the update) change, only of the stores \<open>ss\<close>, and a store's
  coordinates are then a precise answer of the provider to the address of its own row in \<open>ss\<close>.\<close>

definition backfilled :: "net \<Rightarrow> GSI \<Rightarrow> Store list \<Rightarrow> database \<Rightarrow> database \<Rightarrow> bool" where
  "backfilled N g ss d d' \<longleftrightarrow>
     d'\<lparr>stores := []\<rparr> = d\<lparr>stores := []\<rparr> \<and> map unplaced (stores d') = map unplaced (stores d)
   \<and> filter (\<lambda>s. st_ID s \<notin> st_ID ` set ss) (stores d') = filter (\<lambda>s. st_ID s \<notin> st_ID ` set ss) (stores d)
   \<and> (\<forall>s' \<in> set (stores d'). (\<exists>s \<in> set (stores d). st_ID s = st_ID s' \<and> coords s = coords s')
        \<or> (\<exists>s \<in> set ss. st_ID s = st_ID s' \<and> placed N g (st_Address s) (coords s')))"

interpretation backfilled: db_frame "backfilled N g ss" for N g ss
proof
  show "backfilled N g ss d d" for d by (auto simp: backfilled_def)
  show "backfilled N g ss d f" if "backfilled N g ss d e" "backfilled N g ss e f" for d e f
  proof -
    have "(\<exists>s \<in> set (stores d). st_ID s = st_ID s' \<and> coords s = coords s')
        \<or> (\<exists>s \<in> set ss. st_ID s = st_ID s' \<and> placed N g (st_Address s) (coords s'))"
      if "s' \<in> set (stores f)" for s'
    proof (cases "\<exists>t \<in> set (stores e). st_ID t = st_ID s' \<and> coords t = coords s'")
      case True
      then obtain t where t: "t \<in> set (stores e)" "st_ID t = st_ID s'" "coords t = coords s'" by blast
      have "(\<exists>s \<in> set (stores d). st_ID s = st_ID t \<and> coords s = coords t)
          \<or> (\<exists>s \<in> set ss. st_ID s = st_ID t \<and> placed N g (st_Address s) (coords t))"
        using \<open>backfilled N g ss d e\<close> t(1) unfolding backfilled_def by blast
      then show ?thesis unfolding t(2,3) .
    next
      case False
      then show ?thesis using \<open>backfilled N g ss e f\<close> that unfolding backfilled_def by blast
    qed
    then show ?thesis using that unfolding backfilled_def by (elim conjE) simp
  qed
qed

lemma UpdateStoreCoords_backfilled:
  assumes "placed N g (st_Address s) (ge_Lat hit, ge_Lng hit)" and "s \<in> set ss"
  shows "backfilled N g ss d (snd (UpdateStoreCoords (st_ID s) (ge_Lat hit) (ge_Lng hit) E i d))"
proof -
  let ?f = "\<lambda>s. s\<lparr>st_Latitude := ge_Lat hit, st_Longitude := ge_Lng hit, st_UpdatedAt := pg_clock E i\<rparr>"
  let ?rows = "update_where (\<lambda>x. st_ID x = st_ID s) ?f (stores d)"
  have "map unplaced ?rows = map unplaced (stores d)"
    by (simp add: update_where_def unplaced_def)
  moreover have "filter (\<lambda>x. st_ID x \<notin> st_ID ` set ss) ?rows = filter (\<lambda>x. st_ID x \<notin> st_ID ` set ss) (stores d)"
    using assms(2) by (intro filter_update_where) auto
  moreover have "(\<exists>x \<in> set (stores d). st_ID x = st_ID s' \<and> coords x = coords s')
      \<or> st_ID s = st_ID s' \<and> coords s' = (ge_Lat hit, ge_Lng hit)" if "s' \<in> set ?rows" for s'
    using that by (auto simp: set_update_where coords_def)
  ultimately show ?thesis using assms unfolding backfilled_def UpdateStoreCoords_def by fastforce
qed

definition attempts :: "geocodeResult \<Rightarrow> nat" where
  "attempts res = gb_Geocoded res + gb_NotFound res + gb_TooVague res + gb_Failed res"

lemma geocode_outcome_attempts:
  "wp (geocode_outcome E s res r) (\<lambda>res' _. attempts res' = Suc (attempts res) \<and> gb_Remaining res' = gb_Remaining res) w"
proof -
  have u: "wp (db_call E q) (\<lambda>u. wp (State_Monad.return (case u of
        Inl err \<Rightarrow> store_unplaced s (SaveFailed err) (res\<lparr>gb_Failed := Suc (gb_Failed res)\<rparr>)
      | Inr _ \<Rightarrow> res\<lparr>gb_Geocoded := Suc (gb_Geocoded res)\<rparr>))
      (\<lambda>res' _. attempts res' = Suc (attempts res) \<and> gb_Remaining res' = gb_Remaining res)) w" for q :: "nat query"
    by (rule wp_db_call) (simp_all add: attempts_def store_unplaced_def split: sum.split)
  show ?thesis
    by (cases r) (auto simp: geocode_outcome_def u split: geo_error.split, simp_all add: attempts_def store_unplaced_def)
qed

lemma wp_geocode_store:
  assumes "s \<in> set ss"
  shows "wp (geocode_store E N g s res) (\<lambda>res' w'. backfilled N g ss (db w) (db w')
    \<and> looked N g [st_Address s] w w' \<and> attempts res' = Suc (attempts res) \<and> gb_Remaining res' = gb_Remaining res) w"
  unfolding geocode_store_def wp_bind
proof (rule wp_Geocode_hit, goal_cases)
  case (1 r w')
  have upd: "backfilled N g ss (db w) (snd (UpdateStoreCoords (st_ID s) (ge_Lat hit) (ge_Lng hit) E i (db w)))"
    if "r = Inr hit" "ge_Precise hit" for hit i
    using 1(3) that assms by (intro UpdateStoreCoords_backfilled) (auto simp: placed_def)
  have "looked N g [st_Address s] w (w'\<lparr>ticks := n, db := d\<rparr>)" for n d
    using 1(2) by (simp add: looked_def)
  then have "wp (geocode_outcome E s res r) (\<lambda>_ w''. backfilled N g ss (db w) (db w'') \<and> looked N g [st_Address s] w w'') w'"
    using 1 upd by (intro wp_geocode_outcome) (auto simp: backfilled.D_refl)
  from wp_conj[OF this geocode_outcome_attempts] show ?case by simp
qed

lemma wp_geocode_stores:
  assumes "set ts \<subseteq> set ss"
  shows "wp (geocode_stores E N g ts res) (\<lambda>res' w'. backfilled N g ss (db w) (db w')
    \<and> looked N g (map st_Address ts) w w'
    \<and> attempts res' = attempts res + length ts \<and> gb_Remaining res' = gb_Remaining res) w"
  using assms
proof (induction ts arbitrary: res w)
  case (Cons t ts)
  then have "t \<in> set ss" "set ts \<subseteq> set ss" by simp_all
  from wp_geocode_store[OF this(1), of E N g res w] show ?case
    unfolding geocode_stores.simps wp_bind
  proof (rule wp_mono, goal_cases)
    case (1 res1 w1)
    from Cons(1)[OF \<open>set ts \<subseteq> set ss\<close>, of res1 w1] show ?case
      by (rule wp_mono)
        (use 1 looked_append[of N g "[st_Address t]" w w1] in \<open>auto intro: backfilled.D_trans\<close>)
  qed
qed (simp add: backfilled.D_refl looked_Nil)

section \<open>Properties\<close>

lemma geocode_limit_bounds: "geocode_limit raw = Some limit \<Longrightarrow> 0 < limit \<and> limit \<le> 500"
  by (auto simp: geocode_limit_def defaultGeocodeLimit_def maxGeocodeLimit_def split: if_splits option.splits)

lemma fetch_missing:
  assumes "geocode_limit raw = Some limit"
  shows "ListStoresMissingCoords (of_int (limit + 1)) E i d =
    (Inr (take (Suc (nat limit)) (sort_key st_CreatedAt (filter missing_coords (stores d)))), d)"
proof -
  have "sint (of_int (limit + 1) :: int32) = limit + 1"
    using geocode_limit_bounds[OF assms] by (simp del: of_int_add add: int_word_sint)
  then show ?thesis
    using geocode_limit_bounds[OF assms]
    by (simp del: of_int_add add: ListStoresMissingCoords_def limit_rows_def nat_add_distrib)
qed

text \<open>The oldest stores that miss coordinates, at most \<open>n\<close> of them.\<close>

definition oldest_missing :: "nat \<Rightarrow> database \<Rightarrow> Store list" where
  "oldest_missing n d = take n (sort_key st_CreatedAt (filter missing_coords (stores d)))"

definition no_attempts :: "nat \<Rightarrow> geocodeResult" where
  "no_attempts remaining =
     \<lparr>gb_Geocoded = 0, gb_NotFound = 0, gb_TooVague = 0, gb_Failed = 0, gb_Remaining = remaining, gb_Errors = []\<rparr>"

lemma run_backfill:
  assumes "geocode_limit raw = Some limit" and "db_fault E (ticks w) = NoFault"
  shows "run_state (internalGeocodeStores E N srv raw) w =
    (case run_state (geocode_stores E N (sv_geocoder srv) (oldest_missing (nat limit) (db w))
        (no_attempts (length (oldest_missing (Suc (nat limit)) (db w)) - nat limit))) (w\<lparr>ticks := Suc (ticks w)\<rparr>) of
       (res, w') \<Rightarrow> (Reply StatusOK res, w'))"
  using assms by (simp del: of_int_add add: internalGeocodeStores_def fetch_missing oldest_missing_def no_attempts_def min_def
    split: prod.split)

lemma backfill_OK:
  assumes "run_state (internalGeocodeStores E N srv raw) w = (Reply StatusOK res, w')"
  obtains limit where "geocode_limit raw = Some limit" "db_fault E (ticks w) = NoFault"
    "run_state (geocode_stores E N (sv_geocoder srv) (oldest_missing (nat limit) (db w))
        (no_attempts (length (oldest_missing (Suc (nat limit)) (db w)) - nat limit))) (w\<lparr>ticks := Suc (ticks w)\<rparr>) = (res, w')"
proof -
  obtain limit where l: "geocode_limit raw = Some limit"
    using assms by (cases "geocode_limit raw") (auto simp: internalGeocodeStores_def)
  have f: "db_fault E (ticks w) = NoFault"
    using assms l by (cases "db_fault E (ticks w)") (auto simp: internalGeocodeStores_def run_db_call fetch_missing)
  show thesis using that[OF l f] assms unfolding run_backfill[OF l f] by (auto split: prod.splits)
qed

text \<open>C32: A finished backfill attempted the oldest stores that miss coordinates, as many as the limit
  allows, oldest first: the requests it sent are those for their addresses, in that order (all of them,
  but for empty addresses, unless the operator's request was cancelled on the way). It counted each attempt
  once, reports whether more remain (0 or 1), and changed nothing but the coordinates of those stores:
  each to an answer of the provider to that store's own address which it had graded precise, never to the
  centre of a ward.\<close>

theorem backfill_fills_missing:
  assumes "run_state (internalGeocodeStores E N srv raw) w = (Reply StatusOK res, w')"
  shows "\<exists>limit. geocode_limit raw = Some limit
    \<and> (let oldest = take (nat limit) (sort_key st_CreatedAt (filter missing_coords (stores (db w)))) in
         (\<exists>us. visited w' = visited w @ us \<and> subseq us (lookups (sv_geocoder srv) (map st_Address oldest))
            \<and> (never_done N \<longrightarrow> us = lookups (sv_geocoder srv) (map st_Address oldest)))
       \<and> backfilled N (sv_geocoder srv) oldest (db w) (db w')
       \<and> attempts res = length oldest)
    \<and> gb_Remaining res = (if nat limit < length (filter missing_coords (stores (db w))) then 1 else 0)"
proof -
  obtain limit where l: "geocode_limit raw = Some limit"
    and r: "run_state (geocode_stores E N (sv_geocoder srv) (oldest_missing (nat limit) (db w))
        (no_attempts (length (oldest_missing (Suc (nat limit)) (db w)) - nat limit))) (w\<lparr>ticks := Suc (ticks w)\<rparr>) = (res, w')"
    using assms by (rule backfill_OK)
  note p = wpD[OF wp_geocode_stores[OF subset_refl] r]
  show ?thesis
    using p by (intro exI[of _ limit]) (auto simp: l no_attempts_def attempts_def oldest_missing_def looked_def Let_def)
qed

text \<open>The public geocoding service is asked at the agreed pace: with a clock that does not run
  backwards, a backfill sends at most 500 requests and its calls are at least the interval (250 ms)
  apart, so \<open>k\<close> requests take at least \<open>k\<close> intervals since the last call before it.\<close>

lemma backfill_pace:
  assumes "steady_clock E" and "run_state (internalGeocodeStores E N srv raw) w = (r, w')"
  shows "\<exists>us. visited w' = visited w @ us \<and> length us \<le> 500
    \<and> gsi_last w + int (length us) * gs_minInterval (sv_geocoder srv) \<le> gsi_last w'"
proof (cases "geocode_limit raw")
  case None
  then show ?thesis using assms by (auto simp: internalGeocodeStores_def)
next
  case (Some limit)
  let ?g = "sv_geocoder srv"
  have "wp (internalGeocodeStores E N srv raw) (\<lambda>_ w'. \<exists>n \<le> nat limit. asked ?g n w w') w"
    unfolding internalGeocodeStores_def Some option.case wp_bind
  proof (rule wp_db_call, goal_cases)
    case (1 q d)
    then have q: "q = Inr (oldest_missing (Suc (nat limit)) (db w))" "d = db w"
      using fetch_missing[OF Some] by (auto simp: oldest_missing_def)
    show ?case
      unfolding q sum.case wp_bind
      by (rule wp_mono[OF wp_geocode_stores_pace[OF assms(1)]])
        (auto simp: asked_def intro!: exI[of _ "length (take (nat limit) (oldest_missing (Suc (nat limit)) (db w)))"])
  qed (auto intro!: exI[of _ 0] simp: asked_def)
  from wpD[OF this assms(2)] obtain n where "n \<le> nat limit" "asked ?g n w w'" by blast
  then show ?thesis using geocode_limit_bounds[OF Some] by (fastforce simp: asked_def)
qed

lemma geocode_stores_unplaceable:
  assumes "\<forall>s \<in> set ss. \<forall>i hit. gsi_result (gsi_get N i (gsi_endpoint g (Normalize (st_Address s)))) = Inr hit \<longrightarrow> \<not> ge_Precise hit"
  shows "wp (geocode_stores E N g ss res) (\<lambda>res' w'. db w' = db w \<and> gb_Geocoded res' = gb_Geocoded res
    \<and> gb_Remaining res' = gb_Remaining res) w"
  using assms
proof (induction ss arbitrary: res w)
  case (Cons s ss)
  have "wp (geocode_store E N g s res) (\<lambda>res' w'. db w' = db w \<and> gb_Geocoded res' = gb_Geocoded res
    \<and> gb_Remaining res' = gb_Remaining res) w"
    unfolding geocode_store_def wp_bind
    by (rule wp_Geocode_hit)
      (use Cons(2) in \<open>auto simp: geocode_outcome_def store_unplaced_def split: sum.split geo_error.split\<close>)
  then show ?case
    unfolding geocode_stores.simps wp_bind
  proof (rule wp_mono, goal_cases)
    case (1 res1 w1)
    have "\<forall>s \<in> set ss. \<forall>i hit. gsi_result (gsi_get N i (gsi_endpoint g (Normalize (st_Address s)))) = Inr hit \<longrightarrow> \<not> ge_Precise hit"
      using Cons(2) by simp
    from Cons(1)[OF this, of res1 w1] show ?case by (rule wp_mono) (use 1 in auto)
  qed
qed simp

definition backfill_pass :: "env \<Rightarrow> net \<Rightarrow> Server \<Rightarrow> string \<Rightarrow> world \<Rightarrow> world \<Rightarrow> bool" where
  "backfill_pass E N srv raw w w' \<longleftrightarrow> w' = snd (run_state (internalGeocodeStores E N srv raw) w)"

text \<open>C33: The backfill starves: once the oldest stores without coordinates, as many as the limit, have
  addresses the provider cannot place precisely, any number \<open>n\<close> of passes changes no table and sends only
  requests for those stores' addresses (all of them again in every pass, if no pass is cancelled), and the
  next pass again places nothing and reports that more remain. So the younger stores behind them are never
  looked up, however often it is repeated.\<close>

theorem backfill_starves:
  assumes "no_faults E" and "geocode_limit raw = Some limit"
    and "nat limit < length (filter missing_coords (stores (db w)))"
    and "\<forall>s \<in> set (oldest_missing (nat limit) (db w)). \<forall>i hit.
      gsi_result (gsi_get N i (gsi_endpoint (sv_geocoder srv) (Normalize (st_Address s)))) = Inr hit \<longrightarrow> \<not> ge_Precise hit"
    and "(backfill_pass E N srv raw ^^ n) w w'"
  shows "db w' = db w
    \<and> (let tried = lookups (sv_geocoder srv) (map st_Address (oldest_missing (nat limit) (db w))) in
        \<exists>us. visited w' = visited w @ us \<and> set us \<subseteq> set tried
          \<and> (never_done N \<longrightarrow> us = concat (replicate n tried)))
    \<and> (\<exists>res. fst (run_state (internalGeocodeStores E N srv raw) w') = Reply StatusOK res
        \<and> gb_Geocoded res = 0 \<and> gb_Remaining res = 1)"
proof -
  let ?ss = "oldest_missing (nat limit) (db w)"
  let ?tried = "lookups (sv_geocoder srv) (map st_Address ?ss)"
  have pass: "db (snd (run_state (internalGeocodeStores E N srv raw) v)) = db w
      \<and> looked N (sv_geocoder srv) (map st_Address ?ss) v (snd (run_state (internalGeocodeStores E N srv raw) v))
      \<and> (\<exists>res. fst (run_state (internalGeocodeStores E N srv raw) v) = Reply StatusOK res
          \<and> gb_Geocoded res = 0 \<and> gb_Remaining res = 1)" if v: "db v = db w" for v
  proof -
    have f: "db_fault E (ticks v) = NoFault" using assms(1) by simp
    obtain res v' where r: "run_state (geocode_stores E N (sv_geocoder srv) (oldest_missing (nat limit) (db v))
        (no_attempts (length (oldest_missing (Suc (nat limit)) (db v)) - nat limit))) (v\<lparr>ticks := Suc (ticks v)\<rparr>) = (res, v')"
      by fastforce
    have "length (oldest_missing (Suc (nat limit)) (db v)) - nat limit = 1"
      using assms(3) v by (simp add: oldest_missing_def)
    moreover note wpD[OF geocode_stores_unplaceable r] wpD[OF wp_geocode_stores[OF subset_refl] r]
    ultimately show ?thesis
      using assms(4) v unfolding run_backfill[OF assms(2) f] r by (simp add: no_attempts_def looked_def)
  qed
  have "db w' = db w \<and> (\<exists>us. visited w' = visited w @ us \<and> set us \<subseteq> set ?tried
      \<and> (never_done N \<longrightarrow> us = concat (replicate n ?tried)))"
    using assms(5)
  proof (induction n arbitrary: w')
    case (Suc n)
    then obtain v where v: "(backfill_pass E N srv raw ^^ n) w v" "backfill_pass E N srv raw v w'" by auto
    from Suc(1)[OF v(1)] obtain us where us: "db v = db w" "visited v = visited w @ us" "set us \<subseteq> set ?tried"
      "never_done N \<longrightarrow> us = concat (replicate n ?tried)" by blast
    from pass[OF us(1)] v(2) obtain vs where vs: "db w' = db w" "visited w' = visited v @ vs" "subseq vs ?tried"
      "never_done N \<longrightarrow> vs = ?tried"
      by (auto simp: backfill_pass_def looked_def)
    have "set vs \<subseteq> set ?tried" using list_emb_set[OF vs(3)] by blast
    moreover have "concat (replicate (Suc n) ?tried) = concat (replicate n ?tried) @ ?tried"
      by (simp flip: replicate_append_same)
    ultimately show ?case using us vs by (intro conjI exI[of _ "us @ vs"]) auto
  qed simp
  then show ?thesis using pass[of w'] by (simp add: Let_def)
qed

text \<open>A lookup for the store form changes no table, and a found address was one request to the
  provider for the normalised query that the answer reports.\<close>

lemma geocode_address_honest:
  assumes "run_state (internalGeocodeAddress E N srv body) w = (r, w')"
  shows "db w' = db w \<and> (\<forall>b. r = Reply StatusOK b \<longrightarrow>
    visited w' = visited w @ [gsi_endpoint (sv_geocoder srv) (gp_NormalizedQuery b)]
  \<and> (\<exists>i req hit. body = Some req \<and> gp_NormalizedQuery b = Normalize (ga_Address req)
      \<and> gsi_result (gsi_get N i (gsi_endpoint (sv_geocoder srv) (gp_NormalizedQuery b))) = Inr hit
      \<and> gp_Lat b = ge_Lat hit \<and> gp_Lng b = ge_Lng hit \<and> gp_Precise b = ge_Precise hit))"
proof (cases "ShouldBindJSON valid_geocodeAddressRequest body")
  case None
  then show ?thesis using assms by (auto simp: internalGeocodeAddress_def)
next
  case (Some req)
  have "wp (internalGeocodeAddress E N srv body) (\<lambda>r w'. db w' = db w \<and> (\<forall>b. r = Reply StatusOK b \<longrightarrow>
      visited w' = visited w @ [gsi_endpoint (sv_geocoder srv) (gp_NormalizedQuery b)]
    \<and> (\<exists>i req hit. body = Some req \<and> gp_NormalizedQuery b = Normalize (ga_Address req)
        \<and> gsi_result (gsi_get N i (gsi_endpoint (sv_geocoder srv) (gp_NormalizedQuery b))) = Inr hit
        \<and> gp_Lat b = ge_Lat hit \<and> gp_Lng b = ge_Lng hit \<and> gp_Precise b = ge_Precise hit))) w"
    unfolding internalGeocodeAddress_def Some option.case wp_bind
    by (rule wp_Geocode_hit) ((use Some in \<open>auto split: sum.splits geo_error.splits\<close>), blast)
  from wpD[OF this assms] show ?thesis .
qed

end
