(* ===== verification/GF_Uploads.thy ===== *)
theory GF_Uploads
  imports GF_Net
begin

text \<open>
  \<open>api/uploads.go\<close> and \<open>blobstore/blobstore.go\<close>: an uploaded image is sniffed, written to the
  bucket under a random name and answered with its public URL. The world's \<open>objects\<close> are the writes
  the bucket has seen.
\<close>

section \<open>Content sniffing\<close>

definition StatusRequestEntityTooLarge :: nat where "StatusRequestEntityTooLarge = 413"
definition StatusUnsupportedMediaType :: nat where "StatusUnsupportedMediaType = 415"

text \<open>\<open>http.DetectContentType\<close>, as far as the three image types are concerned: their signatures
  start with bytes no earlier signature of its table accepts.\<close>

definition jpeg_sig :: string where "jpeg_sig = bytes [0xFF, 0xD8, 0xFF]"
definition png_sig :: string where "png_sig = bytes [0x89, 0x50, 0x4E, 0x47, 0x0D, 0x0A, 0x1A, 0x0A]"

definition DetectImageType :: "string \<Rightarrow> string option" where
  "DetectImageType data =
     (if take 4 data = ''RIFF'' \<and> take 6 (drop 8 data) = ''WEBPVP'' then Some ''image/webp''
      else if take 8 data = png_sig then Some ''image/png''
      else if take 3 data = jpeg_sig then Some ''image/jpeg''
      else None)"

text \<open>The file is in memory, so that a read fills the 512 bytes as far as there are any, only an empty
  one fails, and rewinding succeeds.\<close>

definition sniffImageType :: "string \<Rightarrow> string + string" where
  "sniffImageType f =
     (let head = take 512 f in
      if head = [] then Inl ''could not read the uploaded file''
      else case DetectImageType head of
        Some ct \<Rightarrow> Inr ct
      | None \<Rightarrow> Inl ''only JPEG, PNG and WebP images are accepted'')"

section \<open>Bucket\<close>

definition extByContentType :: "string \<rightharpoonup> string" where
  "extByContentType = [''image/jpeg'' \<mapsto> ''.jpg'', ''image/png'' \<mapsto> ''.png'', ''image/webp'' \<mapsto> ''.webp'']"

text \<open>\<open>uuid.NewString\<close> panics when the randomness fails.\<close>

datatype upload_error = ErrUnsupportedType | UploadFailed | UploadPanic

definition put_object :: "net \<Rightarrow> string \<times> string \<times> string \<Rightarrow> (world, bool) state" where
  "put_object N ob = do {
     i \<leftarrow> tick;
     State (\<lambda>w. (gcs_fault N i = NoFault,
                 if gcs_fault N i = LostRequest then w else w\<lparr>objects := objects w @ [ob]\<rparr>))
   }"

definition Upload ::
  "env \<Rightarrow> net \<Rightarrow> string \<Rightarrow> string \<Rightarrow> string \<Rightarrow> string \<Rightarrow> (world, upload_error + string) state" where
  "Upload E N bucket prefix contentType data =
     (case extByContentType contentType of
        None \<Rightarrow> State_Monad.return (Inl ErrUnsupportedType)
      | Some ext \<Rightarrow> do {
          u \<leftarrow> NewRandom E;
          case u of
            None \<Rightarrow> State_Monad.return (Inl UploadPanic)
          | Some uid \<Rightarrow> do {
              let ob = prefix @ ''/'' @ uuid_String N uid @ ext;
              ok \<leftarrow> put_object N (ob, contentType, data);
              State_Monad.return (if ok then Inr (''https://storage.googleapis.com/'' @ bucket @ ''/'' @ ob)
                else Inl UploadFailed)
            }
        })"

section \<open>Handler\<close>

definition uploadPrefixes :: "string \<rightharpoonup> string" where
  "uploadPrefixes = [''store'' \<mapsto> ''stores'', ''menu'' \<mapsto> ''menu'']"

definition maxUploadBytes :: nat where "maxUploadBytes = 8 * 2 ^ 20"

text \<open>The form file of a request: its declared size, and its bytes or why it cannot be opened.\<close>

record form_file =
  ff_Size :: nat
  ff_Open :: "string + string"

text \<open>\<open>kind\<close> is the query parameter, \<open>None\<close> when absent; \<open>file\<close> is \<open>None\<close> without a readable form
  field within the size limit. A panic becomes gin's 500.\<close>

definition internalUploadImage ::
  "env \<Rightarrow> net \<Rightarrow> Server \<Rightarrow> string option \<Rightarrow> form_file option \<Rightarrow> (world, string reply) state" where
  "internalUploadImage E N srv kind file =
     (case sv_uploader srv of
        None \<Rightarrow> State_Monad.return (Fail StatusNotImplemented (ErrMsg ''image uploads are not configured''))
      | Some bucket \<Rightarrow>
          (case uploadPrefixes (case kind of None \<Rightarrow> ''store'' | Some k \<Rightarrow> k) of
             None \<Rightarrow> State_Monad.return (Fail StatusBadRequest (ErrMsg ''kind must be store or menu''))
           | Some prefix \<Rightarrow>
               (case file of
                  None \<Rightarrow> State_Monad.return (Fail StatusBadRequest (ErrMsg ''expected a multipart form field file''))
                | Some header \<Rightarrow>
                    (if ff_Size header > maxUploadBytes
                     then State_Monad.return (Fail StatusRequestEntityTooLarge (ErrMsg ''image is too large (max 8MB)''))
                     else case ff_Open header of
                       Inl err \<Rightarrow> State_Monad.return (Fail StatusBadRequest (ErrLib err))
                     | Inr f \<Rightarrow>
                         (case sniffImageType f of
                            Inl err \<Rightarrow> State_Monad.return (Fail StatusUnsupportedMediaType (ErrMsg err))
                          | Inr contentType \<Rightarrow> do {
                              r \<leftarrow> Upload E N bucket prefix contentType f;
                              State_Monad.return (case r of
                                Inl ErrUnsupportedType \<Rightarrow> Fail StatusUnsupportedMediaType (ErrLib ''unsupported image type'')
                              | Inl UploadFailed \<Rightarrow> Fail StatusInternalServerError (ErrLib ''upload'')
                              | Inl UploadPanic \<Rightarrow> Fail StatusInternalServerError (ErrLib ''panic'')
                              | Inr url \<Rightarrow> Reply StatusCreated url)
                            })))))"

section \<open>Facts\<close>

lemma wp_put_object [simp]:
  "wp (put_object N ob) Q w =
     Q (gcs_fault N (ticks w) = NoFault)
       (if gcs_fault N (ticks w) = LostRequest then w\<lparr>ticks := Suc (ticks w)\<rparr>
        else w\<lparr>ticks := Suc (ticks w), objects := objects w @ [ob]\<rparr>)"
  by (simp add: put_object_def wp_def)

text \<open>The sniffed type and the extension table agree: a sniffed image is never unsupported.\<close>

lemma sniffed_supported: "sniffImageType f = Inr ct \<Longrightarrow> DetectImageType (take 512 f) = Some ct
    \<and> ct \<in> {''image/jpeg'', ''image/png'', ''image/webp''} \<and> extByContentType ct \<noteq> None"
  by (auto simp: sniffImageType_def DetectImageType_def extByContentType_def Let_def split: if_splits option.splits)

lemma uploadPrefixes_Some:
  "uploadPrefixes (case kind of None \<Rightarrow> ''store'' | Some k \<Rightarrow> k) = Some p \<Longrightarrow>
     (kind = None \<or> kind = Some ''store'') \<and> p = ''stores'' \<or> kind = Some ''menu'' \<and> p = ''menu''"
  by (auto simp: uploadPrefixes_def split: if_splits option.splits)

lemma extension_of_type:
  "extByContentType ct = Some ext \<longleftrightarrow>
     (ct, ext) \<in> {(''image/jpeg'', ''.jpg''), (''image/png'', ''.png''), (''image/webp'', ''.webp'')}"
  by (auto simp: extByContentType_def)

text \<open>C34: An upload answered with a URL wrote exactly one object to the bucket: the whole file, under
  \<open>stores\<close> for a request without a kind or of kind \<open>store\<close> and under \<open>menu\<close> for kind \<open>menu\<close>, named by the
  random id drawn for it (nothing of it is the client's), with the content type that its first bytes prove
  and that type's extension, and the URL is that object's. Every other reply that is not a server error
  wrote nothing, and no upload touches a table.\<close>

theorem upload_sound:
  assumes "run_state (internalUploadImage E N srv kind file) w = (r, w')"
  shows "db w' = db w
    \<and> (\<forall>url. r = Reply StatusCreated url \<longrightarrow> (\<exists>bucket header f ct ext prefix uid. sv_uploader srv = Some bucket
        \<and> file = Some header \<and> ff_Open header = Inr f \<and> ff_Size header \<le> maxUploadBytes
        \<and> DetectImageType (take 512 f) = Some ct
        \<and> (ct, ext) \<in> {(''image/jpeg'', ''.jpg''), (''image/png'', ''.png''), (''image/webp'', ''.webp'')}
        \<and> ((kind = None \<or> kind = Some ''store'') \<and> prefix = ''stores'' \<or> kind = Some ''menu'' \<and> prefix = ''menu'')
        \<and> new_random E (ticks w) = Some uid
        \<and> url = ''https://storage.googleapis.com/'' @ bucket @ ''/'' @ prefix @ ''/'' @ uuid_String N uid @ ext
        \<and> objects w' = objects w @ [(prefix @ ''/'' @ uuid_String N uid @ ext, ct, f)]))
    \<and> ((\<forall>url. r \<noteq> Reply StatusCreated url) \<and> reply_code r \<noteq> StatusInternalServerError \<longrightarrow> objects w' = objects w)"
proof (cases "sv_uploader srv = None \<or> uploadPrefixes (case kind of None \<Rightarrow> ''store'' | Some k \<Rightarrow> k) = None
    \<or> file = None \<or> (\<exists>h. file = Some h \<and> (ff_Size h > maxUploadBytes
        \<or> (\<exists>e. ff_Open h = Inl e) \<or> (\<exists>f e. ff_Open h = Inr f \<and> sniffImageType f = Inl e)))")
  case True
  then show ?thesis using assms
    by (auto simp: internalUploadImage_def status_defs StatusUnsupportedMediaType_def
        StatusRequestEntityTooLarge_def split: option.splits sum.splits if_splits)
next
  case False
  then obtain bucket prefix h f ct where b: "sv_uploader srv = Some bucket"
    and p: "uploadPrefixes (case kind of None \<Rightarrow> ''store'' | Some k \<Rightarrow> k) = Some prefix"
    and h: "file = Some h" "ff_Open h = Inr f" "ff_Size h \<le> maxUploadBytes" "sniffImageType f = Inr ct"
    by (metis not_None_eq not_le old.sum.exhaust)
  obtain ext where ext: "extByContentType ct = Some ext" using sniffed_supported[OF h(4)] by blast
  have "internalUploadImage E N srv kind file = do {
      r \<leftarrow> Upload E N bucket prefix ct f;
      State_Monad.return (case r of
        Inl ErrUnsupportedType \<Rightarrow> Fail StatusUnsupportedMediaType (ErrLib ''unsupported image type'')
      | Inl UploadFailed \<Rightarrow> Fail StatusInternalServerError (ErrLib ''upload'')
      | Inl UploadPanic \<Rightarrow> Fail StatusInternalServerError (ErrLib ''panic'')
      | Inr url \<Rightarrow> Reply StatusCreated url) }"
    using b p h by (simp add: internalUploadImage_def)
  then have "wp (internalUploadImage E N srv kind file) (\<lambda>r w'. db w' = db w
      \<and> (\<forall>url. r = Reply StatusCreated url \<longrightarrow> (\<exists>uid. new_random E (ticks w) = Some uid
          \<and> url = ''https://storage.googleapis.com/'' @ bucket @ ''/'' @ prefix @ ''/'' @ uuid_String N uid @ ext
          \<and> objects w' = objects w @ [(prefix @ ''/'' @ uuid_String N uid @ ext, ct, f)]))
      \<and> ((\<forall>url. r \<noteq> Reply StatusCreated url) \<and> reply_code r \<noteq> StatusInternalServerError \<longrightarrow> objects w' = objects w)) w"
    by (auto simp: Upload_def ext Let_def split: option.split)
  note post = wpD[OF this assms]
  have kept: "DetectImageType (take 512 f) = Some ct"
    "(ct, ext) \<in> {(''image/jpeg'', ''.jpg''), (''image/png'', ''.png''), (''image/webp'', ''.webp'')}"
    "(kind = None \<or> kind = Some ''store'') \<and> prefix = ''stores'' \<or> kind = Some ''menu'' \<and> prefix = ''menu''"
    using sniffed_supported[OF h(4)] ext uploadPrefixes_Some[OF p] by (simp_all only: extension_of_type)
  show ?thesis
  proof (intro conjI allI impI)
    fix url
    assume "r = Reply StatusCreated url"
    with post obtain uid where "new_random E (ticks w) = Some uid"
      and "url = ''https://storage.googleapis.com/'' @ bucket @ ''/'' @ prefix @ ''/'' @ uuid_String N uid @ ext"
      and "objects w' = objects w @ [(prefix @ ''/'' @ uuid_String N uid @ ext, ct, f)]"
      by (elim conjE allE[of _ url]) auto
    with b h(1-3) kept show "\<exists>bucket header f ct ext prefix uid. sv_uploader srv = Some bucket
        \<and> file = Some header \<and> ff_Open header = Inr f \<and> ff_Size header \<le> maxUploadBytes
        \<and> DetectImageType (take 512 f) = Some ct
        \<and> (ct, ext) \<in> {(''image/jpeg'', ''.jpg''), (''image/png'', ''.png''), (''image/webp'', ''.webp'')}
        \<and> ((kind = None \<or> kind = Some ''store'') \<and> prefix = ''stores'' \<or> kind = Some ''menu'' \<and> prefix = ''menu'')
        \<and> new_random E (ticks w) = Some uid
        \<and> url = ''https://storage.googleapis.com/'' @ bucket @ ''/'' @ prefix @ ''/'' @ uuid_String N uid @ ext
        \<and> objects w' = objects w @ [(prefix @ ''/'' @ uuid_String N uid @ ext, ct, f)]"
      by (intro exI[of _ bucket] exI[of _ h] exI[of _ f] exI[of _ ct] exI[of _ ext] exI[of _ prefix]
          exI[of _ uid] conjI)
  qed (use post in simp_all)
qed

end
