(* ===== verification/GF_Crawl.thy ===== *)
theory GF_Crawl
  imports GF_Net
begin

unbundle bit_operations_syntax

text \<open>
  \<open>discovery/fetch.go\<close>: which URLs and which addresses the crawler may contact, its dialer and
  redirect policy, and the fetch of one page. The transport keeps connections open, so that an
  exchange may use an address dialed earlier; dialing every time is the general case. The client's
  time-outs are among the failures of the environment.
\<close>

section \<open>Addresses (\<open>publicIP\<close>)\<close>

text \<open>\<open>Prefix.Contains\<close>: the leading \<open>n\<close> bits agree.\<close>

definition in_prefix :: "'a::len word \<Rightarrow> nat \<Rightarrow> 'a word \<Rightarrow> bool" where
  "in_prefix p n a \<longleftrightarrow> drop_bit (LENGTH('a) - n) a = drop_bit (LENGTH('a) - n) p"

definition dotted :: "nat \<Rightarrow> nat \<Rightarrow> nat \<Rightarrow> nat \<Rightarrow> nat" where
  "dotted a b c d = ((a * 256 + b) * 256 + c) * 256 + d"

definition v4 :: "nat \<Rightarrow> nat \<Rightarrow> nat \<Rightarrow> nat \<Rightarrow> 32 word" where
  "v4 a b c d = word_of_nat (dotted a b c d)"

definition Is4In6 :: "128 word \<Rightarrow> bool" where
  "Is4In6 a \<longleftrightarrow> drop_bit 32 a = 0xFFFF"

text \<open>\<open>Unmap\<close> drops the zone together with the prefix.\<close>

definition Unmap :: "ip_addr \<Rightarrow> ip_addr" where
  "Unmap ip =
     (case ip of
        IPv4 a \<Rightarrow> IPv4 a
      | IPv6 a \<Rightarrow> if Is4In6 a then IPv4 (ucast a) else IPv6 a
      | IPv6Zone a \<Rightarrow> if Is4In6 a then IPv4 (ucast a) else IPv6Zone a)"

text \<open>The predicates of \<open>netip.Addr\<close> on each family; a zone does not matter to them.\<close>

definition loopback4 :: "32 word \<Rightarrow> bool" where "loopback4 a \<longleftrightarrow> in_prefix (v4 127 0 0 0) 8 a"
definition private4 :: "32 word \<Rightarrow> bool" where
  "private4 a \<longleftrightarrow> in_prefix (v4 10 0 0 0) 8 a \<or> in_prefix (v4 172 16 0 0) 12 a \<or> in_prefix (v4 192 168 0 0) 16 a"
definition link_local4 :: "32 word \<Rightarrow> bool" where "link_local4 a \<longleftrightarrow> in_prefix (v4 169 254 0 0) 16 a"
definition multicast4 :: "32 word \<Rightarrow> bool" where "multicast4 a \<longleftrightarrow> in_prefix (v4 224 0 0 0) 4 a"
definition global_unicast4 :: "32 word \<Rightarrow> bool" where
  "global_unicast4 a \<longleftrightarrow> a \<noteq> 0 \<and> a \<noteq> v4 255 255 255 255 \<and> \<not> loopback4 a \<and> \<not> multicast4 a \<and> \<not> link_local4 a"

definition loopback6 :: "128 word \<Rightarrow> bool" where "loopback6 a \<longleftrightarrow> a = 1"
definition private6 :: "128 word \<Rightarrow> bool" where "private6 a \<longleftrightarrow> in_prefix (push_bit 120 0xFC) 7 a"
definition link_local6 :: "128 word \<Rightarrow> bool" where "link_local6 a \<longleftrightarrow> in_prefix (push_bit 112 0xFE80) 10 a"
definition multicast6 :: "128 word \<Rightarrow> bool" where "multicast6 a \<longleftrightarrow> in_prefix (push_bit 120 0xFF) 8 a"
definition global_unicast6 :: "128 word \<Rightarrow> bool" where
  "global_unicast6 a \<longleftrightarrow> a \<noteq> 0 \<and> \<not> loopback6 a \<and> \<not> multicast6 a \<and> \<not> link_local6 a"

text \<open>The list of further ranges, by family; a prefix contains no address of the other family.\<close>

definition blocked4 :: "(32 word \<times> nat) list" where
  "blocked4 = [(v4 100 64 0 0, 10), (v4 192 0 0 0, 24), (v4 192 0 2 0, 24), (v4 198 18 0 0, 15),
     (v4 198 51 100 0, 24), (v4 203 0 113 0, 24), (v4 240 0 0 0, 4)]"

definition blocked6 :: "(128 word \<times> nat) list" where
  "blocked6 = [(push_bit 96 0x20010DB8, 32), (push_bit 112 0x2002, 16), (push_bit 96 0x0064FF9B, 96)]"

text \<open>A zoned address is in no prefix, hence not in \<open>2000::/3\<close>.\<close>

definition publicIP :: "ip_addr \<Rightarrow> bool" where
  "publicIP ip =
     (case Unmap ip of
        IPv4 a \<Rightarrow> global_unicast4 a \<and> \<not> private4 a \<and> \<not> loopback4 a \<and> \<not> link_local4 a
          \<and> \<not> list_ex (\<lambda>(p, n). in_prefix p n a) blocked4
      | IPv6 a \<Rightarrow> in_prefix (push_bit 112 0x2000) 3 a
          \<and> global_unicast6 a \<and> \<not> private6 a \<and> \<not> loopback6 a \<and> \<not> link_local6 a
          \<and> \<not> list_ex (\<lambda>(p, n). in_prefix p n a) blocked6
      | IPv6Zone a \<Rightarrow> False)"

section \<open>URLs\<close>

definition errExpectedPublicURL :: string where
  "errExpectedPublicURL = ''expected a public HTTP(S) URL on port 80 or 443''"

definition URL :: "net \<Rightarrow> string \<Rightarrow> string + web_url" where
  "URL N raw =
     (case url_Parse N (TrimSpace raw) of
        None \<Rightarrow> Inl errExpectedPublicURL
      | Some u \<Rightarrow>
          (if wu_Hostname u = [] \<or> wu_HasUser u \<or> wu_Scheme u \<noteq> ''http'' \<and> wu_Scheme u \<noteq> ''https''
            \<or> wu_Port u \<noteq> [] \<and> wu_Port u \<noteq> ''80'' \<and> wu_Port u \<noteq> ''443''
           then Inl errExpectedPublicURL
           else case ParseAddr N (wu_Hostname u) of
             Some ip \<Rightarrow>
               (if \<not> publicIP ip then Inl ''private network URLs are not allowed''
                else Inr (u\<lparr>wu_Fragment := []\<rparr>))
           | None \<Rightarrow> Inr (u\<lparr>wu_Fragment := []\<rparr>)))"

section \<open>The client\<close>

text \<open>\<open>DialContext\<close>: every address of the host must be public, and the first of them is dialed.\<close>

definition dial :: "net \<Rightarrow> string \<Rightarrow> (world, string option) state" where
  "dial N host = do {
     i \<leftarrow> tick;
     case LookupNetIP N i host of
       None \<Rightarrow> State_Monad.return (Some ''lookup failed'')
     | Some ips \<Rightarrow>
         (if ips = [] then State_Monad.return (Some ''host has no addresses'')
          else if \<not> list_all publicIP ips
          then State_Monad.return (Some ''private network destinations are blocked'')
          else State (\<lambda>w. (None, w\<lparr>dialed := dialed w @ [hd ips]\<rparr>)))
   }"

text \<open>\<open>client.Do\<close> from the request for the URL \<open>t\<close>, with \<open>left\<close> redirects to go: \<open>CheckRedirect\<close>
  refuses the third one (\<open>len(via) >= 3\<close>) and any to a URL that \<open>URL\<close> refuses. The result is the
  status, the body, the final URL and the content type. A request that the transport itself sends again,
  because its kept connection was dropped, is not counted.\<close>

fun client_Do :: "net \<Rightarrow> nat \<Rightarrow> string \<Rightarrow> (world, string + nat \<times> string option \<times> string \<times> string) state" where
  "client_Do N left t =
     (case url_Parse N t of
        None \<Rightarrow> State_Monad.return (Inl ''invalid URL'')
      | Some u \<Rightarrow> do {
          d \<leftarrow> dial N (wu_Hostname u);
          case d of
            Some err \<Rightarrow> State_Monad.return (Inl err)
          | None \<Rightarrow> do {
              i \<leftarrow> visit t;
              case web_get N i t of
                HopFail err \<Rightarrow> State_Monad.return (Inl err)
              | HopDone code body kind \<Rightarrow> State_Monad.return (Inr (code, body, t, kind))
              | HopRedirect t' \<Rightarrow>
                  (case left of
                     0 \<Rightarrow> State_Monad.return (Inl ''too many redirects'')
                   | Suc l \<Rightarrow>
                       (case URL N t' of
                          Inl err \<Rightarrow> State_Monad.return (Inl err)
                        | Inr _ \<Rightarrow> client_Do N l t'))
            }
        })"

definition maxRedirects :: nat where "maxRedirects = 2"

definition maxPageBytes :: nat where "maxPageBytes = 2 * 2 ^ 20"

text \<open>The page's bytes, its final URL and its content type.\<close>

definition fetch :: "net \<Rightarrow> string \<Rightarrow> (world, string + string \<times> string \<times> string) state" where
  "fetch N raw =
     (case URL N raw of
        Inl err \<Rightarrow> State_Monad.return (Inl err)
      | Inr u \<Rightarrow> do {
          r \<leftarrow> client_Do N maxRedirects (url_String N u);
          State_Monad.return (case r of
            Inl err \<Rightarrow> Inl (''source could not be fetched: '' @ err)
          | Inr (code, body, final, kind) \<Rightarrow>
              (if code \<noteq> StatusOK then Inl (''source returned HTTP '' @ Itoa (int code))
               else case body of
                 None \<Rightarrow> Inl ''unexpected EOF''
               | Some data \<Rightarrow>
                   (if length data > maxPageBytes then Inl ''source exceeds 2 MiB limit''
                    else Inr (data, final, kind))))
        })"

declare client_Do.simps [simp del]

section \<open>Where the crawler connects\<close>

text \<open>Between two states every connection went to a public address, and at most \<open>n\<close> requests were
  sent; \<open>db\<close> is left alone.\<close>

definition crawled :: "nat \<Rightarrow> world \<Rightarrow> world \<Rightarrow> bool" where
  "crawled n w w' \<longleftrightarrow>
     (\<exists>us ips. visited w' = visited w @ us \<and> length us \<le> n
        \<and> dialed w' = dialed w @ ips \<and> list_all publicIP ips)"

lemma crawled_0 [simp]: "crawled 0 w w"
  by (simp add: crawled_def)

lemma crawled_add: "crawled m u v \<Longrightarrow> crawled n v w \<Longrightarrow> crawled (m + n) u w"
  unfolding crawled_def by (elim exE conjE) (auto intro!: exI)

lemma crawled_mono: "crawled m u v \<Longrightarrow> m \<le> n \<Longrightarrow> crawled n u v"
  unfolding crawled_def by (elim exE conjE) (auto intro!: exI)

lemma wp_dial:
  assumes "\<And>err. Q (Some err) (w\<lparr>ticks := Suc (ticks w)\<rparr>)"
    and "\<And>ip. publicIP ip \<Longrightarrow> Q None (w\<lparr>ticks := Suc (ticks w), dialed := dialed w @ [ip]\<rparr>)"
  shows "wp (dial N host) Q w"
proof -
  have "publicIP (hd ips)" if "ips \<noteq> []" "list_all publicIP ips" for ips
    using that by (cases ips) auto
  then show ?thesis using assms
    by (auto simp: dial_def split: option.split) (auto simp: wp_def)
qed

lemma wp_client_Do:
  "wp (client_Do N left t) (\<lambda>_ w'. crawled (Suc left) w w' \<and> db w' = db w) w"
proof (induction left arbitrary: t w)
  case 0
  show ?case
    by (subst client_Do.simps)
      (auto simp: crawled_def intro!: wp_dial split: option.split http_reply.split)
next
  case (Suc left)
  have step: "wp (client_Do N left t') (\<lambda>_ w'. crawled (Suc (Suc left)) w w' \<and> db w' = db w) v"
    if "crawled 1 w v" "db v = db w" for t' v
    using Suc[of t' v] that by (auto elim!: wp_mono dest: crawled_add)
  show ?case
    by (subst client_Do.simps)
      (auto intro!: wp_dial step split: option.split http_reply.split sum.split, simp_all add: crawled_def)
qed

lemma wp_fetch: "wp (fetch N raw) (\<lambda>_ w'. crawled 3 w w' \<and> db w' = db w) w"
proof (cases "URL N raw")
  case (Inr u)
  have "wp (client_Do N maxRedirects (url_String N u)) (\<lambda>_ w'. crawled 3 w w' \<and> db w' = db w) w"
    using wp_client_Do[of N maxRedirects "url_String N u" w] by (simp add: maxRedirects_def numeral_3_eq_3)
  then show ?thesis by (auto simp: fetch_def Inr elim: wp_mono)
qed (simp add: fetch_def crawled_mono[OF crawled_0])


section \<open>The public addresses\<close>

text \<open>The addresses the crawler refuses, as intervals.\<close>

definition reserved4 :: "(nat \<times> nat) list" where
  "reserved4 =
     [(dotted 0 0 0 0, dotted 0 0 0 0), (dotted 10 0 0 0, dotted 10 255 255 255),
      (dotted 100 64 0 0, dotted 100 127 255 255), (dotted 127 0 0 0, dotted 127 255 255 255),
      (dotted 169 254 0 0, dotted 169 254 255 255), (dotted 172 16 0 0, dotted 172 31 255 255),
      (dotted 192 0 0 0, dotted 192 0 0 255), (dotted 192 0 2 0, dotted 192 0 2 255),
      (dotted 192 168 0 0, dotted 192 168 255 255), (dotted 198 18 0 0, dotted 198 19 255 255),
      (dotted 198 51 100 0, dotted 198 51 100 255), (dotted 203 0 113 0, dotted 203 0 113 255),
      (dotted 224 0 0 0, dotted 255 255 255 255)]"

lemma div_eq_interval: "0 < (m :: nat) \<Longrightarrow> n div m = q \<longleftrightarrow> q * m \<le> n \<and> n < Suc q * m"
  using dividend_less_div_times[of m n] div_times_less_eq_dividend[of n m]
  by (auto intro!: div_nat_eqI simp: mult.commute add.commute)

lemma in_prefix_interval:
  fixes a :: "32 word"
  assumes "p mod 2 ^ (32 - n) = 0" and "p < 2 ^ 32"
  shows "in_prefix (word_of_nat p) n a \<longleftrightarrow> p \<le> unat a \<and> unat a \<le> p + 2 ^ (32 - n) - 1"
proof -
  let ?m = "2 ^ (32 - n) :: nat"
  have p: "unat (word_of_nat p :: 32 word) = p" using assms(2) by (simp add: unsigned_of_nat take_bit_nat_eq_self)
  have "in_prefix (word_of_nat p) n a \<longleftrightarrow> unat a div ?m = p div ?m"
    by (simp only: in_prefix_def word_unat_eq_iff unat_drop_bit_eq p) (simp add: drop_bit_eq_div)
  also have "\<dots> \<longleftrightarrow> p \<le> unat a \<and> unat a < p + ?m"
  proof -
    have q: "p div ?m * ?m = p" using assms(1) by (metis add.right_neutral div_mult_mod_eq)
    have "0 < ?m" by simp
    from div_eq_interval[OF this, of "unat a" "p div ?m"] show ?thesis
      unfolding mult_Suc q by (simp only: add.commute)
  qed
  finally have "in_prefix (word_of_nat p) n a \<longleftrightarrow> p \<le> unat a \<and> unat a < p + ?m" .
  moreover have "unat a < p + ?m \<longleftrightarrow> unat a \<le> p + ?m - 1"
    using zero_less_power[of "2 :: nat" "32 - n"] by linarith
  ultimately show ?thesis by simp
qed

lemma ranges4:
  fixes a :: "32 word"
  shows "a = 0 \<longleftrightarrow> dotted 0 0 0 0 \<le> unat a \<and> unat a \<le> dotted 0 0 0 0"
    "in_prefix (v4 10 0 0 0) 8 a \<longleftrightarrow> dotted 10 0 0 0 \<le> unat a \<and> unat a \<le> dotted 10 255 255 255"
    "in_prefix (v4 100 64 0 0) 10 a \<longleftrightarrow> dotted 100 64 0 0 \<le> unat a \<and> unat a \<le> dotted 100 127 255 255"
    "in_prefix (v4 127 0 0 0) 8 a \<longleftrightarrow> dotted 127 0 0 0 \<le> unat a \<and> unat a \<le> dotted 127 255 255 255"
    "in_prefix (v4 169 254 0 0) 16 a \<longleftrightarrow> dotted 169 254 0 0 \<le> unat a \<and> unat a \<le> dotted 169 254 255 255"
    "in_prefix (v4 172 16 0 0) 12 a \<longleftrightarrow> dotted 172 16 0 0 \<le> unat a \<and> unat a \<le> dotted 172 31 255 255"
    "in_prefix (v4 192 0 0 0) 24 a \<longleftrightarrow> dotted 192 0 0 0 \<le> unat a \<and> unat a \<le> dotted 192 0 0 255"
    "in_prefix (v4 192 0 2 0) 24 a \<longleftrightarrow> dotted 192 0 2 0 \<le> unat a \<and> unat a \<le> dotted 192 0 2 255"
    "in_prefix (v4 192 168 0 0) 16 a \<longleftrightarrow> dotted 192 168 0 0 \<le> unat a \<and> unat a \<le> dotted 192 168 255 255"
    "in_prefix (v4 198 18 0 0) 15 a \<longleftrightarrow> dotted 198 18 0 0 \<le> unat a \<and> unat a \<le> dotted 198 19 255 255"
    "in_prefix (v4 198 51 100 0) 24 a \<longleftrightarrow> dotted 198 51 100 0 \<le> unat a \<and> unat a \<le> dotted 198 51 100 255"
    "in_prefix (v4 203 0 113 0) 24 a \<longleftrightarrow> dotted 203 0 113 0 \<le> unat a \<and> unat a \<le> dotted 203 0 113 255"
  unfolding v4_def
  by (simp add: dotted_def unat_eq_zero) (subst in_prefix_interval; simp add: dotted_def)+

lemma top_range4:
  fixes a :: "32 word"
  shows "in_prefix (v4 224 0 0 0) 4 a \<or> in_prefix (v4 240 0 0 0) 4 a \<or> a = v4 255 255 255 255
    \<longleftrightarrow> dotted 224 0 0 0 \<le> unat a \<and> unat a \<le> dotted 255 255 255 255"
proof -
  have "unat a < 2 ^ 32" using unsigned_less[where 'a = nat, of a] by simp
  moreover have "in_prefix (v4 224 0 0 0) 4 a \<longleftrightarrow> dotted 224 0 0 0 \<le> unat a \<and> unat a \<le> dotted 239 255 255 255"
    "in_prefix (v4 240 0 0 0) 4 a \<longleftrightarrow> dotted 240 0 0 0 \<le> unat a \<and> unat a \<le> dotted 255 255 255 255"
    unfolding v4_def by (subst in_prefix_interval; simp add: dotted_def)+
  moreover have "a = v4 255 255 255 255 \<longleftrightarrow> unat a = dotted 255 255 255 255"
    by (simp add: v4_def dotted_def word_unat_eq_iff)
  ultimately show ?thesis by (auto simp: dotted_def)
qed

text \<open>C35: The crawler's address filter on IPv4 is exactly this list of intervals: it refuses the
  unspecified address, loopback, private, link-local, carrier-grade, documentation, benchmarking,
  multicast and reserved addresses and nothing else; an IPv4 address written as an IPv6 one is judged
  the same; and the zone of an address is ignored when it is such a one and refused otherwise.\<close>

theorem public_addresses:
  "(publicIP (IPv4 a) \<longleftrightarrow> \<not> list_ex (\<lambda>(lo, hi). lo \<le> unat a \<and> unat a \<le> hi) reserved4)
   \<and> (publicIP (IPv6 (push_bit 32 0xFFFF OR ucast a)) \<longleftrightarrow> publicIP (IPv4 a))
   \<and> (publicIP (IPv6Zone b) \<longleftrightarrow> Is4In6 b \<and> publicIP (IPv6 b))"
proof -
  have "publicIP (IPv4 a) \<longleftrightarrow> \<not> list_ex (\<lambda>(lo, hi). lo \<le> unat a \<and> unat a \<le> hi) reserved4"
    by (simp only: publicIP_def Unmap_def ip_addr.case global_unicast4_def private4_def loopback4_def
        link_local4_def multicast4_def blocked4_def reserved4_def list_ex_iff list.set bex_simps prod.case ranges4
        top_range4[symmetric] simp_thms) argo
  moreover have nb: "\<not> bit a (32 + n)" for n using bit_imp_le_length[of a "32 + n"] by auto
  have "drop_bit 32 (push_bit 32 (mask 16) OR ucast a :: 128 word) = mask 16"
    "ucast (push_bit 32 (mask 16) OR ucast a :: 128 word) = a"
    by (auto intro!: bit_word_eqI simp: bit_simps nb)
  then have "publicIP (IPv6 (push_bit 32 0xFFFF OR ucast a)) \<longleftrightarrow> publicIP (IPv4 a)"
    by (simp add: publicIP_def Unmap_def Is4In6_def mask_eq_exp_minus_1)
  moreover have "publicIP (IPv6Zone b) \<longleftrightarrow> Is4In6 b \<and> publicIP (IPv6 b)" by (simp add: publicIP_def Unmap_def)
  ultimately show ?thesis by blast
qed

end
