(* ===== verification/GF_Extract.thy ===== *)
theory GF_Extract
  imports GF_Crawl
begin

text \<open>
  \<open>discovery/extract.go\<close>: from the HTML of a page to the one restaurant its schema.org markup
  describes, or to the links of a listing page. The HTML and JSON parsers are parameters; everything
  the code does with their trees is here. A slice out of range is a panic, the value \<open>None\<close>.
\<close>

section \<open>Runes\<close>

text \<open>The width of the UTF-8 sequence a string starts with, 0 when it starts with an invalid byte.\<close>

definition cont :: "nat \<Rightarrow> nat \<Rightarrow> nat list \<Rightarrow> nat \<Rightarrow> bool" where
  "cont lo hi bs i \<longleftrightarrow> i < length bs \<and> lo \<le> bs ! i \<and> bs ! i \<le> hi"

definition rune_width :: "nat list \<Rightarrow> nat" where
  "rune_width bs =
     (case bs of
        [] \<Rightarrow> 0
      | b # _ \<Rightarrow>
          if b < 0x80 then 1
          else if 0xC2 \<le> b \<and> b \<le> 0xDF then (if cont 0x80 0xBF bs 1 then 2 else 0)
          else if 0xE0 \<le> b \<and> b \<le> 0xEF
          then (if cont (if b = 0xE0 then 0xA0 else 0x80) (if b = 0xED then 0x9F else 0xBF) bs 1
                 \<and> cont 0x80 0xBF bs 2 then 3 else 0)
          else if 0xF0 \<le> b \<and> b \<le> 0xF4
          then (if cont (if b = 0xF0 then 0x90 else 0x80) (if b = 0xF4 then 0x8F else 0xBF) bs 1
                 \<and> cont 0x80 0xBF bs 2 \<and> cont 0x80 0xBF bs 3 then 4 else 0)
          else 0)"

text \<open>A string's runes, each with its bytes; an invalid byte is marked.\<close>

function runes :: "string \<Rightarrow> (bool \<times> string) list" where
  "runes s =
     (if s = [] then []
      else let n = rune_width (codes s) in
        if n = 0 then (False, [hd s]) # runes (tl s) else (True, take n s) # runes (drop n s))"
  by pat_completeness auto
termination
  by (relation "measure length") auto

declare runes.simps [simp del]

definition RuneError :: string where "RuneError = bytes [0xEF, 0xBF, 0xBD]"

definition clip :: "string \<Rightarrow> nat \<Rightarrow> string" where
  "clip s m =
     (let r = runes s in
      if length r > m then concat (map (\<lambda>(ok, b). if ok then b else RuneError) (take m r)) else s)"

text \<open>\<open>strings.ToValidUTF8(s, "")\<close>.\<close>

definition ToValidUTF8 :: "string \<Rightarrow> string" where
  "ToValidUTF8 s = concat (map snd (filter fst (runes s)))"

text \<open>\<open>strings.EqualFold\<close> against an ASCII word: the long s and the Kelvin sign fold to s and k.\<close>

definition fold_ascii :: "string \<Rightarrow> string" where
  "fold_ascii s =
     ToLower (ReplaceAll (ReplaceAll s (bytes [0xC5, 0xBF]) ''s'') (bytes [0xE2, 0x84, 0xAA]) ''k'')"

definition EqualFoldASCII :: "string \<Rightarrow> string \<Rightarrow> bool" where
  "EqualFoldASCII s t \<longleftrightarrow> fold_ascii s = ToLower t"

section \<open>HTML trees\<close>

definition attr :: "html \<Rightarrow> string \<Rightarrow> string" where
  "attr n key =
     (case n of
        Element _ attrs _ \<Rightarrow> (case find (\<lambda>a. fst a = key) attrs of Some a \<Rightarrow> snd a | None \<Rightarrow> [])
      | _ \<Rightarrow> [])"

fun walk :: "html \<Rightarrow> html list" where
  "walk (Element name attrs cs) = Element name attrs cs # concat (map walk cs)"
| "walk (TextNode t) = [TextNode t]"
| "walk (OtherNode cs) = OtherNode cs # concat (map walk cs)"

definition is_element :: "string \<Rightarrow> html \<Rightarrow> bool" where
  "is_element name n \<longleftrightarrow> (case n of Element d _ _ \<Rightarrow> d = name | _ \<Rightarrow> False)"

fun nodeText :: "html \<Rightarrow> string" where
  "nodeText (Element name attrs cs) =
     (if name = ''script'' \<or> name = ''style'' \<or> name = ''noscript'' then [] else concat (map nodeText cs))"
| "nodeText (TextNode t) = t @ '' ''"
| "nodeText (OtherNode cs) = concat (map nodeText cs)"

definition pageText :: "net \<Rightarrow> string \<Rightarrow> nat \<Rightarrow> string" where
  "pageText N data limit =
     (case html_Parse N data of
        None \<Rightarrow> []
      | Some doc \<Rightarrow> clip (strings_Join (Fields (nodeText doc)) '' '') limit)"

text \<open>The \<open>Data\<close> of a node's first child; for a script that is its text.\<close>

definition node_data :: "html \<Rightarrow> string" where
  "node_data n = (case n of Element d _ _ \<Rightarrow> d | TextNode t \<Rightarrow> t | OtherNode _ \<Rightarrow> [])"

definition first_child :: "html \<Rightarrow> html option" where
  "first_child n =
     (case n of Element _ _ (c # _) \<Rightarrow> Some c | OtherNode (c # _) \<Rightarrow> Some c | _ \<Rightarrow> None)"

text \<open>The JSON values of a page's ld+json scripts, in document order.\<close>

definition ld_json :: "net \<Rightarrow> html \<Rightarrow> json list" where
  "ld_json N doc =
     List.map_filter (\<lambda>n.
       if is_element ''script'' n \<and> EqualFoldASCII (attr n ''type'') ''application/ld+json''
       then (case first_child n of None \<Rightarrow> None | Some c \<Rightarrow> json_Unmarshal N (node_data c)) else None)
     (walk doc)"

section \<open>JSON values\<close>

text \<open>A key's value in a decoded object: the last one wins.\<close>

definition json_get :: "(string \<times> json) list \<Rightarrow> string \<Rightarrow> json option" where
  "json_get kvs k = map_of (rev kvs) k"

lemma json_get_size [termination_simp]:
  "json_get kvs k = Some v \<Longrightarrow> size v < Suc (size_list (\<lambda>x. Suc (size (snd x))) kvs)"
proof -
  assume "json_get kvs k = Some v"
  then have "(k, v) \<in> set kvs" by (auto simp: json_get_def dest: map_of_SomeD)
  then have "Suc (size (snd (k, v))) \<le> size_list (\<lambda>x. Suc (size (snd x))) kvs"
    by (induction kvs) auto
  then show ?thesis by simp
qed

definition stringValue :: "json option \<Rightarrow> string" where
  "stringValue v = (case v of Some (JStr s) \<Rightarrow> TrimSpace s | _ \<Rightarrow> [])"

definition first_nonempty :: "string list \<Rightarrow> string list" where
  "first_nonempty ss = (case filter (\<lambda>s. s \<noteq> []) ss of [] \<Rightarrow> [] | s # _ \<Rightarrow> [s])"

fun links :: "json \<Rightarrow> string list" where
  "links (JStr s) = [s]"
| "links (JArr xs) = concat (map links xs)"
| "links (JObj kvs) =
     first_nonempty (map (\<lambda>k. stringValue (json_get kvs k)) [''url'', ''contentUrl'', ''@id''])"
| "links _ = []"

definition links_opt :: "json option \<Rightarrow> string list" where
  "links_opt v = (case v of Some x \<Rightarrow> links x | None \<Rightarrow> [])"

definition schema_type :: "string \<Rightarrow> string" where
  "schema_type typ = TrimPrefix typ ''https://schema.org/''"

definition restaurant_types :: "string list" where
  "restaurant_types = [''Restaurant'', ''CafeOrCoffeeShop'', ''Bakery'', ''FoodEstablishment'']"

text \<open>\<open>restaurant\<close>: an object is found once for each of its types that names a restaurant; only
  \<open>@graph\<close> containers are entered.\<close>

fun restaurants :: "json \<Rightarrow> (string \<times> json) list list" where
  "restaurants (JArr xs) = concat (map restaurants xs)"
| "restaurants (JObj kvs) =
     map (\<lambda>_. kvs) (filter (\<lambda>t. schema_type t \<in> set restaurant_types) (links_opt (json_get kvs ''@type'')))
   @ (case json_get kvs ''@graph'' of Some g \<Rightarrow> restaurants g | None \<Rightarrow> [])"
| "restaurants _ = []"

section \<open>Candidates\<close>

record Candidate =
  cd_Name :: string
  cd_Address :: string
  cd_Phone :: string
  cd_SourceURL :: string
  cd_Cuisine :: string
  cd_Evidence :: string
  cd_Images :: "string list"
  cd_Menus :: "string list"
  cd_MenuText :: string
  cd_Warnings :: "string list"

definition addURL :: "net \<Rightarrow> web_url \<Rightarrow> string \<Rightarrow> string list \<Rightarrow> string list" where
  "addURL N base raw out =
     (if length out \<ge> 10 \<or> TrimSpace raw = [] then out
      else case url_Parse N raw of
        None \<Rightarrow> out
      | Some u \<Rightarrow>
          (let s = url_String N (url_Resolve N base u) in
           case URL N s of
             Inl _ \<Rightarrow> out
           | Inr _ \<Rightarrow> if s \<in> set out then out else out @ [s]))"

definition addURLs :: "net \<Rightarrow> web_url \<Rightarrow> string list \<Rightarrow> string list \<Rightarrow> string list" where
  "addURLs N base raws out = foldl (\<lambda>out raw. addURL N base raw out) out raws"

definition address_of :: "(string \<times> json) list \<Rightarrow> string" where
  "address_of r =
     (case json_get r ''address'' of
        Some (JStr a) \<Rightarrow> a
      | Some (JObj a) \<Rightarrow>
          strings_Join (filter (\<lambda>s. s \<noteq> [])
            (map (\<lambda>k. stringValue (json_get a k))
              [''postalCode'', ''addressRegion'', ''addressLocality'', ''streetAddress''])) '' ''
      | _ \<Rightarrow> [])"

definition katakana_gluten_free :: string where
  "katakana_gluten_free = bytes [0xE3, 0x82, 0xB0, 0xE3, 0x83, 0xAB, 0xE3, 0x83, 0x86, 0xE3, 0x83, 0xB3,
     0xE3, 0x83, 0x95, 0xE3, 0x83, 0xAA, 0xE3, 0x83, 0xBC]"

definition katakana_menu :: string where
  "katakana_menu = bytes [0xE3, 0x83, 0xA1, 0xE3, 0x83, 0x8B, 0xE3, 0x83, 0xA5, 0xE3, 0x83, 0xBC]"

definition needles :: "string list" where
  "needles = [''gluten-free'', ''gluten free'', katakana_gluten_free]"

text \<open>The first needle that occurs in the lower-case text decides; its offset there is used to slice the
  text itself, which panics when it lies past the text's end.\<close>

definition evidence_in :: "net \<Rightarrow> string \<Rightarrow> string option" where
  "evidence_in N text =
     (case List.map_filter (strings_Index (unicode_lower N text)) needles of
        [] \<Rightarrow> Some []
      | i # _ \<Rightarrow>
          (if i - 150 > length text then None
           else Some (clip (ToValidUTF8 (drop (i - 150) text)) 600)))"

definition menu_link :: "net \<Rightarrow> html \<Rightarrow> bool" where
  "menu_link N n \<longleftrightarrow> (let label = unicode_lower N (nodeText n @ '' '' @ attr n ''href'') in
     strings_Contains label ''menu'' \<or> strings_Contains label katakana_menu)"

text \<open>The images and menu links of the markup, then those of the page's own elements.\<close>

definition page_images :: "net \<Rightarrow> web_url \<Rightarrow> html \<Rightarrow> (string \<times> json) list \<Rightarrow> string list" where
  "page_images N base doc r =
     addURLs N base (links_opt (json_get r ''image'') @
       map (\<lambda>n. attr n ''content'')
         (filter (\<lambda>n. is_element ''meta'' n \<and> attr n ''property'' = ''og:image'') (walk doc))) []"

definition page_menus :: "net \<Rightarrow> web_url \<Rightarrow> html \<Rightarrow> (string \<times> json) list \<Rightarrow> string list" where
  "page_menus N base doc r =
     addURLs N base (links_opt (json_get r ''hasMenu'') @ links_opt (json_get r ''menu'') @
       map (\<lambda>n. attr n ''href'') (filter (\<lambda>n. is_element ''a'' n \<and> menu_link N n) (walk doc))) []"

definition warnings :: "string list" where
  "warnings =
     [''Gluten-free evidence is unverified. Check preparation and cross-contact with the restaurant.'',
      ''Image URLs are research sources; verify reuse permission before publishing.'']"

text \<open>\<open>None\<close> is a panic, \<open>Inl\<close> the error.\<close>

definition Extract :: "net \<Rightarrow> string \<Rightarrow> string \<Rightarrow> (string + Candidate) option" where
  "Extract N data source =
     (case URL N source of
        Inl err \<Rightarrow> Some (Inl err)
      | Inr base \<Rightarrow>
          (case html_Parse N data of
             None \<Rightarrow> Some (Inl ''html: parse error'')
           | Some doc \<Rightarrow>
               (case concat (map restaurants (ld_json N doc)) of
                  [r] \<Rightarrow>
                    (let name = clip (stringValue (json_get r ''name'')) 300;
                         address = clip (address_of r) 1000
                     in if name = [] \<or> address = []
                        then Some (Inl ''restaurant name or address is missing'')
                        else case evidence_in N (pageText N data 60000) of
                          None \<Rightarrow> None
                        | Some evidence \<Rightarrow>
                            (if evidence = []
                             then Some (Inl ''no gluten-free statement found on the source page'')
                             else Some (Inr
                               \<lparr>cd_Name = name, cd_Address = address,
                                cd_Phone = clip (stringValue (json_get r ''telephone'')) 100,
                                cd_SourceURL = url_String N base,
                                cd_Cuisine = clip (strings_Join (links_opt (json_get r ''servesCuisine'')) '', '') 200,
                                cd_Evidence = evidence, cd_Images = page_images N base doc r,
                                cd_Menus = page_menus N base doc r, cd_MenuText = [],
                                cd_Warnings = warnings\<rparr>)))
                | _ \<Rightarrow> Some (Inl ''page must identify exactly one restaurant using structured data; capture it manually if unavailable''))))"

section \<open>Links of a listing\<close>

definition aggregators :: "string list" where
  "aggregators =
     [''ubereats.com'', ''yelp.com'', ''tripadvisor.com'', ''tripadvisor.jp'', ''findmeglutenfree.com'',
      ''happycow.net'', ''wanderlog.com'', ''tabelog.com'', ''retty.me'', ''gnavi.co.jp'', ''hotpepper.jp'']"

definition socialHosts :: "string list" where
  "socialHosts =
     [''facebook.com'', ''instagram.com'', ''twitter.com'', ''x.com'', ''youtube.com'', ''tiktok.com'',
      ''pinterest.com'', ''linkedin.com'', ''line.me'', ''google.com'', ''apple.com'']"

definition assetExts :: "string list" where
  "assetExts =
     [''.jpg'', ''.jpeg'', ''.png'', ''.gif'', ''.webp'', ''.svg'', ''.css'', ''.js'', ''.ico'', ''.pdf'', ''.zip'', ''.mp4'']"

definition candidateLink :: "net \<Rightarrow> web_url \<Rightarrow> bool" where
  "candidateLink N u \<longleftrightarrow>
     (let host = unicode_lower N (wu_Hostname u) in
      \<not> list_ex (\<lambda>d. host = d \<or> HasSuffix host (CHR ''.'' # d)) (aggregators @ socialHosts))
   \<and> (let path = unicode_lower N (wu_Path u) in \<not> list_ex (\<lambda>ext. HasSuffix path ext) assetExts)"

definition listing_types :: "string list" where
  "listing_types = restaurant_types @ [''LocalBusiness'', ''ListItem'']"

fun listingURLs :: "json \<Rightarrow> string list" where
  "listingURLs (JArr xs) = concat (map listingURLs xs)"
| "listingURLs (JObj kvs) =
     concat (map (\<lambda>_. first_nonempty [stringValue (json_get kvs ''url''), stringValue (json_get kvs ''@id'')])
       (filter (\<lambda>t. schema_type t \<in> set listing_types) (links_opt (json_get kvs ''@type''))))
   @ (case json_get kvs ''itemListElement'' of Some c \<Rightarrow> listingURLs c | None \<Rightarrow> [])
   @ (case json_get kvs ''@graph'' of Some c \<Rightarrow> listingURLs c | None \<Rightarrow> [])
   @ (case json_get kvs ''item'' of Some c \<Rightarrow> listingURLs c | None \<Rightarrow> [])
   @ (case json_get kvs ''mainEntity'' of Some c \<Rightarrow> listingURLs c | None \<Rightarrow> [])"
| "listingURLs _ = []"

text \<open>The loop over one script's links: \<open>seen\<close> and \<open>out\<close> are carried along. A full list or a blank link
  ends the script.\<close>

fun collect_links ::
  "net \<Rightarrow> web_url \<Rightarrow> nat \<Rightarrow> string list \<Rightarrow> string list \<times> string list \<Rightarrow> string list \<times> string list" where
  "collect_links N base m [] acc = acc"
| "collect_links N base m (raw # raws) acc =
     (case acc of (seen, out) \<Rightarrow>
        if length out \<ge> m \<or> TrimSpace raw = [] then (seen, out)
        else case url_Parse N (TrimSpace raw) of
          None \<Rightarrow> collect_links N base m raws (seen, out)
        | Some u \<Rightarrow>
            (case URL N (url_String N ((url_Resolve N base u)\<lparr>wu_Fragment := []\<rparr>)) of
               Inl _ \<Rightarrow> collect_links N base m raws (seen, out)
             | Inr v \<Rightarrow>
                 (let key = TrimSuffix (url_String N v) ''/'' in
                  if \<not> candidateLink N v \<or> key \<in> set seen then collect_links N base m raws (seen, out)
                  else collect_links N base m raws (key # seen, out @ [url_String N v]))))"

definition CandidateLinks :: "net \<Rightarrow> string \<Rightarrow> string \<Rightarrow> nat \<Rightarrow> string list" where
  "CandidateLinks N data source m =
     (if m = 0 then []
      else case URL N source of
        Inl _ \<Rightarrow> []
      | Inr base \<Rightarrow>
          (case html_Parse N data of
             None \<Rightarrow> []
           | Some doc \<Rightarrow>
               snd (foldl (\<lambda>acc v. collect_links N base m (listingURLs v) acc)
                 ([TrimSuffix (url_String N base) ''/''], []) (ld_json N doc))))"

section \<open>Properties\<close>

definition crawlable :: "net \<Rightarrow> string list \<Rightarrow> bool" where
  "crawlable N us \<longleftrightarrow> length us \<le> 10 \<and> distinct us \<and> (\<forall>u \<in> set us. \<exists>v. URL N u = Inr v)"

lemma addURL_crawlable: "crawlable N out \<Longrightarrow> crawlable N (addURL N base raw out)"
  by (auto simp: addURL_def crawlable_def Let_def split: option.split sum.split)

lemma addURLs_crawlable: "crawlable N (addURLs N base raws [])"
proof -
  have "crawlable N out \<Longrightarrow> crawlable N (foldl (\<lambda>out raw. addURL N base raw out) out raws)" for out
    by (induction raws arbitrary: out) (simp_all add: addURL_crawlable)
  moreover have "crawlable N []" by (simp add: crawlable_def)
  ultimately show ?thesis unfolding addURLs_def by blast
qed

text \<open>C36: A captured candidate is the page's own: the page's markup describes exactly one restaurant, the
  candidate's name is that object's, its name, address and gluten-free evidence are not empty, its
  source is the page, and its image and menu links are at most ten different URLs each that the
  crawler may visit.\<close>

theorem extract_sound:
  assumes "Extract N data source = Some (Inr c)"
  shows "(\<exists>base doc r. URL N source = Inr base \<and> html_Parse N data = Some doc
      \<and> concat (map restaurants (ld_json N doc)) = [r] \<and> cd_Name c = clip (stringValue (json_get r ''name'')) 300
      \<and> cd_Address c = clip (address_of r) 1000 \<and> cd_SourceURL c = url_String N base)
    \<and> cd_Name c \<noteq> [] \<and> cd_Address c \<noteq> [] \<and> cd_Evidence c \<noteq> []
    \<and> crawlable N (cd_Images c) \<and> crawlable N (cd_Menus c)"
  using assms addURLs_crawlable[of N]
  by (auto simp: Extract_def Let_def page_images_def page_menus_def
      split: sum.splits option.splits list.splits if_splits)

lemma Extract_one:
  assumes "URL N source = Inr base" and "html_Parse N data = Some doc"
    and "concat (map restaurants (ld_json N doc)) = [r]"
    and "clip (stringValue (json_get r ''name'')) 300 \<noteq> []" and "clip (address_of r) 1000 \<noteq> []"
  shows "Extract N data source = None \<longleftrightarrow> evidence_in N (pageText N data 60000) = None"
  using assms by (auto simp: Extract_def Let_def split: option.split)

text \<open>C37: Extraction can panic: on the page of one restaurant with a name and an address, when the
  lower-case text has the first gluten-free statement more than 150 bytes past the length of the text
  itself, the code slices the text out of range. Lower case is longer than the text for letters like
  U+023A (two bytes, whose lower case U+2C65 has three).\<close>

theorem extract_panics:
  assumes "URL N source = Inr base" and "html_Parse N data = Some doc"
    and "concat (map restaurants (ld_json N doc)) = [r]"
    and "clip (stringValue (json_get r ''name'')) 300 \<noteq> []" and "clip (address_of r) 1000 \<noteq> []"
    and "strings_Index (unicode_lower N (pageText N data 60000)) ''gluten-free'' = Some i"
    and "length (pageText N data 60000) + 150 < i"
  shows "Extract N data source = None"
proof -
  have "evidence_in N (pageText N data 60000) = None"
    using assms(6,7) by (simp add: evidence_in_def needles_def)
  then show ?thesis using Extract_one[OF assms(1-5)] by simp
qed

text \<open>A restaurant with two of the accepted types is refused as if it were two: when the only markup of
  a page is one object, not a container, whose \<open>@type\<close> lists both, the object is found twice and the
  page is reported not to identify exactly one restaurant.\<close>

lemma two_types_rejected:
  assumes "URL N source = Inr base" and "html_Parse N data = Some doc"
    and "ld_json N doc = [JObj kvs]" and "json_get kvs ''@graph'' = None"
    and "json_get kvs ''@type'' = Some (JArr [JStr ''Restaurant'', JStr ''CafeOrCoffeeShop''])"
  shows "Extract N data source =
    Some (Inl ''page must identify exactly one restaurant using structured data; capture it manually if unavailable'')"
proof -
  have "schema_type ''Restaurant'' = ''Restaurant''" "schema_type ''CafeOrCoffeeShop'' = ''CafeOrCoffeeShop''"
    by (simp_all add: schema_type_def TrimPrefix_def)
  then have "restaurants (JObj kvs) = [kvs, kvs]"
    using assms(4,5) by (simp add: links_opt_def restaurant_types_def)
  then show ?thesis using assms(1-3) by (simp add: Extract_def)
qed

end
