(* ===== verification/GF_Discovery.thy ===== *)
theory GF_Discovery
  imports GF_Extract GF_Internal
begin

text \<open>
  \<open>discovery/service.go\<close>, \<open>db/sqlc/discovery.go\<close> and \<open>api/discovery.go\<close>: the web search, the capture
  of a page, the transaction that saves a draft, and the operator's discovery request with its two
  nested loops. A panic of a capture ends the request, as \<open>None\<close>; drafts saved before stay saved.
\<close>

section \<open>Search\<close>

definition SearchQuery :: "string \<Rightarrow> string \<Rightarrow> string \<Rightarrow> string" where
  "SearchQuery wardEn wardJa keywords =
     strings_Join (Fields (wardEn @ '' '' @ wardJa @ '' Tokyo '' @ keywords @ '' gluten free ''
       @ katakana_gluten_free @ '' restaurant'')) '' ''
   @ concat (map (\<lambda>domain. '' -site:'' @ domain) aggregators)"

fun search_urls :: "net \<Rightarrow> nat \<Rightarrow> string list \<Rightarrow> string list \<Rightarrow> string list" where
  "search_urls N limit [] urls = urls"
| "search_urls N limit (raw # raws) urls =
     (case URL N raw of
        Inl _ \<Rightarrow> search_urls N limit raws urls
      | Inr u \<Rightarrow>
          (let s = url_String N u in
           if s \<in> set urls then search_urls N limit raws urls
           else if length urls + 1 = limit then urls @ [s]
           else search_urls N limit raws (urls @ [s])))"

definition brave_host :: string where "brave_host = ''api.search.brave.com''"

definition Search :: "net \<Rightarrow> Service \<Rightarrow> string \<Rightarrow> nat \<Rightarrow> (world, string + string list) state" where
  "Search N s query limit =
     (if sv_Key s = []
      then State_Monad.return (Inl ''BRAVE_SEARCH_API_KEY is not configured; paste restaurant URLs instead'')
      else do {
        let endpoint = ''https://api.search.brave.com/res/v1/web/search?q='' @ QueryEscape query
          @ ''&count='' @ Itoa (int limit) @ ''&country=JP'';
        d \<leftarrow> dial N brave_host;
        case d of
          Some _ \<Rightarrow> State_Monad.return (Inl ''search provider unavailable'')
        | None \<Rightarrow> do {
            i \<leftarrow> visit endpoint;
            State_Monad.return (case brave_get N i (sv_Key s) endpoint of
              Inl _ \<Rightarrow> Inl ''search provider unavailable''
            | Inr (code, body) \<Rightarrow>
                (if code \<noteq> StatusOK then Inl (''search provider returned HTTP '' @ Itoa (int code))
                 else case body of
                   None \<Rightarrow> Inl ''invalid search response''
                 | Some raws \<Rightarrow> Inr (search_urls N limit raws [])))
          }
      })"

section \<open>Capture\<close>

text \<open>\<open>Inl (err, candidates)\<close> is an error with the links to follow, \<open>Inr\<close> a captured candidate.\<close>

definition CaptureOrLinks ::
  "net \<Rightarrow> string \<Rightarrow> nat \<Rightarrow> (world, ((string \<times> string list) + Candidate) option) state" where
  "CaptureOrLinks N raw maxLinks = do {
     r \<leftarrow> fetch N raw;
     case r of
       Inl err \<Rightarrow> State_Monad.return (Some (Inl (err, [])))
     | Inr (data, final, kind) \<Rightarrow>
         (if \<not> strings_Contains kind ''html''
          then State_Monad.return (Some (Inl (''restaurant source must be an HTML page'', [])))
          else case Extract N data final of
            None \<Rightarrow> State_Monad.return None
          | Some (Inl err) \<Rightarrow> State_Monad.return (Some (Inl (err, CandidateLinks N data final maxLinks)))
          | Some (Inr c) \<Rightarrow>
              (case cd_Menus c of
                 [] \<Rightarrow> State_Monad.return (Some (Inr c))
               | menu # _ \<Rightarrow> do {
                   m \<leftarrow> fetch N menu;
                   State_Monad.return (Some (Inr (case m of
                     Inl _ \<Rightarrow> c\<lparr>cd_Warnings := cd_Warnings c @ [''Menu capture failed; source link retained'']\<rparr>
                   | Inr (content, _, mime) \<Rightarrow>
                       (if strings_Contains mime ''html'' then c\<lparr>cd_MenuText := pageText N content 12000\<rparr>
                        else c\<lparr>cd_Warnings := cd_Warnings c @
                          [''Menu retained as a link; PDF/image text requires manual review'']\<rparr>))))
                 }))
   }"

section \<open>Saving a draft (\<open>CreateDiscoveryDraft\<close>)\<close>

text \<open>Postgres' \<open>btrim\<close> removes spaces only.\<close>

definition btrim :: "string \<Rightarrow> string" where
  "btrim s = rev (dropWhile (\<lambda>c. c = CHR '' '') (rev (dropWhile (\<lambda>c. c = CHR '' '') s)))"

definition same_restaurant :: "env \<Rightarrow> CreateStoreFullParams \<Rightarrow> Store \<Rightarrow> bool" where
  "same_restaurant E arg s \<longleftrightarrow>
     st_SourceUrl s = cf_SourceUrl arg
   \<or> st_WardID s = cf_WardID arg
     \<and> (pg_lower E (btrim (st_Name s)) = pg_lower E (TrimSpace (cf_Name arg))
        \<or> btrim (st_Address s) \<noteq> []
          \<and> pg_lower E (btrim (st_Address s)) = pg_lower E (TrimSpace (cf_Address arg)))"

definition enforce_draft :: "CreateStoreFullParams \<Rightarrow> CreateStoreFullParams" where
  "enforce_draft arg =
     arg\<lparr>cf_Status := StoreStatus_text StoreStatusDraft, cf_GfStatus := GfStatus_text GfStatusOnRequest,
         cf_IsGfOriented := False\<rparr>"

text \<open>The transaction holds an advisory lock of its own from its second statement on and is rolled back
  unless it commits: it is one statement here, and a failure is one before the commit or the loss of its
  reply. The duplicate check is a \<open>LIMIT 1\<close> without an order, so \<open>pg_any\<close> decides which of the matching
  rows it returns. The second component tells whether the store was created.\<close>

definition CreateDiscoveryDraft :: "CreateStoreFullParams \<Rightarrow> (Store \<times> bool) query" where
  "CreateDiscoveryDraft arg E i d =
     (let matching = filter (same_restaurant E arg) (stores d) in
      if matching \<noteq> [] then (Inr (matching ! (pg_any E i mod length matching), False), d)
      else case CreateStoreFull (enforce_draft arg) E i d of
             (Inl err, d') \<Rightarrow> (Inl err, d')
           | (Inr s, d') \<Rightarrow> (Inr (s, True), d'))"

section \<open>The request\<close>

definition StatusServiceUnavailable :: nat where "StatusServiceUnavailable = 503"
definition StatusBadGateway :: nat where "StatusBadGateway = 502"

record discoveryRequest =
  dr_WardID :: int32
  dr_Query :: string
  dr_URLs :: "string list"
  dr_Limit :: int

definition valid_discoveryRequest :: "discoveryRequest \<Rightarrow> bool" where
  "valid_discoveryRequest req \<longleftrightarrow>
     dr_WardID req \<noteq> 0 \<and> sint (dr_WardID req) \<ge> 1 \<and> RuneCount (dr_Query req) \<le> 150
   \<and> length (dr_URLs req) \<le> 5 \<and> list_all (\<lambda>u. RuneCount u \<le> 2048) (dr_URLs req)
   \<and> 0 \<le> dr_Limit req \<and> dr_Limit req \<le> 5"

record discoveryOutcome =
  do_URL :: string
  do_Name :: string
  do_Status :: string
  do_StoreID :: string
  do_Error :: string
  do_Warnings :: "string list"

definition failed_outcome :: "string \<Rightarrow> string \<Rightarrow> discoveryOutcome" where
  "failed_outcome url err =
     \<lparr>do_URL = url, do_Name = [], do_Status = ''failed'', do_StoreID = [], do_Error = err, do_Warnings = []\<rparr>"

definition maxFetches :: nat where "maxFetches = 12"
definition maxLinksPerPage :: nat where "maxLinksPerPage = 6"

text \<open>The regular expression \<open>(?i)(^|[^a-z])NAME([^a-z]|$)\<close> on a lower-case address: the name occurs with
  no ASCII letter next to it. Case is folded on both sides.\<close>

definition ascii_letter :: "char \<Rightarrow> bool" where
  "ascii_letter c \<longleftrightarrow> 97 \<le> (of_char c :: nat) \<and> (of_char c :: nat) \<le> 122"

definition ward_word_match :: "net \<Rightarrow> string \<Rightarrow> string \<Rightarrow> bool" where
  "ward_word_match N name address \<longleftrightarrow>
     (let n = fold_ascii (unicode_lower N name); a = fold_ascii address in
      list_ex (\<lambda>i. take (length n) (drop i a) = n
          \<and> (i = 0 \<or> \<not> ascii_letter (a ! (i - 1)))
          \<and> (i + length n = length a \<or> \<not> ascii_letter (a ! (i + length n))))
        [0..<Suc (length a - length n)])"

definition in_ward :: "net \<Rightarrow> Ward \<Rightarrow> Candidate \<Rightarrow> bool" where
  "in_ward N ward c \<longleftrightarrow>
     (let address = unicode_lower N (cd_Address c) in
      strings_Contains address (unicode_lower N (w_NameJa ward)) \<or> ward_word_match N (w_NameEn ward) address)"

definition candidate_json :: "Candidate \<Rightarrow> json" where
  "candidate_json c =
     JObj [(''name'', JStr (cd_Name c)), (''address'', JStr (cd_Address c)), (''phone'', JStr (cd_Phone c)),
       (''source_url'', JStr (cd_SourceURL c)), (''cuisine'', JStr (cd_Cuisine c)),
       (''evidence'', JStr (cd_Evidence c)), (''images'', JArr (map JStr (cd_Images c))),
       (''menus'', JArr (map JStr (cd_Menus c))), (''menu_text'', JStr (cd_MenuText c)),
       (''warnings'', JArr (map JStr (cd_Warnings c)))]"

definition newline_text :: string where "newline_text = [char_of (10 :: nat)]"

definition discovery_params :: "net \<Rightarrow> Ward \<Rightarrow> Candidate \<Rightarrow> time \<Rightarrow> CreateStoreFullParams" where
  "discovery_params N ward c now =
     \<lparr>cf_WardID = w_ID ward, cf_Name = cd_Name c, cf_Address = cd_Address c, cf_Latitude = 0,
      cf_Longitude = 0, cf_IsGfOriented = False, cf_OpeningHours = JArr [],
      cf_Status = StoreStatus_text StoreStatusDraft, cf_Cuisine = cd_Cuisine c, cf_PriceLevel = 2,
      cf_Rating = 0, cf_ReviewCount = 0, cf_NearestStation = [], cf_Blurb = [],
      cf_GfStatus = GfStatus_text GfStatusOnRequest, cf_PhotoUrl = None, cf_NameEn = [],
      cf_Phone = cd_Phone c, cf_SourceUrl = cd_SourceURL c,
      cf_Notes = ''Automatic discovery captured '' @ RFC3339 N now @ newline_text
        @ ''Review source claims, image rights, location and menus before approval.'' @ newline_text
        @ json_MarshalIndent N (candidate_json c)\<rparr>"

text \<open>The closure \<open>draft\<close>.\<close>

definition draft :: "env \<Rightarrow> net \<Rightarrow> Ward \<Rightarrow> string \<Rightarrow> Candidate \<Rightarrow> (world, discoveryOutcome) state" where
  "draft E N ward source c =
     (let out = \<lparr>do_URL = source, do_Name = cd_Name c, do_Status = ''failed'', do_StoreID = [],
                 do_Error = [], do_Warnings = cd_Warnings c\<rparr> in
      if \<not> in_ward N ward c
      then State_Monad.return
        (out\<lparr>do_Error := ''Captured address does not match the selected ward; review manually''\<rparr>)
      else do {
        now \<leftarrow> TimeNow E;
        r \<leftarrow> db_call E (CreateDiscoveryDraft (discovery_params N ward c now));
        State_Monad.return (case r of
          Inl _ \<Rightarrow> out\<lparr>do_Error := ''Could not save draft; retry is safe''\<rparr>
        | Inr (saved, created) \<Rightarrow>
            out\<lparr>do_StoreID := uuid_String N (st_ID saved),
                do_Status := (if created then ''created'' else ''duplicate'')\<rparr>)
      })"

text \<open>What the loops carry along: the outcomes, the URLs seen, the fetches, and in the inner loop the
  drafts saved from this listing.\<close>

record crawl =
  cw_outcomes :: "discoveryOutcome list"
  cw_seen :: "string list"
  cw_fetches :: nat
  cw_saved :: nat

definition crawl_full :: "nat \<Rightarrow> crawl \<Rightarrow> bool" where
  "crawl_full limit st \<longleftrightarrow> length (cw_outcomes st) \<ge> limit \<or> cw_fetches st \<ge> maxFetches"

definition mark_seen :: "string \<Rightarrow> crawl \<Rightarrow> crawl" where
  "mark_seen u st = st\<lparr>cw_seen := u # cw_seen st, cw_fetches := Suc (cw_fetches st)\<rparr>"

definition report :: "discoveryOutcome \<Rightarrow> crawl \<Rightarrow> crawl" where
  "report out st = st\<lparr>cw_outcomes := cw_outcomes st @ [out]\<rparr>"

fun follow_links :: "env \<Rightarrow> net \<Rightarrow> Ward \<Rightarrow> nat \<Rightarrow> string list \<Rightarrow> crawl \<Rightarrow> (world, crawl option) state" where
  "follow_links E N ward limit [] st = State_Monad.return (Some st)"
| "follow_links E N ward limit (link # ls) st =
     (if crawl_full limit st then State_Monad.return (Some st)
      else if link \<in> set (cw_seen st) then follow_links E N ward limit ls st
      else do {
        r \<leftarrow> CaptureOrLinks N link 0;
        case r of
          None \<Rightarrow> State_Monad.return None
        | Some (Inl _) \<Rightarrow> follow_links E N ward limit ls (mark_seen link st)
        | Some (Inr c) \<Rightarrow> do {
            out \<leftarrow> draft E N ward link c;
            follow_links E N ward limit ls
              (if do_Status out \<noteq> ''failed''
               then report out (mark_seen link st)\<lparr>cw_saved := Suc (cw_saved st)\<rparr>
               else mark_seen link st)
          }
      })"

text \<open>What the outer loop does with one URL that is new.\<close>

definition capture_url :: "env \<Rightarrow> net \<Rightarrow> Ward \<Rightarrow> nat \<Rightarrow> string \<Rightarrow> crawl \<Rightarrow> (world, crawl option) state" where
  "capture_url E N ward limit u st = do {
     r \<leftarrow> CaptureOrLinks N u maxLinksPerPage;
     case r of
       None \<Rightarrow> State_Monad.return None
     | Some (Inr c) \<Rightarrow> do {
         out \<leftarrow> draft E N ward u c;
         State_Monad.return (Some (report out (mark_seen u st)))
       }
     | Some (Inl (err, candidates)) \<Rightarrow>
         (if candidates = []
          then State_Monad.return (Some (report (failed_outcome u err) (mark_seen u st)))
          else do {
            f \<leftarrow> follow_links E N ward limit candidates ((mark_seen u st)\<lparr>cw_saved := 0\<rparr>);
            State_Monad.return (case f of
              None \<Rightarrow> None
            | Some st' \<Rightarrow> Some
                (if cw_saved st' = 0
                 then report (failed_outcome u (''Listing page: followed '' @ Itoa (int (length candidates))
                   @ '' linked pages, none was a capturable restaurant in this ward'')) st'
                 else st'))
          })
   }"

fun discover_urls :: "env \<Rightarrow> net \<Rightarrow> Ward \<Rightarrow> nat \<Rightarrow> string list \<Rightarrow> crawl \<Rightarrow> (world, crawl option) state" where
  "discover_urls E N ward limit [] st = State_Monad.return (Some st)"
| "discover_urls E N ward limit (raw # raws) st =
     (if crawl_full limit st then State_Monad.return (Some st)
      else case URL N raw of
        Inl err \<Rightarrow> discover_urls E N ward limit raws (report (failed_outcome raw err) st)
      | Inr u \<Rightarrow>
          (if url_String N u \<in> set (cw_seen st) then discover_urls E N ward limit raws st
           else do {
             r \<leftarrow> capture_url E N ward limit (url_String N u) st;
             case r of
               None \<Rightarrow> State_Monad.return None
             | Some st' \<Rightarrow> discover_urls E N ward limit raws st'
           }))"

text \<open>The URLs to start from: the operator's, or those of a web search.\<close>

definition discovery_sources ::
  "net \<Rightarrow> Server \<Rightarrow> Ward \<Rightarrow> discoveryRequest \<Rightarrow> nat \<Rightarrow> (world, (nat \<times> string) + string list) state" where
  "discovery_sources N srv ward req limit =
     (if dr_URLs req \<noteq> [] then State_Monad.return (Inr (dr_URLs req))
      else if BraveSearchAPIKey (sv_config srv) = []
      then State_Monad.return (Inl (StatusServiceUnavailable,
        ''Automatic search requires BRAVE_SEARCH_API_KEY on the Go server. You can paste restaurant URLs instead.''))
      else do {
        r \<leftarrow> Search N (sv_discovery srv)
          (SearchQuery (w_NameEn ward) (w_NameJa ward) (TrimSpace (dr_Query req))) limit;
        State_Monad.return (case r of
          Inl err \<Rightarrow> Inl (StatusBadGateway, err)
        | Inr urls \<Rightarrow> Inr urls)
      })"

definition first_bad_url :: "net \<Rightarrow> string list \<Rightarrow> string option" where
  "first_bad_url N urls =
     (case List.map_filter (\<lambda>raw. case URL N raw of Inl err \<Rightarrow> Some err | Inr _ \<Rightarrow> None) urls of
        [] \<Rightarrow> None | err # _ \<Rightarrow> Some err)"

definition no_crawl :: crawl where
  "no_crawl = \<lparr>cw_outcomes = [], cw_seen = [], cw_fetches = 0, cw_saved = 0\<rparr>"

text \<open>The request from the point where its ward is known. A panic becomes gin's 500.\<close>

definition discover_in_ward ::
  "env \<Rightarrow> net \<Rightarrow> Server \<Rightarrow> Ward \<Rightarrow> discoveryRequest \<Rightarrow> nat \<Rightarrow> (world, discoveryOutcome list reply) state" where
  "discover_in_ward E N srv ward req limit = do {
     urls \<leftarrow> discovery_sources N srv ward req limit;
     case urls of
       Inl (code, err) \<Rightarrow> State_Monad.return (Fail code (ErrMsg err))
     | Inr us \<Rightarrow> do {
         r \<leftarrow> discover_urls E N ward limit us no_crawl;
         State_Monad.return (case r of
           None \<Rightarrow> Fail StatusInternalServerError (ErrLib ''panic'')
         | Some st \<Rightarrow> Reply StatusOK (cw_outcomes st))
       }
   }"

definition internalDiscover ::
  "env \<Rightarrow> net \<Rightarrow> Server \<Rightarrow> discoveryRequest option \<Rightarrow> (world, discoveryOutcome list reply) state" where
  "internalDiscover E N srv body =
     (case ShouldBindJSON valid_discoveryRequest body of
        None \<Rightarrow> State_Monad.return (Fail StatusBadRequest
          (ErrMsg ''Choose a ward, up to five URLs, and a limit between 1 and 5''))
      | Some req \<Rightarrow>
          (let limit = (if dr_Limit req = 0 then 5 else nat (dr_Limit req)) in
           case first_bad_url N (dr_URLs req) of
             Some err \<Rightarrow> State_Monad.return (Fail StatusBadRequest (ErrMsg err))
           | None \<Rightarrow> do {
               ws \<leftarrow> db_call E ListWards;
               case ws of
                 Inl _ \<Rightarrow> State_Monad.return (Fail StatusInternalServerError (ErrMsg ''Could not load wards''))
               | Inr rows \<Rightarrow>
                   (case find (\<lambda>w. w_ID w = dr_WardID req) rows of
                      None \<Rightarrow> State_Monad.return (Fail StatusBadRequest (ErrMsg ''Unknown ward''))
                    | Some ward \<Rightarrow> discover_in_ward E N srv ward req limit)
             }))"


section \<open>What a discovery adds\<close>

text \<open>Drafts of restaurants whose captured address lies in the ward.\<close>

definition ward_draft :: "net \<Rightarrow> Ward \<Rightarrow> Store \<Rightarrow> bool" where
  "ward_draft N ward s \<longleftrightarrow> st_Status s = StoreStatusDraft \<and> st_GfStatus s = GfStatusOnRequest
     \<and> \<not> st_IsGfOriented s \<and> st_ApprovedAt s = None \<and> st_Latitude s = 0 \<and> st_Longitude s = 0
     \<and> st_WardID s = w_ID ward
     \<and> (\<exists>c. in_ward N ward c \<and> st_Name s = cd_Name c \<and> st_Address s = cd_Address c
          \<and> st_SourceUrl s = cd_SourceURL c)"

definition ward_drafts_added :: "net \<Rightarrow> Ward \<Rightarrow> database \<Rightarrow> database \<Rightarrow> bool" where
  "ward_drafts_added N ward d d' \<longleftrightarrow>
     (\<exists>ss. d' = d\<lparr>stores := stores d @ ss\<rparr> \<and> (\<forall>s \<in> set ss. ward_draft N ward s))"

interpretation ward_drafts: db_frame "ward_drafts_added N ward" for N ward
proof
  show "ward_drafts_added N ward d d" for d
    unfolding ward_drafts_added_def by (rule exI[of _ "[]"]) simp
  show "ward_drafts_added N ward d f" if de: "ward_drafts_added N ward d e" and ef: "ward_drafts_added N ward e f" for d e f
  proof -
    obtain ss where "e = d\<lparr>stores := stores d @ ss\<rparr>" "\<forall>s \<in> set ss. ward_draft N ward s"
      using de by (auto simp: ward_drafts_added_def)
    moreover obtain ts where "f = e\<lparr>stores := stores e @ ts\<rparr>" "\<forall>s \<in> set ts. ward_draft N ward s"
      using ef by (auto simp: ward_drafts_added_def)
    ultimately show ?thesis unfolding ward_drafts_added_def by (intro exI[of _ "ss @ ts"]) auto
  qed
qed

lemma enforce_draft_labels [simp]:
  "StoreStatus_scan (cf_Status (enforce_draft arg)) = Some StoreStatusDraft"
  "GfStatus_scan (cf_GfStatus (enforce_draft arg)) = Some GfStatusOnRequest"
  by (simp_all add: enforce_draft_def del: StoreStatus_text.simps GfStatus_text.simps)

lemma CreateDiscoveryDraft_cases:
  assumes "CreateDiscoveryDraft arg E i d = (r, d')"
  obtains s where "r = Inr (s, False)" "d' = d" "s \<in> set (stores d)" "same_restaurant E arg s"
  | s where "r = Inr (s, True)" "s = full_store E i StoreStatusDraft GfStatusOnRequest (enforce_draft arg)"
      "d' = d\<lparr>stores := stores d @ [s]\<rparr>" "\<forall>x \<in> set (stores d). \<not> same_restaurant E arg x"
  | err where "r = Inl err" "d' = d"
proof (cases "filter (same_restaurant E arg) (stores d) = []")
  case True
  then show ?thesis
    using assms that(2,3)
    by (auto simp: CreateDiscoveryDraft_def CreateStoreFull_def insert_store_def filter_empty_conv split: if_splits)
next
  case False
  let ?m = "filter (same_restaurant E arg) (stores d)"
  have "?m ! (pg_any E i mod length ?m) \<in> set ?m" using False by (intro nth_mem) simp
  then show ?thesis using assms False by (intro that(1)) (auto simp: CreateDiscoveryDraft_def Let_def)
qed

lemma discovery_rel:
  assumes "in_ward N ward c"
  shows "query_rel (ward_drafts_added N ward) E (CreateDiscoveryDraft (discovery_params N ward c now))"
proof (rule query_relI)
  fix i d
  obtain r d' where q: "CreateDiscoveryDraft (discovery_params N ward c now) E i d = (r, d')" by fastforce
  have "ward_draft N ward (full_store E i StoreStatusDraft GfStatusOnRequest
      (enforce_draft (discovery_params N ward c now)))"
    using assms by (auto simp: ward_draft_def full_store_def enforce_draft_def discovery_params_def)
  then have "ward_drafts_added N ward d d'"
    using ward_drafts.D_refl[of N ward d]
    by (cases rule: CreateDiscoveryDraft_cases[OF q]) (auto simp: ward_drafts_added_def)
  then show "ward_drafts_added N ward d (snd (CreateDiscoveryDraft (discovery_params N ward c now) E i d))"
    using q by simp
qed

section \<open>What a discovery may do\<close>

text \<open>At most \<open>n\<close> requests, all to public addresses, and drafts of the ward.\<close>

definition discovered :: "net \<Rightarrow> Ward \<Rightarrow> nat \<Rightarrow> world \<Rightarrow> world \<Rightarrow> bool" where
  "discovered N ward n w w' \<longleftrightarrow> crawled n w w' \<and> ward_drafts_added N ward (db w) (db w')"

lemma discovered_0: "crawled 0 w w' \<Longrightarrow> db w' = db w \<Longrightarrow> discovered N ward 0 w w'"
  by (simp add: discovered_def ward_drafts.D_refl)

lemma discovered_refl [simp]: "discovered N ward n w w"
  by (auto simp: discovered_def ward_drafts.D_refl intro: crawled_mono[OF crawled_0])

lemma discovered_add: "discovered N ward m u v \<Longrightarrow> discovered N ward n v w \<Longrightarrow> m + n \<le> k \<Longrightarrow> discovered N ward k u w"
  unfolding discovered_def by (blast intro: crawled_mono crawled_add ward_drafts.D_trans)

lemma discovered_mono: "discovered N ward m u v \<Longrightarrow> m \<le> k \<Longrightarrow> discovered N ward k u v"
  unfolding discovered_def by (blast intro: crawled_mono)

lemma wp_CaptureOrLinks:
  "wp (CaptureOrLinks N raw m) (\<lambda>_ w'. discovered N ward 6 w w') w"
proof -
  have f: "wp (fetch N raw) (\<lambda>_ w'. discovered N ward 3 w w') w" for raw w
    using wp_fetch[of N raw w] by (rule wp_mono) (auto simp: discovered_def ward_drafts.D_refl)
  have menu: "wp (do { m \<leftarrow> fetch N menu; State_Monad.return (g m) }) (\<lambda>_ w'. discovered N ward 6 w w') v"
    if "discovered N ward 3 w v" for menu g v
    using f[of menu v] that by (auto elim!: wp_mono dest: discovered_add[where k = 6])
  show ?thesis
    unfolding CaptureOrLinks_def wp_bind
    using f[of raw w]
    by (rule wp_mono)
      (auto simp del: wp_bind simp: menu discovered_mono split: sum.split prod.split option.split list.split)
qed

lemma draft_rel: "state_io_rel (db_rel (ward_drafts_added N ward)) (draft E N ward source c)"
  unfolding draft_def Let_def
  by (intro ward_drafts.if_then ward_drafts.bind ward_drafts.return ward_drafts.call ward_drafts.now discovery_rel)
    simp

lemma wp_draft: "wp (draft E N ward source c) (\<lambda>_ w'. discovered N ward 0 w w') w"
proof -
  have "wp (draft E N ward source c) (\<lambda>_ w'. crawled 0 w w') w"
    by (auto simp: draft_def Let_def crawled_def intro!: wp_db_call)
  moreover have "wp (draft E N ward source c) (\<lambda>_ w'. ward_drafts_added N ward (db w) (db w')) w"
    using draft_rel[of N ward E source c] by (simp add: state_io_rel_def db_rel_def wp_def case_prod_beta)
  ultimately show ?thesis unfolding discovered_def by (rule wp_conj)
qed

section \<open>The loops\<close>

text \<open>What a loop leaves when it started with the state \<open>st\<close>: every fetch it counted was at most six
  requests, and the outcomes stay within the limit.\<close>

definition loop_post :: "net \<Rightarrow> Ward \<Rightarrow> nat \<Rightarrow> crawl \<Rightarrow> world \<Rightarrow> crawl option \<Rightarrow> world \<Rightarrow> bool" where
  "loop_post N ward limit st w r w' \<longleftrightarrow>
     (case r of
        None \<Rightarrow> discovered N ward (6 * (maxFetches - cw_fetches st)) w w'
      | Some st' \<Rightarrow> discovered N ward (6 * (cw_fetches st' - cw_fetches st)) w w'
          \<and> cw_fetches st \<le> cw_fetches st' \<and> cw_fetches st' \<le> maxFetches
          \<and> length (cw_outcomes st') \<le> limit)"

lemma loop_post_refl:
  "cw_fetches st \<le> maxFetches \<Longrightarrow> length (cw_outcomes st) \<le> limit \<Longrightarrow> loop_post N ward limit st w (Some st) w"
  by (simp add: loop_post_def)

text \<open>One more fetch before the rest of the loop.\<close>

lemma loop_post_step:
  assumes "discovered N ward 6 w v" and "loop_post N ward limit st1 v r w'"
    and "cw_fetches st1 = Suc (cw_fetches st)" and "cw_fetches st < maxFetches"
  shows "loop_post N ward limit st w r w'"
  using assms discovered_add[OF assms(1), of "6 * (maxFetches - cw_fetches st1)" w' "6 * (maxFetches - cw_fetches st)"]
    discovered_add[OF assms(1), of "6 * (cw_fetches (the r) - cw_fetches st1)" w' "6 * (cw_fetches (the r) - cw_fetches st)"]
  by (cases r) (auto simp: loop_post_def)

lemma loop_post_trans:
  assumes "loop_post N ward limit st w (Some st1) v" and "loop_post N ward limit st1 v r w'"
  shows "loop_post N ward limit st w r w'"
proof -
  have d: "discovered N ward (6 * (cw_fetches st1 - cw_fetches st)) w v"
    using assms(1) by (simp add: loop_post_def)
  show ?thesis
    using assms discovered_add[OF d, of "6 * (maxFetches - cw_fetches st1)" w' "6 * (maxFetches - cw_fetches st)"]
      discovered_add[OF d, of "6 * (cw_fetches (the r) - cw_fetches st1)" w' "6 * (cw_fetches (the r) - cw_fetches st)"]
    by (cases r) (auto simp: loop_post_def)
qed

definition saves :: "crawl \<Rightarrow> crawl option \<Rightarrow> bool" where
  "saves st r \<longleftrightarrow> (\<forall>st'. r = Some st' \<longrightarrow>
     length (cw_outcomes st') + cw_saved st = length (cw_outcomes st) + cw_saved st')"

lemma wp_follow_links:
  assumes "cw_fetches st \<le> maxFetches" and "length (cw_outcomes st) \<le> limit"
  shows "wp (follow_links E N ward limit ls st) (\<lambda>r w'. loop_post N ward limit st w r w' \<and> saves st r) w"
  using assms
proof (induction ls arbitrary: st w)
  case (Cons link ls)
  show ?case
  proof (cases "crawl_full limit st \<or> link \<in> set (cw_seen st)")
    case True
    then show ?thesis using Cons by (auto simp: loop_post_refl saves_def)
  next
    case False
    then have lt: "cw_fetches st < maxFetches" "length (cw_outcomes st) < limit"
      by (auto simp: crawl_full_def)
    have rest: "wp (follow_links E N ward limit ls st1) (\<lambda>r w'. loop_post N ward limit st w r w' \<and> saves st r) v"
      if "discovered N ward 6 w v" "cw_fetches st1 = Suc (cw_fetches st)"
        "length (cw_outcomes st1) \<le> limit" "saves st (Some st1)" for st1 v
      by (rule wp_mono[OF Cons(1)[of st1 v]])
        (use that lt in \<open>auto intro: loop_post_step simp: saves_def\<close>)
    let ?st = "mark_seen link st"
    have st: "cw_fetches ?st = Suc (cw_fetches st)" "length (cw_outcomes ?st) \<le> limit" "saves st (Some ?st)"
      using lt by (simp_all add: mark_seen_def saves_def)
    have st': "cw_fetches (report out ?st\<lparr>cw_saved := Suc (cw_saved st)\<rparr>) = Suc (cw_fetches st)"
      "length (cw_outcomes (report out ?st\<lparr>cw_saved := Suc (cw_saved st)\<rparr>)) \<le> limit"
      "saves st (Some (report out ?st\<lparr>cw_saved := Suc (cw_saved st)\<rparr>))" for out
      using lt by (simp_all add: mark_seen_def report_def saves_def)
    have drafted: "wp (draft E N ward link c) (\<lambda>out. wp (follow_links E N ward limit ls
          (if do_Status out \<noteq> ''failed'' then report out ?st\<lparr>cw_saved := Suc (cw_saved st)\<rparr> else ?st))
          (\<lambda>r w'. loop_post N ward limit st w r w' \<and> saves st r)) v" if "discovered N ward 6 w v" for c v
    proof (rule wp_mono[OF wp_draft[of E N ward link c v]])
      fix out t
      assume "discovered N ward 0 v t"
      then have "discovered N ward 6 w t" using that by (intro discovered_add[of N ward 6 w v 0 t 6]) simp_all
      then show "wp (follow_links E N ward limit ls
          (if do_Status out \<noteq> ''failed'' then report out ?st\<lparr>cw_saved := Suc (cw_saved st)\<rparr> else ?st))
          (\<lambda>r w'. loop_post N ward limit st w r w' \<and> saves st r) t"
        using rest st st' by simp
    qed
    have panic: "loop_post N ward limit st w None v \<and> saves st None" if "discovered N ward 6 w v" for v
      using that lt by (auto simp: loop_post_def saves_def elim!: discovered_mono)
    have "wp (CaptureOrLinks N link 0) (\<lambda>r. wp (case r of None \<Rightarrow> State_Monad.return None
        | Some (Inl _) \<Rightarrow> follow_links E N ward limit ls ?st
        | Some (Inr c) \<Rightarrow> do {
            out \<leftarrow> draft E N ward link c;
            follow_links E N ward limit ls
              (if do_Status out \<noteq> ''failed'' then report out ?st\<lparr>cw_saved := Suc (cw_saved st)\<rparr> else ?st)
          }) (\<lambda>r w'. loop_post N ward limit st w r w' \<and> saves st r)) w"
      by (rule wp_mono[OF wp_CaptureOrLinks[of N link 0 ward w]])
        (use drafted panic rest st in \<open>simp split: option.split sum.split\<close>)
    then show ?thesis using False by simp
  qed
qed (simp add: loop_post_refl saves_def)

lemma discovered_then:
  "discovered N ward m w v \<Longrightarrow> discovered N ward 0 v t \<Longrightarrow> discovered N ward m w t"
  using discovered_add[of N ward m w v 0 t m] by simp

lemma wp_capture_url:
  assumes "cw_fetches st < maxFetches" and "length (cw_outcomes st) < limit"
  shows "wp (capture_url E N ward limit u st) (\<lambda>r w'. loop_post N ward limit st w r w') w"
proof -
  let ?st = "mark_seen u st"
  have fin: "loop_post N ward limit st w (Some (report out ?st)) v" if "discovered N ward 6 w v" for out v
    using that assms by (simp add: loop_post_def report_def mark_seen_def)
  have panic: "loop_post N ward limit st w None v" if "discovered N ward 6 w v" for v
    using that assms by (auto simp: loop_post_def elim!: discovered_mono)
  have drafted: "wp (draft E N ward u c) (\<lambda>out. wp (State_Monad.return (Some (report out ?st)))
      (\<lambda>r w'. loop_post N ward limit st w r w')) v" if "discovered N ward 6 w v" for c v
    by (rule wp_mono[OF wp_draft[of E N ward u c v]]) (use that fin discovered_then in auto)
  have st: "cw_fetches (?st\<lparr>cw_saved := 0\<rparr>) = Suc (cw_fetches st)" "cw_fetches (?st\<lparr>cw_saved := 0\<rparr>) \<le> maxFetches"
    "length (cw_outcomes (?st\<lparr>cw_saved := 0\<rparr>)) \<le> limit"
    using assms by (simp_all add: mark_seen_def)
  have followed: "wp (follow_links E N ward limit ls (?st\<lparr>cw_saved := 0\<rparr>)) (\<lambda>f. wp (State_Monad.return (case f of
        None \<Rightarrow> None | Some st' \<Rightarrow> Some (if cw_saved st' = 0 then report out st' else st')))
      (\<lambda>r w'. loop_post N ward limit st w r w')) v" if v: "discovered N ward 6 w v" for ls out v
  proof (rule wp_mono[OF wp_follow_links[OF st(2,3)]])
    fix f t
    assume "loop_post N ward limit (?st\<lparr>cw_saved := 0\<rparr>) v f t \<and> saves (?st\<lparr>cw_saved := 0\<rparr>) f"
    then have p: "loop_post N ward limit st w f t" and s: "saves (?st\<lparr>cw_saved := 0\<rparr>) f"
      using loop_post_step[OF v _ st(1) assms(1)] by auto
    show "wp (State_Monad.return (case f of None \<Rightarrow> None
        | Some st' \<Rightarrow> Some (if cw_saved st' = 0 then report out st' else st')))
      (\<lambda>r w'. loop_post N ward limit st w r w') t"
    proof (cases f)
      case None
      then show ?thesis using p by simp
    next
      case (Some st')
      then show ?thesis
        using p s assms(2) by (auto simp: loop_post_def report_def saves_def mark_seen_def)
    qed
  qed
  show ?thesis
    unfolding capture_url_def wp_bind
    by (rule wp_mono[OF wp_CaptureOrLinks[of N u maxLinksPerPage ward w]])
      (use drafted panic fin followed in \<open>simp split: option.split sum.split prod.split\<close>)
qed

lemma wp_discover_urls:
  assumes "cw_fetches st \<le> maxFetches" and "length (cw_outcomes st) \<le> limit"
  shows "wp (discover_urls E N ward limit raws st) (\<lambda>r w'. loop_post N ward limit st w r w') w"
  using assms
proof (induction raws arbitrary: st w)
  case (Cons raw raws)
  show ?case
  proof (cases "crawl_full limit st")
    case True
    then show ?thesis using Cons by (simp add: loop_post_refl)
  next
    case False
    then have lt: "cw_fetches st < maxFetches" "length (cw_outcomes st) < limit"
      by (auto simp: crawl_full_def)
    show ?thesis
    proof (cases "URL N raw")
      case (Inl err)
      let ?st = "report (failed_outcome raw err) st"
      have "wp (discover_urls E N ward limit raws ?st) (\<lambda>r w'. loop_post N ward limit ?st w r w') w"
        by (rule Cons(1)) (use lt in \<open>simp_all add: report_def\<close>)
      then show ?thesis
        using False Inl by (auto elim!: wp_mono simp: loop_post_def report_def split: option.splits)
    next
      case (Inr u)
      have rest: "wp (discover_urls E N ward limit raws st1) (\<lambda>r w'. loop_post N ward limit st w r w') v"
        if "loop_post N ward limit st w (Some st1) v" for st1 v
      proof -
        have "cw_fetches st1 \<le> maxFetches" "length (cw_outcomes st1) \<le> limit"
          using that by (simp_all add: loop_post_def)
        from Cons(1)[OF this] show ?thesis by (rule wp_mono) (rule loop_post_trans[OF that])
      qed
      have "wp (capture_url E N ward limit (url_String N u) st) (\<lambda>r. wp (case r of
          None \<Rightarrow> State_Monad.return None | Some st' \<Rightarrow> discover_urls E N ward limit raws st')
          (\<lambda>r w'. loop_post N ward limit st w r w')) w"
        by (rule wp_mono[OF wp_capture_url[OF lt]]) (use rest in \<open>auto split: option.split\<close>)
      then show ?thesis using False Inr Cons by simp
    qed
  qed
qed (simp add: loop_post_refl)

lemma wp_return_eta: "wp (State_Monad.return x) Q = Q x"
  by (rule ext) simp

lemma wp_discovery_sources:
  "wp (discovery_sources N srv ward req limit) (\<lambda>_ w'. discovered N ward 1 w w') w"
proof -
  have "wp (Search N s q limit) (\<lambda>_ w'. discovered N ward 1 w w') w" for s q
    by (auto simp: Search_def Let_def intro!: wp_dial)
      (auto simp: discovered_def crawled_def ward_drafts.D_refl)
  then have "wp (Search N s q limit) (\<lambda>r. wp (State_Monad.return (f r)) (\<lambda>_ w'. discovered N ward 1 w w')) w"
    for s q and f :: "string + string list \<Rightarrow> (nat \<times> string) + string list"
    by (simp only: wp_return_eta)
  then show ?thesis by (simp add: discovery_sources_def)
qed

lemma wp_discover_in_ward:
  "wp (discover_in_ward E N srv ward req limit) (\<lambda>r w'. discovered N ward 73 w w'
     \<and> (\<forall>outs. r = Reply StatusOK outs \<longrightarrow> length outs \<le> limit)) w"
  unfolding discover_in_ward_def wp_bind
proof (rule wp_mono[OF wp_discovery_sources[of N srv ward req limit]])
  fix urls v
  assume d: "discovered N ward 1 w v"
  have D: "discovered N ward 73 w v'" if "discovered N ward k v v'" "k \<le> 72" for v' k
    using d that(1) by (rule discovered_add) (use that(2) in simp)
  show "wp (case urls of
       Inl (code, err) \<Rightarrow> State_Monad.return (Fail code (ErrMsg err))
     | Inr us \<Rightarrow> do {
         r \<leftarrow> discover_urls E N ward limit us no_crawl;
         State_Monad.return (case r of
           None \<Rightarrow> Fail StatusInternalServerError (ErrLib ''panic'')
         | Some st \<Rightarrow> Reply StatusOK (cw_outcomes st))
       }) (\<lambda>r w'. discovered N ward 73 w w' \<and> (\<forall>outs. r = Reply StatusOK outs \<longrightarrow> length outs \<le> limit)) v"
  proof (cases urls)
    case (Inl e)
    then show ?thesis using D[of 0 v] by (cases e) simp
  next
    case (Inr us)
    have "wp (discover_urls E N ward limit us no_crawl) (\<lambda>r w'. loop_post N ward limit no_crawl v r w') v"
      by (rule wp_discover_urls) (simp_all add: no_crawl_def)
    then show ?thesis
      unfolding Inr sum.case wp_bind
      by (rule wp_mono) (auto simp: loop_post_def no_crawl_def maxFetches_def intro: D split: option.splits)
  qed
qed

lemma find_SomeD: "find P xs = Some x \<Longrightarrow> P x \<and> x \<in> set xs"
  by (induction xs) (auto split: if_splits)

text \<open>Either the request did nothing, or it ran in its ward.\<close>

definition discover_post ::
  "net \<Rightarrow> discoveryRequest \<Rightarrow> nat \<Rightarrow> world \<Rightarrow> discoveryOutcome list reply \<Rightarrow> world \<Rightarrow> bool" where
  "discover_post N req limit w r w' \<longleftrightarrow>
     (crawled 0 w w' \<and> db w' = db w \<and> (\<forall>outs. r \<noteq> Reply StatusOK outs))
   \<or> (\<exists>ward. ward \<in> set (wards (db w)) \<and> w_ID ward = dr_WardID req \<and> discovered N ward 73 w w'
        \<and> (\<forall>outs. r = Reply StatusOK outs \<longrightarrow> length outs \<le> limit))"

lemma wp_internalDiscover:
  assumes "body = Some req" and "valid_discoveryRequest req"
    and "limit = (if dr_Limit req = 0 then 5 else nat (dr_Limit req))"
  shows "wp (internalDiscover E N srv body) (discover_post N req limit w) w"
proof (cases "first_bad_url N (dr_URLs req)")
  case (Some err)
  then show ?thesis using assms by (simp add: internalDiscover_def discover_post_def)
next
  case None
  have ran: "wp (discover_in_ward E N srv ward req limit) (discover_post N req limit w) (w\<lparr>ticks := n\<rparr>)"
    if "find (\<lambda>x. w_ID x = dr_WardID req) (sort_key (\<lambda>r. sint (w_ID r)) (wards (db w))) = Some ward" for ward n
  proof (rule wp_mono[OF wp_discover_in_ward])
    fix r :: "discoveryOutcome list reply" and t
    assume "discovered N ward 73 (w\<lparr>ticks := n\<rparr>) t \<and> (\<forall>outs. r = Reply StatusOK outs \<longrightarrow> length outs \<le> limit)"
    moreover have "ward \<in> set (wards (db w))" "w_ID ward = dr_WardID req"
      using find_SomeD[OF that] by simp_all
    ultimately show "discover_post N req limit w r t"
      by (auto simp: discover_post_def discovered_def crawled_def)
  qed
  have "read_only ListWards" by (simp add: read_only_def ListWards_def)
  then have "wp (db_call E ListWards) (\<lambda>ws. wp (case ws of
      Inl _ \<Rightarrow> State_Monad.return (Fail StatusInternalServerError (ErrMsg ''Could not load wards''))
    | Inr rows \<Rightarrow>
        (case find (\<lambda>w. w_ID w = dr_WardID req) rows of
           None \<Rightarrow> State_Monad.return (Fail StatusBadRequest (ErrMsg ''Unknown ward''))
         | Some ward \<Rightarrow> discover_in_ward E N srv ward req limit)) (discover_post N req limit w)) w"
    by (rule wp_read) (auto simp: ListWards_def ran discover_post_def crawled_def split: option.split)
  then show ?thesis using assms(1,2) None by (simp add: internalDiscover_def Let_def assms(3)[symmetric])
qed

section \<open>Properties\<close>

text \<open>C15: A discovery request is confined. Whatever pages it meets: it connects to public addresses only
  and sends at most 73 requests (one search, and for each of at most 12 captures a page and a menu
  page with two redirects each); the only change to the tables are new drafts in the selected ward,
  unreviewed and with the cautious gluten-free label, each of a candidate whose captured address
  places it in that ward; and it reports at most as many results as asked for, never more than five.\<close>

theorem discover_confined:
  assumes "run_state (internalDiscover E N srv body) w = (r, w')"
  shows "crawled 73 w w'
    \<and> (db w' = db w \<or> (\<exists>req ward. body = Some req \<and> ward \<in> set (wards (db w)) \<and> w_ID ward = dr_WardID req
        \<and> ward_drafts_added N ward (db w) (db w')))
    \<and> (\<forall>outs. r = Reply StatusOK outs \<longrightarrow> length outs \<le> 5
        \<and> (\<exists>req. body = Some req \<and> (dr_Limit req \<noteq> 0 \<longrightarrow> int (length outs) \<le> dr_Limit req)))"
proof (cases "ShouldBindJSON valid_discoveryRequest body")
  case None
  then show ?thesis using assms crawled_mono[OF crawled_0] by (auto simp: internalDiscover_def)
next
  case (Some req)
  define limit where "limit = (if dr_Limit req = 0 then 5 else nat (dr_Limit req))"
  have limit: "limit \<le> 5" "dr_Limit req \<noteq> 0 \<Longrightarrow> int limit = dr_Limit req"
    using Some by (auto simp: limit_def valid_discoveryRequest_def)
  have "discover_post N req limit w r w'"
    using wpD[OF wp_internalDiscover assms] Some limit_def by simp
  then show ?thesis
  proof (unfold discover_post_def, elim disjE exE conjE)
    assume "crawled 0 w w'" "db w' = db w" "\<forall>outs. r \<noteq> Reply StatusOK outs"
    then show ?thesis using crawled_mono[of 0 w w' 73] by simp
  next
    fix ward
    assume "ward \<in> set (wards (db w))" "w_ID ward = dr_WardID req" "discovered N ward 73 w w'"
      and outs: "\<forall>outs. r = Reply StatusOK outs \<longrightarrow> length outs \<le> limit"
    then show ?thesis using Some limit by (fastforce simp: discovered_def)
  qed
qed

lemma known_restaurant:
  assumes "s \<in> set (stores d)" and "same_restaurant E arg s"
  obtains x where "CreateDiscoveryDraft arg E i d = (Inr (x, False), d)"
    and "x \<in> set (stores d)" and "same_restaurant E arg x"
proof -
  obtain r d' where q: "CreateDiscoveryDraft arg E i d = (r, d')" by fastforce
  have "filter (same_restaurant E arg) (stores d) \<noteq> []" using assms by (auto simp: filter_empty_conv)
  then have "\<exists>x. r = Inr (x, False)" using q by (auto simp: CreateDiscoveryDraft_def Let_def)
  then show thesis using that q by (cases rule: CreateDiscoveryDraft_cases[OF q]) auto
qed

lemma same_candidate:
  "same_restaurant E (discovery_params N ward c t) = same_restaurant E (discovery_params N ward c t')"
  by (rule ext) (simp add: same_restaurant_def discovery_params_def)

text \<open>A draft that was saved or recognised: the row behind its answer.\<close>

definition saved_outcome :: "net \<Rightarrow> string \<Rightarrow> Candidate \<Rightarrow> Store \<Rightarrow> bool \<Rightarrow> discoveryOutcome" where
  "saved_outcome N source c s created =
     \<lparr>do_URL = source, do_Name = cd_Name c, do_Status = (if created then ''created'' else ''duplicate''),
      do_StoreID = uuid_String N (st_ID s), do_Error = [], do_Warnings = cd_Warnings c\<rparr>"

lemma run_draft_Inr:
  assumes "no_faults E" and "in_ward N ward c"
    and "CreateDiscoveryDraft (discovery_params N ward c (clock E (ticks w))) E (Suc (ticks w)) (db w) = (Inr (s, created), d)"
  shows "run_state (draft E N ward source c) w =
    (saved_outcome N source c s created, w\<lparr>ticks := Suc (Suc (ticks w)), db := d\<rparr>)"
  using assms by (simp add: draft_def Let_def saved_outcome_def)

lemma run_draft_Inl:
  assumes "no_faults E" and "in_ward N ward c"
    and "CreateDiscoveryDraft (discovery_params N ward c (clock E (ticks w))) E (Suc (ticks w)) (db w) = (Inl err, d)"
  shows "do_Status (fst (run_state (draft E N ward source c) w)) = ''failed''"
  using assms by (simp add: draft_def Let_def)

lemma run_draft_elsewhere:
  "\<not> in_ward N ward c \<Longrightarrow> do_Status (fst (run_state (draft E N ward source c) w)) = ''failed''"
  by (simp add: draft_def Let_def)

lemma draft_saved:
  assumes "no_faults E" and "run_state (draft E N ward source c) w = (out, w')" and "do_Status out \<noteq> ''failed''"
  obtains s where "in_ward N ward c" and "s \<in> set (stores (db w'))"
    and "same_restaurant E (discovery_params N ward c t) s" and "do_StoreID out = uuid_String N (st_ID s)"
    and "do_Status out = ''created'' \<Longrightarrow> filter (same_restaurant E (discovery_params N ward c t)) (stores (db w')) = [s]"
proof -
  let ?arg = "discovery_params N ward c (clock E (ticks w))"
  have ward: "in_ward N ward c" using run_draft_elsewhere[of N ward c E source w] assms(2,3) by auto
  obtain r d where q: "CreateDiscoveryDraft ?arg E (Suc (ticks w)) (db w) = (r, d)" by fastforce
  have "r \<noteq> Inl err" for err
    using run_draft_Inl[OF assms(1) ward, of w err d source] q assms(2,3) by auto
  then obtain s created where r: "r = Inr (s, created)" by (metis old.sum.exhaust prod.exhaust)
  have run: "out = saved_outcome N source c s created" "db w' = d"
    using run_draft_Inr[OF assms(1) ward q[unfolded r], of source] assms(2) by auto
  note same = same_candidate[of E N ward c t "clock E (ticks w)"]
  show thesis
  proof (cases rule: CreateDiscoveryDraft_cases[OF q])
    case (1 x)
    then have "x = s" "\<not> created" using r by simp_all
    with 1 show thesis by (intro that[OF ward, of s]) (simp_all add: run same saved_outcome_def)
  next
    case (2 x)
    have "same_restaurant E ?arg x"
      unfolding 2(2) by (simp add: same_restaurant_def full_store_def enforce_draft_def discovery_params_def)
    with 2 have "filter (same_restaurant E ?arg) (stores d) = [x]" by simp
    moreover have "x = s" using 2 r by simp
    ultimately show thesis
      using 2(3) \<open>same_restaurant E ?arg x\<close>
      by (intro that[OF ward, of s]) (simp_all add: run same saved_outcome_def)
  qed (use r in simp)
qed

text \<open>C38: Retrying is safe: with a reachable database, once a candidate was saved or recognised as a
  duplicate, offering it to the same ward again, from whatever source, changes nothing and is answered as
  a duplicate of a store that the duplicate check recognises, as long as no store was changed or deleted
  in between (others may have been added). If the first offer created the store and no store was added
  either, the answer names that very store; with several matching stores any of them may be named, since
  the check does not order them.\<close>

theorem discovery_retry_safe:
  assumes "no_faults E" and "run_state (draft E N ward source c) w = (out, w')"
    and "do_Status out \<noteq> ''failed''" and "set (stores (db w')) \<subseteq> set (stores (db v))"
    and "run_state (draft E N ward source2 c) v = (again, v')"
  shows "do_Status again = ''duplicate'' \<and> db v' = db v
    \<and> (\<exists>s \<in> set (stores (db v)). do_StoreID again = uuid_String N (st_ID s)
        \<and> same_restaurant E (discovery_params N ward c (clock E (ticks v))) s)
    \<and> (do_Status out = ''created'' \<and> stores (db v) = stores (db w') \<longrightarrow> do_StoreID again = do_StoreID out)"
proof -
  let ?arg = "discovery_params N ward c (clock E (ticks v))"
  obtain s where ward: "in_ward N ward c" and s: "s \<in> set (stores (db w'))" "same_restaurant E ?arg s"
      "do_StoreID out = uuid_String N (st_ID s)"
    and only: "do_Status out = ''created'' \<Longrightarrow> filter (same_restaurant E ?arg) (stores (db w')) = [s]"
    using draft_saved[OF assms(1-3)] by metis
  have "s \<in> set (stores (db v))" using s(1) assms(4) by blast
  then obtain x where x: "CreateDiscoveryDraft ?arg E (Suc (ticks v)) (db v) = (Inr (x, False), db v)"
      "x \<in> set (stores (db v))" "same_restaurant E ?arg x"
    using s(2) by (rule known_restaurant)
  have again: "do_Status again = ''duplicate''" "do_StoreID again = uuid_String N (st_ID x)" "db v' = db v"
    using run_draft_Inr[OF assms(1) ward x(1), of source2] assms(5) by (auto simp: saved_outcome_def)
  have "x = s" if "do_Status out = ''created''" "stores (db v) = stores (db w')"
  proof -
    have "x \<in> set (filter (same_restaurant E ?arg) (stores (db w')))" using x(2,3) that(2) by simp
    then show ?thesis unfolding only[OF that(1)] by simp
  qed
  with again x s(3) show ?thesis by auto
qed

end
