(* ===== verification/GF_Services_Runs.thy ===== *)
theory GF_Services_Runs
  imports GF_ImportRace GF_Backfill GF_Uploads GF_Discovery GF_Browse_Runs
begin

text \<open>
  A concrete network: a geocoder that answers with one precise place, a bucket that takes every
  object, hosts with a public address and pages that describe one restaurant; and the witnesses of
  the properties of import, geocoding, uploads, extraction and discovery.
\<close>

section \<open>The network\<close>

definition place_title :: string where "place_title = ku_marker @ ''1-2''"

definition page_json :: json where
  "page_json = JObj [(''@type'', JStr ''Restaurant''), (''name'', JStr ''Soba''), (''address'', JStr ''1-2 Minato'')]"

definition script_page :: "string \<Rightarrow> html" where
  "script_page t = OtherNode [Element ''script'' [(''type'', ''application/ld+json'')] [TextNode ''{}''], TextNode t]"

definition sample_page :: html where "sample_page = script_page ''Gluten-free soba''"

definition sample_url :: "string \<Rightarrow> web_url" where
  "sample_url s = \<lparr>wu_Scheme = ''https'', wu_HasUser = False, wu_Hostname = ''a.jp'', wu_Port = [],
     wu_Path = s, wu_RawQuery = [], wu_Fragment = []\<rparr>"

definition sample_net :: net where
  "sample_net =
     \<lparr>unicode_lower = ToLower, ctx_done = (\<lambda>_. False),
      gsi_get = (\<lambda>_ _. Inr (200, Some [([139, 35], place_title)])), gcs_fault = (\<lambda>_. NoFault),
      uuid_String = (\<lambda>u. nat_digits (unat u)), url_Parse = (\<lambda>s. Some (sample_url s)),
      url_String = wu_Path, url_Resolve = (\<lambda>_ u. u), ParseAddr = (\<lambda>_. None),
      brave_get = (\<lambda>_ _ _. Inl ''offline''), LookupNetIP = (\<lambda>_ _. Some [IPv4 0x08080808]),
      web_get = (\<lambda>_ _. HopDone 200 (Some ''<p>'') ''text/html''), html_Parse = (\<lambda>_. Some sample_page),
      json_Unmarshal = (\<lambda>_. Some page_json), json_MarshalIndent = (\<lambda>_. ''{}''), RFC3339 = (\<lambda>_. ''now'')\<rparr>"

section \<open>Import\<close>

definition import_body :: body where
  "import_body = \<lparr>bo_rest = ''name,ward'' @ [newline] @ ''soba,minato'' @ [newline], bo_err = None\<rparr>"

definition ward_world :: world where "ward_world = world_of (empty_db\<lparr>wards := [sample_ward]\<rparr>)"

definition soba_imported :: "importResult \<times> world" where
  "soba_imported =
     run_state (import_rows sample_env sample_net (header_columns sample_net [''name'', ''ward''])
        (ward_ids sample_net [sample_ward]) 0 [ReadRec [''soba'', ''minato'']] no_imports)
       (ward_world\<lparr>ticks := 1\<rparr>)"

lemma import_within_limit: "MaxBytesReader maxImportBytes import_body = import_body"
  by (simp add: MaxBytesReader_def maxImportBytes_def import_body_def)

lemma import_reads:
  "csv_Read import_body = (ReadRec [''name'', ''ward''], \<lparr>bo_rest = ''soba,minato'' @ [newline], bo_err = None\<rparr>)"
  "csv_Read \<lparr>bo_rest = ''soba,minato'' @ [newline], bo_err = None\<rparr> =
     (ReadRec [''soba'', ''minato''], \<lparr>bo_rest = [], bo_err = None\<rparr>)"
  "csv_Read \<lparr>bo_rest = [], bo_err = None\<rparr> = (ReadEOF, \<lparr>bo_rest = [], bo_err = None\<rparr>)"
  by code_simp+

lemma import_keys:
  "header_columns sample_net [''name'', ''ward''] = [''name'' \<mapsto> 0, ''ward'' \<mapsto> Suc 0]"
  "ward_ids sample_net [sample_ward] = [''minato'' \<mapsto> 13]"
  "TrimSpace ''soba'' = ''soba''" "TrimSpace ''minato'' = ''minato''" "splitSemicolonList [] = []"
proof -
  have t: "TrimSpace ''name'' = ''name'' \<and> TrimSpace ''ward'' = ''ward'' \<and> TrimSpace ''soba'' = ''soba''
    \<and> TrimSpace ''minato'' = ''minato'' \<and> TrimSpace ''Minato'' = ''Minato'' \<and> TrimSpace [] = []
    \<and> ToLower ''name'' = ''name'' \<and> ToLower ''ward'' = ''ward'' \<and> ToLower ''Minato'' = ''minato''"
    by code_simp
  then show "header_columns sample_net [''name'', ''ward''] = [''name'' \<mapsto> 0, ''ward'' \<mapsto> Suc 0]"
    "ward_ids sample_net [sample_ward] = [''minato'' \<mapsto> 13]"
    "TrimSpace ''soba'' = ''soba''" "TrimSpace ''minato'' = ''minato''" "splitSemicolonList [] = []"
    by (simp_all add: header_columns_def ward_ids_def sample_ward_def splitSemicolonList_def sample_net_def)
qed

lemma soba_is_imported:
  "internalImportStores sample_env sample_net import_body ward_world =
     Some (Reply StatusOK (fst soba_imported), snd soba_imported)"
proof (rule import_OK_intro)
  show "csv_rows \<lparr>bo_rest = ''soba,minato'' @ [newline], bo_err = None\<rparr> [ReadRec [''soba'', ''minato'']]"
    by (intro csv_rows.next_row[OF import_reads(2)] csv_rows.at_end[OF import_reads(3)]) simp
qed (simp_all add: import_within_limit import_reads ward_world_def soba_imported_def, simp_all add: import_keys)

lemma soba_row:
  "soba_imported = (no_imports\<lparr>im_Created := 1\<rparr>, ward_world\<lparr>ticks := 3, db := (db ward_world)\<lparr>stores :=
     [draft_store sample_env 2 [''name'' \<mapsto> 0, ''ward'' \<mapsto> 1] [''soba'', ''minato''] ''soba'' 13]\<rparr>\<rparr>)"
proof -
  let ?col = "[''name'' \<mapsto> 0, ''ward'' \<mapsto> Suc 0]" and ?rec = "[''soba'', ''minato'']"
  have "st_WardID (draft_store E i col rec name 13) = 13" for E i col rec name
    by (simp add: draft_store_def full_store_def draft_params_def)
  then show ?thesis
    by (simp add: soba_imported_def import_keys import_row_def import_record_def csv_field_def lookup_ward_def
        CountStoresByNameWard_def rows_matching_def import_create_def create_draft insert_store_def
        ward_world_def empty_db_def no_imports_def numeral_eq_Suc Let_def)
qed

lemma soba_counts: "im_Created (fst soba_imported) = 1" "im_Failed (fst soba_imported) = 0"
  by (simp_all add: soba_row no_imports_def)

theorem import_accounts_witness:
  "internalImportStores sample_env sample_net import_body ward_world =
     Some (Reply StatusOK (fst soba_imported), snd soba_imported)
   \<and> drafts_added (db ward_world) (db (snd soba_imported))
   \<and> length (stores (db (snd soba_imported))) = 1"
  using soba_is_imported import_accounts[OF soba_is_imported] by (simp add: soba_counts ward_world_def empty_db_def)

theorem reimport_creates_nothing_witness:
  "\<exists>res2 v'. internalImportStores sample_env sample_net import_body (snd soba_imported) = Some (Reply StatusOK res2, v')
    \<and> db v' = db (snd soba_imported) \<and> im_Created res2 = 0 \<and> im_Failed res2 = 0"
proof -
  have "wards (db (snd soba_imported)) = wards (db ward_world)" by (simp add: soba_row)
  with reimport_creates_nothing[OF _ soba_is_imported soba_counts(2), of "snd soba_imported"]
  show ?thesis by auto
qed

theorem concurrent_imports_duplicate_witness:
  "let step = import_race sample_env [''name'' \<mapsto> 0, ''ward'' \<mapsto> 1] 1 [''soba'', ''minato''] (''soba'', 13) no_imports in
   \<exists>r1 r2 w'. rtranclp step ([Checking, Checking], ward_world) ([Imported r1, Imported r2], w')
     \<and> map st_Name (stores (db w')) = [''soba'', ''soba''] \<and> map st_WardID (stores (db w')) = [13, 13]"
proof -
  let ?col = "[''name'' \<mapsto> 0, ''ward'' \<mapsto> Suc 0]" and ?rec = "[''soba'', ''minato'']"
  have target: "row_target sample_net ?col [''minato'' \<mapsto> 13] ?rec = Some (''soba'', 13)"
    by (simp add: row_target_def csv_field_def lookup_ward_def import_keys)
  have world: "stores (db ward_world) = []" "wards (db ward_world) = [sample_ward]" "ticks ward_world = 0"
    by (simp_all add: ward_world_def empty_db_def)
  have items: "row_items ?col ?rec = []"
    by (simp add: row_items_def csv_field_def import_keys)
  have "{0..<4} = {0, 1, 2, 3 :: nat}" by auto
  then have "inj_on (gen_random_uuid sample_env) {0..<4}"
    by (simp add: inj_on_def)
  then have "fresh_ids sample_env (2 * length (row_items ?col ?rec) + 4) ward_world"
    by (simp add: fresh_ids_def world items)
  moreover have "\<not> present sample_env (''soba'', 13) (db ward_world)" "snd (''soba'', 13) \<in> w_ID ` set (wards (db ward_world))"
    by (simp_all add: present_def world sample_ward_def)
  ultimately obtain r1 r2 w' s1 s2 where "rtranclp (import_race sample_env ?col 1 ?rec (''soba'', 13) no_imports)
      ([Checking, Checking], ward_world) ([Imported r1, Imported r2], w')"
    "stores (db w') = [s1, s2]" "(st_Name s1, st_WardID s1) = (''soba'', 13)" "(st_Name s2, st_WardID s2) = (''soba'', 13)"
    using concurrent_imports_duplicate[OF _ target, of sample_env ward_world 1 no_imports] world(1) by auto
  then show ?thesis
    unfolding Let_def by (intro exI[of _ r1] exI[of _ r2] exI[of _ w']) simp
qed

section \<open>Geocoding\<close>

definition backfilled_catalogue :: "geocodeResult reply \<times> world" where
  "backfilled_catalogue = run_state (internalGeocodeStores sample_env sample_net sample_server []) (world_of catalogue_db)"

lemma catalogue_backfilled:
  obtains res where "run_state (internalGeocodeStores sample_env sample_net sample_server []) (world_of catalogue_db) =
      (Reply StatusOK res, snd backfilled_catalogue)"
proof -
  have "geocode_limit [] = Some 100" by (simp add: geocode_limit_def defaultGeocodeLimit_def)
  note run = run_backfill[OF this, where E = sample_env and w = "world_of catalogue_db"]
  show thesis using that by (cases backfilled_catalogue) (auto simp: backfilled_catalogue_def run split: prod.splits)
qed

lemma sample_stores_missing: "missing_coords (sample_store i st)"
  by (simp add: missing_coords_def sample_store_def new_store_def)

lemma sample_store_rows [simp]: "st_CreatedAt (sample_store i st) = sample_now i" "st_Address (sample_store i st) = ''1-2-3''"
  by (simp_all add: sample_store_def new_store_def)

lemma catalogue_missing:
  "sort_key st_CreatedAt (filter missing_coords (stores catalogue_db)) =
     [sample_store 10 StoreStatusApproved, sample_store 11 StoreStatusDraft]"
  by (simp add: sample_stores_missing sample_now_def second_def)

lemma never_done_sample: "never_done sample_net"
  by (simp add: never_done_def sample_net_def)

theorem backfill_fills_missing_witness:
  "\<exists>res. run_state (internalGeocodeStores sample_env sample_net sample_server []) (world_of catalogue_db) =
      (Reply StatusOK res, snd backfilled_catalogue)
    \<and> attempts res = 2 \<and> gb_Remaining res = 0
    \<and> visited (snd backfilled_catalogue) = lookups NewGSI [''1-2-3'', ''1-2-3'']
    \<and> backfilled sample_net NewGSI [sample_store 10 StoreStatusApproved, sample_store 11 StoreStatusDraft]
        catalogue_db (db (snd backfilled_catalogue))"
proof -
  obtain res where run: "run_state (internalGeocodeStores sample_env sample_net sample_server []) (world_of catalogue_db) =
      (Reply StatusOK res, snd backfilled_catalogue)"
    by (rule catalogue_backfilled)
  have limit: "geocode_limit [] = Some 100" by (simp add: geocode_limit_def defaultGeocodeLimit_def)
  have world: "sv_geocoder sample_server = NewGSI" "visited (world_of catalogue_db) = []"
    by (simp_all add: sample_server_def world_of_def)
  have rows: "filter missing_coords (stores catalogue_db) =
      [sample_store 10 StoreStatusApproved, sample_store 11 StoreStatusDraft]"
    by (simp add: sample_stores_missing)
  from backfill_fills_missing[OF run] run never_done_sample show ?thesis
    unfolding world_of_sel catalogue_missing unfolding rows by (auto simp: limit world Let_def)
qed

lemma sample_steady_clock: "steady_clock sample_env"
  by (simp add: steady_clock_def)

theorem backfill_pace_witness:
  "\<exists>us. visited (snd backfilled_catalogue) = us \<and> length us \<le> 500
    \<and> zero_time + int (length us) * gsiMinInterval \<le> gsi_last (snd backfilled_catalogue)"
proof -
  obtain res where "run_state (internalGeocodeStores sample_env sample_net sample_server []) (world_of catalogue_db) =
      (Reply StatusOK res, snd backfilled_catalogue)"
    by (rule catalogue_backfilled)
  from backfill_pace[OF sample_steady_clock this] show ?thesis
    by (simp add: world_of_def sample_server_def NewGSI_def)
qed

text \<open>A provider that only ever places an address in its ward.\<close>

definition vague_net :: net where
  "vague_net = sample_net\<lparr>gsi_get := \<lambda>_ _. Inr (200, Some [([139, 35], ku_marker)])\<rparr>"

definition vague_pass :: "world \<Rightarrow> world" where
  "vague_pass w = snd (run_state (internalGeocodeStores sample_env vague_net sample_server ''1'') w)"

theorem backfill_starves_witness:
  "let w' = vague_pass (vague_pass (world_of catalogue_db)) in
     db w' = catalogue_db
   \<and> visited w' = lookups NewGSI [''1-2-3''] @ lookups NewGSI [''1-2-3'']
   \<and> (\<exists>res. fst (run_state (internalGeocodeStores sample_env vague_net sample_server ''1'') w') = Reply StatusOK res
        \<and> gb_Geocoded res = 0 \<and> gb_Remaining res = 1)"
proof -
  have evals: "geocode_limit ''1'' = Some 1 \<and> \<not> preciseEnough ku_marker" by code_simp
  note limit = conjunct1[OF evals]
  have more: "nat 1 < length (filter missing_coords (stores (db (world_of catalogue_db))))"
    by (simp add: sample_stores_missing)
  from evals have vague: "gsi_result (gsi_get vague_net i u) = Inr hit \<Longrightarrow> \<not> ge_Precise hit" for i u hit
    by (auto simp: vague_net_def gsi_result_def status_defs)
  have passes: "(backfill_pass sample_env vague_net sample_server ''1'' ^^ 2) (world_of catalogue_db)
      (vague_pass (vague_pass (world_of catalogue_db)))"
    unfolding numeral_2_eq_2
    by (intro relpowp_Suc_I relpowp_0_I) (simp_all add: backfill_pass_def vague_pass_def)
  have tried: "oldest_missing (nat 1) (db (world_of catalogue_db)) = [sample_store 10 StoreStatusApproved]"
    unfolding oldest_missing_def world_of_sel catalogue_missing by simp
  have world: "sv_geocoder sample_server = NewGSI" "visited (world_of catalogue_db) = []" "never_done vague_net"
    using never_done_sample by (simp_all add: sample_server_def world_of_def never_done_def vague_net_def)
  from backfill_starves[OF _ limit more _ passes] vague show ?thesis
    unfolding tried by (auto simp: Let_def world numeral_2_eq_2)
qed

definition looked_up_address :: "geocodeAddressResponse reply \<times> world" where
  "looked_up_address =
     run_state (internalGeocodeAddress sample_env sample_net sample_server (Some \<lparr>ga_Address = ''1-2''\<rparr>)) (world_of empty_db)"

theorem geocode_address_honest_witness:
  "db (snd looked_up_address) = empty_db"
proof -
  have run: "run_state (internalGeocodeAddress sample_env sample_net sample_server (Some \<lparr>ga_Address = ''1-2''\<rparr>)) (world_of empty_db) =
      (fst looked_up_address, snd looked_up_address)"
    by (simp add: looked_up_address_def)
  from geocode_address_honest[OF run] show ?thesis by simp
qed

section \<open>Uploads\<close>

definition png_file :: form_file where
  "png_file = \<lparr>ff_Size = 10, ff_Open = Inr (png_sig @ ''ab'')\<rparr>"

theorem upload_sound_witness:
  "\<exists>url w' uid. run_state (internalUploadImage sample_env sample_net sample_server (Some ''menu'') (Some png_file)) (world_of empty_db) =
      (Reply StatusCreated url, w') \<and> objects w' = [(''menu/'' @ uid @ ''.png'', ''image/png'', png_sig @ ''ab'')] \<and> db w' = empty_db"
proof -
  let ?m = "internalUploadImage sample_env sample_net sample_server (Some ''menu'') (Some png_file)"
  have sniff: "sniffImageType (png_sig @ ''ab'') = Inr ''image/png'' \<and> DetectImageType (take 512 (png_sig @ ''ab'')) = Some ''image/png''"
    by code_simp
  obtain url where "fst (run_state ?m (world_of empty_db)) = Reply StatusCreated url"
    by (simp add: internalUploadImage_def sample_server_def uploadPrefixes_def png_file_def maxUploadBytes_def
        conjunct1[OF sniff] Upload_def extByContentType_def put_object_def sample_net_def Let_def)
  then have run: "run_state ?m (world_of empty_db) = (Reply StatusCreated url, snd (run_state ?m (world_of empty_db)))"
    by (simp add: prod_eq_iff)
  have none: "objects (world_of empty_db) = []" by (simp add: world_of_def)
  from upload_sound[OF run] obtain uid where
    "objects (snd (run_state ?m (world_of empty_db))) = [(''menu/'' @ uuid_String sample_net uid @ ''.png'', ''image/png'', png_sig @ ''ab'')]"
    "db (snd (run_state ?m (world_of empty_db))) = empty_db"
    using conjunct2[OF sniff] by (auto simp: none png_file_def)
  with run show ?thesis by blast
qed

section \<open>Extraction\<close>

lemma length_runes: "length (runes s) \<le> length s"
proof (induction s rule: runes.induct)
  case (1 s)
  let ?n = "rune_width (codes s)"
  show ?case
  proof (cases "s = [] \<or> ?n = 0")
    case True
    then show ?thesis using 1(1)[OF _ refl] by (cases s) (simp_all add: runes.simps)
  next
    case False
    then have "length (runes (drop ?n s)) \<le> length s - ?n" "length s - ?n < length s"
      using 1(2)[OF _ refl] by simp_all
    moreover have "length (runes s) = Suc (length (runes (drop ?n s)))"
      using False by (simp add: runes.simps[of s] Let_def)
    ultimately show ?thesis by linarith
  qed
qed

lemma clip_short: "length s \<le> m \<Longrightarrow> clip s m = s"
  using length_runes[of s] by (simp add: clip_def Let_def)

lemma sample_URL: "URL sample_net u = Inr (sample_url (TrimSpace u))"
  by (simp add: URL_def sample_net_def sample_url_def)

lemma sample_net_sel [simp]:
  "html_Parse sample_net d = Some sample_page" "unicode_lower sample_net = ToLower"
  by (simp_all add: sample_net_def)

lemma ld_type: "EqualFoldASCII ''application/ld+json'' ''application/ld+json''"
  by code_simp

lemma ld_script_page: "json_Unmarshal N ''{}'' = Some j \<Longrightarrow> ld_json N (script_page t) = [j]"
  by (simp add: ld_json_def script_page_def is_element_def attr_def ld_type first_child_def node_data_def
      List.map_filter_def)

lemma sample_ld_json: "ld_json sample_net sample_page = [page_json]"
  by (simp add: sample_page_def ld_script_page sample_net_def)

definition soba_object :: "(string \<times> json) list" where
  "soba_object = [(''@type'', JStr ''Restaurant''), (''name'', JStr ''Soba''), (''address'', JStr ''1-2 Minato'')]"

lemma soba_object_fields:
  "concat (map restaurants [page_json]) = [soba_object]"
  "clip (stringValue (json_get soba_object ''name'')) 300 = ''Soba''"
  "clip (address_of soba_object) 1000 = ''1-2 Minato''"
proof -
  show "concat (map restaurants [page_json]) = [soba_object]" by code_simp
  have "stringValue (json_get soba_object ''name'') = ''Soba''" "address_of soba_object = ''1-2 Minato''"
    by code_simp+
  then show "clip (stringValue (json_get soba_object ''name'')) 300 = ''Soba''"
    "clip (address_of soba_object) 1000 = ''1-2 Minato''"
    by (simp_all add: clip_short)
qed

lemma sample_text: "pageText sample_net d 60000 = ''Gluten-free soba''"
proof -
  have "strings_Join (Fields (nodeText sample_page)) '' '' = ''Gluten-free soba''" by code_simp
  then show ?thesis by (simp add: pageText_def clip_short)
qed

lemma sample_evidence: "evidence_in sample_net ''Gluten-free soba'' = Some ''Gluten-free soba''"
proof -
  have "List.map_filter (strings_Index (ToLower ''Gluten-free soba'')) needles = [0]" by code_simp
  moreover have "ToValidUTF8 ''Gluten-free soba'' = ''Gluten-free soba''" by code_simp
  ultimately show ?thesis by (simp add: evidence_in_def clip_short)
qed

definition soba_candidate :: "string \<Rightarrow> Candidate" where
  "soba_candidate u =
     \<lparr>cd_Name = ''Soba'', cd_Address = ''1-2 Minato'',
      cd_Phone = clip (stringValue (json_get soba_object ''telephone'')) 100, cd_SourceURL = TrimSpace u,
      cd_Cuisine = clip (strings_Join (links_opt (json_get soba_object ''servesCuisine'')) '', '') 200,
      cd_Evidence = ''Gluten-free soba'', cd_Images = page_images sample_net (sample_url (TrimSpace u)) sample_page soba_object,
      cd_Menus = page_menus sample_net (sample_url (TrimSpace u)) sample_page soba_object, cd_MenuText = [],
      cd_Warnings = warnings\<rparr>"

lemma sample_Extract: "Extract sample_net d u = Some (Inr (soba_candidate u))"
  by (simp add: Extract_def sample_URL sample_ld_json soba_object_fields[simplified] sample_text sample_evidence
      soba_candidate_def) (simp add: sample_net_def sample_url_def)

theorem extract_sound_witness:
  "Extract sample_net ''<p>'' ''https://a.jp/'' = Some (Inr (soba_candidate ''https://a.jp/''))
   \<and> cd_Evidence (soba_candidate ''https://a.jp/'') \<noteq> []
   \<and> crawlable sample_net (cd_Menus (soba_candidate ''https://a.jp/''))"
  using extract_sound[OF sample_Extract] sample_Extract by blast

theorem two_types_rejected_witness:
  "\<exists>e. Extract (sample_net\<lparr>json_Unmarshal :=
      \<lambda>_. Some (JObj [(''@type'', JArr [JStr ''Restaurant'', JStr ''CafeOrCoffeeShop''])])\<rparr>) ''<p>'' ''https://a.jp/'' =
    Some (Inl e)"
proof -
  let ?N = "sample_net\<lparr>json_Unmarshal := \<lambda>_. Some (JObj [(''@type'', JArr [JStr ''Restaurant'', JStr ''CafeOrCoffeeShop''])])\<rparr>"
  have "URL ?N ''https://a.jp/'' = Inr (sample_url (TrimSpace ''https://a.jp/''))"
    by (simp add: URL_def sample_net_def sample_url_def)
  moreover have "ld_json ?N sample_page = [JObj [(''@type'', JArr [JStr ''Restaurant'', JStr ''CafeOrCoffeeShop''])]]"
    by (simp add: sample_page_def ld_script_page)
  ultimately show ?thesis
    using two_types_rejected[of ?N "''https://a.jp/''" _ "''<p>''" sample_page] by (simp add: json_get_def)
qed

text \<open>A page of 200 letters U+023A before its statement; lower case makes each of them a byte longer.\<close>

definition stroke_a :: string where "stroke_a = bytes [0xC8, 0xBA]"
definition small_stroke_a :: string where "small_stroke_a = bytes [0xE2, 0xB1, 0xA5]"

definition stroke_page :: html where
  "stroke_page = script_page (concat (replicate 200 stroke_a) @ ''gluten-free'')"

definition stroke_net :: net where
  "stroke_net = sample_net\<lparr>unicode_lower := \<lambda>s. ToLower (ReplaceAll s stroke_a small_stroke_a),
     html_Parse := \<lambda>_. Some stroke_page\<rparr>"

definition strokes :: string where "strokes = concat (replicate 200 stroke_a)"

lemma length_strokes: "length strokes = 400"
  by (simp add: strokes_def stroke_a_def bytes_def length_concat sum_list_replicate)

text \<open>Bytes that no white space starts with.\<close>

definition inked :: "char \<Rightarrow> bool" where
  "inked c \<longleftrightarrow> 33 \<le> (of_char c :: nat) \<and> (of_char c :: nat) \<notin> {0xC2, 0xE1, 0xE2, 0xE3}"

lemma fields_inked: "list_all inked s \<Longrightarrow> cur @ s \<noteq> [] \<Longrightarrow> fields_from cur (s @ '' '') = [rev cur @ s]"
proof (induction s arbitrary: cur)
  case (Cons c s)
  then have "ws_len (codes ((c # s) @ '' '')) = 0" by (auto simp: inked_def codes_def split: list.split)
  then have "fields_from cur ((c # s) @ '' '') = fields_from (c # cur) (s @ '' '')" by (simp add: Let_def)
  with Cons show ?case by simp
qed (simp add: codes_def Let_def)

lemma stroke_text: "pageText stroke_net d 60000 = strokes @ ''gluten-free''"
proof -
  have "list_all inked stroke_a" "list_all inked ''gluten-free''" by code_simp+
  then have "list_all inked (strokes @ ''gluten-free'')" by (simp add: strokes_def list_all_iff)
  then have "Fields (strokes @ ''gluten-free '') = [strokes @ ''gluten-free'']"
    using fields_inked[of "strokes @ ''gluten-free''" "[]"] by (simp add: Fields_def)
  moreover have "nodeText stroke_page = strokes @ ''gluten-free ''"
    by (simp add: stroke_page_def script_page_def strokes_def)
  ultimately show ?thesis
    by (simp add: pageText_def stroke_net_def strings_Join_def clip_short length_strokes)
qed

lemma lower_strokes:
  "ToLower (ReplaceAll (concat (replicate n stroke_a) @ ''gluten-free'') stroke_a small_stroke_a) =
     concat (replicate n small_stroke_a) @ ''gluten-free''"
proof (induction n)
  case 0
  show ?case by code_simp
next
  case (Suc n)
  have "ReplaceAll (stroke_a @ t) stroke_a small_stroke_a = small_stroke_a @ ReplaceAll t stroke_a small_stroke_a" for t
    by (simp add: stroke_a_def bytes_def)
  moreover have "ToLower small_stroke_a = small_stroke_a" by code_simp
  ultimately show ?case using Suc by (simp add: ToLower_def)
qed

lemma find_after_strokes:
  "strings_Index (concat (replicate n small_stroke_a) @ ''gluten-free'') ''gluten-free'' = Some (3 * n)"
proof (induction n)
  case (Suc n)
  have bytes: "small_stroke_a = [CHR 0xE2, CHR 0xB1, CHR 0xA5]" by code_simp
  have "strings_Index (small_stroke_a @ s) ''gluten-free'' = map_option (\<lambda>i. i + 3) (strings_Index s ''gluten-free'')" for s
    unfolding bytes by (simp add: option.map_comp comp_def numeral_3_eq_3)
  with Suc show ?case by simp
qed simp

theorem extract_panics_witness: "Extract stroke_net ''<p>'' ''https://a.jp/'' = None"
proof (rule extract_panics)
  show "URL stroke_net ''https://a.jp/'' = Inr (sample_url (TrimSpace ''https://a.jp/''))"
    by (simp add: URL_def stroke_net_def sample_net_def sample_url_def)
  show "html_Parse stroke_net ''<p>'' = Some stroke_page" by (simp add: stroke_net_def)
  have "ld_json stroke_net stroke_page = [page_json]"
    by (simp add: stroke_page_def ld_script_page stroke_net_def sample_net_def)
  then show "concat (map restaurants (ld_json stroke_net stroke_page)) = [soba_object]"
    using soba_object_fields(1) by simp
  show "strings_Index (unicode_lower stroke_net (pageText stroke_net ''<p>'' 60000)) ''gluten-free'' = Some 600"
    using lower_strokes[of 200] find_after_strokes[of 200]
    by (simp only: stroke_text) (simp add: stroke_net_def strokes_def)
qed (simp_all add: soba_object_fields stroke_text length_strokes)

section \<open>Discovery\<close>

definition soba_drafted :: "discoveryOutcome \<times> world" where
  "soba_drafted = run_state (draft sample_env sample_net sample_ward ''https://a.jp/'' (soba_candidate ''https://a.jp/'')) ward_world"

lemma soba_in_ward: "in_ward sample_net sample_ward (soba_candidate u)"
proof -
  have "ToLower ''1-2 Minato'' = ''1-2 minato''" "ToLower ''minato'' = ''minato''"
    "strings_Contains ''1-2 minato'' ''minato''"
    by code_simp+
  then show ?thesis by (simp add: in_ward_def soba_candidate_def sample_ward_def)
qed

lemma soba_is_drafted: "do_Status (fst soba_drafted) = ''created''"
proof -
  have scans: "StoreStatus_scan ''draft'' = Some StoreStatusDraft" "GfStatus_scan ''on_request'' = Some GfStatusOnRequest"
    by code_simp+
  show ?thesis
    by (simp add: soba_drafted_def draft_def soba_in_ward CreateDiscoveryDraft_def ward_world_def empty_db_def
      CreateStoreFull_def enforce_draft_def discovery_params_def insert_store_def Let_def
        scans full_store_def)
qed

theorem discovery_retry_safe_witness:
  "let again = run_state (draft sample_env sample_net sample_ward ''https://b.jp/'' (soba_candidate ''https://a.jp/''))
     (snd soba_drafted)
   in do_Status (fst again) = ''duplicate'' \<and> do_StoreID (fst again) = do_StoreID (fst soba_drafted)
    \<and> db (snd again) = db (snd soba_drafted)"
proof -
  have "run_state (draft sample_env sample_net sample_ward ''https://a.jp/'' (soba_candidate ''https://a.jp/'')) ward_world =
      (fst soba_drafted, snd soba_drafted)"
    by (simp add: soba_drafted_def)
  from discovery_retry_safe[OF _ this _ _ surjective_pairing, of "snd soba_drafted"] soba_is_drafted
  show ?thesis by (simp add: Let_def)
qed

theorem discover_confined_witness:
  "crawled 73 ward_world (snd (run_state (internalDiscover sample_env sample_net sample_server
     (Some \<lparr>dr_WardID = 13, dr_Query = [], dr_URLs = [''https://a.jp/''], dr_Limit = 0\<rparr>)) ward_world))"
  using discover_confined[OF surjective_pairing] by blast

end
