(* ===== verification/GF_Frames.thy ===== *)
theory GF_Frames
  imports GF_Auth GF_Subscription GF_Browse GF_StoreAdmin GF_Internal GF_InternalAdmins
    GF_Import GF_Backfill GF_Discovery GF_Uploads GF_Schema
begin

text \<open>
  What every handler respects. The contract is a frame relation on the tables that the writing
  statements respect; a handler touches the tables through statements only, so it respects the
  relation too. \<open>account_frame\<close> asks it of the statements on accounts and sessions and gives the
  handlers that use no other; \<open>statement_frame\<close> extends it to all. The contract is met by the
  schema's constraints, by the wards staying as they are and by app users keeping their identity, the
  first one by the stores and menus as well; each interpretation gives the fact for the handlers.
\<close>

locale account_frame = db_frame D for D :: "database \<Rightarrow> database \<Rightarrow> bool" +
  fixes E :: env
  assumes q_CreateUser: "query_rel D E (CreateUser cu)"
    and q_UpdateSubscription: "query_rel D E (UpdateSubscription us)"
    and q_CreateSession: "query_rel D E (CreateSession cs)"
    and q_UpsertSubscriptionReceipt: "query_rel D E (UpsertSubscriptionReceipt ur)"
    and q_CreateInternalAdmin: "query_rel D E (CreateInternalAdmin email hash name)"
    and q_UpdateInternalAdminPassword: "query_rel D E (UpdateInternalAdminPassword aid hash)"
    and q_CreateInternalPasswordReset: "query_rel D E (CreateInternalPasswordReset aid token_hash expires)"
    and q_MarkInternalPasswordResetUsed: "query_rel D E (MarkInternalPasswordResetUsed rid)"
    and q_DeleteInternalPasswordResetsForAdmin: "query_rel D E (DeleteInternalPasswordResetsForAdmin aid)"
    and q_CreateInternalSession: "query_rel D E (CreateInternalSession ci)"
    and q_DeleteInternalSession: "query_rel D E (DeleteInternalSession sid)"
    and q_DeleteInternalSessionsForAdmin: "query_rel D E (DeleteInternalSessionsForAdmin aid)"
begin

lemmas account_statements = 
  q_CreateUser q_UpdateSubscription q_CreateSession q_UpsertSubscriptionReceipt
  q_CreateInternalAdmin q_UpdateInternalAdminPassword q_CreateInternalPasswordReset
  q_MarkInternalPasswordResetUsed q_DeleteInternalPasswordResetsForAdmin q_CreateInternalSession
  q_DeleteInternalSession q_DeleteInternalSessionsForAdmin

lemma read_call: "read_only q \<Longrightarrow> state_io_rel (db_rel D) (db_call E q)"
  by (intro call read_only_rel)

lemma write_call: "query_rel D E q \<Longrightarrow> state_io_rel (db_rel D) (db_call E q)"
  by (rule call)

lemma user_handlers:
  "state_io_rel (db_rel D) (registerUser E srv b1)"
  "state_io_rel (db_rel D) (loginUser E srv cx b2)"
  "state_io_rel (db_rel D) (appleSignIn E srv cx b3)"
  "state_io_rel (db_rel D) (renewAccessToken E srv b4)"
  "state_io_rel (db_rel D) (getCurrentUser E p)"
  unfolding registerUser_def loginUser_def appleSignIn_def createAppleUser_def renewAccessToken_def
    getCurrentUser_def currentUser_def issueSession_def
  by (intro program server_effects read_call write_call account_statements; simp)+

lemma subscription_handlers:
  "state_io_rel (db_rel D) (verifySubscription E srv b1 p)"
  "state_io_rel (db_rel D) (appleWebhook E srv b2)"
  "state_io_rel (db_rel D) (getSubscriptionStatus E p)"
  unfolding verifySubscription_def appleWebhook_def getSubscriptionStatus_def currentUser_def
  by (intro program server_effects read_call write_call account_statements; simp)+

lemma browse_handlers:
  "state_io_rel (db_rel D) (listStores E ward cursor p)"
  "state_io_rel (db_rel D) (getStore E i)"
  "state_io_rel (db_rel D) (getStoreMenu E i p)"
  "state_io_rel (db_rel D) (listWards E)"
  unfolding listStores_def getStore_def getStoreMenu_def listWards_def currentUser_def
  by (intro program server_effects read_call write_call account_statements; simp)+

lemma session_handlers:
  "state_io_rel (db_rel D) (adminLogin E srv b1)"
  "state_io_rel (db_rel D) (internalLogin E srv cx b2)"
  "state_io_rel (db_rel D) (renewInternalAccessToken E srv b3)"
  "state_io_rel (db_rel D) (internalLogout E srv b4)"
  unfolding adminLogin_def internalLogin_def issueInternalSession_def renewInternalAccessToken_def
    internalLogout_def
  by (intro program server_effects read_call write_call account_statements; simp)+

lemma account_handlers:
  "state_io_rel (db_rel D) (listInternalAdmins E)"
  "state_io_rel (db_rel D) (createInternalAdmin E b1)"
  "state_io_rel (db_rel D) (setInternalAdminPassword E i b2)"
  "state_io_rel (db_rel D) (changeInternalPassword E srv cx b3 p)"
  "state_io_rel (db_rel D) (forgotInternalPassword E srv b4)"
  "state_io_rel (db_rel D) (resetInternalPassword E b5)"
  unfolding listInternalAdmins_def createInternalAdmin_def setInternalAdminPassword_def
    changeInternalPassword_def forgotInternalPassword_def resetInternalPassword_def
    replaceAdminPassword_def newResetToken_def issueInternalSession_def
  by (intro program server_effects read_call write_call account_statements; simp)+

end

text \<open>With the statements on stores, menus and partners, every handler.\<close>

locale statement_frame = account_frame +
  assumes q_CreateStore: "query_rel D E (CreateStore cr)"
    and q_CreateStoreFull: "query_rel D E (CreateStoreFull cf)"
    and q_ApproveStore: "query_rel D E (ApproveStore sid)"
    and q_RejectStore: "query_rel D E (RejectStore sid reason)"
    and q_SubmitStore: "query_rel D E (SubmitStore sid)"
    and q_UpdateStoreProfile: "query_rel D E (UpdateStoreProfile up)"
    and q_UpdateStoreFull: "query_rel D E (UpdateStoreFull uf)"
    and q_UpdateStoreCoords: "query_rel D E (UpdateStoreCoords sid lat lng)"
    and q_DeleteStore: "query_rel D E (DeleteStore sid)"
    and q_CreateMenuItem: "query_rel D E (CreateMenuItem cm)"
    and q_UpdateMenuItem: "query_rel D E (UpdateMenuItem um)"
    and q_DeleteMenuItem: "query_rel D E (DeleteMenuItem mid sid)"
    and q_CreateStoreAdmin: "query_rel D E (CreateStoreAdmin sid email hash)"
begin

lemmas statements = account_statements
  q_CreateStore q_CreateStoreFull q_ApproveStore q_RejectStore q_SubmitStore q_UpdateStoreProfile
  q_UpdateStoreFull q_UpdateStoreCoords q_DeleteStore q_CreateMenuItem q_UpdateMenuItem
  q_DeleteMenuItem q_CreateStoreAdmin

lemma partner_handlers:
  "state_io_rel (db_rel D) (adminGetStore E p)"
  "state_io_rel (db_rel D) (adminUpdateStore E b2 p)"
  "state_io_rel (db_rel D) (adminSubmitStore E p)"
  "state_io_rel (db_rel D) (adminListMenu E p)"
  "state_io_rel (db_rel D) (adminCreateMenu E b3 p)"
  "state_io_rel (db_rel D) (adminUpdateMenu E i b3 p)"
  "state_io_rel (db_rel D) (adminDeleteMenu E i p)"
  unfolding adminGetStore_def adminUpdateStore_def adminSubmitStore_def adminListMenu_def
    adminCreateMenu_def adminUpdateMenu_def adminDeleteMenu_def
  by (intro program server_effects read_call write_call statements; simp)+

lemma list_stores_statement: "read_only (case st of Some s \<Rightarrow> ListStoresByStatus s | None \<Rightarrow> (\<lambda>E i d. (Inl e, d)))"
  by (cases st) (simp_all add: read_only_def[where q = "\<lambda>E i d. (Inl e, d)"])

lemma operator_handlers:
  "state_io_rel (db_rel D) (provisionStoreAdmin E b4)"
  "state_io_rel (db_rel D) (internalListStores E status)"
  "state_io_rel (db_rel D) (approveStore E i)"
  "state_io_rel (db_rel D) (rejectStore E i b5)"
  "state_io_rel (db_rel D) (internalCreateStore E b6)"
  "state_io_rel (db_rel D) (internalGetStore E i)"
  "state_io_rel (db_rel D) (internalUpdateStore E i b7)"
  "state_io_rel (db_rel D) (internalDeleteStore E i)"
  "state_io_rel (db_rel D) (internalListMenu E i)"
  "state_io_rel (db_rel D) (internalCreateMenu E i b8)"
  "state_io_rel (db_rel D) (internalUpdateMenu E i j b9)"
  "state_io_rel (db_rel D) (internalDeleteMenu E i j)"
  unfolding provisionStoreAdmin_def internalListStores_def approveStore_def rejectStore_def internalCreateStore_def
    internalGetStore_def internalUpdateStore_def internalDeleteStore_def internalListMenu_def
    internalCreateMenu_def internalUpdateMenu_def internalDeleteMenu_def
  by (intro program server_effects read_call write_call statements list_stores_statement; simp)+

text \<open>The clients of other services leave the tables alone.\<close>

lemma untouched: "(\<And>w. wp m (\<lambda>_ w'. db w' = db w) w) \<Longrightarrow> state_io_rel (db_rel D) m"
  by (rule from_wp, rule wp_mono, assumption) (simp add: D_refl)

lemma list_case:
  "state_io_rel R m \<Longrightarrow> (\<And>x xs. state_io_rel R (f x xs)) \<Longrightarrow>
   state_io_rel R (case ys of [] \<Rightarrow> m | x # xs \<Rightarrow> f x xs)"
  by (cases ys) auto

lemma fetching: "state_io_rel (db_rel D) (fetch N raw)"
  by (rule untouched) (auto intro: wp_mono[OF wp_fetch])

lemma dialing: "state_io_rel (db_rel D) (dial N host)"
  by (rule untouched) (rule wp_dial; simp)

lemma uploading: "state_io_rel (db_rel D) (put_object N ob)"
  by (rule untouched) simp

lemmas client_effects = geocoding fetching dialing uploading visiting

lemma capturing: "state_io_rel (db_rel D) (CaptureOrLinks N raw m)"
  unfolding CaptureOrLinks_def by (intro program client_effects list_case)

lemma geocode_loop: "state_io_rel (db_rel D) (geocode_stores E N g ss res)"
  by (induction ss arbitrary: res)
    (auto simp: geocode_store_def geocode_outcome_def
      intro!: program client_effects write_call statements split: sum.split geo_error.split)

lemma import_item_loop: "state_io_rel (db_rel D) (import_items E sid row name i items res)"
  by (induction items arbitrary: i res) (auto intro!: program write_call statements)

lemma import_row_loop: "state_io_rel (db_rel D) (import_rows E N col ids row outs res)"
proof -
  have "state_io_rel (db_rel D) (import_record E N col ids row rec res)" for row rec res
    unfolding import_record_def import_create_def
    by (intro program read_call write_call statements import_item_loop; simp)
  then have "state_io_rel (db_rel D) (import_row E N col ids row out res)" for row out res
    by (cases out) (auto simp: import_row_def intro!: program)
  then show ?thesis by (induction outs arbitrary: row res) (auto intro!: program)
qed

lemma q_CreateDiscoveryDraft: "query_rel D E (CreateDiscoveryDraft arg)"
proof (rule query_relI)
  fix i d
  have "D d (snd (CreateStoreFull (enforce_draft arg) E i d))" by (rule query_relD[OF q_CreateStoreFull])
  then show "D d (snd (CreateDiscoveryDraft arg E i d))"
    by (auto simp: CreateDiscoveryDraft_def Let_def D_refl split: prod.split sum.split)
qed

lemma draft_call: "state_io_rel (db_rel D) (draft E N ward source c)"
  unfolding draft_def by (intro program now write_call q_CreateDiscoveryDraft)

lemma crawl_loops:
  "state_io_rel (db_rel D) (follow_links E N ward limit ls st)"
  "state_io_rel (db_rel D) (discover_urls E N ward limit raws st)"
proof -
  show f: "state_io_rel (db_rel D) (follow_links E N ward limit ls st)" for ls st
    by (induction ls arbitrary: st) (auto intro!: program capturing draft_call)
  show "state_io_rel (db_rel D) (discover_urls E N ward limit raws st)"
    by (induction raws arbitrary: st) (auto simp: capture_url_def intro!: program capturing draft_call f)
qed

lemma service_handlers:
  "state_io_rel (db_rel D) (internalGeocodeStores E N srv raw)"
  "state_io_rel (db_rel D) (internalGeocodeAddress E N srv b1)"
  "state_io_rel (db_rel D) (internalUploadImage E N srv kind file)"
  "state_io_rel (db_rel D) (internalDiscover E N srv b2)"
  unfolding internalGeocodeStores_def internalGeocodeAddress_def internalUploadImage_def Upload_def
    internalDiscover_def discover_in_ward_def discovery_sources_def Search_def
  by (intro program client_effects server_effects read_call geocode_loop crawl_loops; simp)+

lemma import_handler:
  assumes "internalImportStores E N body w = Some (r, w')"
  shows "D (db w) (db w')"
proof (cases "\<exists>res. r = Reply StatusOK res")
  case True
  then obtain res where "r = Reply StatusOK res" by blast
  with assms obtain col ids outs where
    "run_state (import_rows E N col ids 0 outs no_imports) (w\<lparr>ticks := Suc (ticks w)\<rparr>) = (res, w')"
    by (auto elim: import_OK)
  with import_row_loop[of N col ids 0 outs no_imports] show ?thesis
    unfolding state_io_rel_def db_rel_def
    by (metis snd_conv select_convs(1) surjective update_convs(2) world.select_convs(1) world.surjective world.update_convs(2))
next
  case False
  then have "db w' = db w"
    using assms
    by (auto simp: internalImportStores_def Let_def run_db_call ListWards_def
        split: csv_read.splits prod.splits if_splits sum.splits fault.splits)
  then show ?thesis by (simp add: D_refl)
qed

end

section \<open>The schema, the wards, the accounts\<close>

lemma schema_UpdateStoreFull:
  assumes "schema_ok E d"
  shows "schema_ok E (snd (UpdateStoreFull uf E i d))"
proof -
  have "schema_ok E (snd (update_store (uf_ID uf) (\<lambda>_. True) (set_full E i status gf uf) d))"
    if "list_ex (\<lambda>s. st_ID s = uf_ID uf) (stores d) \<longrightarrow> list_ex (\<lambda>w. w_ID w = cf_WardID uf) (wards d)" for status gf
  proof (cases "list_ex (\<lambda>s. st_ID s = uf_ID uf) (stores d)")
    case True
    then have "cf_WardID uf \<in> w_ID ` set (wards d)" using that by (auto simp: list_ex_iff intro: rev_image_eqI)
    then show ?thesis using assms by (intro schema_update_store) (simp_all add: set_full_def)
  next
    case False
    then have "snd (update_store (uf_ID uf) (\<lambda>_. True) (set_full E i status gf uf) d) = d"
      by (auto simp: update_store_def update_where_def list_ex_iff intro!: database.equality map_idI)
    then show ?thesis using assms by simp
  qed
  then show ?thesis using assms by (auto simp: UpdateStoreFull_def split: option.split)
qed

lemma schema_store_statements:
  "schema_ok E d \<Longrightarrow> schema_ok E (snd (CreateStore cr E i d))"
  "schema_ok E d \<Longrightarrow> schema_ok E (snd (CreateStoreFull cf E i d))"
  "schema_ok E d \<Longrightarrow> schema_ok E (snd (ApproveStore sid E i d))"
  "schema_ok E d \<Longrightarrow> schema_ok E (snd (RejectStore sid reason E i d))"
  "schema_ok E d \<Longrightarrow> schema_ok E (snd (SubmitStore sid E i d))"
  "schema_ok E d \<Longrightarrow> schema_ok E (snd (UpdateStoreProfile up E i d))"
  by (auto simp: CreateStore_def CreateStoreFull_def ApproveStore_def RejectStore_def SubmitStore_def
      UpdateStoreProfile_def set_profile_def split: option.split intro!: schema_insert_store schema_update_store)

interpretation schema: statement_frame "kept (schema_ok E)" E for E
  by unfold_locales
    (intro query_rel_keptI; simp add: schema_store_statements schema_UpdateStoreFull schema_CreateUser schema_UpdateSubscription
      schema_CreateSession schema_UpsertSubscriptionReceipt schema_UpdateStoreCoords schema_DeleteStore
      schema_CreateMenuItem schema_UpdateMenuItem schema_DeleteMenuItem schema_CreateStoreAdmin
      schema_CreateInternalAdmin schema_UpdateInternalAdminPassword schema_CreateInternalPasswordReset
      schema_MarkInternalPasswordResetUsed schema_DeleteInternalPasswordResetsForAdmin
      schema_CreateInternalSession schema_DeleteInternalSession schema_DeleteInternalSessionsForAdmin)+

interpretation wards_frame: statement_frame "same wards" E for E
  by unfold_locales
    (rule query_relI, auto simp: same_def user_query_defs Let_def CreateStore_def CreateStoreFull_def insert_store_def
      ApproveStore_def RejectStore_def SubmitStore_def UpdateStoreProfile_def UpdateStoreFull_def update_store_def
      UpdateStoreCoords_def DeleteStore_def CreateMenuItem_def UpdateMenuItem_def DeleteMenuItem_def
      CreateStoreAdmin_def CreateInternalAdmin_def UpdateInternalAdminPassword_def
      CreateInternalPasswordReset_def MarkInternalPasswordResetUsed_def DeleteInternalPasswordResetsForAdmin_def
      CreateInternalSession_def DeleteInternalSession_def DeleteInternalSessionsForAdmin_def
      split: option.split)+

text \<open>An account's identity: everything but its subscription.\<close>

definition identity :: "User \<Rightarrow> uuid \<times> string \<times> string option \<times> string option \<times> time" where
  "identity u = (u_ID u, u_Email u, u_PasswordHash u, u_AppleUserID u, u_CreatedAt u)"

definition accounts_kept :: "database \<Rightarrow> database \<Rightarrow> bool" where
  "accounts_kept d d' \<longleftrightarrow> (\<exists>us. map identity (users d') = map identity (users d) @ us)"

lemma accounts_kept_same: "users d' = users d \<Longrightarrow> accounts_kept d d'"
  by (auto simp: accounts_kept_def)

lemma accounts_CreateUser: "accounts_kept d (snd (CreateUser cu E i d))"
  by (auto simp: accounts_kept_def CreateUser_def Let_def)

lemma accounts_UpdateSubscription: "accounts_kept d (snd (UpdateSubscription us E i d))"
  by (auto simp: accounts_kept_def UpdateSubscription_def update_where_def identity_def set_subscription_def
      intro!: exI[of _ "[]"])

interpretation accounts: statement_frame accounts_kept E for E
proof unfold_locales
  show "accounts_kept d d" for d by (simp add: accounts_kept_same)
  show "accounts_kept d e \<Longrightarrow> accounts_kept e f \<Longrightarrow> accounts_kept d f" for d e f
    by (auto simp: accounts_kept_def)
  show "query_rel accounts_kept E (CreateUser cu)" for E cu by (rule query_relI) (rule accounts_CreateUser)
  show "query_rel accounts_kept E (UpdateSubscription us)" for E us
    by (rule query_relI) (rule accounts_UpdateSubscription)
qed (rule query_relI, auto simp: CreateSession_def UpsertSubscriptionReceipt_def Let_def
      CreateStore_def CreateStoreFull_def insert_store_def
      ApproveStore_def RejectStore_def SubmitStore_def UpdateStoreProfile_def UpdateStoreFull_def update_store_def
      UpdateStoreCoords_def DeleteStore_def CreateMenuItem_def UpdateMenuItem_def DeleteMenuItem_def
      CreateStoreAdmin_def CreateInternalAdmin_def UpdateInternalAdminPassword_def
      CreateInternalPasswordReset_def MarkInternalPasswordResetUsed_def DeleteInternalPasswordResetsForAdmin_def
      CreateInternalSession_def DeleteInternalSession_def DeleteInternalSessionsForAdmin_def
      intro!: accounts_kept_same split: option.split)+

text \<open>Stores, menus and partner accounts.\<close>

definition catalogue :: "database \<Rightarrow> Store list \<times> MenuItem list \<times> StoreAdmin list" where
  "catalogue d = (stores d, menu_items d, store_admins d)"

interpretation catalogue_frame: account_frame "same catalogue" E for E
  by unfold_locales
    (rule query_relI, auto simp: same_def catalogue_def user_query_defs Let_def
      CreateInternalAdmin_def UpdateInternalAdminPassword_def
      CreateInternalPasswordReset_def MarkInternalPasswordResetUsed_def DeleteInternalPasswordResetsForAdmin_def
      CreateInternalSession_def DeleteInternalSession_def DeleteInternalSessionsForAdmin_def
      split: option.split)+

end
