(* ===== verification/GF_Api.thy ===== *)
theory GF_Api
  imports GF_Frames
begin

text \<open>
  The whole server: \<open>setupRouter\<close> of \<open>api/server.go\<close>. A call is one line of the dispatch table with
  what its handler reads of the request (path and query parameters, the decoded body), in the table's
  groups: public routes, app-user routes behind \<open>authMiddleware\<close>, partner and operator routes behind
  \<open>authMiddleware\<close> and \<open>requireRole\<close>. \<open>serve\<close> answers one request: CORS first, then the route's chain.
  Matching a path to its line is gin's work; \<open>rq_Call\<close> is what it found.
\<close>

section \<open>The dispatch table\<close>

datatype public_call =
  Health
| RegisterUser "registerUserRequest option"
| LoginUser "loginUserRequest option"
| AppleSignIn "appleSignInRequest option"
| RenewAccessToken "renewAccessTokenRequest option"
| ListWardsCall
| AppleWebhook "appleWebhookRequest option"
| AdminLogin "adminLoginRequest option"
| InternalLogin "internalLoginRequest option"
| RenewInternalAccessToken "renewAccessTokenRequest option"
| InternalLogout "renewAccessTokenRequest option"
| ForgotInternalPassword "forgotInternalPasswordRequest option"
| ResetInternalPassword "resetInternalPasswordRequest option"

datatype user_call =
  GetCurrentUser
| GetSubscriptionStatus
| VerifySubscription "verifySubscriptionRequest option"
| ListStores string string
| GetStore string
| GetStoreMenu string

datatype partner_call =
  AdminGetStore
| AdminUpdateStore "updateStoreRequest option"
| AdminSubmitStore
| AdminListMenu
| AdminCreateMenu "menuItemRequest option"
| AdminUpdateMenu string "menuItemRequest option"
| AdminDeleteMenu string

datatype operator_call =
  ChangeInternalPassword "changeInternalPasswordRequest option"
| ListInternalAdminsCall
| CreateInternalAdminCall "createInternalAdminRequest option"
| SetInternalAdminPassword string "setInternalAdminPasswordRequest option"
| ProvisionStoreAdmin "provisionStoreAdminRequest option"
| InternalListStores "string option"
| InternalCreateStore "internalStoreRequest option"
| InternalImportStores body
| InternalDiscover "discoveryRequest option"
| InternalGeocodeStores string
| InternalGeocodeAddress "geocodeAddressRequest option"
| InternalUploadImage "string option" "form_file option"
| InternalGetStore string
| InternalUpdateStore string "internalStoreRequest option"
| InternalDeleteStore string
| InternalListMenu string
| InternalCreateMenu string "menuItemRequest option"
| InternalUpdateMenu string string "menuItemRequest option"
| InternalDeleteMenu string string
| ApproveStoreCall string
| RejectStoreCall string "rejectStoreRequest option"

datatype call =
  Public public_call | Authed user_call | AdminGrp partner_call | InternalGrp operator_call

text \<open>The table's lines: method and path of each call.\<close>

primrec public_route :: "public_call \<Rightarrow> string \<times> string" where
  "public_route Health = (''GET'', ''/health'')"
| "public_route (RegisterUser b) = (''POST'', ''/auth/register'')"
| "public_route (LoginUser b) = (''POST'', ''/auth/login'')"
| "public_route (AppleSignIn b) = (''POST'', ''/auth/apple'')"
| "public_route (RenewAccessToken b) = (''POST'', ''/auth/refresh'')"
| "public_route ListWardsCall = (''GET'', ''/wards'')"
| "public_route (AppleWebhook b) = (''POST'', ''/webhooks/apple'')"
| "public_route (AdminLogin b) = (''POST'', ''/admin/auth/login'')"
| "public_route (InternalLogin b) = (''POST'', ''/internal/auth/login'')"
| "public_route (RenewInternalAccessToken b) = (''POST'', ''/internal/auth/refresh'')"
| "public_route (InternalLogout b) = (''POST'', ''/internal/auth/logout'')"
| "public_route (ForgotInternalPassword b) = (''POST'', ''/internal/auth/forgot-password'')"
| "public_route (ResetInternalPassword b) = (''POST'', ''/internal/auth/reset-password'')"

primrec user_route :: "user_call \<Rightarrow> string \<times> string" where
  "user_route GetCurrentUser = (''GET'', ''/me'')"
| "user_route GetSubscriptionStatus = (''GET'', ''/subscription/status'')"
| "user_route (VerifySubscription b) = (''POST'', ''/subscription/verify'')"
| "user_route (ListStores ward cursor) = (''GET'', ''/stores'')"
| "user_route (GetStore i) = (''GET'', ''/stores/:id'')"
| "user_route (GetStoreMenu i) = (''GET'', ''/stores/:id/menu'')"

primrec partner_route :: "partner_call \<Rightarrow> string \<times> string" where
  "partner_route AdminGetStore = (''GET'', ''/admin/store'')"
| "partner_route (AdminUpdateStore b) = (''PUT'', ''/admin/store'')"
| "partner_route AdminSubmitStore = (''POST'', ''/admin/store/submit'')"
| "partner_route AdminListMenu = (''GET'', ''/admin/store/menu'')"
| "partner_route (AdminCreateMenu b) = (''POST'', ''/admin/store/menu'')"
| "partner_route (AdminUpdateMenu i b) = (''PUT'', ''/admin/store/menu/:id'')"
| "partner_route (AdminDeleteMenu i) = (''DELETE'', ''/admin/store/menu/:id'')"

primrec operator_route :: "operator_call \<Rightarrow> string \<times> string" where
  "operator_route (ChangeInternalPassword b) = (''POST'', ''/internal/auth/change-password'')"
| "operator_route ListInternalAdminsCall = (''GET'', ''/internal/admins'')"
| "operator_route (CreateInternalAdminCall b) = (''POST'', ''/internal/admins'')"
| "operator_route (SetInternalAdminPassword i b) = (''PUT'', ''/internal/admins/:id/password'')"
| "operator_route (ProvisionStoreAdmin b) = (''POST'', ''/internal/store-admins'')"
| "operator_route (InternalListStores status) = (''GET'', ''/internal/stores'')"
| "operator_route (InternalCreateStore b) = (''POST'', ''/internal/stores'')"
| "operator_route (InternalImportStores b) = (''POST'', ''/internal/stores/import'')"
| "operator_route (InternalDiscover b) = (''POST'', ''/internal/discovery'')"
| "operator_route (InternalGeocodeStores limit) = (''POST'', ''/internal/stores/geocode'')"
| "operator_route (InternalGeocodeAddress b) = (''POST'', ''/internal/geocode'')"
| "operator_route (InternalUploadImage kind file) = (''POST'', ''/internal/uploads/image'')"
| "operator_route (InternalGetStore i) = (''GET'', ''/internal/stores/:id'')"
| "operator_route (InternalUpdateStore i b) = (''PUT'', ''/internal/stores/:id'')"
| "operator_route (InternalDeleteStore i) = (''DELETE'', ''/internal/stores/:id'')"
| "operator_route (InternalListMenu i) = (''GET'', ''/internal/stores/:id/menu'')"
| "operator_route (InternalCreateMenu i b) = (''POST'', ''/internal/stores/:id/menu'')"
| "operator_route (InternalUpdateMenu i j b) = (''PUT'', ''/internal/stores/:id/menu/:item_id'')"
| "operator_route (InternalDeleteMenu i j) = (''DELETE'', ''/internal/stores/:id/menu/:item_id'')"
| "operator_route (ApproveStoreCall i) = (''POST'', ''/internal/stores/:id/approve'')"
| "operator_route (RejectStoreCall i b) = (''POST'', ''/internal/stores/:id/reject'')"

primrec route :: "call \<Rightarrow> string \<times> string" where
  "route (Public c) = public_route c"
| "route (Authed c) = user_route c"
| "route (AdminGrp c) = partner_route c"
| "route (InternalGrp c) = operator_route c"

text \<open>An answer as the client sees it: the status, and the error unless it is a success.\<close>

primrec answered :: "'b reply \<Rightarrow> unit reply" where
  "answered (Fail c e) = Fail c e"
| "answered (Reply c b) = Reply c ()"

definition answering :: "(world, 'b reply) state \<Rightarrow> (world, unit reply) state" where
  "answering m = do { r \<leftarrow> m; State_Monad.return (answered r) }"

primrec public_handler :: "env \<Rightarrow> Server \<Rightarrow> ctx \<Rightarrow> public_call \<Rightarrow> (world, unit reply) state" where
  "public_handler E srv cx Health = State_Monad.return (Reply StatusOK ())"
| "public_handler E srv cx (RegisterUser body) = answering (registerUser E srv body)"
| "public_handler E srv cx (LoginUser body) = answering (loginUser E srv cx body)"
| "public_handler E srv cx (AppleSignIn body) = answering (appleSignIn E srv cx body)"
| "public_handler E srv cx (RenewAccessToken body) = answering (renewAccessToken E srv body)"
| "public_handler E srv cx ListWardsCall = answering (listWards E)"
| "public_handler E srv cx (AppleWebhook body) = answering (appleWebhook E srv body)"
| "public_handler E srv cx (AdminLogin body) = answering (adminLogin E srv body)"
| "public_handler E srv cx (InternalLogin body) = answering (internalLogin E srv cx body)"
| "public_handler E srv cx (RenewInternalAccessToken body) = answering (renewInternalAccessToken E srv body)"
| "public_handler E srv cx (InternalLogout body) = answering (internalLogout E srv body)"
| "public_handler E srv cx (ForgotInternalPassword body) = answering (forgotInternalPassword E srv body)"
| "public_handler E srv cx (ResetInternalPassword body) = answering (resetInternalPassword E body)"

primrec user_handler :: "env \<Rightarrow> Server \<Rightarrow> user_call \<Rightarrow> Payload \<Rightarrow> (world, unit reply) state" where
  "user_handler E srv GetCurrentUser p = answering (getCurrentUser E p)"
| "user_handler E srv GetSubscriptionStatus p = answering (getSubscriptionStatus E p)"
| "user_handler E srv (VerifySubscription body) p = answering (verifySubscription E srv body p)"
| "user_handler E srv (ListStores ward cursor) p = answering (listStores E ward cursor p)"
| "user_handler E srv (GetStore i) p = answering (getStore E i)"
| "user_handler E srv (GetStoreMenu i) p = answering (getStoreMenu E i p)"

primrec partner_handler :: "env \<Rightarrow> partner_call \<Rightarrow> Payload \<Rightarrow> (world, unit reply) state" where
  "partner_handler E AdminGetStore p = answering (adminGetStore E p)"
| "partner_handler E (AdminUpdateStore body) p = answering (adminUpdateStore E body p)"
| "partner_handler E AdminSubmitStore p = answering (adminSubmitStore E p)"
| "partner_handler E AdminListMenu p = answering (adminListMenu E p)"
| "partner_handler E (AdminCreateMenu body) p = answering (adminCreateMenu E body p)"
| "partner_handler E (AdminUpdateMenu i body) p = answering (adminUpdateMenu E i body p)"
| "partner_handler E (AdminDeleteMenu i) p = answering (adminDeleteMenu E i p)"

text \<open>The import is the one handler that may not return: it runs as a partial function.\<close>

definition returning :: "(world, 'b reply) state \<Rightarrow> world \<Rightarrow> (unit reply \<times> world) option" where
  "returning m w = Some (run_state (answering m) w)"

primrec operator_handler ::
  "env \<Rightarrow> net \<Rightarrow> Server \<Rightarrow> ctx \<Rightarrow> operator_call \<Rightarrow> Payload \<Rightarrow> world \<Rightarrow> (unit reply \<times> world) option" where
  "operator_handler E N srv cx (ChangeInternalPassword body) p = returning (changeInternalPassword E srv cx body p)"
| "operator_handler E N srv cx ListInternalAdminsCall p = returning (listInternalAdmins E)"
| "operator_handler E N srv cx (CreateInternalAdminCall body) p = returning (createInternalAdmin E body)"
| "operator_handler E N srv cx (SetInternalAdminPassword i body) p = returning (setInternalAdminPassword E i body)"
| "operator_handler E N srv cx (ProvisionStoreAdmin body) p = returning (provisionStoreAdmin E body)"
| "operator_handler E N srv cx (InternalListStores status) p = returning (internalListStores E status)"
| "operator_handler E N srv cx (InternalCreateStore body) p = returning (internalCreateStore E body)"
| "operator_handler E N srv cx (InternalImportStores b) p =
     (\<lambda>w. map_option (\<lambda>(r, w'). (answered r, w')) (internalImportStores E N b w))"
| "operator_handler E N srv cx (InternalDiscover body) p = returning (internalDiscover E N srv body)"
| "operator_handler E N srv cx (InternalGeocodeStores limit) p = returning (internalGeocodeStores E N srv limit)"
| "operator_handler E N srv cx (InternalGeocodeAddress body) p = returning (internalGeocodeAddress E N srv body)"
| "operator_handler E N srv cx (InternalUploadImage kind file) p = returning (internalUploadImage E N srv kind file)"
| "operator_handler E N srv cx (InternalGetStore i) p = returning (internalGetStore E i)"
| "operator_handler E N srv cx (InternalUpdateStore i body) p = returning (internalUpdateStore E i body)"
| "operator_handler E N srv cx (InternalDeleteStore i) p = returning (internalDeleteStore E i)"
| "operator_handler E N srv cx (InternalListMenu i) p = returning (internalListMenu E i)"
| "operator_handler E N srv cx (InternalCreateMenu i body) p = returning (internalCreateMenu E i body)"
| "operator_handler E N srv cx (InternalUpdateMenu i j body) p = returning (internalUpdateMenu E i j body)"
| "operator_handler E N srv cx (InternalDeleteMenu i j) p = returning (internalDeleteMenu E i j)"
| "operator_handler E N srv cx (ApproveStoreCall i) p = returning (approveStore E i)"
| "operator_handler E N srv cx (RejectStoreCall i body) p = returning (rejectStore E i body)"

section \<open>Answering a request\<close>

record request =
  rq_Method :: string
  rq_Origin :: string
  rq_Authorization :: string
  rq_ctx :: ctx
  rq_Call :: "call option"

text \<open>The operator group's chain around a handler that may not return; \<open>None\<close> is a request that is
  never answered.\<close>

definition operator_chain ::
  "env \<Rightarrow> Server \<Rightarrow> string \<Rightarrow> (Payload \<Rightarrow> world \<Rightarrow> (unit reply \<times> world) option) \<Rightarrow> world
     \<Rightarrow> (unit reply \<times> world) option" where
  "operator_chain E srv h next w =
     (case run_state (authMiddleware E (sv_tokenMaker srv) h
                       (requireRole RoleInternal (\<lambda>p. State_Monad.return (Reply StatusOK p)))) w of
        (Fail code err, w') \<Rightarrow> Some (Fail code err, w')
      | (Reply _ p, w') \<Rightarrow> next p w')"

definition dispatch ::
  "env \<Rightarrow> net \<Rightarrow> Server \<Rightarrow> request \<Rightarrow> call \<Rightarrow> world \<Rightarrow> (unit reply \<times> world) option" where
  "dispatch E N srv rq c w =
     (let auth = authMiddleware E (sv_tokenMaker srv) (rq_Authorization rq) in
      case c of
        Public pc \<Rightarrow> Some (run_state (public_handler E srv (rq_ctx rq) pc) w)
      | Authed uc \<Rightarrow> Some (run_state (auth (user_handler E srv uc)) w)
      | AdminGrp ac \<Rightarrow> Some (run_state (auth (requireRole RoleStoreAdmin (partner_handler E ac))) w)
      | InternalGrp oc \<Rightarrow>
          operator_chain E srv (rq_Authorization rq) (operator_handler E N srv (rq_ctx rq) oc) w)"

definition serve :: "env \<Rightarrow> net \<Rightarrow> Server \<Rightarrow> request \<Rightarrow> world \<Rightarrow> (unit reply \<times> world) option" where
  "serve E N srv rq w =
     (if snd (corsMiddleware (AllowedOrigins (sv_config srv)) (rq_Origin rq) (rq_Method rq))
      then Some (Reply StatusNoContent (), w)
      else case rq_Call rq of
        None \<Rightarrow> Some (Fail StatusNotFound (ErrLib ''404 page not found''), w)
      | Some c \<Rightarrow> dispatch E N srv rq c w)"

section \<open>The outcomes of a request\<close>

text \<open>The payload a request's bearer token verifies to when it arrives.\<close>

definition bearer :: "env \<Rightarrow> Server \<Rightarrow> request \<Rightarrow> world \<Rightarrow> token_error + Payload" where
  "bearer E srv rq w =
     (case bearer_token (rq_Authorization rq) of
        Inl _ \<Rightarrow> Inl ErrInvalidToken
      | Inr tok \<Rightarrow> verify_at E (sv_tokenMaker srv) (clock E (ticks w)) tok)"

text \<open>What the groups ask of it.\<close>

primrec admitted :: "call \<Rightarrow> Payload \<Rightarrow> bool" where
  "admitted (Public pc) p \<longleftrightarrow> True"
| "admitted (Authed uc) p \<longleftrightarrow> True"
| "admitted (AdminGrp ac) p \<longleftrightarrow> pl_Role p = RoleStoreAdmin"
| "admitted (InternalGrp oc) p \<longleftrightarrow> pl_Role p = RoleInternal"

text \<open>The handler that runs for a call once its chain let it through.\<close>

primrec handler ::
  "env \<Rightarrow> net \<Rightarrow> Server \<Rightarrow> ctx \<Rightarrow> call \<Rightarrow> Payload \<Rightarrow> world \<Rightarrow> (unit reply \<times> world) option" where
  "handler E N srv cx (Public pc) p w = Some (run_state (public_handler E srv cx pc) w)"
| "handler E N srv cx (Authed uc) p w = Some (run_state (user_handler E srv uc p) w)"
| "handler E N srv cx (AdminGrp ac) p w = Some (run_state (partner_handler E ac p) w)"
| "handler E N srv cx (InternalGrp oc) p w = operator_handler E N srv cx oc p w"

definition is_public :: "call \<Rightarrow> bool" where
  "is_public c \<longleftrightarrow> (case c of Public _ \<Rightarrow> True | _ \<Rightarrow> False)"

lemma run_authMiddleware:
  "run_state (authMiddleware E (sv_tokenMaker srv) (rq_Authorization rq) next) w =
     (case bearer E srv rq w of
        Inr p \<Rightarrow> run_state (next p) (w\<lparr>ticks := Suc (ticks w)\<rparr>)
      | Inl e \<Rightarrow>
          (case bearer_token (rq_Authorization rq) of
             Inl err \<Rightarrow> (Fail StatusUnauthorized err, w)
           | Inr _ \<Rightarrow> (Fail StatusUnauthorized (ErrToken e), w\<lparr>ticks := Suc (ticks w)\<rparr>)))"
  by (cases "bearer_token (rq_Authorization rq)") (auto simp: authMiddleware_def bearer_def split: sum.split)

lemma dispatch_admitted:
  assumes "\<not> is_public c" and "bearer E srv rq w = Inr p" and "admitted c p"
  shows "dispatch E N srv rq c w = handler E N srv (rq_ctx rq) c p (w\<lparr>ticks := Suc (ticks w)\<rparr>)"
  using assms
  by (cases c) (auto simp: dispatch_def operator_chain_def is_public_def Let_def run_authMiddleware requireRole_def)

lemma dispatch_unverified:
  assumes "\<not> is_public c" and "bearer E srv rq w = Inl e"
  obtains err n where "dispatch E N srv rq c w = Some (Fail StatusUnauthorized err, w\<lparr>ticks := n\<rparr>)"
proof -
  have "\<exists>err. dispatch E N srv rq c w \<in> {Some (Fail StatusUnauthorized err, w),
      Some (Fail StatusUnauthorized err, w\<lparr>ticks := Suc (ticks w)\<rparr>)}"
    using assms
    by (cases c; cases "bearer_token (rq_Authorization rq)")
      (auto simp: dispatch_def operator_chain_def is_public_def Let_def run_authMiddleware)
  then obtain err where "dispatch E N srv rq c w = Some (Fail StatusUnauthorized err, w)
      \<or> dispatch E N srv rq c w = Some (Fail StatusUnauthorized err, w\<lparr>ticks := Suc (ticks w)\<rparr>)"
    by blast
  then show thesis
  proof
    assume "dispatch E N srv rq c w = Some (Fail StatusUnauthorized err, w)"
    then have "dispatch E N srv rq c w = Some (Fail StatusUnauthorized err, w\<lparr>ticks := ticks w\<rparr>)" by simp
    then show thesis by (rule that)
  qed (rule that)
qed

lemma dispatch_forbidden:
  assumes "\<not> is_public c" and "bearer E srv rq w = Inr p" and "\<not> admitted c p"
  obtains err where "dispatch E N srv rq c w = Some (Fail StatusForbidden err, w\<lparr>ticks := Suc (ticks w)\<rparr>)"
proof -
  have "\<exists>err. dispatch E N srv rq c w = Some (Fail StatusForbidden err, w\<lparr>ticks := Suc (ticks w)\<rparr>)"
    using assms
    by (cases c) (auto simp: dispatch_def operator_chain_def is_public_def Let_def run_authMiddleware requireRole_def)
  then show thesis using that by blast
qed

lemma dispatch_refused:
  assumes "\<not> is_public c" and "\<forall>p. bearer E srv rq w = Inr p \<longrightarrow> \<not> admitted c p"
  obtains code e n where "code = StatusUnauthorized \<or> code = StatusForbidden"
    and "dispatch E N srv rq c w = Some (Fail code e, w\<lparr>ticks := n\<rparr>)"
proof (cases "bearer E srv rq w")
  case (Inl e)
  obtain err n where "dispatch E N srv rq c w = Some (Fail StatusUnauthorized err, w\<lparr>ticks := n\<rparr>)"
    by (rule dispatch_unverified[OF assms(1) Inl])
  then show thesis by (intro that[of StatusUnauthorized err n] disjI1 refl)
next
  case (Inr p)
  with assms(2) have "\<not> admitted c p" by blast
  then obtain err where "dispatch E N srv rq c w = Some (Fail StatusForbidden err, w\<lparr>ticks := Suc (ticks w)\<rparr>)"
    by (rule dispatch_forbidden[OF assms(1) Inr])
  then show thesis by (intro that[of StatusForbidden err "Suc (ticks w)"] disjI2 refl)
qed

text \<open>Every request: no handler runs, or one does, for a public call or an admitted token.\<close>

lemma serve_cases:
  obtains (answered_early) r n where "serve E N srv rq w = Some (r, w\<lparr>ticks := n\<rparr>)"
      and "reply_code r \<in> {StatusNoContent, StatusNotFound, StatusUnauthorized, StatusForbidden}"
  | (handled) c p n where "rq_Call rq = Some c" and "is_public c \<or> bearer E srv rq w = Inr p \<and> admitted c p"
      and "serve E N srv rq w = handler E N srv (rq_ctx rq) c p (w\<lparr>ticks := n\<rparr>)"
proof -
  have w: "w = w\<lparr>ticks := ticks w\<rparr>" by simp
  consider "serve E N srv rq w = Some (Reply StatusNoContent (), w)"
    | "serve E N srv rq w = Some (Fail StatusNotFound (ErrLib ''404 page not found''), w)"
    | c where "rq_Call rq = Some c" "serve E N srv rq w = dispatch E N srv rq c w"
    unfolding serve_def by (cases "rq_Call rq") (fastforce split: if_splits)+
  then show ?thesis
  proof cases
    case (3 c)
    show ?thesis
    proof (cases "is_public c")
      case True
      then obtain pc where "c = Public pc" by (auto simp: is_public_def split: call.splits)
      then show ?thesis using handled[of c _ "ticks w"] 3 True by (auto simp: dispatch_def Let_def)
    next
      case False
      show ?thesis
      proof (cases "\<exists>p. bearer E srv rq w = Inr p \<and> admitted c p")
        case True
        then show ?thesis using dispatch_admitted[OF False] 3 handled by metis
      next
        case no: False
        then show ?thesis using dispatch_refused[OF False, of E srv rq w N] 3 answered_early by (metis insert_iff reply_code.simps(1))
      qed
    qed
  qed (use answered_early[of _ "ticks w"] in auto)
qed

section \<open>Frames of the handlers\<close>

lemma run_answering: "run_state (answering m) w = (answered (fst (run_state m w)), snd (run_state m w))"
  by (simp add: answering_def split: prod.splits)

lemma answering_rel [simp]: "state_io_rel R (answering m) \<longleftrightarrow> state_io_rel R m"
  by (simp add: state_io_rel_def run_answering)

lemma relD: "state_io_rel (db_rel D) m \<Longrightarrow> run_state m w = (r, w') \<Longrightarrow> D (db w) (db w')"
  unfolding state_io_rel_def db_rel_def by (metis snd_conv)

lemma returningD: "returning m w = Some (r, w') \<Longrightarrow> \<exists>b. run_state m w = (b, w') \<and> r = answered b"
  by (cases "run_state m w") (simp add: returning_def run_answering)

context account_frame begin

lemma public_calls: "state_io_rel (db_rel D) (public_handler E srv cx c)"
  by (cases c) (simp_all add: return user_handlers subscription_handlers browse_handlers session_handlers account_handlers)

lemma user_calls: "state_io_rel (db_rel D) (user_handler E srv c p)"
  by (cases c) (simp_all add: user_handlers subscription_handlers browse_handlers)

lemma quiet: "D (db w) (db (w\<lparr>ticks := n\<rparr>))"
  by (simp add: D_refl)

end

context statement_frame begin

lemma partner_calls: "state_io_rel (db_rel D) (partner_handler E c p)"
  by (cases c) (simp_all add: partner_handlers)

lemma operator_calls:
  assumes "operator_handler E N srv cx c p w = Some (r, w')"
  shows "D (db w) (db w')"
proof -
  have rel: ?thesis if "returning m w = Some (r, w')" "state_io_rel (db_rel D) m" for m :: "(world, 'x reply) state"
    using returningD[OF that(1)] relD[OF that(2)] by blast
  show ?thesis
    using assms
    by (cases c)
      (auto simp: account_handlers operator_handlers service_handlers session_handlers elim!: rel dest: import_handler)
qed

lemma handler_calls: "handler E N srv cx c p w = Some (r, w') \<Longrightarrow> D (db w) (db w')"
  by (cases c) (auto dest: relD[OF public_calls] relD[OF user_calls] relD[OF partner_calls] operator_calls)

lemma api_calls:
  assumes "serve E N srv rq w = Some (r, w')"
  shows "D (db w) (db w')"
proof (cases rule: serve_cases[of E N srv rq w])
  case (answered_early r n)
  then show ?thesis using assms by (auto simp: D_refl)
next
  case (handled c p n)
  with assms have "D (db (w\<lparr>ticks := n\<rparr>)) (db w')" by (intro handler_calls) simp
  then show ?thesis by simp
qed

end

section \<open>The whole server\<close>

text \<open>C1: Routing of the guarded routes. A preflight (\<open>OPTIONS\<close>) is answered 204 and runs no handler. Any
  other request for a guarded route is answered 401, and changes nothing, unless its bearer token verifies,
  which puts the clock inside the token's validity window. A partner route is then run by its handler only
  for a token of the partners' role and an operator route only for one of the operators' role, a verified
  token of another role being answered 403 and changing nothing; the app-user routes ask for no role, so
  any verified token, a partner's or an operator's included, runs them. The handler runs with that token's
  payload.\<close>

theorem routes_guarded:
  assumes "jwt_laws E" and "rq_Call rq = Some c" and "\<not> is_public c"
  shows "if rq_Method rq = ''OPTIONS'' then serve E N srv rq w = Some (Reply StatusNoContent (), w)
    else (case bearer E srv rq w of
        Inl _ \<Rightarrow> (\<exists>err n. serve E N srv rq w = Some (Fail StatusUnauthorized err, w\<lparr>ticks := n\<rparr>))
      | Inr p \<Rightarrow> GetNotBefore p \<le> clock E (ticks w) \<and> clock E (ticks w) < GetExpirationTime p
          \<and> (if (case c of AdminGrp _ \<Rightarrow> pl_Role p = RoleStoreAdmin | InternalGrp _ \<Rightarrow> pl_Role p = RoleInternal
                 | _ \<Rightarrow> True)
             then serve E N srv rq w = handler E N srv (rq_ctx rq) c p (w\<lparr>ticks := Suc (ticks w)\<rparr>)
             else (\<exists>err. serve E N srv rq w = Some (Fail StatusForbidden err, w\<lparr>ticks := Suc (ticks w)\<rparr>))))"
proof (cases "rq_Method rq = ''OPTIONS''")
  case True
  then show ?thesis by (simp add: serve_def corsMiddleware_def Let_def)
next
  case False
  then have d: "serve E N srv rq w = dispatch E N srv rq c w"
    using assms(2) by (simp add: serve_def corsMiddleware_def Let_def)
  show ?thesis
  proof (cases "bearer E srv rq w")
    case (Inl e)
    obtain err n where "dispatch E N srv rq c w = Some (Fail StatusUnauthorized err, w\<lparr>ticks := n\<rparr>)"
      by (rule dispatch_unverified[OF assms(3) Inl])
    then have "\<exists>err n. serve E N srv rq w = Some (Fail StatusUnauthorized err, w\<lparr>ticks := n\<rparr>)" unfolding d by blast
    with False Inl show ?thesis by simp
  next
    case (Inr p)
    then obtain tok where "verify_at E (sv_tokenMaker srv) (clock E (ticks w)) tok = Inr p"
      by (auto simp: bearer_def split: sum.splits)
    note window = verify_at_window[OF assms(1) this]
    have role: "(case c of AdminGrp _ \<Rightarrow> pl_Role p = RoleStoreAdmin | InternalGrp _ \<Rightarrow> pl_Role p = RoleInternal | _ \<Rightarrow> True)
        \<longleftrightarrow> admitted c p"
      by (cases c) simp_all
    show ?thesis
    proof (cases "admitted c p")
      case True
      with Inr False d window dispatch_admitted[OF assms(3) Inr True] show ?thesis by (simp add: role)
    next
      case no: False
      obtain err where "dispatch E N srv rq c w = Some (Fail StatusForbidden err, w\<lparr>ticks := Suc (ticks w)\<rparr>)"
        by (rule dispatch_forbidden[OF assms(3) Inr no])
      with Inr False d window no show ?thesis by (simp add: role)
    qed
  qed
qed

text \<open>Runs of the server: any sequence of answered requests.\<close>

inductive api_step :: "env \<Rightarrow> net \<Rightarrow> Server \<Rightarrow> world \<Rightarrow> world \<Rightarrow> bool" for E N srv where
  answer: "serve E N srv rq w = Some (r, w') \<Longrightarrow> api_step E N srv w w'"

inductive_cases api_stepE: "api_step E N srv w w'"

context statement_frame begin

lemma api_runs: "rtranclp (api_step E N srv) w w' \<Longrightarrow> D (db w) (db w')"
  by (induction rule: rtranclp_induct) (auto simp: D_refl elim!: api_stepE intro: D_trans api_calls)

end

text \<open>C3: Whatever requests arrive, with whatever tokens, bodies and failures of the database and of the
  other services: the tables keep every constraint of the schema, the wards never change, and app
  users are only ever added, each keeping its id, e-mail, password hash and Apple id.\<close>

theorem server_invariants:
  assumes "rtranclp (api_step E N srv) w w'" and "schema_ok E (db w)"
  shows "schema_ok E (db w') \<and> wards (db w') = wards (db w) \<and> accounts_kept (db w) (db w')"
  using schema.api_runs[OF assms(1)] wards_frame.api_runs[OF assms(1)] accounts.api_runs[OF assms(1)] assms(2)
  by (simp add: kept_def same_def)

lemma partner_without_store:
  "adminStoreID p = None \<Longrightarrow> db (snd (run_state (partner_handler E c p) w)) = db w"
  by (cases c)
    (simp_all add: run_answering adminGetStore_def adminUpdateStore_def adminSubmitStore_def adminListMenu_def
      adminCreateMenu_def adminUpdateMenu_def adminDeleteMenu_def)

lemma partner_handler_call:
  "run_state (partner_handler E c p) w = (r, w') \<Longrightarrow> partner_call E p w w'"
  by (cases c) (auto simp: run_answering intro: partner_call.intros surjective_pairing)

text \<open>C2: Who changes what the app shows: if a request changes a store, a dish or a partner account, its
  bearer token verified as an operator's, or as a partner's whose store the change is confined to
  (every other store and its menu, and of the partner's own the ward, approval and rating, stay). No
  public route and no app user's token ever does.\<close>

theorem catalogue_by_role:
  assumes "serve E N srv rq w = Some (r, w')" and "catalogue (db w') \<noteq> catalogue (db w)"
  shows "\<exists>p. bearer E srv rq w = Inr p
    \<and> (pl_Role p = RoleInternal
       \<or> pl_Role p = RoleStoreAdmin
         \<and> (\<exists>sid. pl_StoreID p = Some sid \<and> partner_frozen sid (db w') = partner_frozen sid (db w)))"
proof (cases rule: serve_cases[of E N srv rq w])
  case (answered_early r n)
  then show ?thesis using assms by auto
next
  case (handled c p n)
  define v where "v = w\<lparr>ticks := n\<rparr>"
  have v: "db v = db w" by (simp add: v_def)
  have h: "handler E N srv (rq_ctx rq) c p v = Some (r, w')" using assms(1) handled(3) by (simp add: v_def)
  show ?thesis
  proof (cases c)
    case (Public pc)
    then have "run_state (public_handler E srv (rq_ctx rq) pc) v = (r, w')" using h by simp
    from relD[OF catalogue_frame.public_calls this] show ?thesis using assms(2) v by (simp add: same_def)
  next
    case (Authed uc)
    then have "run_state (user_handler E srv uc p) v = (r, w')" using h by simp
    from relD[OF catalogue_frame.user_calls this] show ?thesis using assms(2) v by (simp add: same_def)
  next
    case (AdminGrp ac)
    then have run: "run_state (partner_handler E ac p) v = (r, w')" using h by simp
    then have "adminStoreID p \<noteq> None" using partner_without_store[of p E ac v] assms(2) v run by (metis snd_conv)
    then obtain sid where "adminStoreID p = Some sid" by blast
    with partner_call_frozen[OF partner_handler_call[OF run]] show ?thesis
      using handled(2) AdminGrp v by (auto simp: is_public_def adminStoreID_def)
  next
    case (InternalGrp oc)
    then show ?thesis using handled(2) by (auto simp: is_public_def)
  qed
qed

lemma internal_login_session:
  assumes "run_state (internalLogin E srv cx body) w = (Reply StatusOK lr, w')"
  obtains a where "a \<in> set (internal_admins (db w))" and "internal_session_issued E srv a lr (db w) (db w')"
proof -
  have "wp (internalLogin E srv cx body) (\<lambda>r w'. \<forall>lr. r = Reply StatusOK lr \<longrightarrow>
      (\<exists>a \<in> set (internal_admins (db w)). internal_session_issued E srv a lr (db w) (db w'))) w"
  proof (cases "ShouldBindJSON (valid_internalLoginRequest E) body")
    case (Some req)
    show ?thesis
      unfolding internalLogin_def Some option.case wp_bind
    proof (rule wp_read)
      show "read_only (GetInternalAdminByEmail (il_Email req))" by simp
    qed (cases "find (\<lambda>a. pg_lower E (ia_Email a) = pg_lower E (il_Email req)) (internal_admins (db w))",
      auto simp: GetInternalAdminByEmail_def dest!: find_SomeD intro!: wp_issueInternalSession)
  qed (simp add: internalLogin_def)
  from wpD[OF this assms] show thesis using that by auto
qed

lemma logout_deletes:
  assumes "no_faults E" and "rt \<noteq> []" and "verify_at E (sv_tokenMaker srv) (clock E (ticks u)) rt = Inr p"
  shows "pl_ID p \<notin> is_ID ` set (internal_sessions (db (snd
    (run_state (internalLogout E srv (Some \<lparr>rn_RefreshToken = rt\<rparr>)) u))))"
  using assms
  by (auto simp: internalLogout_def valid_renewAccessTokenRequest_def DeleteInternalSession_def delete_where_def)

text \<open>C19: Logging out does not stop a refresh token: the guard of the operator routes asks for a signature,
  a window and a role, and a refresh token has all three. As long as the token's own expiry lies
  ahead, logging out with it deletes its session, and, session or not, a request that carries it as
  its bearer token is run by its handler, as the operator who logged in.\<close>

theorem logged_out_token_still_admitted:
  assumes "jwt_laws E" and "no_faults E"
    and "run_state (internalLogin E srv cx body) w = (Reply StatusOK lr, w1)" and "ir_RefreshToken lr \<noteq> []"
    and "rq_Call rq = Some (InternalGrp oc)" and "rq_Method rq \<noteq> ''OPTIONS''"
    and "Fields (rq_Authorization rq) = [''Bearer'', ir_RefreshToken lr]"
  shows "\<exists>p a. a \<in> set (internal_admins (db w)) \<and> pl_UserID p = ia_ID a \<and> pl_Role p = RoleInternal
    \<and> pl_ExpiredAt p = ir_RefreshTokenExpiresAt lr
    \<and> (\<forall>u. GetNotBefore p \<le> clock E (ticks u) \<and> clock E (ticks u) < GetExpirationTime p \<longrightarrow>
        ir_SessionID lr \<notin> is_ID ` set (internal_sessions (db (snd
          (run_state (internalLogout E srv (Some \<lparr>rn_RefreshToken = ir_RefreshToken lr\<rparr>)) u))))
      \<and> serve E N srv rq u = operator_handler E N srv (rq_ctx rq) oc p (u\<lparr>ticks := Suc (ticks u)\<rparr>))"
proof -
  obtain a where a: "a \<in> set (internal_admins (db w))" "internal_session_issued E srv a lr (db w) (db w1)"
    using assms(3) by (rule internal_login_session)
  then obtain j p where m: "minted E (sv_tokenMaker srv) (ia_ID a) (ia_Email a) RoleInternal None
        (RefreshTokenDuration (sv_config srv)) j (ir_RefreshToken lr, p)"
      and ids: "pl_ID p = ir_SessionID lr" "pl_ExpiredAt p = ir_RefreshTokenExpiresAt lr"
    by (auto simp: internal_session_issued_def)
  note v = verify_at_signed[OF assms(1) mintedD(1)[OF m]]
  have tok: "bearer_token (rq_Authorization rq) = Inr (ir_RefreshToken lr)"
    using assms(7) by (simp add: bearer_token_Inr ToLower_Bearer)
  have served: "serve E N srv rq u = operator_handler E N srv (rq_ctx rq) oc p (u\<lparr>ticks := Suc (ticks u)\<rparr>)"
    if "GetNotBefore p \<le> clock E (ticks u)" "clock E (ticks u) < GetExpirationTime p" for u
  proof -
    have b: "bearer E srv rq u = Inr p" using that by (simp add: bearer_def tok v)
    have "dispatch E N srv rq (InternalGrp oc) u =
        handler E N srv (rq_ctx rq) (InternalGrp oc) p (u\<lparr>ticks := Suc (ticks u)\<rparr>)"
      by (rule dispatch_admitted[OF _ b]) (simp_all add: is_public_def mintedD(5)[OF m])
    then show ?thesis using assms(5,6) by (simp add: serve_def corsMiddleware_def Let_def)
  qed
  have "ir_SessionID lr \<notin> is_ID ` set (internal_sessions (db (snd
      (run_state (internalLogout E srv (Some \<lparr>rn_RefreshToken = ir_RefreshToken lr\<rparr>)) u))))"
    if "GetNotBefore p \<le> clock E (ticks u)" "clock E (ticks u) < GetExpirationTime p" for u
    using that logout_deletes[OF assms(2,4), of srv u p] by (simp add: v ids)
  with served a(1) mintedD[OF m] ids show ?thesis by blast
qed

end
