(* ===== verification/GF_Api_Runs.thy ===== *)
theory GF_Api_Runs
  imports GF_Api GF_Internal_Runs GF_Services_Runs
begin

text \<open>
  Requests of an operator to the whole server, and the witnesses of the server's properties.
\<close>

definition operator_world :: world where
  "operator_world = (world_of operator_db)\<lparr>ticks := 6\<rparr>"

text \<open>The operator's token, issued at the third step and good for a day.\<close>

definition approve_request :: request where
  "approve_request =
     \<lparr>rq_Method = ''POST'', rq_Origin = [],
      rq_Authorization = ''Bearer '' @ sample_token (secretKey sample_maker) operator_refresh_payload,
      rq_ctx = sample_ctx, rq_Call = Some (InternalGrp (ApproveStoreCall ''2011''))\<rparr>"

lemma operator_payload_sel:
  "plain (pl_Email operator_refresh_payload)" "plain (pl_Role operator_refresh_payload)"
  "pl_Role operator_refresh_payload = RoleInternal"
  by (simp_all add: operator_refresh_payload_def sample_payload_def RoleInternal_def plain_def)

lemma operator_bearer: "bearer sample_env sample_server approve_request operator_world = Inr operator_refresh_payload"
  using bearer_sample_token[OF operator_payload_sel(1,2)]
  by (simp add: bearer_def approve_request_def verify_sample_token)
    (simp add: operator_world_def operator_refresh_payload_def sample_payload_def GetNotBefore_def
      GetExpirationTime_def NewNumericDate_def sample_now_def second_def minute_def hour_def)

lemma approve_request_sel:
  "rq_Call approve_request = Some (InternalGrp (ApproveStoreCall ''2011''))"
  "\<not> is_public (InternalGrp c)" "rq_Method approve_request \<noteq> ''OPTIONS''"
  "admitted (InternalGrp c) operator_refresh_payload"
  by (simp_all add: approve_request_def is_public_def operator_payload_sel)

theorem routes_guarded_witness:
  "serve sample_env sample_net sample_server approve_request operator_world =
     handler sample_env sample_net sample_server (rq_ctx approve_request) (InternalGrp (ApproveStoreCall ''2011''))
       operator_refresh_payload (operator_world\<lparr>ticks := 7\<rparr>)
   \<and> (\<exists>err. serve sample_env sample_net sample_server (approve_request\<lparr>rq_Call := Some (AdminGrp AdminSubmitStore)\<rparr>)
        operator_world = Some (Fail StatusForbidden err, operator_world\<lparr>ticks := 7\<rparr>))"
proof
  show "serve sample_env sample_net sample_server approve_request operator_world =
     handler sample_env sample_net sample_server (rq_ctx approve_request) (InternalGrp (ApproveStoreCall ''2011''))
       operator_refresh_payload (operator_world\<lparr>ticks := 7\<rparr>)"
    using routes_guarded[OF sample_jwt_laws approve_request_sel(1,2), of sample_net sample_server operator_world]
      operator_bearer approve_request_sel(3) operator_payload_sel(3)
    by (simp add: operator_world_def split: if_splits)
  let ?rq = "approve_request\<lparr>rq_Call := Some (AdminGrp AdminSubmitStore)\<rparr>"
  have rq: "rq_Call ?rq = Some (AdminGrp AdminSubmitStore)" "\<not> is_public (AdminGrp AdminSubmitStore)"
    "rq_Method ?rq \<noteq> ''OPTIONS''"
    "bearer sample_env sample_server ?rq operator_world = Inr operator_refresh_payload"
    using operator_bearer approve_request_sel(3) by (simp_all add: is_public_def bearer_def)
  have "RoleInternal \<noteq> RoleStoreAdmin" by (simp add: RoleInternal_def RoleStoreAdmin_def)
  with routes_guarded[OF sample_jwt_laws rq(1,2), of sample_net sample_server operator_world] rq(3,4)
    operator_payload_sel(3)
  show "\<exists>err. serve sample_env sample_net sample_server ?rq operator_world =
      Some (Fail StatusForbidden err, operator_world\<lparr>ticks := 7\<rparr>)"
    by (simp add: operator_world_def split: if_splits)
qed

text \<open>The request approves the draft.\<close>

definition approved :: "unit reply \<times> world" where
  "approved = the (serve sample_env sample_net sample_server approve_request operator_world)"

lemma approve_served:
  "serve sample_env sample_net sample_server approve_request operator_world = Some (fst approved, snd approved)"
  "map st_Status (stores (db (snd approved))) = [StoreStatusApproved, StoreStatusApproved]"
proof -
  have d: "serve sample_env sample_net sample_server approve_request operator_world =
      returning (approveStore sample_env ''2011'') (operator_world\<lparr>ticks := 7\<rparr>)"
    using dispatch_admitted[OF approve_request_sel(2) operator_bearer approve_request_sel(4), of sample_net]
      approve_request_sel(1,3)
    by (simp add: serve_def corsMiddleware_def Let_def operator_world_def)
  then show "serve sample_env sample_net sample_server approve_request operator_world = Some (fst approved, snd approved)"
    by (simp add: approved_def returning_def)
  show "map st_Status (stores (db (snd approved))) = [StoreStatusApproved, StoreStatusApproved]"
    unfolding approved_def d
    by (simp add: returning_def run_answering approveStore_def storeIDFromPath_def ApproveStore_def
        update_store_def update_where_def operator_world_def is_digit_def decimal_val_def digit_val_def)
qed

lemma catalogue_changed: "catalogue (db (snd approved)) \<noteq> catalogue (db operator_world)"
proof
  assume "catalogue (db (snd approved)) = catalogue (db operator_world)"
  then have "stores (db (snd approved)) = stores (db operator_world)" by (simp add: catalogue_def)
  then show False using approve_served(2) by (simp add: operator_world_def)
qed

theorem catalogue_by_role_witness:
  "\<exists>p. bearer sample_env sample_server approve_request operator_world = Inr p \<and> pl_Role p = RoleInternal"
  using catalogue_by_role[OF approve_served(1) catalogue_changed] operator_bearer operator_payload_sel(3) by auto

theorem server_invariants_witness:
  "schema_ok sample_env (db (snd approved)) \<and> wards (db (snd approved)) = [sample_ward]"
proof -
  have "rtranclp (api_step sample_env sample_net sample_server) operator_world (snd approved)"
    by (intro r_into_rtranclp api_step.answer) (rule approve_served(1))
  from server_invariants[OF this] operator_db_ok show ?thesis by (simp add: operator_world_def)
qed

text \<open>The operator logs in and lists the accounts with the refresh token.\<close>

definition list_request :: "string \<Rightarrow> request" where
  "list_request tok =
     \<lparr>rq_Method = ''GET'', rq_Origin = [], rq_Authorization = ''Bearer '' @ tok, rq_ctx = sample_ctx,
      rq_Call = Some (InternalGrp ListInternalAdminsCall)\<rparr>"

theorem logged_out_token_still_admitted_witness:
  "\<exists>lr w1 p. run_state (internalLogin sample_env sample_server sample_ctx (Some operator_credentials))
      (world_of operator_db) = (Reply StatusOK lr, w1)
    \<and> (\<forall>u. GetNotBefore p \<le> clock sample_env (ticks u) \<and> clock sample_env (ticks u) < GetExpirationTime p \<longrightarrow>
        serve sample_env sample_net sample_server (list_request (ir_RefreshToken lr)) u =
          returning (listInternalAdmins sample_env) (u\<lparr>ticks := Suc (ticks u)\<rparr>))"
proof -
  obtain lr w1 where run: "run_state (internalLogin sample_env sample_server sample_ctx (Some operator_credentials))
      (world_of operator_db) = (Reply StatusOK lr, w1)"
    using operator_logs_in by blast
  then obtain a where a: "a \<in> set (internal_admins (db (world_of operator_db)))"
    "internal_session_issued sample_env sample_server a lr (db (world_of operator_db)) (db w1)"
    by (rule internal_login_session)
  then obtain j p where "minted sample_env sample_maker (ia_ID a) (ia_Email a) RoleInternal None
      (24 * hour) j (ir_RefreshToken lr, p)" and "ia_Email a = ''op@example.jp''"
    by (auto simp: internal_session_issued_def)
  then have tok: "ir_RefreshToken lr = sample_token (secretKey sample_maker) p"
    and "pl_Email p = ''op@example.jp''" "pl_Role p = RoleInternal"
    by (auto dest: mintedD)
  then have "plain (pl_Email p)" "plain (pl_Role p)" by (simp_all add: plain_def RoleInternal_def)
  moreover have "plain (secretKey sample_maker)"
    by (simp add: sample_maker_def sample_server_def plain_def list_all_iff)
  ultimately have "plain (ir_RefreshToken lr)" unfolding tok by (intro plain_token)
  then have "Fields (rq_Authorization (list_request (ir_RefreshToken lr))) = [''Bearer'', ir_RefreshToken lr]"
    using fields_Bearer[of "ir_RefreshToken lr"] by (simp add: list_request_def tok)
  from logged_out_token_still_admitted[OF sample_jwt_laws _ run _ _ _ this, of ListInternalAdminsCall sample_net]
  obtain q where "\<forall>u. GetNotBefore q \<le> clock sample_env (ticks u) \<and> clock sample_env (ticks u) < GetExpirationTime q \<longrightarrow>
      serve sample_env sample_net sample_server (list_request (ir_RefreshToken lr)) u =
        returning (listInternalAdmins sample_env) (u\<lparr>ticks := Suc (ticks u)\<rparr>)"
    by (auto simp: list_request_def tok)
  with run show ?thesis by blast
qed

end
