(* ===== verification/GF_Startup.thy ===== *)
theory GF_Startup
  imports GF_InternalAdmins
begin

text \<open>
  Start-up: \<open>util/config.go\<close> (\<open>LoadConfig\<close>), \<open>app/application.go\<close>, \<open>runtime/base.go\<close>, \<open>cmd/main.go\<close>, and
  the command that makes the first operator, \<open>cmd/createadmin/main.go\<close>. Viper and the connection pool
  are parameters: what reading the file says, what it decodes to, and whether a data source parses.
\<close>

section \<open>Configuration\<close>

datatype read_result = ReadOk | ConfigFileNotFoundError | ReadFailed string

definition LoadConfig :: "read_result \<Rightarrow> string + Config \<Rightarrow> (string \<Rightarrow> string) \<Rightarrow> string + Config" where
  "LoadConfig ReadInConfig Unmarshal Getenv =
     (case ReadInConfig of
        ReadFailed err \<Rightarrow> Inl err
      | _ \<Rightarrow>
          (case Unmarshal of
             Inl err \<Rightarrow> Inl err
           | Inr config \<Rightarrow>
               (let config =
                  (if HTTPServerAddress config = []
                   then let port = Getenv ''PORT'' in
                        config\<lparr>HTTPServerAddress := ''0.0.0.0:'' @ (if port = [] then ''8080'' else port)\<rparr>
                   else config)
                in Inr (if PasswordResetTokenDuration config = 0
                        then config\<lparr>PasswordResetTokenDuration := hour\<rparr> else config))))"

section \<open>Starting the server\<close>

text \<open>\<open>log.Fatal\<close> ends the process: a start either fails with its message or serves with a server. The
  pool connects lazily; the ping only warms it.\<close>

definition Start ::
  "(string \<Rightarrow> bool) \<Rightarrow> (string \<Rightarrow> bool) \<Rightarrow> (string \<Rightarrow> string \<Rightarrow> Verifier option) \<Rightarrow> (string \<Rightarrow> bool) \<Rightarrow> Config
     \<Rightarrow> string + Server" where
  "Start ParseConfig NewWithConfig load_cas gcs_ok cfg =
     (if \<not> ParseConfig (DBSource cfg) then Inl ''cannot parse db source''
      else if \<not> NewWithConfig (DBSource cfg) then Inl ''cannot connect to db''
      else case NewServer load_cas gcs_ok cfg of
        Inl err \<Rightarrow> Inl ''cannot create server''
      | Inr server \<Rightarrow> Inr server)"

definition server_main ::
  "read_result \<Rightarrow> string + Config \<Rightarrow> (string \<Rightarrow> string) \<Rightarrow> (string \<Rightarrow> bool) \<Rightarrow> (string \<Rightarrow> bool)
     \<Rightarrow> (string \<Rightarrow> string \<Rightarrow> Verifier option) \<Rightarrow> (string \<Rightarrow> bool) \<Rightarrow> string + Server" where
  "server_main ReadInConfig Unmarshal Getenv ParseConfig NewWithConfig load_cas gcs_ok =
     (case LoadConfig ReadInConfig Unmarshal Getenv of
        Inl err \<Rightarrow> Inl ''failed to load configurations''
      | Inr config \<Rightarrow> Start ParseConfig NewWithConfig load_cas gcs_ok config)"

text \<open>A server that starts has a key long enough for HS256, an address to listen on and reset links that
  last, and every optional part is on exactly when its setting is there.\<close>

lemma started_server:
  assumes "server_main rd un env parse connect load_cas gcs_ok = Inr srv"
  shows "32 \<le> length (secretKey (sv_tokenMaker srv)) \<and> HTTPServerAddress (sv_config srv) \<noteq> []
    \<and> PasswordResetTokenDuration (sv_config srv) \<noteq> 0
    \<and> (sv_apple srv \<noteq> None \<longleftrightarrow> AppleBundleID (sv_config srv) \<noteq> [])
    \<and> (sv_appstore srv \<noteq> None \<longleftrightarrow> AppleRootCAPath (sv_config srv) \<noteq> [])
    \<and> (sv_uploader srv \<noteq> None \<longleftrightarrow> ImageBucket (sv_config srv) \<noteq> [])
    \<and> (Enabled (sv_mailer srv) \<longleftrightarrow> ResendAPIKey (sv_config srv) \<noteq> [] \<and> MailFrom (sv_config srv) \<noteq> [])"
proof -
  obtain cfg where c: "LoadConfig rd un env = Inr cfg" and s: "NewServer load_cas gcs_ok cfg = Inr srv"
    using assms by (auto simp: server_main_def Start_def split: sum.splits if_splits)
  have "HTTPServerAddress cfg \<noteq> [] \<and> PasswordResetTokenDuration cfg \<noteq> 0"
    using c by (auto simp: LoadConfig_def Let_def hour_def minute_def second_def split: read_result.splits sum.splits if_splits)
  moreover have "sv_config srv = cfg" "32 \<le> length (secretKey (sv_tokenMaker srv))"
    "sv_apple srv \<noteq> None \<longleftrightarrow> AppleBundleID cfg \<noteq> []" "sv_uploader srv \<noteq> None \<longleftrightarrow> ImageBucket cfg \<noteq> []"
    "Enabled (sv_mailer srv) \<longleftrightarrow> ResendAPIKey cfg \<noteq> [] \<and> MailFrom cfg \<noteq> []"
    using s by (auto simp: NewServer_def NewJWTMaker_def minSecretKeySize_def Enabled_def Let_def
        split: option.splits if_splits)
  moreover have "sv_appstore srv \<noteq> None \<longleftrightarrow> AppleRootCAPath cfg \<noteq> []"
    using s by (cases "AppleRootCAPath cfg = []") (auto simp: NewServer_def Let_def split: option.splits if_splits)
  ultimately show ?thesis by simp
qed

text \<open>Without a mail provider nobody gets a reset link, not in the log either: the request is refused before
  one is made, so the sender that logs messages is never called.\<close>

lemma no_link_without_provider:
  assumes "server_main rd un env parse connect load_cas gcs_ok = Inr srv"
    and "ResendAPIKey (sv_config srv) = [] \<or> MailFrom (sv_config srv) = []"
    and "valid_forgotInternalPasswordRequest E req"
  shows "\<exists>err. run_state (forgotInternalPassword E srv (Some req)) w = (Fail StatusNotImplemented err, w)"
  using started_server[OF assms(1)] assms(2,3) by (auto simp: forgotInternalPassword_def ShouldBindJSON_def)

section \<open>The first operator\<close>

text \<open>\<open>loaded\<close> is the configuration's result, \<open>pool_ok\<close> whether \<open>pgxpool.New\<close> accepts the source.\<close>

definition createadmin_run ::
  "env \<Rightarrow> string + Config \<Rightarrow> (string \<Rightarrow> bool) \<Rightarrow> string \<Rightarrow> string \<Rightarrow> string \<Rightarrow> string
     \<Rightarrow> (world, string + InternalAdmin) state" where
  "createadmin_run E loaded pool_ok email password name dbsource =
     (case (if dbsource = [] then map_sum (\<lambda>e. e) DBSource loaded else Inr dbsource) of
        Inl err \<Rightarrow> State_Monad.return (Inl ''load config (run from repo root or pass -dbsource)'')
      | Inr source \<Rightarrow>
          (if \<not> pool_ok source then State_Monad.return (Inl ''pool'')
           else do {
             h \<leftarrow> HashPassword E password;
             case h of
               None \<Rightarrow> State_Monad.return (Inl ''hash'')
             | Some hash \<Rightarrow> do {
                 r \<leftarrow> db_call E (CreateInternalAdmin email hash name);
                 State_Monad.return (case r of Inl err \<Rightarrow> Inl ''insert'' | Inr admin \<Rightarrow> Inr admin)
               }
           }))"

text \<open>The exit code of the command.\<close>

definition createadmin_main ::
  "env \<Rightarrow> string + Config \<Rightarrow> (string \<Rightarrow> bool) \<Rightarrow> string \<Rightarrow> string \<Rightarrow> string \<Rightarrow> string \<Rightarrow> (world, nat) state" where
  "createadmin_main E loaded pool_ok email password name dbsource =
     (if email = [] \<or> password = [] then State_Monad.return 2
      else do {
        r \<leftarrow> createadmin_run E loaded pool_ok email password name dbsource;
        State_Monad.return (case r of Inl err \<Rightarrow> 1 | Inr admin \<Rightarrow> 0)
      })"

lemma wp_createadmin:
  assumes "no_faults E"
  shows "wp (createadmin_main E loaded pool_ok email password name dbsource) (\<lambda>code w'.
    code = 0 \<longrightarrow> email \<noteq> [] \<and> password \<noteq> [] \<and> (\<exists>a i. internal_admins (db w') = internal_admins (db w) @ [a]
      \<and> ia_Email a = email \<and> bcrypt_Generate E i password = Some (ia_PasswordHash a)
      \<and> (\<forall>b \<in> set (internal_admins (db w)). pg_lower E (ia_Email b) \<noteq> pg_lower E email))) w"
  using assms
  by (auto simp: createadmin_main_def createadmin_run_def CreateInternalAdmin_def Let_def list_ex_iff
      split: sum.split option.split)

lemma run_CreateRoleToken_available:
  assumes "tokens_available E"
  obtains tok p i where "run_state (CreateRoleToken E maker uid email role sid d) w = (Some (tok, p), w\<lparr>ticks := ticks w + 2\<rparr>)"
    and "new_random E i = Some (pl_ID p)"
proof -
  obtain tid where r: "new_random E (ticks w) = Some tid"
    using assms unfolding tokens_available_def by blast
  let ?p = "\<lparr>pl_ID = tid, pl_UserID = uid, pl_Email = email, pl_Role = role, pl_StoreID = sid,
    pl_IssuedAt = clock E (Suc (ticks w)), pl_ExpiredAt = clock E (Suc (ticks w)) + d\<rparr>"
  obtain tok where "jwt_Sign E (secretKey maker) ?p = Some tok"
    using assms unfolding tokens_available_def by blast
  with r show thesis using that[of tok ?p "ticks w"] by (simp add: CreateRoleToken_def NewPayload_def)
qed

lemma issue_available:
  assumes "no_faults E" and "tokens_available E" and "admin \<in> set (internal_admins (db v))"
    and "\<forall>i. \<forall>s \<in> set (internal_sessions (db v)). new_random E i \<noteq> Some (is_ID s)"
  shows "\<exists>lr v'. run_state (issueInternalSession E srv cx admin) v = (Reply StatusOK lr, v')"
proof -
  obtain t1 p1 i1 where t1: "run_state (CreateRoleToken E (sv_tokenMaker srv) (ia_ID admin) (ia_Email admin) RoleInternal None
      (AccessTokenDuration (sv_config srv))) v = (Some (t1, p1), v\<lparr>ticks := ticks v + 2\<rparr>)"
    by (rule run_CreateRoleToken_available[OF assms(2)])
  obtain t2 p2 i2 where t2: "run_state (CreateRoleToken E (sv_tokenMaker srv) (ia_ID admin) (ia_Email admin) RoleInternal None
      (RefreshTokenDuration (sv_config srv))) (v\<lparr>ticks := ticks v + 2\<rparr>) =
      (Some (t2, p2), v\<lparr>ticks := ticks v + 2\<rparr>\<lparr>ticks := ticks (v\<lparr>ticks := ticks v + 2\<rparr>) + 2\<rparr>)"
    and fresh: "new_random E i2 = Some (pl_ID p2)"
    by (rule run_CreateRoleToken_available[OF assms(2)])
  have "\<not> list_ex (\<lambda>s. is_ID s = pl_ID p2) (internal_sessions (db v))"
    using assms(4) fresh unfolding list_ex_iff by metis
  moreover have "list_ex (\<lambda>a. ia_ID a = ia_ID admin) (internal_admins (db v))"
    using assms(3) by (auto simp: list_ex_iff)
  ultimately show ?thesis
    using assms(1) t2 by (simp add: issueInternalSession_def t1 CreateInternalSession_def Let_def)
qed

text \<open>C24: The bootstrap works: once the command has exited with 0, with a reachable database the new
  operator can log in with the same e-mail and password, as long as the operators' table is as the
  command left it. But only if the e-mail is one the login's binding accepts: the command does not
  check it, and an account with any other address can never log in.\<close>

theorem bootstrap_operator_logs_in:
  assumes "bcrypt_laws E" and "no_faults E" and "tokens_available E"
    and "run_state (createadmin_main E loaded pool_ok email password name dbsource) w = (0, w1)"
    and "internal_admins (db v) = internal_admins (db w1)"
    and "\<forall>i. \<forall>s \<in> set (internal_sessions (db v)). new_random E i \<noteq> Some (is_ID s)"
  shows "(\<exists>lr v'. run_state (internalLogin E srv cx (Some \<lparr>il_Email = email, il_Password = password\<rparr>)) v = (Reply StatusOK lr, v'))
    \<longleftrightarrow> valid_email E email"
proof -
  obtain a i where a: "internal_admins (db w1) = internal_admins (db w) @ [a]" "ia_Email a = email"
      "bcrypt_Generate E i password = Some (ia_PasswordHash a)"
    and new: "\<forall>b \<in> set (internal_admins (db w)). pg_lower E (ia_Email b) \<noteq> pg_lower E email"
    and given: "email \<noteq> []" "password \<noteq> []"
    using wpD[OF wp_createadmin[OF assms(2)] assms(4)] by auto
  have "find (\<lambda>b. pg_lower E (ia_Email b) = pg_lower E email) (internal_admins (db w)) = None"
    using new by (auto simp: find_None_iff)
  then have found: "find (\<lambda>b. pg_lower E (ia_Email b) = pg_lower E email) (internal_admins (db v)) = Some a"
    by (simp add: assms(5) a(1,2) find_append)
  have "bcrypt_Compare E (ia_PasswordHash a) password"
    using assms(1) a(3) unfolding bcrypt_laws_def by blast
  with found assms(2) given
  have "valid_email E email \<Longrightarrow> run_state (internalLogin E srv cx (Some \<lparr>il_Email = email, il_Password = password\<rparr>)) v =
      run_state (issueInternalSession E srv cx a) (v\<lparr>ticks := Suc (ticks v)\<rparr>)"
    by (simp add: internalLogin_def valid_internalLoginRequest_def GetInternalAdminByEmail_def CheckPassword_def)
  moreover have "\<exists>lr v'. run_state (issueInternalSession E srv cx a) (v\<lparr>ticks := Suc (ticks v)\<rparr>) = (Reply StatusOK lr, v')"
    using issue_available[OF assms(2,3), of a "v\<lparr>ticks := Suc (ticks v)\<rparr>"] assms(5,6) a(1) by simp
  moreover have "\<not> valid_email E email \<Longrightarrow>
      run_state (internalLogin E srv cx (Some \<lparr>il_Email = email, il_Password = password\<rparr>)) v = (Fail StatusBadRequest ErrBinding, v)"
    by (simp add: internalLogin_def valid_internalLoginRequest_def ShouldBindJSON_def)
  ultimately show ?thesis by fastforce
qed

end
