(* ===== verification/GF_Startup_Runs.thy ===== *)
theory GF_Startup_Runs
  imports GF_Startup GF_Auth_Runs
begin

text \<open>
  A start of the sample server from its configuration file, the command that makes its first
  operator, and the witness that the operator can log in.
\<close>

lemma sample_start:
  "server_main ReadOk (Inr sample_config) (\<lambda>_. []) (\<lambda>_. True) (\<lambda>_. True) (\<lambda>_ b. NewVerifier [''apple''] b)
     (\<lambda>_. True) = Inr sample_server"
proof -
  have "LoadConfig ReadOk (Inr sample_config) (\<lambda>_. []) = Inr sample_config"
    by (simp add: LoadConfig_def sample_config_def hour_def minute_def second_def)
  then show ?thesis by (simp add: server_main_def Start_def sample_server_new)
qed

definition first_operator_world :: world where
  "first_operator_world =
     snd (run_state (createadmin_main sample_env (Inr sample_config) (\<lambda>_. True) ''op@example.jp'' ''long password''
       ''Op'' []) (world_of empty_db))"

lemma first_operator_made:
  "run_state (createadmin_main sample_env (Inr sample_config) (\<lambda>_. True) ''op@example.jp'' ''long password'' ''Op'' [])
     (world_of empty_db) = (0, first_operator_world)"
  unfolding first_operator_world_def
  by (simp add: createadmin_main_def createadmin_run_def HashPassword_def CreateInternalAdmin_def empty_db_def Let_def)

lemma no_operator_sessions: "internal_sessions (db first_operator_world) = []"
  unfolding first_operator_world_def
  by (simp add: createadmin_main_def createadmin_run_def HashPassword_def CreateInternalAdmin_def empty_db_def Let_def)

theorem bootstrap_operator_logs_in_witness:
  "\<exists>lr w'. run_state (internalLogin sample_env sample_server sample_ctx
      (Some \<lparr>il_Email = ''op@example.jp'', il_Password = ''long password''\<rparr>)) first_operator_world = (Reply StatusOK lr, w')"
  using bootstrap_operator_logs_in[OF sample_bcrypt_laws _ sample_tokens_available first_operator_made refl,
      of sample_server sample_ctx] no_operator_sessions
  by simp

end
