(* ===== verification/GF_DevSign.thy ===== *)
theory GF_DevSign
  imports GF_Subscription GF_Auth
begin

text \<open>
  \<open>appstore/devsign/devsign.go\<close> and \<open>cmd/gentestjws/main.go\<close>: a throwaway certificate chain, and the
  command that writes its root and a few signed StoreKit payloads for local tests. Key generation, the
  making of certificates, PEM and the signing of tokens are parameters; the properties check the fixtures
  against the server's own verifier.
\<close>

section \<open>The libraries\<close>

datatype key_usage = KeyUsageCertSign | KeyUsageDigitalSignature
datatype ext_key_usage = ExtKeyUsageAny

text \<open>The fields of \<open>x509.Certificate\<close> a template sets.\<close>

record cert_template =
  ct_SerialNumber :: int
  ct_CommonName :: string
  ct_NotBefore :: time
  ct_NotAfter :: time
  ct_IsCA :: bool
  ct_BasicConstraintsValid :: bool
  ct_KeyUsage :: "key_usage list"
  ct_ExtKeyUsage :: "ext_key_usage list"

text \<open>A private key is a string; \<open>x509_CreateCertificate\<close> takes the template, the parent (the template
  itself or a certificate), the public key and the parent's private key.\<close>

record signing =
  ecdsa_GenerateKey :: "nat \<Rightarrow> string option"
  ecdsa_PublicKey :: "string \<Rightarrow> string"
  x509_CreateCertificate :: "nat \<Rightarrow> cert_template \<Rightarrow> cert_template + cert \<Rightarrow> string \<Rightarrow> string \<Rightarrow> string option"
  x509_Raw :: "cert \<Rightarrow> string"
  pem_EncodeToMemory :: "string \<times> string \<Rightarrow> string"
  jws_SignTransaction :: "nat \<Rightarrow> json \<Rightarrow> TransactionPayload \<Rightarrow> string \<Rightarrow> string option"
  jws_SignNotification :: "nat \<Rightarrow> json \<Rightarrow> NotificationPayload \<Rightarrow> string \<Rightarrow> string option"

section \<open>The chain (\<open>devsign.go\<close>)\<close>

text \<open>\<open>if err != nil { return nil, err }\<close>.\<close>

definition or_fail :: "('s, 'a option) state \<Rightarrow> ('a \<Rightarrow> ('s, 'b option) state) \<Rightarrow> ('s, 'b option) state" where
  "or_fail m f = do { r \<leftarrow> m; case r of None \<Rightarrow> State_Monad.return None | Some x \<Rightarrow> f x }"

definition GenerateKey :: "signing \<Rightarrow> (world, string option) state" where
  "GenerateKey L = do { i \<leftarrow> tick; State_Monad.return (ecdsa_GenerateKey L i) }"

record Chain =
  ch_root :: cert
  ch_leafKey :: string
  ch_x5c :: "string list"

definition sign ::
  "env \<Rightarrow> signing \<Rightarrow> cert_template \<Rightarrow> cert_template + cert \<Rightarrow> string \<Rightarrow> string \<Rightarrow> (world, cert option) state" where
  "sign E L tmpl parent pub parentKey = do {
     i \<leftarrow> tick;
     State_Monad.return (Option.bind (x509_CreateCertificate L i tmpl parent pub parentKey) (x509_Parse E))
   }"

definition selfSign :: "env \<Rightarrow> signing \<Rightarrow> cert_template \<Rightarrow> string \<Rightarrow> (world, cert option) state" where
  "selfSign E L tmpl key = sign E L tmpl (Inl tmpl) (ecdsa_PublicKey L key) key"

definition caTmpl :: "time \<Rightarrow> int \<Rightarrow> string \<Rightarrow> cert_template" where
  "caTmpl now serial cn =
     \<lparr>ct_SerialNumber = serial, ct_CommonName = cn, ct_NotBefore = now, ct_NotAfter = now + 72 * hour,
      ct_IsCA = True, ct_BasicConstraintsValid = True,
      ct_KeyUsage = [KeyUsageCertSign, KeyUsageDigitalSignature], ct_ExtKeyUsage = []\<rparr>"

definition leafTmpl :: "time \<Rightarrow> cert_template" where
  "leafTmpl now =
     \<lparr>ct_SerialNumber = 3, ct_CommonName = ''GF Dev Leaf'', ct_NotBefore = now, ct_NotAfter = now + 72 * hour,
      ct_IsCA = False, ct_BasicConstraintsValid = False,
      ct_KeyUsage = [KeyUsageDigitalSignature], ct_ExtKeyUsage = [ExtKeyUsageAny]\<rparr>"

definition NewChain :: "env \<Rightarrow> signing \<Rightarrow> (world, Chain option) state" where
  "NewChain E L =
     or_fail (GenerateKey L) (\<lambda>rootKey.
     or_fail (GenerateKey L) (\<lambda>interKey.
     or_fail (GenerateKey L) (\<lambda>leafKey. do {
       t \<leftarrow> TimeNow E;
       let now = t - hour;
       or_fail (selfSign E L (caTmpl now 1 ''GF Dev Root CA'') rootKey) (\<lambda>root.
       or_fail (sign E L (caTmpl now 2 ''GF Dev Intermediate CA'') (Inr root) (ecdsa_PublicKey L interKey) rootKey)
         (\<lambda>inter.
       or_fail (sign E L (leafTmpl now) (Inr inter) (ecdsa_PublicKey L leafKey) interKey) (\<lambda>leaf.
         State_Monad.return (Some \<lparr>ch_root = root, ch_leafKey = leafKey,
           ch_x5c = [StdEncode (x509_Raw L leaf), StdEncode (x509_Raw L inter)]\<rparr>))))
     })))"

definition RootPEM :: "signing \<Rightarrow> Chain \<Rightarrow> string" where
  "RootPEM L c = pem_EncodeToMemory L (''CERTIFICATE'', x509_Raw L (ch_root c))"

definition x5c_header :: "Chain \<Rightarrow> json" where
  "x5c_header c = JArr (map JStr (ch_x5c c))"

definition SignTransaction :: "signing \<Rightarrow> Chain \<Rightarrow> TransactionPayload \<Rightarrow> (world, string option) state" where
  "SignTransaction L c claims = do {
     i \<leftarrow> tick;
     State_Monad.return (jws_SignTransaction L i (x5c_header c) claims (ch_leafKey c))
   }"

definition SignNotification :: "signing \<Rightarrow> Chain \<Rightarrow> NotificationPayload \<Rightarrow> (world, string option) state" where
  "SignNotification L c claims = do {
     i \<leftarrow> tick;
     State_Monad.return (jws_SignNotification L i (x5c_header c) claims (ch_leafKey c))
   }"

section \<open>The fixtures (\<open>gentestjws/main.go\<close>)\<close>

text \<open>\<open>t.UnixMilli()\<close>.\<close>

definition ToUnixMilli :: "time \<Rightarrow> int" where "ToUnixMilli t = t div 1000"

record fixture_args =
  fx_bundle :: string
  fx_product :: string
  fx_original :: string

definition txn :: "fixture_args \<Rightarrow> time \<Rightarrow> int \<Rightarrow> TransactionPayload" where
  "txn a now expiresMS =
     \<lparr>tx_TransactionID = fx_original a, tx_OriginalTransactionID = fx_original a, tx_BundleID = fx_bundle a,
      tx_ProductID = fx_product a, tx_SubscriptionGroupID = [], tx_PurchaseDateMS = ToUnixMilli now,
      tx_OriginalPurchaseDateMS = 0, tx_ExpiresDateMS = expiresMS, tx_Type = ''Auto-Renewable Subscription'',
      tx_InAppOwnershipType = ''PURCHASED'', tx_Environment = ''Sandbox'', tx_RevocationDateMS = 0,
      tx_RevocationReason = None\<rparr>"

definition notif_payload :: "fixture_args \<Rightarrow> time \<Rightarrow> string \<Rightarrow> string \<Rightarrow> NotificationPayload" where
  "notif_payload a now nType signedTx =
     \<lparr>np_NotificationType = nType, np_Subtype = [], np_NotificationUUID = ''dev-'' @ nType, np_Version = ''2.0'',
      np_SignedDateMS = ToUnixMilli now,
      np_Data = \<lparr>nd_AppAppleID = 0, nd_BundleID = fx_bundle a, nd_BundleVersion = [], nd_Environment = ''Sandbox'',
        nd_SignedTransactionInfo = signedTx, nd_SignedRenewalInfo = []\<rparr>\<rparr>"

definition notif ::
  "signing \<Rightarrow> Chain \<Rightarrow> fixture_args \<Rightarrow> time \<Rightarrow> string \<Rightarrow> int \<Rightarrow> (world, NotificationPayload option) state" where
  "notif L c a now nType expiresMS =
     or_fail (SignTransaction L c (txn a now expiresMS))
       (\<lambda>signedTx. State_Monad.return (Some (notif_payload a now nType signedTx)))"

text \<open>What a run leaves: whether it returned without an error, and the files of the output directory,
  name and bytes, in the order written. \<open>write_ok\<close> is whether \<open>os.WriteFile\<close> succeeds on a name.\<close>

type_synonym written = "bool \<times> (string \<times> string) list"

fun write_notifs ::
  "signing \<Rightarrow> (string \<Rightarrow> bool) \<Rightarrow> Chain \<Rightarrow> fixture_args \<Rightarrow> time \<Rightarrow> (string \<times> string \<times> int) list \<Rightarrow>
    (string \<times> string) list \<Rightarrow> (world, written) state" where
  "write_notifs L write_ok c a now [] fs = State_Monad.return (True, fs)"
| "write_notifs L write_ok c a now ((file, nType, expires) # rest) fs = do {
     s \<leftarrow> or_fail (notif L c a now nType expires) (SignNotification L c);
     case s of
       None \<Rightarrow> State_Monad.return (False, fs)
     | Some jws \<Rightarrow>
         (if \<not> write_ok file then State_Monad.return (False, fs)
          else write_notifs L write_ok c a now rest (fs @ [(file, jws)]))
   }"

definition gentestjws_run ::
  "env \<Rightarrow> signing \<Rightarrow> bool \<Rightarrow> (string \<Rightarrow> bool) \<Rightarrow> fixture_args \<Rightarrow> (world, written) state" where
  "gentestjws_run E L mkdir_ok write_ok a = do {
     r \<leftarrow> NewChain E L;
     case r of
       None \<Rightarrow> State_Monad.return (False, [])
     | Some chain \<Rightarrow>
         (if \<not> mkdir_ok \<or> \<not> write_ok ''root.pem'' then State_Monad.return (False, [])
          else do {
            now \<leftarrow> TimeNow E;
            let root = (''root.pem'', RootPEM L chain);
            let future = ToUnixMilli (now + 30 * 24 * hour);
            let past = ToUnixMilli (now + - 24 * hour);
            s \<leftarrow> SignTransaction L chain (txn a now future);
            case s of
              None \<Rightarrow> State_Monad.return (False, [root])
            | Some activeJWS \<Rightarrow>
                (if \<not> write_ok ''txn-active.jws'' then State_Monad.return (False, [root])
                 else write_notifs L write_ok chain a now
                   [(''notif-renew.jws'', ''DID_RENEW'', future), (''notif-expired.jws'', ''EXPIRED'', past)]
                   [root, (''txn-active.jws'', activeJWS)])
          })
   }"

text \<open>The exit code.\<close>

definition gentestjws_main ::
  "env \<Rightarrow> signing \<Rightarrow> bool \<Rightarrow> (string \<Rightarrow> bool) \<Rightarrow> fixture_args \<Rightarrow> (world, nat) state" where
  "gentestjws_main E L mkdir_ok write_ok a = do {
     (ok, fs) \<leftarrow> gentestjws_run E L mkdir_ok write_ok a;
     State_Monad.return (if ok then 0 else 1)
   }"

section \<open>What the libraries promise\<close>

text \<open>
  \<open>view c\<close> are the fields of a certificate and \<open>issued c p\<close> says that \<open>p\<close>'s key signed \<open>c\<close> and \<open>c\<close> names \<open>p\<close>
  as its issuer. A created certificate parses to one with the template's fields (times are stored to the
  second), the given key and the given issuer; \<open>Verify\<close> accepts a leaf two steps below a root, inside
  everybody's validity.
\<close>

definition whole_seconds :: "cert_template \<Rightarrow> cert_template" where
  "whole_seconds t = t\<lparr>ct_NotBefore := ct_NotBefore t - ct_NotBefore t mod second,
     ct_NotAfter := ct_NotAfter t - ct_NotAfter t mod second\<rparr>"

definition created_as ::
  "env \<Rightarrow> signing \<Rightarrow> (cert \<Rightarrow> cert_template) \<Rightarrow> (cert \<Rightarrow> cert \<Rightarrow> bool) \<Rightarrow>
    cert_template \<Rightarrow> cert_template + cert \<Rightarrow> string \<Rightarrow> string \<Rightarrow> cert \<Rightarrow> bool" where
  "created_as E L view issued t parent pub key c \<longleftrightarrow>
     x509_Parse E (x509_Raw L c) = Some c \<and> view c = whole_seconds t \<and> x509_ecdsa E c = Some pub
     \<and> (\<forall>p. parent = Inr p \<longrightarrow> x509_ecdsa E p = Some (ecdsa_PublicKey L key) \<longrightarrow> issued c p)"

definition x509_create_law :: "env \<Rightarrow> signing \<Rightarrow> (cert \<Rightarrow> cert_template) \<Rightarrow> (cert \<Rightarrow> cert \<Rightarrow> bool) \<Rightarrow> bool" where
  "x509_create_law E L view issued \<longleftrightarrow>
     (\<forall>i t parent pub key der c. x509_CreateCertificate L i t parent pub key = Some der \<longrightarrow>
        x509_Parse E der = Some c \<longrightarrow> created_as E L view issued t parent pub key c)"

definition in_validity :: "cert_template \<Rightarrow> time \<Rightarrow> bool" where
  "in_validity t now \<longleftrightarrow> ct_NotBefore t \<le> now \<and> now \<le> ct_NotAfter t"

definition may_issue :: "cert_template \<Rightarrow> bool" where
  "may_issue t \<longleftrightarrow> ct_IsCA t \<and> ct_BasicConstraintsValid t \<and> KeyUsageCertSign \<in> set (ct_KeyUsage t)"

definition x509_verify_law :: "env \<Rightarrow> (cert \<Rightarrow> cert_template) \<Rightarrow> (cert \<Rightarrow> cert \<Rightarrow> bool) \<Rightarrow> bool" where
  "x509_verify_law E view issued \<longleftrightarrow>
     (\<forall>roots others now leaf inter root. inter \<in> set others \<longrightarrow> root \<in> set roots \<longrightarrow>
        issued leaf inter \<longrightarrow> issued inter root \<longrightarrow> may_issue (view inter) \<longrightarrow> may_issue (view root) \<longrightarrow>
        in_validity (view leaf) now \<longrightarrow> in_validity (view inter) now \<longrightarrow> in_validity (view root) now \<longrightarrow>
        x509_Verify E roots others now leaf)"

text \<open>A signed token is ASCII, and parses to its claims (those whose text is ASCII survive JSON) whenever
  the key function returns the signer's public key for the token's header.\<close>

definition ascii :: "string \<Rightarrow> bool" where
  "ascii s \<longleftrightarrow> list_all (\<lambda>c. (of_char c :: nat) < 128) s"

definition ascii_tx :: "TransactionPayload \<Rightarrow> bool" where
  "ascii_tx p \<longleftrightarrow> list_all ascii [tx_TransactionID p, tx_OriginalTransactionID p, tx_BundleID p, tx_ProductID p,
     tx_SubscriptionGroupID p, tx_Type p, tx_InAppOwnershipType p, tx_Environment p]"

definition ascii_notif :: "NotificationPayload \<Rightarrow> bool" where
  "ascii_notif p \<longleftrightarrow> list_all ascii [np_NotificationType p, np_Subtype p, np_NotificationUUID p, np_Version p,
     nd_BundleID (np_Data p), nd_BundleVersion (np_Data p), nd_Environment (np_Data p),
     nd_SignedTransactionInfo (np_Data p), nd_SignedRenewalInfo (np_Data p)]"

definition jws_sign_law :: "env \<Rightarrow> signing \<Rightarrow> bool" where
  "jws_sign_law E L \<longleftrightarrow>
     (\<forall>i x5c p key s. jws_SignTransaction L i x5c p key = Some s \<longrightarrow> ascii_tx p \<longrightarrow>
        ascii s \<and> s \<noteq> [] \<and> (\<forall>now kf. kf (Some x5c) = Inr (ecdsa_PublicKey L key) \<longrightarrow>
          jws_ParseTransaction E now kf s = Inr p))
   \<and> (\<forall>i x5c p key s. jws_SignNotification L i x5c p key = Some s \<longrightarrow> ascii_notif p \<longrightarrow>
        s \<noteq> [] \<and> (\<forall>now kf. kf (Some x5c) = Inr (ecdsa_PublicKey L key) \<longrightarrow> jws_ParseNotification E now kf s = Inr p))"

definition pem_law :: "signing \<Rightarrow> (string \<Rightarrow> (string \<times> string) list) \<Rightarrow> bool" where
  "pem_law L pem \<longleftrightarrow> (\<forall>b. pem (pem_EncodeToMemory L b) = [b])"

section \<open>The chain is trusted\<close>

lemma wp_or_fail [simp]:
  "wp (or_fail m f) Q w = wp m (\<lambda>r w'. case r of None \<Rightarrow> Q None w' | Some x \<Rightarrow> wp (f x) Q w') w"
  by (auto simp: or_fail_def wp_def split: option.splits)

lemma wp_sign [simp]:
  "wp (sign E L t parent pub key) Q w =
     Q (Option.bind (x509_CreateCertificate L (ticks w) t parent pub key) (x509_Parse E)) (w\<lparr>ticks := Suc (ticks w)\<rparr>)"
  by (simp add: sign_def)

text \<open>A chain built at \<open>now\<close>: who is under whom, and with which keys.\<close>

definition chain_built ::
  "env \<Rightarrow> signing \<Rightarrow> (cert \<Rightarrow> cert_template) \<Rightarrow> (cert \<Rightarrow> cert \<Rightarrow> bool) \<Rightarrow> time \<Rightarrow> Chain \<Rightarrow> bool" where
  "chain_built E L view issued now ch \<longleftrightarrow>
     (\<exists>leaf inter rootKey interKey.
        created_as E L view issued (caTmpl now 1 ''GF Dev Root CA'') (Inl (caTmpl now 1 ''GF Dev Root CA''))
          (ecdsa_PublicKey L rootKey) rootKey (ch_root ch)
      \<and> created_as E L view issued (caTmpl now 2 ''GF Dev Intermediate CA'') (Inr (ch_root ch))
          (ecdsa_PublicKey L interKey) rootKey inter
      \<and> created_as E L view issued (leafTmpl now) (Inr inter) (ecdsa_PublicKey L (ch_leafKey ch)) interKey leaf
      \<and> ch_x5c ch = [StdEncode (x509_Raw L leaf), StdEncode (x509_Raw L inter)])"

lemma create_lawD:
  "x509_create_law E L view issued \<Longrightarrow>
   Option.bind (x509_CreateCertificate L i t parent pub key) (x509_Parse E) = Some c \<Longrightarrow>
   created_as E L view issued t parent pub key c"
  by (auto simp: x509_create_law_def bind_eq_Some_conv)

lemma wp_NewChain:
  assumes "x509_create_law E L view issued"
  shows "wp (NewChain E L)
    (\<lambda>r w'. \<forall>ch. r = Some ch \<longrightarrow>
       chain_built E L view issued (clock E (ticks w + 3) - hour) ch \<and> ticks w' = ticks w + 7) w"
  by (auto simp: NewChain_def GenerateKey_def selfSign_def Let_def chain_built_def eval_nat_numeral
      split: option.split intro!: create_lawD[OF assms])

lemma valid_window:
  assumes "c - hour \<le> t" and "t + second \<le> c + 71 * hour"
  shows "in_validity (whole_seconds (caTmpl (c - hour) n cn)) t" "in_validity (whole_seconds (leafTmpl (c - hour))) t"
proof -
  have m: "0 \<le> x mod second \<and> x mod second < second" for x
    by (simp add: second_def)
  have "c - hour - (c - hour) mod second \<le> t \<and> t \<le> 71 * hour + c - (71 * hour + c) mod second"
    using m[of "c - hour"] m[of "71 * hour + c"] assms by linarith
  then show "in_validity (whole_seconds (caTmpl (c - hour) n cn)) t" "in_validity (whole_seconds (leafTmpl (c - hour))) t"
    by (simp_all add: in_validity_def whole_seconds_def caTmpl_def leafTmpl_def)
qed

lemma chain_trusted:
  assumes "chain_built E L view issued (c - hour) ch" and "x509_verify_law E view issued"
    and "av_roots v = [ch_root ch]" and "c - hour \<le> t" and "t + second \<le> c + 71 * hour"
  shows "x5c_keyFunc E v t (Some (x5c_header ch)) = Inr (ecdsa_PublicKey L (ch_leafKey ch))"
proof -
  note window = valid_window[OF assms(4,5)]
  obtain leaf inter where x5c: "ch_x5c ch = [StdEncode (x509_Raw L leaf), StdEncode (x509_Raw L inter)]"
    and parse: "x509_Parse E (x509_Raw L leaf) = Some leaf" "x509_Parse E (x509_Raw L inter) = Some inter"
    and key: "x509_ecdsa E leaf = Some (ecdsa_PublicKey L (ch_leafKey ch))"
    and issued: "issued leaf inter" "issued inter (ch_root ch)"
    and view: "view leaf = whole_seconds (leafTmpl (c - hour))"
      "view inter = whole_seconds (caTmpl (c - hour) 2 ''GF Dev Intermediate CA'')"
      "view (ch_root ch) = whole_seconds (caTmpl (c - hour) 1 ''GF Dev Root CA'')"
    using assms(1) unfolding chain_built_def created_as_def by blast
  have "may_issue (view inter)" "may_issue (view (ch_root ch))"
    by (simp_all add: view may_issue_def whole_seconds_def caTmpl_def)
  with issued window view have "x509_Verify E [ch_root ch] [inter] t leaf"
    using assms(2) unfolding x509_verify_law_def by (metis list.set_intros(1))
  then show ?thesis
    by (simp add: x5c_keyFunc_def x5c_header_def x5c StdDecode_Encode parse key assms(3))
qed

section \<open>The fixtures verify\<close>

text \<open>One fixture at a time, under a verifier that trusts the chain's root.\<close>

definition chain_accepted :: "env \<Rightarrow> signing \<Rightarrow> Verifier \<Rightarrow> Chain \<Rightarrow> time \<Rightarrow> bool" where
  "chain_accepted E L v ch t \<longleftrightarrow> x5c_keyFunc E v t (Some (x5c_header ch)) = Inr (ecdsa_PublicKey L (ch_leafKey ch))"

lemma transaction_fixture:
  assumes "jws_sign_law E L" and "jws_SignTransaction L i (x5c_header ch) p (ch_leafKey ch) = Some s"
    and "ascii_tx p" and "chain_accepted E L v ch t" and "tx_BundleID p = av_expectedBundle v"
  shows "transaction_at E v t now s = Inr p" and "ascii s" and "s \<noteq> []"
  using assms unfolding jws_sign_law_def chain_accepted_def transaction_at_def by auto

lemma notification_fixture:
  assumes "jws_sign_law E L" and "jws_SignNotification L i (x5c_header ch) n (ch_leafKey ch) = Some s"
    and "ascii_notif n" and "chain_accepted E L v ch t"
  shows "jws_ParseNotification E now (x5c_keyFunc E v t) s = Inr n" and "s \<noteq> []"
  using assms unfolding jws_sign_law_def chain_accepted_def by auto

lemma ascii_simps [simp]: "ascii []" "ascii (c # s) \<longleftrightarrow> (of_char c :: nat) < 128 \<and> ascii s"
  "ascii (s @ t) \<longleftrightarrow> ascii s \<and> ascii t"
  by (simp_all add: ascii_def)

text \<open>The arguments are plain text.\<close>

definition ascii_args :: "fixture_args \<Rightarrow> bool" where
  "ascii_args a \<longleftrightarrow> ascii (fx_bundle a) \<and> ascii (fx_product a) \<and> ascii (fx_original a)"

lemma ascii_fixture:
  "ascii_args a \<Longrightarrow> ascii_tx (txn a now expires)"
  "ascii_args a \<Longrightarrow> ascii nType \<Longrightarrow> ascii s \<Longrightarrow> ascii_notif (notif_payload a now nType s)"
  by (simp_all add: ascii_args_def ascii_tx_def ascii_notif_def txn_def notif_payload_def)

lemma wp_sign_fixture [simp]:
  "wp (SignTransaction L c p) Q w =
     Q (jws_SignTransaction L (ticks w) (x5c_header c) p (ch_leafKey c)) (w\<lparr>ticks := Suc (ticks w)\<rparr>)"
  "wp (SignNotification L c n) Q w =
     Q (jws_SignNotification L (ticks w) (x5c_header c) n (ch_leafKey c)) (w\<lparr>ticks := Suc (ticks w)\<rparr>)"
  by (simp_all add: SignTransaction_def SignNotification_def)

text \<open>What the files hold: the root, a transaction, and notifications around transactions.\<close>

definition holds_txn :: "signing \<Rightarrow> Chain \<Rightarrow> TransactionPayload \<Rightarrow> string \<Rightarrow> bool" where
  "holds_txn L ch p s \<longleftrightarrow> (\<exists>i. jws_SignTransaction L i (x5c_header ch) p (ch_leafKey ch) = Some s)"

definition holds_notif :: "signing \<Rightarrow> Chain \<Rightarrow> fixture_args \<Rightarrow> time \<Rightarrow> string \<Rightarrow> TransactionPayload \<Rightarrow> string \<Rightarrow> bool" where
  "holds_notif L ch a now nType p s \<longleftrightarrow>
     (\<exists>i tx. holds_txn L ch p tx
        \<and> jws_SignNotification L i (x5c_header ch) (notif_payload a now nType tx) (ch_leafKey ch) = Some s)"

definition fixture_files :: "signing \<Rightarrow> Chain \<Rightarrow> fixture_args \<Rightarrow> time \<Rightarrow> (string \<times> string) list \<Rightarrow> bool" where
  "fixture_files L ch a now fs \<longleftrightarrow>
     (\<exists>active renew expired.
        fs = [(''root.pem'', RootPEM L ch), (''txn-active.jws'', active), (''notif-renew.jws'', renew),
              (''notif-expired.jws'', expired)]
      \<and> holds_txn L ch (txn a now (ToUnixMilli (now + 720 * hour))) active
      \<and> holds_notif L ch a now ''DID_RENEW'' (txn a now (ToUnixMilli (now + 720 * hour))) renew
      \<and> holds_notif L ch a now ''EXPIRED'' (txn a now (ToUnixMilli (now - 24 * hour))) expired)"

lemma fixture_filesI:
  assumes "jws_SignTransaction L i1 (x5c_header ch) (txn a now (ToUnixMilli (now + 720 * hour))) (ch_leafKey ch) = Some active"
    and "jws_SignTransaction L i2 (x5c_header ch) (txn a now (ToUnixMilli (now + 720 * hour))) (ch_leafKey ch) = Some t1"
    and "jws_SignNotification L i3 (x5c_header ch) (notif_payload a now ''DID_RENEW'' t1) (ch_leafKey ch) = Some renew"
    and "jws_SignTransaction L i4 (x5c_header ch) (txn a now (ToUnixMilli (now - 24 * hour))) (ch_leafKey ch) = Some t2"
    and "jws_SignNotification L i5 (x5c_header ch) (notif_payload a now ''EXPIRED'' t2) (ch_leafKey ch) = Some expired"
  shows "fixture_files L ch a now [(''root.pem'', RootPEM L ch), (''txn-active.jws'', active),
    (''notif-renew.jws'', renew), (''notif-expired.jws'', expired)]"
  using assms unfolding fixture_files_def holds_txn_def holds_notif_def by blast

lemma wp_gentestjws:
  assumes "x509_create_law E L view issued"
  shows "wp (gentestjws_run E L mkdir_ok write_ok a) (\<lambda>(ok, fs) w'. ok \<longrightarrow>
    (\<exists>ch. chain_built E L view issued (clock E (ticks w + 3) - hour) ch
       \<and> fixture_files L ch a (clock E (ticks w + 7)) fs \<and> ticks w + 7 \<le> ticks w')) w"
  unfolding gentestjws_run_def wp_bind
  by (rule wp_mono[OF wp_NewChain[OF assms]])
    (auto simp: Let_def notif_def split: option.split intro: fixture_filesI)

text \<open>The server reads the root file of the command as its only trusted root.\<close>

lemma fixture_verifier:
  assumes "pem_law L pem" and "chain_built E L view issued now ch" and "fixture_files L ch a now' fs"
  shows "NewVerifierFromFile E pem der (map_of fs) ''root.pem'' bundle =
    Some \<lparr>av_roots = [ch_root ch], av_expectedBundle = bundle\<rparr>"
proof -
  have "x509_Parse E (x509_Raw L (ch_root ch)) = Some (ch_root ch)"
    using assms(2) unfolding chain_built_def created_as_def by blast
  then show ?thesis
    using assms(1,3) by (auto simp: NewVerifierFromFile_def fixture_files_def RootPEM_def pem_law_def
        parseCertificates_def NewVerifier_def)
qed

lemma run_transaction_fixture:
  assumes "jws_sign_law E L" and "holds_txn L ch p s" and "ascii_tx p" and "tx_BundleID p = av_expectedBundle v"
    and "chain_accepted E L v ch (clock E (ticks w))"
  shows "s \<noteq> [] \<and> run_state (VerifyTransaction E v s) w = (Inr p, w\<lparr>ticks := ticks w + 2\<rparr>)"
proof -
  have "transaction_at E v (clock E (ticks w)) (clock E (Suc (ticks w))) s = Inr p \<and> s \<noteq> []"
    using assms transaction_fixture(1,3) unfolding holds_txn_def by blast
  then show ?thesis by (simp add: VerifyTransaction_def transaction_at_def)
qed

lemma run_notification_fixture:
  assumes "jws_sign_law E L" and "holds_notif L ch a now nType p s" and "ascii_args a" and "ascii nType"
    and "ascii_tx p" and "tx_BundleID p = av_expectedBundle v"
    and "chain_accepted E L v ch (clock E (ticks w))" and "chain_accepted E L v ch (clock E (ticks w + 2))"
  shows "s \<noteq> [] \<and> (\<exists>n. np_NotificationType n = nType
    \<and> run_state (VerifyNotification E v s) w = (Inr (n, Some p), w\<lparr>ticks := ticks w + 4\<rparr>))"
proof -
  obtain i tx where tx: "holds_txn L ch p tx"
    and s: "jws_SignNotification L i (x5c_header ch) (notif_payload a now nType tx) (ch_leafKey ch) = Some s"
    using assms(2) unfolding holds_notif_def by blast
  have "ascii tx" "tx \<noteq> []"
    using tx assms(1,3,5,6,7) transaction_fixture(2,3) unfolding holds_txn_def by blast+
  then have "jws_ParseNotification E t (x5c_keyFunc E v (clock E (ticks w))) s = Inr (notif_payload a now nType tx)"
    and "s \<noteq> []" for t
    using notification_fixture[OF assms(1) s _ assms(7)] assms(3,4) ascii_fixture(2) by blast+
  moreover have "run_state (VerifyTransaction E v tx) (w\<lparr>ticks := ticks w + 2\<rparr>) = (Inr p, w\<lparr>ticks := ticks w + 4\<rparr>)"
    using run_transaction_fixture[OF assms(1) tx assms(5,6), of "w\<lparr>ticks := ticks w + 2\<rparr>"] assms(8) by simp
  ultimately have "run_state (VerifyNotification E v s) w =
      (Inr (notif_payload a now nType tx, Some p), w\<lparr>ticks := ticks w + 4\<rparr>)"
    using \<open>tx \<noteq> []\<close> by (simp add: VerifyNotification_def notif_payload_def)
  with \<open>s \<noteq> []\<close> show ?thesis by (auto simp: notif_payload_def)
qed

section \<open>The endpoints take them\<close>

text \<open>The statements behind a verified purchase and a verified notification, on a reachable database.\<close>

lemma wp_from_run: "run_state m w = (x, w') \<Longrightarrow> wp m Q w = Q x w'"
  by (simp add: wp_def)

lemma find_key: "k \<in> f ` set xs \<Longrightarrow> \<exists>x. find (\<lambda>x. f x = k) xs = Some x"
  by (cases "find (\<lambda>x. f x = k) xs") (auto simp: find_None_iff)

lemma wp_purchase:
  assumes "no_faults E" and "sv_appstore srv = Some v" and "s \<noteq> []"
    and verified: "run_state (VerifyTransaction E v s) w = (Inr tx, w\<lparr>ticks := ticks w + 2\<rparr>)"
    and "tx_OriginalTransactionID tx \<noteq> []" and user: "pl_UserID p \<in> u_ID ` set (users (db w))"
    and new: "\<forall>r \<in> set (subscription_receipts (db w)). sr_OriginalTxID r \<noteq> tx_OriginalTransactionID tx
      \<and> sr_ID r \<noteq> gen_random_uuid E (ticks w + 3)"
  shows "wp (verifySubscription E srv (Some \<lparr>vs_SignedTransaction = s\<rparr>) p)
    (\<lambda>r w2. ticks w2 = ticks w + 5 \<and> pl_UserID p \<in> u_ID ` set (users (db w2))
       \<and> (\<exists>b. r = Reply StatusOK b
            \<and> sb_SubscriptionStatus b = SubscriptionStatus_text (snd (deriveStatus tx (clock E (ticks w + 2)))))
       \<and> (\<exists>rc. find (\<lambda>r. sr_OriginalTxID r = tx_OriginalTransactionID tx) (subscription_receipts (db w2)) = Some rc
            \<and> sr_UserID rc = pl_UserID p)) w"
proof -
  obtain rs us where st: "deriveStatus tx (clock E (ticks w + 2)) = (rs, us)" by (cases "deriveStatus tx (clock E (ticks w + 2))")
  obtain u where u: "find (\<lambda>r. u_ID r = pl_UserID p) (users (db w)) = Some u"
    using find_key[OF user] by blast
  have e: "list_ex (\<lambda>r. u_ID r = pl_UserID p) (users (db w))"
    using user by (auto simp: list_ex_iff)
  have r: "find (\<lambda>r. sr_OriginalTxID r = tx_OriginalTransactionID tx) (subscription_receipts (db w)) = None"
    and f: "\<not> list_ex (\<lambda>x. sr_ID x = gen_random_uuid E (ticks w + 3)) (subscription_receipts (db w))"
    using new by (auto simp: find_None_iff list_ex_iff)
  have "u_ID ` set (update_where (\<lambda>r. u_ID r = pl_UserID p) (set_subscription E i arg) (users (db w))) = u_ID ` set (users (db w))"
    for i arg by (rule image_update_where) simp
  with assms(1,2,3,5) st u e r f user show ?thesis
    by (simp add: verifySubscription_def valid_verifySubscriptionRequest_def wp_from_run[OF verified]
        UpsertSubscriptionReceipt_def UpdateSubscription_def receipt_params_def user_params_def Let_def
        find_append numeral_eq_Suc del: wp_VerifyTransaction)
qed

lemma wp_notification:
  assumes "no_faults E" and "sv_appstore srv = Some v" and "s \<noteq> []"
    and verified: "run_state (VerifyNotification E v s) w = (Inr (n, Some tx), w\<lparr>ticks := ticks w + 4\<rparr>)"
    and "tx_OriginalTransactionID tx \<noteq> []"
    and rc: "find (\<lambda>r. sr_OriginalTxID r = tx_OriginalTransactionID tx) (subscription_receipts (db w)) = Some rc"
    and user: "sr_UserID rc \<in> u_ID ` set (users (db w))"
  shows "wp (appleWebhook E srv (Some \<lparr>wr_SignedPayload = s\<rparr>))
    (\<lambda>r w2. r = Reply StatusOK \<lparr>wh_ok = True, wh_handled = True\<rparr>
       \<and> (\<exists>u \<in> set (users (db w2)). u_ID u = sr_UserID rc \<and> u_SubscriptionStatus u =
            snd (statusFromNotification (np_NotificationType n) tx (clock E (ticks w + 5))))) w"
proof -
  obtain rs us where st: "statusFromNotification (np_NotificationType n) tx (clock E (ticks w + 5)) = (rs, us)"
    by (cases "statusFromNotification (np_NotificationType n) tx (clock E (ticks w + 5))")
  obtain u where u: "find (\<lambda>r. u_ID r = sr_UserID rc) (users (db w)) = Some u"
    using find_key[OF user] by blast
  then have "u \<in> set (users (db w))" "u_ID u = sr_UserID rc" by (auto simp: find_Some_iff)
  then have "set_subscription E i arg u \<in> set (update_where (\<lambda>r. u_ID r = sr_UserID rc) (set_subscription E i arg) (users (db w)))"
    for i arg by (auto simp: set_update_where)
  with assms(1,2,3,5) st u rc \<open>u_ID u = _\<close> show ?thesis
    by (auto simp: appleWebhook_def valid_appleWebhookRequest_def wp_from_run[OF verified]
        GetReceiptByOriginalTxID_def UpsertSubscriptionReceipt_def UpdateSubscription_def receipt_params_def
        user_params_def Let_def numeral_eq_Suc intro!: rev_bexI)
qed

lemma active_fixture:
  assumes "t + second \<le> now + 720 * hour"
  shows "deriveStatus (txn a now (ToUnixMilli (now + 720 * hour))) t = (ReceiptStatusActive, SubscriptionStatusActive)"
proof -
  have "now + 720 * hour - 1000 < UnixMilli (ToUnixMilli (now + 720 * hour))"
    using pos_mod_bound[of 1000 "now + 720 * hour"]
    by (simp add: UnixMilli_def ToUnixMilli_def minus_mod_eq_div_mult [symmetric])
  with assms show ?thesis
    by (simp add: deriveStatus_def IsRevoked_def txn_def ExpiresAt_def msToTime_def second_def)
qed

lemma txn_sel [simp]: "tx_BundleID (txn a now e) = fx_bundle a" "tx_OriginalTransactionID (txn a now e) = fx_original a"
  by (simp_all add: txn_def)

text \<open>C25: The fixtures exercise the endpoints: when the command has exited well and the server takes its root
  file as the trusted root, for 71 hours the active transaction is verified as a purchase of its caller,
  answered 200 with status \<open>active\<close>, and the expiry notification is then handled and marks the same
  user expired. The chain, the token header and the root file pass through the server's own verifier.\<close>

theorem fixtures_drive_subscription:
  assumes laws: "x509_create_law E L view issued" "x509_verify_law E view issued" "jws_sign_law E L" "pem_law L pem"
    "no_faults E" "monotone_clock E"
    and args: "ascii_args a" "fx_original a \<noteq> []"
    and run: "run_state (gentestjws_run E L mkdir_ok write_ok a) w = ((True, fs), w1)"
    and wired: "sv_appstore srv = NewVerifierFromFile E pem der (map_of fs) ''root.pem'' (fx_bundle a)"
    and later: "ticks w1 \<le> ticks v" "clock E (ticks v + 10) + second \<le> clock E (ticks w + 3) + 71 * hour"
    and user: "pl_UserID p \<in> u_ID ` set (users (db v))"
    and new: "\<forall>r \<in> set (subscription_receipts (db v)). sr_OriginalTxID r \<noteq> fx_original a
      \<and> sr_ID r \<noteq> gen_random_uuid E (ticks v + 3)"
  shows "\<exists>active expired b w2 w3.
      map_of fs ''txn-active.jws'' = Some active \<and> map_of fs ''notif-expired.jws'' = Some expired
    \<and> run_state (verifySubscription E srv (Some \<lparr>vs_SignedTransaction = active\<rparr>) p) v = (Reply StatusOK b, w2)
    \<and> sb_SubscriptionStatus b = ''active''
    \<and> run_state (appleWebhook E srv (Some \<lparr>wr_SignedPayload = expired\<rparr>)) w2 =
        (Reply StatusOK \<lparr>wh_ok = True, wh_handled = True\<rparr>, w3)
    \<and> (\<exists>u \<in> set (users (db w3)). u_ID u = pl_UserID p \<and> u_SubscriptionStatus u = SubscriptionStatusExpired)"
proof -
  let ?c = "clock E (ticks w + 3)" and ?now = "clock E (ticks w + 7)"
  let ?active = "txn a ?now (ToUnixMilli (?now + 720 * hour))" and ?past = "txn a ?now (ToUnixMilli (?now - 24 * hour))"
  obtain ch where ch: "chain_built E L view issued (?c - hour) ch" "fixture_files L ch a ?now fs" "ticks w + 7 \<le> ticks w1"
    using wpD[OF wp_gentestjws[OF laws(1)] run] by auto
  then obtain active expired where files: "map_of fs ''txn-active.jws'' = Some active" "map_of fs ''notif-expired.jws'' = Some expired"
    and holds: "holds_txn L ch ?active active" "holds_notif L ch a ?now ''EXPIRED'' ?past expired"
    unfolding fixture_files_def by fastforce
  define ver where "ver = \<lparr>av_roots = [ch_root ch], av_expectedBundle = fx_bundle a\<rparr>"
  have ver: "sv_appstore srv = Some ver"
    using wired fixture_verifier[OF laws(4) ch(1,2)] by (simp add: ver_def)
  have mono: "clock E i \<le> clock E j" if "i \<le> j" for i j
    using laws(6) that unfolding monotone_clock_def by blast
  have start: "?c \<le> ?now" "?c \<le> clock E (ticks v + i)" for i
    using mono ch(3) later(1) by simp_all
  have within: "clock E (ticks v + i) + second \<le> ?c + 71 * hour" if "i \<le> 10" for i
    using mono[of "ticks v + i" "ticks v + 10"] that later(2) by simp
  have accepted: "chain_accepted E L ver ch (clock E (ticks v + i))" if "i \<le> 10" for i
    unfolding chain_accepted_def using start(2)[of i]
    by (intro chain_trusted[OF ch(1) laws(2) _ _ within[OF that]]) (simp_all add: ver_def hour_def minute_def second_def)
  have t: "active \<noteq> [] \<and> run_state (VerifyTransaction E ver active) v = (Inr ?active, v\<lparr>ticks := ticks v + 2\<rparr>)"
    using run_transaction_fixture[OF laws(3) holds(1) ascii_fixture(1)[OF args(1)], of ver v] accepted[of 0]
    by (simp add: ver_def)
  have "clock E (ticks v + 2) + second \<le> ?now + 720 * hour"
    using within[of 2] start(1) by (simp add: hour_def minute_def second_def)
  note active = active_fixture[OF this]
  obtain b w2 rc where purchase: "run_state (verifySubscription E srv (Some \<lparr>vs_SignedTransaction = active\<rparr>) p) v = (Reply StatusOK b, w2)"
    "sb_SubscriptionStatus b = ''active''" "ticks w2 = ticks v + 5" "pl_UserID p \<in> u_ID ` set (users (db w2))"
    "find (\<lambda>r. sr_OriginalTxID r = fx_original a) (subscription_receipts (db w2)) = Some rc" "sr_UserID rc = pl_UserID p"
    using wp_purchase[OF laws(5) ver conjunct1[OF t] conjunct2[OF t] _ user] new args(2) active
    by (auto simp: wp_def split: prod.splits)
  have "chain_accepted E L ver ch (clock E (ticks w2))" "chain_accepted E L ver ch (clock E (ticks w2 + 2))"
    using accepted[of 5] accepted[of 7] purchase(3) by (simp_all add: add.commute)
  then obtain n where n: "expired \<noteq> []" "np_NotificationType n = ''EXPIRED''"
    "run_state (VerifyNotification E ver expired) w2 = (Inr (n, Some ?past), w2\<lparr>ticks := ticks w2 + 4\<rparr>)"
    using run_notification_fixture[OF laws(3) holds(2) args(1) _ ascii_fixture(1)[OF args(1)], of ver w2] by (auto simp: ver_def)
  have "wp (appleWebhook E srv (Some \<lparr>wr_SignedPayload = expired\<rparr>)) (\<lambda>r w3. r = Reply StatusOK \<lparr>wh_ok = True, wh_handled = True\<rparr>
      \<and> (\<exists>u \<in> set (users (db w3)). u_ID u = pl_UserID p \<and> u_SubscriptionStatus u = SubscriptionStatusExpired)) w2"
    using wp_notification[OF laws(5) ver n(1,3)] args(2) purchase(4-6) n(2) by (simp add: statusFromNotification_def)
  with files purchase(1,2) show ?thesis by (auto simp: wp_def split: prod.splits)
qed

end
