(* ===== verification/GF_DevSign_Runs.thy ===== *)
theory GF_DevSign_Runs
  imports GF_DevSign GF_Subscription_Runs
begin

text \<open>
  Signing libraries in which the laws of \<open>GF_DevSign\<close> are true, a run of the fixture command with them,
  and the witness of its property. A certificate spells out its fields, its key and its issuer; a token
  its header, its key and its claims, in base 64. Making one fails for what it could not spell out.
\<close>

section \<open>Certificates\<close>

definition dev_cert :: "cert_template \<Rightarrow> string \<Rightarrow> string \<Rightarrow> cert" where
  "dev_cert t pub auth =
     (if ct_IsCA t then CHR ''C'' else CHR ''L'') # enc_int (ct_SerialNumber t) @ enc_str (ct_CommonName t)
       @ enc_int (ct_NotBefore t) @ enc_str pub @ enc_str auth @ ''.''"

definition dev_read :: "cert \<Rightarrow> cert_template \<times> string \<times> string" where
  "dev_read s =
     (case dec_int (tl s) of (n, r) \<Rightarrow> case dec_str r of (cn, r) \<Rightarrow> case dec_int r of (t, r) \<Rightarrow>
      case dec_str r of (pub, r) \<Rightarrow> case dec_str r of (auth, r) \<Rightarrow>
        (if hd s = CHR ''C'' then caTmpl t n cn else leafTmpl t, pub, auth))"

definition dev_parent :: "cert_template + cert \<Rightarrow> cert" where
  "dev_parent parent = (case parent of Inl _ \<Rightarrow> [] | Inr p \<Rightarrow> p)"

definition dev_create :: "cert_template \<Rightarrow> cert_template + cert \<Rightarrow> string \<Rightarrow> cert option" where
  "dev_create t parent pub =
     (let c = dev_cert t pub (dev_parent parent)
      in if dev_read c = (t, pub, dev_parent parent) then Some c else None)"

definition dev_view :: "cert \<Rightarrow> cert_template" where "dev_view c = whole_seconds (fst (dev_read c))"
definition dev_key :: "cert \<Rightarrow> string" where "dev_key c = fst (snd (dev_read c))"
definition dev_issued :: "cert \<Rightarrow> cert \<Rightarrow> bool" where "dev_issued c p \<longleftrightarrow> snd (snd (dev_read c)) = p"

definition dev_chain_ok :: "cert list \<Rightarrow> cert list \<Rightarrow> time \<Rightarrow> cert \<Rightarrow> bool" where
  "dev_chain_ok roots others now leaf \<longleftrightarrow>
     list_ex (\<lambda>i. list_ex (\<lambda>r. dev_issued leaf i \<and> dev_issued i r \<and> may_issue (dev_view i) \<and> may_issue (dev_view r)
        \<and> in_validity (dev_view leaf) now \<and> in_validity (dev_view i) now \<and> in_validity (dev_view r) now) roots) others"

section \<open>Tokens\<close>

definition dev_seal :: "json \<Rightarrow> string \<Rightarrow> string \<Rightarrow> string" where
  "dev_seal x5c key body =
     (case x5c of
        JArr [JStr x, JStr y] \<Rightarrow> RawURLEncode (enc_str key @ enc_str x @ enc_str y @ body)
      | _ \<Rightarrow> RawURLEncode ''.'')"

definition dev_open :: "string \<Rightarrow> json \<times> string \<times> string" where
  "dev_open s =
     (case RawURLDecode s of
        None \<Rightarrow> (JNull, [], [])
      | Some r \<Rightarrow> case dec_str r of (key, r) \<Rightarrow> case dec_str r of (x, r) \<Rightarrow> case dec_str r of (y, r) \<Rightarrow>
          (JArr [JStr x, JStr y], key, r))"

definition dev_sign :: "('p \<Rightarrow> string) \<Rightarrow> (string \<Rightarrow> 'p) \<Rightarrow> json \<Rightarrow> 'p \<Rightarrow> string \<Rightarrow> string option" where
  "dev_sign enc dec x5c p key =
     (let s = dev_seal x5c key (enc p)
      in if fst (dev_open s) = x5c \<and> fst (snd (dev_open s)) = key \<and> dec (snd (snd (dev_open s))) = p
         then Some s else None)"

definition dev_verify :: "(string \<Rightarrow> 'p) \<Rightarrow> (json option \<Rightarrow> string + string) \<Rightarrow> string \<Rightarrow> string + 'p" where
  "dev_verify dec kf s =
     (case kf (Some (fst (dev_open s))) of
        Inl err \<Rightarrow> Inl err
      | Inr pub \<Rightarrow> if pub = CHR ''P'' # fst (snd (dev_open s)) then Inr (dec (snd (snd (dev_open s)))) else Inl ''signature'')"

lemma ascii_url_char: "n < 64 \<Longrightarrow> (of_char (url_char n) :: nat) < 128"
  by (auto simp: b64_char_def)

lemma ascii_RawURL: "ascii (RawURLEncode s)"
proof -
  have "\<forall>n \<in> set (map of_char s). n < (256 :: nat)" by auto
  from b64_encode_less[OF this] show ?thesis
    by (auto simp: ascii_def RawURLEncode_def list_all_iff intro!: ascii_url_char)
qed

lemma RawURLEncode_Nil: "RawURLEncode s = [] \<longleftrightarrow> s = []"
  by (metis RawURLDecode_Encode RawURLEncode_def b64_encode.simps(1) list.simps(8) option.inject)

lemma dev_sign_Some:
  assumes "dev_sign enc dec x5c p key = Some s"
  shows "ascii s" and "s \<noteq> []" and "kf (Some x5c) = Inr (CHR ''P'' # key) \<Longrightarrow> dev_verify dec kf s = Inr p"
proof -
  have s: "s = dev_seal x5c key (enc p)" "fst (dev_open s) = x5c" "fst (snd (dev_open s)) = key"
      "dec (snd (snd (dev_open s))) = p"
    using assms by (auto simp: dev_sign_def Let_def split: if_splits)
  show "kf (Some x5c) = Inr (CHR ''P'' # key) \<Longrightarrow> dev_verify dec kf s = Inr p"
    by (simp add: dev_verify_def s(2-4))
  show "ascii s" "s \<noteq> []"
    by (auto simp: s(1) dev_seal_def ascii_RawURL RawURLEncode_Nil enc_str_def enc_nat_def split: json.split list.split)
qed

definition enc_txn :: "TransactionPayload \<Rightarrow> string" where
  "enc_txn p = enc_str (tx_BundleID p) @ enc_str (tx_ProductID p) @ enc_str (tx_OriginalTransactionID p)
     @ enc_int (tx_PurchaseDateMS p) @ enc_int (tx_ExpiresDateMS p) @ ''.''"

definition dec_txn :: "string \<Rightarrow> TransactionPayload" where
  "dec_txn s = (case dec_str s of (b, r) \<Rightarrow> case dec_str r of (pr, r) \<Rightarrow> case dec_str r of (o', r) \<Rightarrow>
     case dec_int r of (t, r) \<Rightarrow> case dec_int r of (e, r) \<Rightarrow>
       txn \<lparr>fx_bundle = b, fx_product = pr, fx_original = o'\<rparr> (t * 1000) e)"

definition enc_notif :: "NotificationPayload \<Rightarrow> string" where
  "enc_notif p = enc_str (nd_BundleID (np_Data p)) @ enc_str (np_NotificationType p)
     @ enc_str (nd_SignedTransactionInfo (np_Data p)) @ enc_int (np_SignedDateMS p) @ ''.''"

definition dec_notif :: "string \<Rightarrow> NotificationPayload" where
  "dec_notif s = (case dec_str s of (b, r) \<Rightarrow> case dec_str r of (ty, r) \<Rightarrow> case dec_str r of (tx, r) \<Rightarrow>
     case dec_int r of (t, r) \<Rightarrow>
       notif_payload \<lparr>fx_bundle = b, fx_product = [], fx_original = []\<rparr> (t * 1000) ty tx)"

section \<open>The libraries and the environment\<close>

definition dev_signing :: signing where
  "dev_signing =
     \<lparr>ecdsa_GenerateKey = (\<lambda>i. Some (nat_digits i)), ecdsa_PublicKey = (#) CHR ''P'',
      x509_CreateCertificate = (\<lambda>_ t parent pub _. dev_create t parent pub), x509_Raw = (\<lambda>c. c),
      pem_EncodeToMemory = (\<lambda>(ty, bs). enc_str ty @ enc_str bs @ ''.''),
      jws_SignTransaction = (\<lambda>_. dev_sign enc_txn dec_txn), jws_SignNotification = (\<lambda>_. dev_sign enc_notif dec_notif)\<rparr>"

definition dev_pem :: "string \<Rightarrow> (string \<times> string) list" where
  "dev_pem s = (case dec_str s of (ty, r) \<Rightarrow> [(ty, fst (dec_str r))])"

definition dev_env :: env where
  "dev_env = sample_env\<lparr>
     x509_Parse := Some, x509_Verify := dev_chain_ok, x509_ecdsa := (\<lambda>c. Some (dev_key c)),
     jws_ParseTransaction := (\<lambda>_. dev_verify dec_txn), jws_ParseNotification := (\<lambda>_. dev_verify dec_notif)\<rparr>"

lemma dev_env_sel [simp]:
  "clock dev_env = sample_now" "x509_Parse dev_env = Some" "x509_Verify dev_env = dev_chain_ok"
  "x509_ecdsa dev_env c = Some (dev_key c)" "jws_ParseTransaction dev_env now = dev_verify dec_txn"
  "jws_ParseNotification dev_env now = dev_verify dec_notif" "no_faults dev_env"
  by (simp_all add: dev_env_def no_faults_def)

lemma dev_laws:
  "x509_create_law dev_env dev_signing dev_view dev_issued" "x509_verify_law dev_env dev_view dev_issued"
  "jws_sign_law dev_env dev_signing" "pem_law dev_signing dev_pem" "monotone_clock dev_env"
proof -
  show "x509_create_law dev_env dev_signing dev_view dev_issued"
    by (auto simp: x509_create_law_def created_as_def dev_signing_def dev_create_def dev_parent_def dev_view_def
        dev_key_def dev_issued_def Let_def split: if_splits sum.splits)
  show "x509_verify_law dev_env dev_view dev_issued"
    by (auto simp: x509_verify_law_def dev_chain_ok_def list_ex_iff)
  show "jws_sign_law dev_env dev_signing"
    by (auto simp: jws_sign_law_def dev_signing_def dest: dev_sign_Some)
  show "pem_law dev_signing dev_pem"
    by (auto simp: pem_law_def dev_signing_def dev_pem_def)
  show "monotone_clock dev_env"
    by (simp add: monotone_clock_def)
qed

section \<open>A run\<close>

lemma dev_create_templates:
  "dev_create (caTmpl t n cn) parent pub = Some (dev_cert (caTmpl t n cn) pub (dev_parent parent))"
  "dev_create (leafTmpl t) parent pub = Some (dev_cert (leafTmpl t) pub (dev_parent parent))"
  by (simp_all add: dev_create_def dev_cert_def dev_read_def Let_def caTmpl_def leafTmpl_def)

lemma dev_open_seal: "dev_open (dev_seal (JArr [JStr x, JStr y]) key body) = (JArr [JStr x, JStr y], key, body)"
  by (simp add: dev_open_def dev_seal_def RawURLDecode_Encode)

lemma dev_sign_fixtures:
  "dev_sign enc_txn dec_txn (JArr [JStr x, JStr y]) (txn a now e) key =
     Some (dev_seal (JArr [JStr x, JStr y]) key (enc_txn (txn a now e)))"
  "dev_sign enc_notif dec_notif (JArr [JStr x, JStr y]) (notif_payload a now ty tx) key =
     Some (dev_seal (JArr [JStr x, JStr y]) key (enc_notif (notif_payload a now ty tx)))"
  by (simp_all add: dev_sign_def dev_open_seal Let_def enc_txn_def dec_txn_def enc_notif_def dec_notif_def txn_def
      notif_payload_def ToUnixMilli_def)

definition dev_args :: fixture_args where
  "dev_args = \<lparr>fx_bundle = ''jp.app'', fx_product = ''monthly'', fx_original = ''t1''\<rparr>"

lemma dev_run:
  "\<exists>fs. run_state (gentestjws_run dev_env dev_signing True (\<lambda>_. True) dev_args) (world_of buyers_db) =
     ((True, fs), (world_of buyers_db)\<lparr>ticks := 13\<rparr>)"
  by (simp add: gentestjws_run_def NewChain_def or_fail_def GenerateKey_def selfSign_def sign_def SignTransaction_def
      SignNotification_def notif_def x5c_header_def dev_signing_def dev_create_templates dev_sign_fixtures Let_def)

theorem fixtures_drive_subscription_witness:
  "\<exists>fs w1 active expired b w2 w3 srv.
      run_state (gentestjws_run dev_env dev_signing True (\<lambda>_. True) dev_args) (world_of buyers_db) = ((True, fs), w1)
    \<and> map_of fs ''txn-active.jws'' = Some active \<and> map_of fs ''notif-expired.jws'' = Some expired
    \<and> run_state (verifySubscription dev_env srv (Some \<lparr>vs_SignedTransaction = active\<rparr>) (buyer_payload 0)) w1 =
        (Reply StatusOK b, w2)
    \<and> sb_SubscriptionStatus b = ''active''
    \<and> run_state (appleWebhook dev_env srv (Some \<lparr>wr_SignedPayload = expired\<rparr>)) w2 =
        (Reply StatusOK \<lparr>wh_ok = True, wh_handled = True\<rparr>, w3)
    \<and> (\<exists>u \<in> set (users (db w3)). u_ID u = 2000 \<and> u_SubscriptionStatus u = SubscriptionStatusExpired)"
proof -
  obtain fs where run: "run_state (gentestjws_run dev_env dev_signing True (\<lambda>_. True) dev_args) (world_of buyers_db) =
      ((True, fs), (world_of buyers_db)\<lparr>ticks := 13\<rparr>)"
    using dev_run by blast
  define srv where "srv = sample_server\<lparr>sv_appstore :=
    NewVerifierFromFile dev_env dev_pem (\<lambda>_. None) (map_of fs) ''root.pem'' (fx_bundle dev_args)\<rparr>"
  have args: "ascii_args dev_args" "fx_original dev_args \<noteq> []"
    by (simp_all add: dev_args_def ascii_args_def)
  have srv: "sv_appstore srv =
      NewVerifierFromFile dev_env dev_pem (\<lambda>_. None) (map_of fs) ''root.pem'' (fx_bundle dev_args)"
    by (simp add: srv_def)
  note applied = fixtures_drive_subscription[OF dev_laws(1-4) _ dev_laws(5) args run srv, of "(world_of buyers_db)\<lparr>ticks := 13\<rparr>" "buyer_payload 0"]
  have "clock dev_env (13 + 10) + second \<le> clock dev_env (0 + 3) + 71 * hour"
    by (simp add: sample_now_def hour_def minute_def second_def)
  moreover have "pl_UserID (buyer_payload 0) = 2000" "users buyers_db = [buyer 0, buyer 1]" "subscription_receipts buyers_db = []"
    by (simp_all add: buyer_payload_def sample_payload_def buyers_db_def empty_db_def)
  ultimately show ?thesis
    using applied run by (fastforce simp: dev_env_sel)
qed

end
