(* ===== verification/GF_Journey.thy ===== *)
theory GF_Journey
  imports GF_Subscription GF_Internal
begin

text \<open>
  Handlers of several components after one another: what a purchase and Apple's notifications do to a
  reader of menus, and how a partner's submission and an operator's approval bring a store before the
  public.
\<close>

section \<open>The menu follows the recorded status\<close>

text \<open>The answer of the menu endpoint that a status earns, at an approved store.\<close>

definition menu_for_status :: "env \<Rightarrow> string \<Rightarrow> uuid \<Rightarrow> Payload \<Rightarrow> SubscriptionStatus \<Rightarrow> world \<Rightarrow> bool" where
  "menu_for_status E idParam sid p st v \<longleftrightarrow>
     (let r = fst (run_state (getStoreMenu E idParam p) v) in
      if st = SubscriptionStatusActive then \<exists>items. r = Reply StatusOK (MenuBody sid items)
      else r = Reply StatusPaymentRequired (Paywall (SubscriptionStatus_text st) True))"

definition shows_store :: "env \<Rightarrow> string \<Rightarrow> uuid \<Rightarrow> world \<Rightarrow> bool" where
  "shows_store E idParam sid v \<longleftrightarrow> uuid_Parse E idParam = Some sid \<and> stores_ok (db v)
     \<and> (\<exists>s \<in> set (stores (db v)). st_ID s = sid \<and> st_Status s = StoreStatusApproved)"

lemma approved_found:
  assumes "stores_ok d" and "s \<in> set (stores d)" and "st_ID s = sid" and "st_Status s = StoreStatusApproved"
  obtains row where "find (\<lambda>r. st_ID (sw_Store r) = sid \<and> st_Status (sw_Store r) = StoreStatusApproved) (join_wards d) = Some row"
    and "sw_Store row = s"
proof -
  have "s \<in> sw_Store ` set (join_wards d)"
    using join_stores[OF assms(1)] assms(2) by (metis set_map)
  then have "find (\<lambda>r. st_ID (sw_Store r) = sid \<and> st_Status (sw_Store r) = StoreStatusApproved) (join_wards d) \<noteq> None"
    using assms(3,4) by (auto simp: find_None_iff)
  then obtain row where row: "find (\<lambda>r. st_ID (sw_Store r) = sid \<and> st_Status (sw_Store r) = StoreStatusApproved) (join_wards d) = Some row"
    by blast
  from approved_row[OF row] have "sw_Store row = s"
    using assms(1-3) unique_on_eq[of st_ID "stores d" "sw_Store row" s] by (simp add: stores_ok_def)
  with row show thesis by (rule that)
qed

lemma menu_of_status:
  assumes "no_faults E" and "find (\<lambda>u. u_ID u = pl_UserID p) (users (db v)) = Some u"
    and "u_SubscriptionStatus u = st" and "shows_store E idParam sid v"
  shows "menu_for_status E idParam sid p st v"
proof -
  obtain s where s: "s \<in> set (stores (db v))" "st_ID s = sid" "st_Status s = StoreStatusApproved"
    and ok: "uuid_Parse E idParam = Some sid" "stores_ok (db v)"
    using assms(4) unfolding shows_store_def by blast
  obtain row where "find (\<lambda>r. st_ID (sw_Store r) = sid \<and> st_Status (sw_Store r) = StoreStatusApproved) (join_wards (db v)) = Some row"
    using approved_found[OF ok(2) s] by blast
  with assms(1-3) ok(1) show ?thesis
    by (auto simp: menu_for_status_def Let_def getStoreMenu_def currentUser_def GetUserByID_def isPaidUser_def
        GetApprovedStore_def ListAvailableMenuItems_def)
qed

text \<open>Whoever had a status recorded is found with it, in any later state whose accounts are the same.\<close>

lemma menu_after_record:
  assumes "no_faults E" and "subscription_recorded (pl_UserID p) tx st d d'" and "schema_ok E d'"
    and "users (db v) = users d'" and "shows_store E idParam sid v"
  shows "menu_for_status E idParam sid p (snd st) v"
proof -
  obtain u where u: "u \<in> set (users d')" "u_ID u = pl_UserID p" "u_SubscriptionStatus u = snd st"
    using assms(2) unfolding subscription_recorded_def by blast
  have "unique_on u_ID (users d')" using assms(3) by (simp add: schema_ok_def users_ok_def)
  with u assms(4) have "find (\<lambda>u. u_ID u = pl_UserID p) (users (db v)) = Some u" by (simp add: find_key_iff)
  from menu_of_status[OF assms(1) this u(3) assms(5)] show ?thesis .
qed

text \<open>C9: Purchases and notifications decide who reads menus. After a purchase is answered 200, its caller gets
  the menu of any approved store exactly if the status in the answer is \<open>active\<close>, and the paywall with that
  status otherwise; after a handled notification the same goes for the owner of its receipt and the
  status of the notification. It stays so, whatever else happens and however late it gets (the expiry on
  file is not consulted), until the accounts change again.\<close>

theorem subscription_controls_menu:
  assumes "no_faults E" and "schema_ok E (db w)"
  shows "(\<forall>body p b w1. run_state (verifySubscription E srv body p) w = (Reply StatusOK b, w1) \<longrightarrow>
       (\<exists>st. sb_SubscriptionStatus b = SubscriptionStatus_text st
          \<and> (\<forall>v idParam sid. users (db v) = users (db w1) \<longrightarrow> shows_store E idParam sid v \<longrightarrow>
               menu_for_status E idParam sid p st v)))
   \<and> (\<forall>body w1. run_state (appleWebhook E srv body) w = (Reply StatusOK \<lparr>wh_ok = True, wh_handled = True\<rparr>, w1) \<longrightarrow>
       (\<exists>ver req notif tx rc now. sv_appstore srv = Some ver \<and> body = Some req
          \<and> notification_verified E ver (wr_SignedPayload req) notif (Some tx)
          \<and> rc \<in> set (subscription_receipts (db w)) \<and> sr_OriginalTxID rc = tx_OriginalTransactionID tx
          \<and> (\<forall>p v idParam sid. pl_UserID p = sr_UserID rc \<longrightarrow> users (db v) = users (db w1) \<longrightarrow>
               shows_store E idParam sid v \<longrightarrow>
               menu_for_status E idParam sid p (snd (statusFromNotification (np_NotificationType notif) tx now)) v)))"
proof (intro conjI allI impI)
  fix body p b w1
  assume run: "run_state (verifySubscription E srv body p) w = (Reply StatusOK b, w1)"
  obtain tx where rec: "subscription_recorded (pl_UserID p) tx (deriveStatus tx (clock E (ticks w + 2))) (db w) (db w1)"
    and b: "sb_SubscriptionStatus b = SubscriptionStatus_text (snd (deriveStatus tx (clock E (ticks w + 2))))"
    using wpD[OF wp_verifySubscription run] by auto
  have ok: "schema_ok E (db w1)" using keepsD[OF verify_keeps_schema run assms(2)] .
  show "\<exists>st. sb_SubscriptionStatus b = SubscriptionStatus_text st
      \<and> (\<forall>v idParam sid. users (db v) = users (db w1) \<longrightarrow> shows_store E idParam sid v \<longrightarrow>
           menu_for_status E idParam sid p st v)"
    using b menu_after_record[OF assms(1) rec ok] by blast
next
  fix body w1
  assume run: "run_state (appleWebhook E srv body) w = (Reply StatusOK \<lparr>wh_ok = True, wh_handled = True\<rparr>, w1)"
  have ok: "schema_ok E (db w1)" using keepsD[OF webhook_keeps_schema run assms(2)] .
  obtain ver req notif tx rc now where h: "sv_appstore srv = Some ver" "body = Some req"
    "notification_verified E ver (wr_SignedPayload req) notif (Some tx)"
    "find (\<lambda>r. sr_OriginalTxID r = tx_OriginalTransactionID tx) (subscription_receipts (db w)) = Some rc"
    and rec: "subscription_recorded (sr_UserID rc) tx (statusFromNotification (np_NotificationType notif) tx now) (db w) (db w1)"
    using wpD[OF wp_appleWebhook run] by (auto simp: webhook_handled_def)
  have "rc \<in> set (subscription_receipts (db w))" "sr_OriginalTxID rc = tx_OriginalTransactionID tx"
    using h(4) by (auto simp: find_Some_iff)
  moreover have "menu_for_status E idParam sid p (snd (statusFromNotification (np_NotificationType notif) tx now)) v"
    if "pl_UserID p = sr_UserID rc" "users (db v) = users (db w1)" "shows_store E idParam sid v" for p v idParam sid
    using menu_after_record[OF assms(1) _ ok that(2,3)] rec that(1) by simp
  ultimately show "\<exists>ver req notif tx rc now. sv_appstore srv = Some ver \<and> body = Some req
      \<and> notification_verified E ver (wr_SignedPayload req) notif (Some tx)
      \<and> rc \<in> set (subscription_receipts (db w)) \<and> sr_OriginalTxID rc = tx_OriginalTransactionID tx
      \<and> (\<forall>p v idParam sid. pl_UserID p = sr_UserID rc \<longrightarrow> users (db v) = users (db w1) \<longrightarrow>
           shows_store E idParam sid v \<longrightarrow>
           menu_for_status E idParam sid p (snd (statusFromNotification (np_NotificationType notif) tx now)) v)"
    using h(1-3) by blast
qed

section \<open>From draft to the public\<close>

lemma getStore_hidden:
  assumes "no_faults E" and "uuid_Parse E idParam = Some sid"
    and "\<forall>s \<in> set (stores (db w)). st_ID s = sid \<longrightarrow> st_Status s \<noteq> StoreStatusApproved"
  shows "fst (run_state (getStore E idParam) w) = Fail StatusNotFound errStoreNotFound"
proof -
  have "find (\<lambda>r. st_ID (sw_Store r) = sid \<and> st_Status (sw_Store r) = StoreStatusApproved) (join_wards (db w)) = None"
    using assms(3) by (auto simp: find_None_iff join_wards_def)
  with assms(1,2) show ?thesis by (simp add: getStore_def GetApprovedStore_def)
qed

lemma getStore_shown:
  assumes "no_faults E" and "uuid_Parse E idParam = Some sid" and "stores_ok (db w)"
    and "s \<in> set (stores (db w))" and "st_ID s = sid" and "st_Status s = StoreStatusApproved"
    and "parseOpeningHours (st_OpeningHours s) = Some h"
  shows "\<exists>d. fst (run_state (getStore E idParam) w) = Reply StatusOK d \<and> sd_ID d = sid \<and> sd_Name d = st_Name s
    \<and> sd_OpeningHours d = h \<and> sd_ApprovedAt d = st_ApprovedAt s"
proof -
  obtain row where "find (\<lambda>r. st_ID (sw_Store r) = sid \<and> st_Status (sw_Store r) = StoreStatusApproved) (join_wards (db w)) = Some row"
    and "sw_Store row = s"
    using approved_found[OF assms(3-6)] by blast
  with assms(1,2,5,7) show ?thesis by (simp add: getStore_def GetApprovedStore_def Let_def)
qed

text \<open>One review call on a store that is there: the answer and the row it leaves, under the same ids and wards.\<close>

lemma review_row:
  assumes "no_faults E" and "stores_ok (db w)" and "s \<in> set (stores (db w))" and "st_ID s = sid"
    and "adminStoreID p = Some sid" and "uuid_Parse E idParam = Some sid" and "reason \<noteq> []"
    and "review act (st_Status s) = Some st" and "parseOpeningHours (st_OpeningHours s) = Some h"
  obtains a w' where "run_state (review_call E p idParam reason act) w = (Reply StatusOK a, w')"
    and "stores_ok (db w')" and "reviewed E (ticks w) act reason st s \<in> set (stores (db w'))"
proof -
  let ?s = "reviewed E (ticks w) act reason st s"
  have u: "unique_on st_ID (stores (db w))" using assms(2) by (simp add: stores_ok_def)
  with assms(3,4) have f: "find (\<lambda>s. st_ID s = sid) (stores (db w)) = Some s" by (simp add: find_key_iff)
  define d where "d = (db w)\<lparr>stores := update_where (\<lambda>x. st_ID x = sid) (reviewed E (ticks w) act reason st) (stores (db w))\<rparr>"
  have q: "review_query act sid reason E (ticks w) (db w) = (Inr ?s, d)"
    using review_query_found[OF u f] assms(8) by (simp add: d_def)
  have same: "st_ID (reviewed E i act reason st x) = st_ID x \<and> st_WardID (reviewed E i act reason st x) = st_WardID x
      \<and> st_OpeningHours (reviewed E i act reason st x) = st_OpeningHours x" for i x
    by (cases act) simp_all
  then obtain a where "respondAdminStore StatusOK ?s = Reply StatusOK a"
    using assms(9) by (auto simp: respondAdminStore_def newAdminStoreResponse_def)
  then have "run_state (review_call E p idParam reason act) w = (Reply StatusOK a, w\<lparr>ticks := Suc (ticks w), db := d\<rparr>)"
    using q assms(1,5-7)
    by (cases act) (simp_all add: adminSubmitStore_def approveStore_def rejectStore_def valid_rejectStoreRequest_def textOrNull_def)
  moreover have "stores_ok d"
    using assms(2) same by (auto simp: stores_ok_def d_def set_update_where unique_on_update)
  moreover have "?s \<in> set (stores d)"
    using assms(3,4) by (auto simp: d_def set_update_where)
  ultimately show thesis using that by simp
qed

text \<open>C8: From draft to the public, through three handlers: a draft or rejected store is a 404 to the public. Its
  partner submits it, answered 200, and it still is. Then an operator's approval, answered 200, makes
  the same request answer its card with the approval's time; a rejection instead, answered 200, keeps it
  a 404, and the partner can submit it again.\<close>

theorem publication_journey:
  assumes "no_faults E" and "stores_ok (db w)" and "s \<in> set (stores (db w))" and "st_ID s = sid"
    and "st_Status s = StoreStatusDraft \<or> st_Status s = StoreStatusRejected"
    and "adminStoreID p = Some sid" and "uuid_Parse E idParam = Some sid" and "reason \<noteq> []"
    and "parseOpeningHours (st_OpeningHours s) = Some h"
  shows "fst (run_state (getStore E idParam) w) = Fail StatusNotFound errStoreNotFound
    \<and> (\<exists>a1 w1. run_state (adminSubmitStore E p) w = (Reply StatusOK a1, w1)
        \<and> fst (run_state (getStore E idParam) w1) = Fail StatusNotFound errStoreNotFound
        \<and> (\<exists>a2 w2 d. run_state (approveStore E idParam) w1 = (Reply StatusOK a2, w2)
             \<and> fst (run_state (getStore E idParam) w2) = Reply StatusOK d \<and> sd_ID d = sid \<and> sd_Name d = st_Name s
             \<and> sd_ApprovedAt d = Some (pg_clock E (ticks w1)))
        \<and> (\<exists>a3 w3 a4 w4. run_state (rejectStore E idParam (Some \<lparr>rj_Reason = reason\<rparr>)) w1 = (Reply StatusOK a3, w3)
             \<and> fst (run_state (getStore E idParam) w3) = Fail StatusNotFound errStoreNotFound
             \<and> run_state (adminSubmitStore E p) w3 = (Reply StatusOK a4, w4)))"
proof -
  have hidden: "fst (run_state (getStore E idParam) v) = Fail StatusNotFound errStoreNotFound"
    if "stores_ok (db v)" "t \<in> set (stores (db v))" "st_ID t = sid" "st_Status t \<noteq> StoreStatusApproved" for v t
  proof (rule getStore_hidden[OF assms(1,7)], intro ballI impI)
    fix x
    assume "x \<in> set (stores (db v))" "st_ID x = sid"
    then have "x = t" using that(1-3) unique_on_eq[of st_ID "stores (db v)" x t] by (simp add: stores_ok_def)
    with that(4) show "st_Status x \<noteq> StoreStatusApproved" by simp
  qed
  have "review Submit (st_Status s) = Some StoreStatusPending" using assms(5) by auto
  from review_row[OF assms(1-4,6-8) this assms(9)] obtain a1 w1 where
    one: "run_state (adminSubmitStore E p) w = (Reply StatusOK a1, w1)" "stores_ok (db w1)"
      "reviewed E (ticks w) Submit reason StoreStatusPending s \<in> set (stores (db w1))"
    by (metis review_call.simps(1))
  define t where "t = reviewed E (ticks w) Submit reason StoreStatusPending s"
  have t: "t \<in> set (stores (db w1))" "st_ID t = sid" "st_Status t = StoreStatusPending" "st_Name t = st_Name s"
      "parseOpeningHours (st_OpeningHours t) = Some h"
    using one(3) assms(4,9) by (simp_all add: t_def)
  note call = review_row[OF assms(1) one(2) t(1,2) assms(6-8) _ t(5)]
  obtain a2 w2 where two: "run_state (approveStore E idParam) w1 = (Reply StatusOK a2, w2)" "stores_ok (db w2)"
    "reviewed E (ticks w1) Approve reason StoreStatusApproved t \<in> set (stores (db w2))"
    using call[of Approve StoreStatusApproved] t(3) by auto
  obtain a3 w3 where three: "run_state (rejectStore E idParam (Some \<lparr>rj_Reason = reason\<rparr>)) w1 = (Reply StatusOK a3, w3)"
    "stores_ok (db w3)" "reviewed E (ticks w1) Reject reason StoreStatusRejected t \<in> set (stores (db w3))"
    using call[of Reject StoreStatusRejected] t(3) by auto
  have shown: "\<exists>d. fst (run_state (getStore E idParam) w2) = Reply StatusOK d \<and> sd_ID d = sid \<and> sd_Name d = st_Name s
      \<and> sd_ApprovedAt d = Some (pg_clock E (ticks w1))"
    using getStore_shown[OF assms(1,7) two(2,3), of h] t by auto
  have again: "\<exists>a4 w4. run_state (adminSubmitStore E p) w3 = (Reply StatusOK a4, w4)"
  proof (rule review_row[OF assms(1) three(2,3) _ assms(6-8)])
    show "st_ID (reviewed E (ticks w1) Reject reason StoreStatusRejected t) = sid" using t(2) by simp
    show "review Submit (st_Status (reviewed E (ticks w1) Reject reason StoreStatusRejected t)) = Some StoreStatusPending"
      by simp
    show "parseOpeningHours (st_OpeningHours (reviewed E (ticks w1) Reject reason StoreStatusRejected t)) = Some h"
      using t(5) by simp
  qed auto
  have "fst (run_state (getStore E idParam) w3) = Fail StatusNotFound errStoreNotFound"
    using hidden[OF three(2,3)] t by simp
  with one two(1) three(1) shown again show ?thesis
    using hidden[OF assms(2-4)] hidden[OF one(2) t(1,2)] t(3) assms(5) by auto
qed

end
