(* ===== verification/GF_Journey_Runs.thy ===== *)
theory GF_Journey_Runs
  imports GF_Journey GF_Subscription_Runs GF_Internal_Runs
begin

text \<open>
  The journeys walked: a purchase and its revocation beside the sample catalogue, and the catalogue's draft
  submitted, approved and rejected.
\<close>

definition market_db :: "database \<Rightarrow> database" where
  "market_db d = d\<lparr>wards := wards catalogue_db, stores := stores catalogue_db, menu_items := menu_items catalogue_db\<rparr>"

lemma market_db_sel [simp]:
  "users (market_db d) = users d" "subscription_receipts (market_db d) = subscription_receipts d"
  "stores (market_db d) = stores catalogue_db" "wards (market_db d) = wards catalogue_db"
  by (simp_all add: market_db_def)

lemma shop_shown:
  "stores (db v) = stores catalogue_db \<Longrightarrow> wards (db v) = wards catalogue_db \<Longrightarrow> shows_store store_env ''2010'' 2010 v"
  using parse_store(1) by (simp add: shows_store_def stores_ok_def unique_on_def store_env_def)

lemma market_ok: "schema_ok store_env (market_db buyers_db)" "schema_ok store_env (market_db shared_db)"
proof -
  have "ToLower (nat_digits 0) \<noteq> ToLower (nat_digits 1)" by code_simp
  then show "schema_ok store_env (market_db buyers_db)"
    by (simp add: schema_defs market_db_def buyers_db_def buyer_def empty_db_def unique_on_def unique_partial_def List.map_filter_def)
  show "schema_ok store_env (market_db shared_db)"
    using shared_db_ok
    by (simp add: schema_defs market_db_def unique_on_def unique_partial_def shared_db_def buyers_db_def empty_db_def)
qed

lemma market_purchase:
  "\<exists>b w'. run_state (verifySubscription store_env sample_server (Some purchase) (buyer_payload 0)) (world_of (market_db buyers_db))
    = (Reply StatusOK b, w') \<and> sb_SubscriptionStatus b = ''active''
    \<and> stores (db w') = stores catalogue_db \<and> wards (db w') = wards catalogue_db"
  using tx1_active[unfolded numeral_2_eq_2]
  by (simp add: verifySubscription_def purchase_def valid_verifySubscriptionRequest_def
    VerifyTransaction_def UpsertSubscriptionReceipt_def buyers_db_def empty_db_def
    world_of_def UpdateSubscription_def Let_def update_where_def user_params_def)

lemma market_revocation:
  "\<exists>w'. run_state (appleWebhook store_env sample_server (Some revocation)) (world_of (market_db shared_db))
    = (Reply StatusOK \<lparr>wh_ok = True, wh_handled = True\<rparr>, w')
    \<and> stores (db w') = stores catalogue_db \<and> wards (db w') = wards catalogue_db"
  by (simp add: appleWebhook_def revocation_def valid_appleWebhookRequest_def
    VerifyNotification_def VerifyTransaction_def notif_of_def statusFromNotification_def shared_db_def
    UpsertSubscriptionReceipt_def buyers_db_def empty_db_def GetReceiptByOriginalTxID_def
    world_of_def UpdateSubscription_def Let_def)

theorem subscription_controls_menu_witness:
  "(\<exists>b w1. run_state (verifySubscription store_env sample_server (Some purchase) (buyer_payload 0)) (world_of (market_db buyers_db))
      = (Reply StatusOK b, w1) \<and> menu_for_status store_env ''2010'' 2010 (buyer_payload 0) SubscriptionStatusActive w1)
   \<and> (\<exists>w1. run_state (appleWebhook store_env sample_server (Some revocation)) (world_of (market_db shared_db))
      = (Reply StatusOK \<lparr>wh_ok = True, wh_handled = True\<rparr>, w1)
      \<and> menu_for_status store_env ''2010'' 2010 (buyer_payload 0) SubscriptionStatusRevoked w1)"
proof
  have E: "no_faults store_env" by (simp add: no_faults_def)
  obtain b w1 where b: "run_state (verifySubscription store_env sample_server (Some purchase) (buyer_payload 0)) (world_of (market_db buyers_db))
      = (Reply StatusOK b, w1)" "sb_SubscriptionStatus b = ''active''"
    and sh: "shows_store store_env ''2010'' 2010 w1"
    using market_purchase shop_shown by blast
  obtain st where "SubscriptionStatus_text st = ''active''" "menu_for_status store_env ''2010'' 2010 (buyer_payload 0) st w1"
    using conjunct1[OF subscription_controls_menu[OF E, of "world_of (market_db buyers_db)" sample_server]] market_ok(1) b sh
    by fastforce
  moreover from this(1) have "st = SubscriptionStatusActive" by (cases st) simp_all
  ultimately show "\<exists>b w1. run_state (verifySubscription store_env sample_server (Some purchase) (buyer_payload 0)) (world_of (market_db buyers_db))
      = (Reply StatusOK b, w1) \<and> menu_for_status store_env ''2010'' 2010 (buyer_payload 0) SubscriptionStatusActive w1"
    using b(1) by blast
next
  have E: "no_faults store_env" by (simp add: no_faults_def)
  obtain w1 where run: "run_state (appleWebhook store_env sample_server (Some revocation)) (world_of (market_db shared_db))
      = (Reply StatusOK \<lparr>wh_ok = True, wh_handled = True\<rparr>, w1)"
    and sh: "shows_store store_env ''2010'' 2010 w1"
    using market_revocation shop_shown by blast
  obtain ver notif tx rc now where n: "notification_verified store_env ver ''REVOKE'' notif (Some tx)"
    and rc: "rc \<in> set (subscription_receipts (db (world_of (market_db shared_db))))"
    and m: "\<forall>p v idParam sid. pl_UserID p = sr_UserID rc \<longrightarrow> users (db v) = users (db w1) \<longrightarrow>
        shows_store store_env idParam sid v \<longrightarrow>
        menu_for_status store_env idParam sid p (snd (statusFromNotification (np_NotificationType notif) tx now)) v"
    using conjunct2[OF subscription_controls_menu[OF E, of "world_of (market_db shared_db)" sample_server]] market_ok(2) run
    by (fastforce simp: revocation_def)
  have "rc = receipt1" using rc by (simp add: shared_db_def)
  moreover have "np_NotificationType notif = ''REVOKE''"
  proof -
    obtain c where "(case x5c_keyFunc store_env ver c (apple_header ''REVOKE'') of Inl e \<Rightarrow> Inl e | Inr _ \<Rightarrow> Inr (notif_of ''REVOKE'')) = Inr notif"
      using n by (auto simp: notification_verified_def)
    then show ?thesis by (cases "x5c_keyFunc store_env ver c (apple_header ''REVOKE'')") (auto simp: notif_of_def)
  qed
  ultimately have "menu_for_status store_env ''2010'' 2010 (buyer_payload 0) SubscriptionStatusRevoked w1"
    using m[rule_format, OF _ refl sh, of "buyer_payload 0"] by (simp add: statusFromNotification_def)
  with run show "\<exists>w1. run_state (appleWebhook store_env sample_server (Some revocation)) (world_of (market_db shared_db))
      = (Reply StatusOK \<lparr>wh_ok = True, wh_handled = True\<rparr>, w1)
      \<and> menu_for_status store_env ''2010'' 2010 (buyer_payload 0) SubscriptionStatusRevoked w1" by blast
qed

theorem publication_journey_witness:
  "\<exists>w1 w2 d. snd (run_state (adminSubmitStore sample_env partner) (world_of operator_db)) = w1
    \<and> fst (run_state (getStore sample_env ''2011'') w1) = Fail StatusNotFound errStoreNotFound
    \<and> snd (run_state (approveStore sample_env ''2011'') w1) = w2
    \<and> fst (run_state (getStore sample_env ''2011'') w2) = Reply StatusOK d \<and> sd_ID d = 2011"
proof -
  have "fst (run_state (getStore sample_env ''2011'') (world_of operator_db)) = Fail StatusNotFound errStoreNotFound
    \<and> (\<exists>a1 w1. run_state (adminSubmitStore sample_env partner) (world_of operator_db) = (Reply StatusOK a1, w1)
        \<and> fst (run_state (getStore sample_env ''2011'') w1) = Fail StatusNotFound errStoreNotFound
        \<and> (\<exists>a2 w2 d. run_state (approveStore sample_env ''2011'') w1 = (Reply StatusOK a2, w2)
             \<and> fst (run_state (getStore sample_env ''2011'') w2) = Reply StatusOK d \<and> sd_ID d = 2011
             \<and> sd_Name d = st_Name (sample_store 11 StoreStatusDraft)
             \<and> sd_ApprovedAt d = Some (pg_clock sample_env (ticks w1)))
        \<and> (\<exists>a3 w3 a4 w4. run_state (rejectStore sample_env ''2011'' (Some \<lparr>rj_Reason = ''no menu''\<rparr>)) w1 = (Reply StatusOK a3, w3)
             \<and> fst (run_state (getStore sample_env ''2011'') w3) = Fail StatusNotFound errStoreNotFound
             \<and> run_state (adminSubmitStore sample_env partner) w3 = (Reply StatusOK a4, w4)))"
    by (rule publication_journey[where h = "Some []"]) (use stores_ok_world parse_store(2) in \<open>simp_all del: sample_env_sel(9)\<close>)
  then show ?thesis by (metis snd_conv)
qed

end
