(* ===== verification/GF_Resend.thy ===== *)
theory GF_Resend
  imports GF_Server
begin

text \<open>
  \<open>mailer/resend.go\<close>: one message as one request of Resend's REST API. The exchange itself is a
  parameter (\<open>Do\<close> of the client with its ten seconds: a status and a body, or an error), and so is how
  \<open>net/mail\<close> quotes a display name (\<open>address_String\<close>). \<open>GF_Server\<close>'s \<open>Send\<close> only keeps whether the provider took
  the message; the last lemmas tie the two.
\<close>

section \<open>The sender\<close>

definition resendEndpoint :: string where
  "resendEndpoint = ''https://api.resend.com/emails''"

record resendSender =
  rs_from :: string
  rs_apiKey :: string

definition formatAddress :: "(string \<Rightarrow> string \<Rightarrow> string) \<Rightarrow> string \<Rightarrow> string \<Rightarrow> string" where
  "formatAddress address_String email name = (if name = [] then email else address_String name email)"

definition NewResend :: "(string \<Rightarrow> string \<Rightarrow> string) \<Rightarrow> string \<Rightarrow> string \<Rightarrow> string \<Rightarrow> resendSender" where
  "NewResend address_String apiKey fromEmail fromName =
     \<lparr>rs_from = formatAddress address_String fromEmail fromName, rs_apiKey = apiKey\<rparr>"

text \<open>The payload with its tags: an empty text or HTML body is left out.\<close>

definition omitempty :: "string \<Rightarrow> string \<Rightarrow> (string \<times> json) list" where
  "omitempty key value = (if value = [] then [] else [(key, JStr value)])"

definition resendPayload :: "resendSender \<Rightarrow> Message \<Rightarrow> json" where
  "resendPayload s msg =
     JObj ([(''from'', JStr (rs_from s)), (''to'', JArr [JStr (ms_To msg)]), (''subject'', JStr (ms_Subject msg))]
       @ omitempty ''text'' (ms_Text msg) @ omitempty ''html'' (ms_HTML msg))"

record http_request =
  rq_Method :: string
  rq_URL :: string
  rq_Header :: "(string \<times> string) list"
  rq_Body :: json

record http_response =
  hr_StatusCode :: nat
  hr_Body :: string

definition resend_request :: "resendSender \<Rightarrow> Message \<Rightarrow> http_request" where
  "resend_request s msg =
     \<lparr>rq_Method = ''POST'', rq_URL = resendEndpoint,
      rq_Header = [(''Authorization'', ''Bearer '' @ rs_apiKey s), (''Content-Type'', ''application/json'')],
      rq_Body = resendPayload s msg\<rparr>"

definition resend_Send ::
  "(http_request \<Rightarrow> string + http_response) \<Rightarrow> resendSender \<Rightarrow> Message \<Rightarrow> string + unit" where
  "resend_Send Do s msg =
     (case Do (resend_request s msg) of
        Inl err \<Rightarrow> Inl (''send mail: '' @ err)
      | Inr res \<Rightarrow>
          (if hr_StatusCode res < 200 \<or> hr_StatusCode res \<ge> 300
           then Inl (''resend returned '' @ nat_digits (hr_StatusCode res) @ '': '' @ TrimSpace (take 2048 (hr_Body res)))
           else Inr ()))"

section \<open>What the senders of the server do\<close>

text \<open>The environment's mail provider is the exchange: effect \<open>i\<close> is answered by \<open>Do i\<close>.\<close>

definition resend_provider ::
  "(string \<Rightarrow> string \<Rightarrow> string) \<Rightarrow> (nat \<Rightarrow> http_request \<Rightarrow> string + http_response) \<Rightarrow> Config \<Rightarrow> nat \<Rightarrow> Message \<Rightarrow> bool"
where
  "resend_provider address_String Do cfg i msg \<longleftrightarrow>
     resend_Send (Do i) (NewResend address_String (ResendAPIKey cfg) (MailFrom cfg) (MailFromName cfg)) msg = Inr ()"

lemma resend_provider_2xx:
  "resend_provider address_String Do cfg i msg \<longleftrightarrow>
     (\<exists>res. Do i (resend_request (NewResend address_String (ResendAPIKey cfg) (MailFrom cfg) (MailFromName cfg)) msg) =
        Inr res \<and> 200 \<le> hr_StatusCode res \<and> hr_StatusCode res < 300)"
  by (auto simp: resend_provider_def resend_Send_def split: sum.splits)

text \<open>A server that was given a key and a sender address reports a message as sent exactly when Resend
  answered 2xx to the one request it made for it; a server without reports success and asks nobody.\<close>

lemma server_sends_through_resend:
  assumes "NewServer load_cas gcs_ok cfg = Inr srv"
    and "mail_send E = resend_provider address_String Do cfg"
  shows "run_state (Send E (sv_mailer srv) msg) w =
    (if ResendAPIKey cfg \<noteq> [] \<and> MailFrom cfg \<noteq> []
     then (\<exists>res. Do (ticks w) (resend_request
               (NewResend address_String (ResendAPIKey cfg) (MailFrom cfg) (MailFromName cfg)) msg) = Inr res
             \<and> 200 \<le> hr_StatusCode res \<and> hr_StatusCode res < 300,
           w\<lparr>ticks := Suc (ticks w), outbox := outbox w @ [msg]\<rparr>)
     else (True, w))"
proof -
  have "sv_mailer srv = (if ResendAPIKey cfg \<noteq> [] \<and> MailFrom cfg \<noteq> []
      then ResendSender (ResendAPIKey cfg) (MailFrom cfg) (MailFromName cfg) else NoopSender)"
    using assms(1) by (auto simp: NewServer_def Let_def split: option.splits if_splits)
  then show ?thesis
    using assms(2) by (simp add: Send_def resend_provider_2xx)
qed

end
