(* ===== verification/GF_Scan.thy ===== *)
theory GF_Scan
  imports GF_Models
begin

text \<open>
  \<open>db/sqlc/models.go\<close>: how the driver's values become the enum columns of a row and back. In Go an enum
  is a string type, so \<open>Scan\<close> takes any text; which texts a column can hold is Postgres' check
  (\<open>GfStatus_scan\<close> and its like in \<open>GF_Models\<close>). A scan returns its error, \<open>None\<close> for none, and the
  value it leaves in its receiver.
\<close>

section \<open>The driver's values\<close>

datatype driver_value = DNil | DBytes string | DString string | DOther string

text \<open>A nullable enum as its \<open>Scan\<close> and \<open>Value\<close> show it.\<close>

locale nullable_enum =
  fixes label :: "'n \<Rightarrow> string"
    and valid :: "'n \<Rightarrow> bool"
    and scan :: "driver_value \<Rightarrow> 'n \<Rightarrow> string option \<times> 'n"
    and val :: "'n \<Rightarrow> driver_value"
  assumes scan_nil: "fst (scan DNil ns) = None \<and> \<not> valid (snd (scan DNil ns)) \<and> label (snd (scan DNil ns)) = []"
    and scan_bytes: "fst (scan (DBytes t) ns) = None \<and> valid (snd (scan (DBytes t) ns)) \<and> label (snd (scan (DBytes t) ns)) = t"
    and scan_string: "fst (scan (DString t) ns) = None \<and> valid (snd (scan (DString t) ns)) \<and> label (snd (scan (DString t) ns)) = t"
    and scan_other: "fst (scan (DOther t) ns) \<noteq> None \<and> label (snd (scan (DOther t) ns)) = label ns"
    and val_eq: "val ns = (if valid ns then DString (label ns) else DNil)"
begin

text \<open>What is written is read back, into whatever receiver.\<close>

lemma written_then_read:
  "fst (scan (val ns) old) = None \<and> val (snd (scan (val ns) old)) = val ns
   \<and> valid (snd (scan (val ns) old)) = valid ns"
  using scan_nil[of old] scan_string[of "label ns" old] by (simp add: val_eq)

text \<open>What is read is written back, bytes as text; only a value that is neither is refused.\<close>

lemma read_then_written:
  "fst (scan v old) = None \<Longrightarrow> val (snd (scan v old)) = (case v of DBytes t \<Rightarrow> DString t | _ \<Rightarrow> v)"
  using scan_nil[of old] scan_string[of _ old] scan_bytes[of _ old] scan_other[of _ old]
  by (cases v) (auto simp: val_eq)

lemma refused: "fst (scan v old) \<noteq> None \<longleftrightarrow> (\<exists>t. v = DOther t)"
  using scan_nil[of old] scan_string[of _ old] scan_bytes[of _ old] scan_other[of _ old]
  by (cases v) auto

end

section \<open>The five enums\<close>

definition Scan_GfStatus :: "driver_value \<Rightarrow> string \<Rightarrow> string option \<times> string" where
  "Scan_GfStatus src e =
     (case src of
        DBytes s \<Rightarrow> (None, s)
      | DString s \<Rightarrow> (None, s)
      | _ \<Rightarrow> (Some ''unsupported scan type for GfStatus'', e))"

record NullGfStatus =
  ngf_GfStatus :: string
  ngf_Valid :: bool

definition Scan_NullGfStatus :: "driver_value \<Rightarrow> NullGfStatus \<Rightarrow> string option \<times> NullGfStatus" where
  "Scan_NullGfStatus v ns =
     (if v = DNil then (None, ns\<lparr>ngf_GfStatus := [], ngf_Valid := False\<rparr>)
      else (let ns = ns\<lparr>ngf_Valid := True\<rparr> in
            case Scan_GfStatus v (ngf_GfStatus ns) of (err, s) \<Rightarrow> (err, ns\<lparr>ngf_GfStatus := s\<rparr>)))"

definition Value_NullGfStatus :: "NullGfStatus \<Rightarrow> driver_value" where
  "Value_NullGfStatus ns = (if \<not> ngf_Valid ns then DNil else DString (ngf_GfStatus ns))"

interpretation ngf: nullable_enum ngf_GfStatus ngf_Valid Scan_NullGfStatus Value_NullGfStatus
  by unfold_locales (simp_all add: Scan_NullGfStatus_def Scan_GfStatus_def Value_NullGfStatus_def)

definition Scan_ReceiptStatus :: "driver_value \<Rightarrow> string \<Rightarrow> string option \<times> string" where
  "Scan_ReceiptStatus src e =
     (case src of
        DBytes s \<Rightarrow> (None, s)
      | DString s \<Rightarrow> (None, s)
      | _ \<Rightarrow> (Some ''unsupported scan type for ReceiptStatus'', e))"

record NullReceiptStatus =
  nrs_ReceiptStatus :: string
  nrs_Valid :: bool

definition Scan_NullReceiptStatus :: "driver_value \<Rightarrow> NullReceiptStatus \<Rightarrow> string option \<times> NullReceiptStatus" where
  "Scan_NullReceiptStatus v ns =
     (if v = DNil then (None, ns\<lparr>nrs_ReceiptStatus := [], nrs_Valid := False\<rparr>)
      else (let ns = ns\<lparr>nrs_Valid := True\<rparr> in
            case Scan_ReceiptStatus v (nrs_ReceiptStatus ns) of (err, s) \<Rightarrow> (err, ns\<lparr>nrs_ReceiptStatus := s\<rparr>)))"

definition Value_NullReceiptStatus :: "NullReceiptStatus \<Rightarrow> driver_value" where
  "Value_NullReceiptStatus ns = (if \<not> nrs_Valid ns then DNil else DString (nrs_ReceiptStatus ns))"

interpretation nrs: nullable_enum nrs_ReceiptStatus nrs_Valid Scan_NullReceiptStatus Value_NullReceiptStatus
  by unfold_locales (simp_all add: Scan_NullReceiptStatus_def Scan_ReceiptStatus_def Value_NullReceiptStatus_def)

definition Scan_StoreStatus :: "driver_value \<Rightarrow> string \<Rightarrow> string option \<times> string" where
  "Scan_StoreStatus src e =
     (case src of
        DBytes s \<Rightarrow> (None, s)
      | DString s \<Rightarrow> (None, s)
      | _ \<Rightarrow> (Some ''unsupported scan type for StoreStatus'', e))"

record NullStoreStatus =
  nss_StoreStatus :: string
  nss_Valid :: bool

definition Scan_NullStoreStatus :: "driver_value \<Rightarrow> NullStoreStatus \<Rightarrow> string option \<times> NullStoreStatus" where
  "Scan_NullStoreStatus v ns =
     (if v = DNil then (None, ns\<lparr>nss_StoreStatus := [], nss_Valid := False\<rparr>)
      else (let ns = ns\<lparr>nss_Valid := True\<rparr> in
            case Scan_StoreStatus v (nss_StoreStatus ns) of (err, s) \<Rightarrow> (err, ns\<lparr>nss_StoreStatus := s\<rparr>)))"

definition Value_NullStoreStatus :: "NullStoreStatus \<Rightarrow> driver_value" where
  "Value_NullStoreStatus ns = (if \<not> nss_Valid ns then DNil else DString (nss_StoreStatus ns))"

interpretation nss: nullable_enum nss_StoreStatus nss_Valid Scan_NullStoreStatus Value_NullStoreStatus
  by unfold_locales (simp_all add: Scan_NullStoreStatus_def Scan_StoreStatus_def Value_NullStoreStatus_def)

definition Scan_SubscriptionEnvironment :: "driver_value \<Rightarrow> string \<Rightarrow> string option \<times> string" where
  "Scan_SubscriptionEnvironment src e =
     (case src of
        DBytes s \<Rightarrow> (None, s)
      | DString s \<Rightarrow> (None, s)
      | _ \<Rightarrow> (Some ''unsupported scan type for SubscriptionEnvironment'', e))"

record NullSubscriptionEnvironment =
  nse_SubscriptionEnvironment :: string
  nse_Valid :: bool

definition Scan_NullSubscriptionEnvironment :: "driver_value \<Rightarrow> NullSubscriptionEnvironment \<Rightarrow> string option \<times> NullSubscriptionEnvironment" where
  "Scan_NullSubscriptionEnvironment v ns =
     (if v = DNil then (None, ns\<lparr>nse_SubscriptionEnvironment := [], nse_Valid := False\<rparr>)
      else (let ns = ns\<lparr>nse_Valid := True\<rparr> in
            case Scan_SubscriptionEnvironment v (nse_SubscriptionEnvironment ns) of (err, s) \<Rightarrow> (err, ns\<lparr>nse_SubscriptionEnvironment := s\<rparr>)))"

definition Value_NullSubscriptionEnvironment :: "NullSubscriptionEnvironment \<Rightarrow> driver_value" where
  "Value_NullSubscriptionEnvironment ns = (if \<not> nse_Valid ns then DNil else DString (nse_SubscriptionEnvironment ns))"

interpretation nse: nullable_enum nse_SubscriptionEnvironment nse_Valid Scan_NullSubscriptionEnvironment Value_NullSubscriptionEnvironment
  by unfold_locales (simp_all add: Scan_NullSubscriptionEnvironment_def Scan_SubscriptionEnvironment_def Value_NullSubscriptionEnvironment_def)

definition Scan_SubscriptionStatus :: "driver_value \<Rightarrow> string \<Rightarrow> string option \<times> string" where
  "Scan_SubscriptionStatus src e =
     (case src of
        DBytes s \<Rightarrow> (None, s)
      | DString s \<Rightarrow> (None, s)
      | _ \<Rightarrow> (Some ''unsupported scan type for SubscriptionStatus'', e))"

record NullSubscriptionStatus =
  nsu_SubscriptionStatus :: string
  nsu_Valid :: bool

definition Scan_NullSubscriptionStatus :: "driver_value \<Rightarrow> NullSubscriptionStatus \<Rightarrow> string option \<times> NullSubscriptionStatus" where
  "Scan_NullSubscriptionStatus v ns =
     (if v = DNil then (None, ns\<lparr>nsu_SubscriptionStatus := [], nsu_Valid := False\<rparr>)
      else (let ns = ns\<lparr>nsu_Valid := True\<rparr> in
            case Scan_SubscriptionStatus v (nsu_SubscriptionStatus ns) of (err, s) \<Rightarrow> (err, ns\<lparr>nsu_SubscriptionStatus := s\<rparr>)))"

definition Value_NullSubscriptionStatus :: "NullSubscriptionStatus \<Rightarrow> driver_value" where
  "Value_NullSubscriptionStatus ns = (if \<not> nsu_Valid ns then DNil else DString (nsu_SubscriptionStatus ns))"

interpretation nsu: nullable_enum nsu_SubscriptionStatus nsu_Valid Scan_NullSubscriptionStatus Value_NullSubscriptionStatus
  by unfold_locales (simp_all add: Scan_NullSubscriptionStatus_def Scan_SubscriptionStatus_def Value_NullSubscriptionStatus_def)

end
