(* ===== verification/Spec2Isabelle.thy ===== *)
theory Spec2Isabelle
  imports GF_Auth_Runs GF_Subscription_Runs GF_Browse_Runs GF_StoreAdmin_Runs GF_Internal_Runs
    GF_InternalAdmins_Runs GF_Services_Runs GF_Api_Runs GF_Startup_Runs GF_DevSign_Runs GF_Journey_Runs
    GF_Resend GF_Scan
begin

text \<open>
  Verification development of the GlutenFree server: the Go back end of a directory of gluten-free
  restaurants in Tokyo's wards. App users register, log in (also with Apple), browse approved stores
  and, as subscribers, read menus; partners keep the profile and menu of their one store; operators
  onboard partners, review stores, import, discover, geocode and illustrate them.

  \<^bold>\<open>The model.\<close> A handler is a program in \<open>HOL-Library.State_Monad\<close> over \<open>world\<close> (\<open>GF_Effects\<close>):
  the tables of Postgres, a counter of the effects performed, the mails handed to the provider, the
  cached keys of Apple, the geocoder's last call, the objects of the image bucket, the URLs requested
  and the addresses dialed. It returns a \<open>reply\<close>: \<open>Reply status body\<close> or \<open>Fail status error\<close>, one
  branch per return of the Go function, in its order. A statement of \<open>db/sqlc\<close> is a function on the
  tables (\<open>'a query\<close>); \<open>db_call\<close> runs it unless the connection is lost before or after it took
  effect. Errors are values: \<open>db_error\<close>, \<open>token_error\<close>, \<open>api_error\<close>, sums and options.

  \<^bold>\<open>Parameters.\<close> Third-party code and what nobody controls are fields of \<open>env\<close> (clocks, randomness,
  connection failures, which row an unordered query picks, bcrypt, the JWT and StoreKit parsers, X.509, the UUID parser, Postgres'
  \<open>lower()\<close>) and of \<open>net\<close> (the geocoder, the search provider, web pages, DNS, the URL, HTML and JSON
  parsers, the bucket). The laws the server relies on are named: \<open>jwt_laws\<close> and \<open>bcrypt_laws\<close>
  (\<open>GF_Token\<close>), \<open>steady_clock\<close> (\<open>GF_Geocode\<close>), \<open>no_faults\<close> for a reachable database. \<open>GF_Sample\<close> and
  \<open>GF_Services_Runs\<close> hold a concrete environment and network in which they are true.

  \<^bold>\<open>The parts\<close>, in the order of the imports:

  \<^item> \<open>GF_Prelude\<close>: strings as Go's \<open>strings\<close> package reads them, table updates, uniqueness, the frame
    relation locale and the weakest precondition \<open>wp\<close> of a program.
  \<^item> \<open>GF_Models\<close>: rows, enums, claims, payloads and configuration (\<open>db/sqlc/models.go\<close>, \<open>token/payload.go\<close>,
    \<open>appstore/types.go\<close>, \<open>util/config.go\<close>). \<open>GF_Effects\<close>: world, replies, effects, frames on the tables.
  \<^item> \<open>GF_Token\<close> (\<open>token/\<close>, \<open>util/password.go\<close>), \<open>GF_Encoding\<close> (base64, hex, decimal, URL escapes),
    \<open>GF_AppStore\<close> (\<open>appstore/\<close>), \<open>GF_AppleSignin\<close> (\<open>applesignin/\<close>).
  \<^item> \<open>GF_Queries_Users\<close>, \<open>GF_Queries_Stores\<close>, \<open>GF_Queries_Admins\<close>: every statement of \<open>db/sqlc/*.sql.go\<close>
    with its constraints; \<open>GF_Schema\<close>: the constraints of \<open>db/migration\<close> as an invariant every statement
    keeps; \<open>GF_Tables\<close>: generic facts on rows found by key.
  \<^item> \<open>GF_Server\<close>: \<open>NewServer\<close>, request binding, bearer tokens, roles, CORS (\<open>api/server.go\<close>,
    \<open>api/middleware.go\<close>), mail senders.
  \<^item> \<open>GF_Auth\<close> (\<open>api/user.go\<close>, \<open>token.go\<close>, \<open>apple.go\<close>), \<open>GF_Subscription\<close> (\<open>storekit.go\<close>,
    \<open>subscription.go\<close>), \<open>GF_Browse\<close> (\<open>store.go\<close>, \<open>ward.go\<close>), \<open>GF_StoreAdmin\<close> (\<open>admin.go\<close>), \<open>GF_Internal\<close>
    (\<open>internal.go\<close>, \<open>internal_menu.go\<close>), \<open>GF_InternalAdmins\<close> and \<open>GF_ResetRace\<close> (\<open>internal_admins.go\<close>):
    one definition per handler.
  \<^item> \<open>GF_Net\<close>, \<open>GF_Geocode\<close> (\<open>geocode/\<close>), \<open>GF_Csv\<close> (Go's CSV reader as configured), \<open>GF_Import\<close> and
    \<open>GF_Backfill\<close> (\<open>api/import.go\<close>), \<open>GF_Uploads\<close> (\<open>api/uploads.go\<close>, \<open>blobstore/\<close>), \<open>GF_Crawl\<close>,
    \<open>GF_Extract\<close>, \<open>GF_Discovery\<close> (\<open>discovery/\<close>, \<open>api/discovery.go\<close>, \<open>db/sqlc/discovery.go\<close>).
  \<^item> \<open>GF_Frames\<close>: one contract on statements, and from it what every handler respects; \<open>GF_Api\<close>:
    \<open>setupRouter\<close>, the answer to one request and runs of the server.
  \<^item> \<open>GF_Startup\<close>: configuration, start and the command that makes the first operator (\<open>util/config.go\<close>,
    \<open>runtime/\<close>, \<open>app/\<close>, \<open>cmd/main.go\<close>, \<open>cmd/createadmin\<close>); \<open>GF_Resend\<close>: the mail provider's request
    (\<open>mailer/resend.go\<close>); \<open>GF_Scan\<close>: enum columns to and from the driver (\<open>db/sqlc/models.go\<close>);
    \<open>GF_DevSign\<close>: the throwaway chain and signed fixtures (\<open>appstore/devsign\<close>, \<open>cmd/gentestjws\<close>).
  \<^item> \<open>GF_ImportRace\<close>: a row of the import cut at its database calls, for imports that run at the same time;
    \<open>GF_Journey\<close>: handlers of several components after one another (a purchase and the menus it opens, a
    draft's way to the public).
  \<^item> \<open>GF_*_Runs\<close>: concrete runs and the witnesses of the properties.

  \<^bold>\<open>Interfaces.\<close> \<open>frame_relation\<close> (any preorder on states a program respects call by call),
  \<open>db_frame\<close> (on the tables), \<open>account_frame\<close> and \<open>statement_frame\<close> (the statements a group of handlers
  uses respect it; interpreted for the schema, the wards, the accounts and the catalogue),
  \<open>refresh_endpoint\<close> (both refresh handlers), \<open>menu_editor\<close> (both menu editors), \<open>nullable_enum\<close> (the
  five enum types).

  \<^bold>\<open>What is shown.\<close> Safety: a guarded route runs only for a verified token, of the group's role where the group
  has one; purchases and notifications count only when verified, partners stay in their store, only operators and the
  store's own partner change what the app shows. Invariants: the schema, the owner of a receipt, one
  redemption per reset link whatever the interleaving. Refinement: submit, approve and reject follow
  the review machine. Completeness and termination: paging lists every approved store once; an
  import returns exactly unless it reads a failing body. Round trips: tokens, the first operator's login, and the
  test fixtures through the server's own verifier and endpoints. Bounds: at most 73 crawler requests, 500 geocoder requests
  and their pace. Errors and defects: where an import never ends, a page makes the extraction panic,
  the backfill starves, a logged-out token is still admitted, a password burns its reset link,
  concurrent imports duplicate a store. Composition: the last recorded status decides who reads menus,
  however late it gets; submission, review and publication follow one another.

  \<^bold>\<open>Loops.\<close> Paging and the CSV reader recurse on what is left; redirects on the number left (two, as
  \<open>CheckRedirect\<close> allows); the capture loops on their lists, cut at 12 captures; only the import's loop
  may run for ever, so it is a \<open>partial_function\<close> whose \<open>None\<close> is characterised exactly.

  \<^bold>\<open>Not modelled.\<close> Handlers run one at a time, except the redemption of reset links and the rows of an
  import, whose statements interleave. What viper, the connection pool and the listener do is a parameter of the start, and
  migrations are run by a separate tool; \<open>maker.go\<close>, \<open>querier.go\<close>, \<open>db.go\<close> and \<open>store.go\<close> only declare
  interfaces and wrap the pool. JSON decoding is taken as done: a body is absent or a record, and the
  binding tags are checked. Logging has no effect. Conventions that narrow the environment: a call to the
  database, the bucket or another service returns, with a result or an error (a call that hangs is not
  expressed); rows that tie in an \<open>ORDER BY\<close> keep their insertion order, while the row of an unordered
  \<open>LIMIT 1\<close> is the environment's choice (\<open>pg_any\<close>); text columns take any string, where Postgres refuses
  NUL bytes and invalid UTF-8; \<open>ORDER BY lower(email)\<close> uses the byte order; the transaction of a discovery
  draft is one step, so a writer that does not take its advisory lock (an import, an operator) never runs
  inside it; and the HTTP transport's own retry of a request on a dropped connection is not counted.
\<close>

end
